(* ===== verification/Prelude.thy ===== *)
theory Prelude
  imports Main "HOL-Library.Word" "HOL-Library.Char_ord" "HOL-Library.List_Lexorder"
begin

text \<open>
  Shared vocabulary of the development: the types that stand for Go's maps and
  fallible results, the state-and-error computations in which the tool handlers are
  written, and the theorem collections the component theories extend.

  A Go \<^verbatim>\<open>map[string]string\<close> is a partial function; reading a missing key yields the
  zero value, the empty string (\<open>mget\<close>). A nil map reads like an empty one, so both are
  \<open>Map.empty\<close>. A Go function that returns \<^verbatim>\<open>(T, error)\<close> returns a value of the sum type:
  \<open>Inl\<close> holds the error, \<open>Inr\<close> the result.
\<close>

named_theorems go_string_simps
named_theorems run_simps
named_theorems authz_simps

type_synonym strmap = "string \<rightharpoonup> string"

definition mget :: "strmap \<Rightarrow> string \<Rightarrow> string" where
  "mget m k = (case m k of None \<Rightarrow> [] | Some v \<Rightarrow> v)"

lemma mget_empty [simp]: "mget Map.empty k = []"
  by (simp add: mget_def)

lemma mget_upd [simp]: "mget (m(k \<mapsto> v)) k' = (if k' = k then v else mget m k')"
  by (simp add: mget_def)

lemma mget_add_right: "m2 k = Some v \<Longrightarrow> mget (m1 ++ m2) k = v"
  by (simp add: mget_def map_add_def)

lemma mget_add_left: "m2 k = None \<Longrightarrow> mget (m1 ++ m2) k = mget m1 k"
  by (simp add: mget_def map_add_def)

section \<open>Computations with state and errors\<close>

text \<open>
  \<open>('s, 'e, 'a) comp\<close> is a handler body over a world \<open>'s\<close>: it returns an error or a
  value together with the world it leaves behind. \<open>bindC\<close> is Go's
  \<^verbatim>\<open>if err != nil { return err }\<close> between two calls.
\<close>

type_synonym ('s, 'e, 'a) comp = "'s \<Rightarrow> ('e + 'a) \<times> 's"

definition retC :: "'a \<Rightarrow> ('s, 'e, 'a) comp" where
  "retC a s = (Inr a, s)"

definition failC :: "'e \<Rightarrow> ('s, 'e, 'a) comp" where
  "failC e s = (Inl e, s)"

definition bindC :: "('s, 'e, 'a) comp \<Rightarrow> ('a \<Rightarrow> ('s, 'e, 'b) comp) \<Rightarrow> ('s, 'e, 'b) comp" where
  "bindC m f s = (case m s of (Inl e, s') \<Rightarrow> (Inl e, s') | (Inr a, s') \<Rightarrow> f a s')"

text \<open>\<open>checkC\<close> runs a pure check that may fail and never touches the world;
  \<open>mapErrC\<close> wraps the error of a call, as \<^verbatim>\<open>fmt.Errorf("...: %w", err)\<close> does;
  \<open>catchC\<close> hands the error to a continuation instead of returning it.\<close>

definition checkC :: "'e + 'a \<Rightarrow> ('s, 'e, 'a) comp" where
  "checkC r s = (r, s)"

definition mapErrC :: "('e1 \<Rightarrow> 'e2) \<Rightarrow> ('s, 'e1, 'a) comp \<Rightarrow> ('s, 'e2, 'a) comp" where
  "mapErrC g m s = (case m s of (Inl e, s') \<Rightarrow> (Inl (g e), s') | (Inr a, s') \<Rightarrow> (Inr a, s'))"

definition catchC :: "('s, 'e1, 'a) comp \<Rightarrow> ('e1 + 'a \<Rightarrow> ('s, 'e2, 'b) comp) \<Rightarrow> ('s, 'e2, 'b) comp" where
  "catchC m f s = (case m s of (r, s') \<Rightarrow> f r s')"

definition mapErr :: "('e1 \<Rightarrow> 'e2) \<Rightarrow> 'e1 + 'a \<Rightarrow> 'e2 + 'a" where
  "mapErr g r = (case r of Inl e \<Rightarrow> Inl (g e) | Inr a \<Rightarrow> Inr a)"

lemma retC_run [run_simps, simp]: "retC a s = (Inr a, s)"
  by (simp add: retC_def)

lemma failC_run [run_simps, simp]: "failC e s = (Inl e, s)"
  by (simp add: failC_def)

lemma checkC_run [run_simps, simp]: "checkC r s = (r, s)"
  by (simp add: checkC_def)

lemma bindC_Inl [run_simps]: "m s = (Inl e, s') \<Longrightarrow> bindC m f s = (Inl e, s')"
  by (simp add: bindC_def)

lemma bindC_Inr [run_simps]: "m s = (Inr a, s') \<Longrightarrow> bindC m f s = f a s'"
  by (simp add: bindC_def)

lemma mapErr_simps [run_simps, simp]:
  "mapErr g (Inl e) = Inl (g e)" "mapErr g (Inr a) = Inr a"
  by (simp_all add: mapErr_def)

lemma mapErr_Inr_iff [simp]: "mapErr g r = Inr a \<longleftrightarrow> r = Inr a"
  by (cases r) simp_all

lemma mapErr_isl [simp]: "isl (mapErr g r) \<longleftrightarrow> isl r"
  by (cases r) simp_all

lemma mapErrC_Inl [run_simps]: "m s = (Inl e, s') \<Longrightarrow> mapErrC g m s = (Inl (g e), s')"
  by (simp add: mapErrC_def)

lemma mapErrC_Inr [run_simps]: "m s = (Inr a, s') \<Longrightarrow> mapErrC g m s = (Inr a, s')"
  by (simp add: mapErrC_def)

lemma catchC_run [run_simps]: "m s = (r, s') \<Longrightarrow> catchC m f s = f r s'"
  by (simp add: catchC_def)

text \<open>What a successful run says of its parts.\<close>

lemma bindC_InrE:
  assumes "bindC m f s = (Inr b, s2)"
  obtains a s1 where "m s = (Inr a, s1)" "f a s1 = (Inr b, s2)"
  using assms by (auto simp: bindC_def split: prod.splits sum.splits)

lemma checkC_InrD: "checkC r s = (Inr a, s') \<Longrightarrow> r = Inr a \<and> s' = s"
  by simp

lemma bindC_checkC_Inr:
  "bindC (checkC r) f s = (Inr b, s2) \<longleftrightarrow> (\<exists>a. r = Inr a \<and> f a s = (Inr b, s2))"
  by (cases r) (auto simp: bindC_def)

lemma bindC_checkC_Inl:
  "r = Inl e \<Longrightarrow> bindC (checkC r) f s = (Inl e, s)"
  by (simp add: bindC_def)

lemma bindC_checkC_Inr_run:
  "r = Inr a \<Longrightarrow> bindC (checkC r) f s = f a s"
  by (simp add: bindC_def)

lemma mapErrC_InrD: "mapErrC g m s = (Inr a, s') \<Longrightarrow> m s = (Inr a, s')"
  by (auto simp: mapErrC_def split: prod.splits sum.splits)

lemma bindC_assoc: "bindC (bindC m f) g = bindC m (\<lambda>a. bindC (f a) g)"
  by (auto simp: bindC_def fun_eq_iff split: prod.splits sum.splits)

section \<open>Success of a chain of checks\<close>

text \<open>A Go function that returns at the first failed check succeeds exactly when every check
  does; these rules turn such a chain into a conjunction.\<close>

named_theorems ok_simps

lemma ok_case [ok_simps]:
  "(case r of Inl e \<Rightarrow> Inl (f e) | Inr a \<Rightarrow> k a) = Inr b \<longleftrightarrow> (\<exists>a. r = Inr a \<and> k a = Inr b)"
  by (cases r) auto

lemma ok_if [ok_simps]: "(if c then Inl e else k) = Inr b \<longleftrightarrow> \<not> c \<and> k = Inr b"
  by simp

lemma ok_unit [ok_simps]: "(\<exists>a. (r :: 'e + unit) = Inr a \<and> P) \<longleftrightarrow> r = Inr () \<and> P"
  by auto

section \<open>Lists\<close>

lemma dropWhile_hd: "xs = [] \<or> \<not> P (hd xs) \<Longrightarrow> dropWhile P xs = xs"
  by (cases xs) auto

lemma hd_dropWhile_not: "dropWhile P xs \<noteq> [] \<Longrightarrow> \<not> P (hd (dropWhile P xs))"
  by (induction xs) (auto split: if_splits)

end
