(* ===== verification/Go_Strings.thy ===== *)
theory Go_Strings
  imports Prelude
begin

text \<open>
  The part of Go's \<^verbatim>\<open>strings\<close>, \<^verbatim>\<open>strconv\<close> and \<^verbatim>\<open>fmt\<close> packages the server uses. A Go string is a byte
  sequence, as \<^typ>\<open>string\<close> is; the case-folding, trimming and quoting functions below are
  exact on ASCII text (bytes below 128), which is what Kubernetes names, labels, e-mail
  addresses and permission strings are made of; other bytes pass through unchanged.
  The lemmas are the algebra the components rely on: splitting undoes joining, trimming
  and lower-casing are projections that commute.
\<close>

section \<open>Case folding and trimming\<close>

definition lower_char :: "char \<Rightarrow> char" where
  "lower_char c = (let n = (of_char c :: nat) in if 65 \<le> n \<and> n \<le> 90 then char_of (n + 32) else c)"

definition ToLower :: "string \<Rightarrow> string" where
  "ToLower s = map lower_char s"

definition is_space :: "char \<Rightarrow> bool" where
  "is_space c \<longleftrightarrow> (let n = (of_char c :: nat) in n = 32 \<or> (9 \<le> n \<and> n \<le> 13))"

definition TrimLeft :: "(char \<Rightarrow> bool) \<Rightarrow> string \<Rightarrow> string" where
  "TrimLeft p s = dropWhile p s"

definition TrimRight :: "(char \<Rightarrow> bool) \<Rightarrow> string \<Rightarrow> string" where
  "TrimRight p s = rev (dropWhile p (rev s))"

definition Trim :: "(char \<Rightarrow> bool) \<Rightarrow> string \<Rightarrow> string" where
  "Trim p s = TrimRight p (TrimLeft p s)"

definition TrimSpace :: "string \<Rightarrow> string" where
  "TrimSpace s = Trim is_space s"

section \<open>Searching, splitting and joining\<close>

text \<open>\<open>Split sep s\<close> is \<^verbatim>\<open>strings.Split(s, sep)\<close> for a one-byte separator; it always returns at
  least one part.\<close>

fun Split :: "char \<Rightarrow> string \<Rightarrow> string list" where
  "Split c [] = [[]]"
| "Split c (x # xs) =
     (if x = c then [] # Split c xs
      else (case Split c xs of [] \<Rightarrow> [[x]] | p # ps \<Rightarrow> (x # p) # ps))"

fun Join :: "string list \<Rightarrow> string \<Rightarrow> string" where
  "Join [] sep = []"
| "Join [x] sep = x"
| "Join (x # y # ys) sep = x @ sep @ Join (y # ys) sep"

fun HasPrefix :: "string \<Rightarrow> string \<Rightarrow> bool" where
  "HasPrefix s [] = True"
| "HasPrefix [] (p # ps) = False"
| "HasPrefix (c # cs) (p # ps) = (c = p \<and> HasPrefix cs ps)"

definition HasSuffix :: "string \<Rightarrow> string \<Rightarrow> bool" where
  "HasSuffix s suf = HasPrefix (rev s) (rev suf)"

definition TrimPrefix :: "string \<Rightarrow> string \<Rightarrow> string" where
  "TrimPrefix s p = (if HasPrefix s p then drop (length p) s else s)"

fun Contains :: "string \<Rightarrow> string \<Rightarrow> bool" where
  "Contains [] sub = (sub = [])"
| "Contains (c # cs) sub = (HasPrefix (c # cs) sub \<or> Contains cs sub)"

definition ReplaceAllChar :: "char \<Rightarrow> string \<Rightarrow> string \<Rightarrow> string" where
  "ReplaceAllChar c by_str s = concat (map (\<lambda>x. if x = c then by_str else [x]) s)"

section \<open>Rendering\<close>

definition hex_digit :: "nat \<Rightarrow> char" where
  "hex_digit n = (if n < 10 then char_of (48 + n) else char_of (87 + n))"

definition hex_byte :: "nat \<Rightarrow> string" where
  "hex_byte b = [hex_digit (b div 16), hex_digit (b mod 16)]"

text \<open>\<open>quote_str\<close> is \<^verbatim>\<open>strconv.Quote\<close>, the \<^verbatim>\<open>%q\<close> verb of \<^verbatim>\<open>fmt\<close>, on ASCII text.\<close>

definition quote_char :: "char \<Rightarrow> string" where
  "quote_char c = (let n = (of_char c :: nat) in
     if n = 34 then [CHR 0x5C, CHR 0x22]
     else if n = 92 then [CHR 0x5C, CHR 0x5C]
     else if n = 7 then [CHR 0x5C, CHR ''a'']
     else if n = 8 then [CHR 0x5C, CHR ''b'']
     else if n = 12 then [CHR 0x5C, CHR ''f'']
     else if n = 10 then [CHR 0x5C, CHR ''n'']
     else if n = 13 then [CHR 0x5C, CHR ''r'']
     else if n = 9 then [CHR 0x5C, CHR ''t'']
     else if n = 11 then [CHR 0x5C, CHR ''v'']
     else if n < 32 \<or> n = 127 then CHR 0x5C # CHR ''x'' # hex_byte n
     else [c])"

definition quote_str :: "string \<Rightarrow> string" where
  "quote_str s = CHR 0x22 # concat (map quote_char s) @ [CHR 0x22]"

fun show_nat_fuel :: "nat \<Rightarrow> nat \<Rightarrow> string" where
  "show_nat_fuel 0 n = []"
| "show_nat_fuel (Suc f) n =
     (if n < 10 then [char_of (48 + n)] else show_nat_fuel f (n div 10) @ [char_of (48 + n mod 10)])"

definition show_nat :: "nat \<Rightarrow> string" where
  "show_nat n = show_nat_fuel (Suc n) n"

section \<open>Laws of case folding\<close>

lemma of_char_less [simp]: "(of_char c :: nat) < 256"
  by (rule nat_of_char_less_256)

lemma lower_char_code:
  "(of_char (lower_char c) :: nat) =
     (if 65 \<le> (of_char c :: nat) \<and> (of_char c :: nat) \<le> 90 then of_char c + 32 else of_char c)"
  by (auto simp: lower_char_def Let_def of_char_of)

lemma lower_char_idem [simp]: "lower_char (lower_char c) = lower_char c"
  by (subst lower_char_def) (auto simp: Let_def lower_char_code)

lemma is_space_lower_char [simp]: "is_space (lower_char c) = is_space c"
  by (auto simp: is_space_def Let_def lower_char_code)

lemma ToLower_idem [simp, go_string_simps]: "ToLower (ToLower s) = ToLower s"
  by (simp add: ToLower_def)

lemma ToLower_Nil [simp]: "ToLower [] = []"
  by (simp add: ToLower_def)

lemma ToLower_eq_Nil [simp]: "ToLower s = [] \<longleftrightarrow> s = []"
  by (simp add: ToLower_def)

lemma ToLower_append [go_string_simps]: "ToLower (s @ t) = ToLower s @ ToLower t"
  by (simp add: ToLower_def)

lemma length_ToLower [simp]: "length (ToLower s) = length s"
  by (simp add: ToLower_def)

lemma lower_char_comma: "lower_char c = CHR '','' \<longleftrightarrow> c = CHR '',''"
proof
  assume "lower_char c = CHR '',''"
  then have "(of_char (lower_char c) :: nat) = of_char CHR '',''" by simp
  then have "(of_char c :: nat) = of_char CHR '',''"
    by (auto simp: lower_char_code split: if_splits)
  then show "c = CHR '',''" by (simp only: of_char_eq_iff)
next
  show "c = CHR '','' \<Longrightarrow> lower_char c = CHR '',''" by (simp add: lower_char_def)
qed

section \<open>Laws of trimming\<close>

lemma TrimRight_idem: "TrimRight p (TrimRight p s) = TrimRight p s"
  by (simp add: TrimRight_def dropWhile_idem)

lemma TrimRight_hd: "TrimRight p s \<noteq> [] \<Longrightarrow> hd (TrimRight p s) = hd s"
proof -
  assume ne: "TrimRight p s \<noteq> []"
  have "rev s = takeWhile p (rev s) @ dropWhile p (rev s)" by simp
  then have "s = rev (dropWhile p (rev s)) @ rev (takeWhile p (rev s))"
    by (metis rev_append rev_rev_ident)
  with ne show ?thesis by (metis TrimRight_def hd_append2)
qed

lemma Trim_fixpoint: "s = [] \<or> (\<not> p (hd s) \<and> \<not> p (last s)) \<Longrightarrow> Trim p s = s"
  by (auto simp: Trim_def TrimLeft_def TrimRight_def hd_rev dropWhile_hd)

lemma Trim_ends: "Trim p s = [] \<or> (\<not> p (hd (Trim p s)) \<and> \<not> p (last (Trim p s)))"
proof (cases "Trim p s = []")
  case False
  let ?l = "dropWhile p s"
  have ne: "TrimRight p ?l \<noteq> []" using False by (simp add: Trim_def TrimLeft_def)
  then have l: "?l \<noteq> []" unfolding TrimRight_def by force
  have "hd (TrimRight p ?l) = hd ?l" using ne by (rule TrimRight_hd)
  moreover have "\<not> p (hd ?l)" using l by (rule hd_dropWhile_not)
  moreover have "\<not> p (hd (dropWhile p (rev ?l)))"
    by (rule hd_dropWhile_not) (use ne in \<open>simp add: TrimRight_def\<close>)
  ultimately show ?thesis
    using ne by (simp add: Trim_def TrimLeft_def TrimRight_def last_rev)
qed simp

lemma Trim_idem [simp]: "Trim p (Trim p s) = Trim p s"
  by (rule Trim_fixpoint) (rule Trim_ends)

lemma TrimSpace_idem [simp, go_string_simps]: "TrimSpace (TrimSpace s) = TrimSpace s"
  by (simp add: TrimSpace_def)

lemma set_Trim: "set (Trim p s) \<subseteq> set s"
  unfolding Trim_def TrimLeft_def TrimRight_def by (metis set_dropWhileD set_rev subsetI)

lemma TrimSpace_ToLower [go_string_simps]: "TrimSpace (ToLower s) = ToLower (TrimSpace s)"
proof -
  have "is_space \<circ> lower_char = is_space" by (auto simp: fun_eq_iff)
  then show ?thesis
    by (simp add: TrimSpace_def Trim_def TrimLeft_def TrimRight_def ToLower_def
        dropWhile_map rev_map)
qed

section \<open>Laws of splitting and joining\<close>

lemma Split_not_Nil [simp]: "Split c s \<noteq> []"
  by (cases s) (auto split: list.splits)

lemma Split_no_sep: "p \<in> set (Split c s) \<Longrightarrow> c \<notin> set p"
  by (induction s arbitrary: p) (auto split: if_splits list.splits)

lemma Split_chars: "p \<in> set (Split c s) \<Longrightarrow> set p \<subseteq> set s"
proof (induction s arbitrary: p)
  case (Cons x xs)
  obtain q qs where s: "Split c xs = q # qs" using Split_not_Nil [of c xs] by (cases "Split c xs") auto
  with Cons show ?case by (fastforce split: if_splits)
qed simp

lemma Split_single: "c \<notin> set s \<Longrightarrow> Split c s = [s]"
  by (induction s) auto

lemma Split_append_sep: "c \<notin> set p \<Longrightarrow> Split c (p @ c # s) = p # Split c s"
  by (induction p) auto

lemma Split_Join:
  "xs \<noteq> [] \<Longrightarrow> (\<forall>x \<in> set xs. c \<notin> set x) \<Longrightarrow> Split c (Join xs [c]) = xs"
  by (induction xs "[c]" rule: Join.induct) (auto simp: Split_single Split_append_sep)

lemma Join_Cons: "Join (x # xs) sep = (if xs = [] then x else x @ sep @ Join xs sep)"
  by (cases xs) simp_all

lemma Join_Split: "Join (Split c s) [c] = s"
proof (induction s)
  case (Cons x xs)
  obtain q qs where s: "Split c xs = q # qs" using Split_not_Nil [of c xs] by (cases "Split c xs") auto
  with Cons show ?case by (auto simp: Join_Cons split: if_splits)
qed simp

lemma length_Split: "length (Split c s) = Suc (count_list s c)"
  by (induction s) (auto split: list.splits)

lemma Join_eq_Nil: "Join xs [c] = [] \<longleftrightarrow> xs = [] \<or> xs = [[]]"
  by (cases "(xs, [c])" rule: Join.cases) auto

section \<open>Laws of searching\<close>

lemma HasPrefix_append [simp]: "HasPrefix (p @ s) p"
  by (induction p) auto

lemma HasPrefix_iff: "HasPrefix s p \<longleftrightarrow> (\<exists>t. s = p @ t)"
  by (induction s p rule: HasPrefix.induct) auto

lemma TrimPrefix_append [simp]: "TrimPrefix (p @ s) p = s"
  by (simp add: TrimPrefix_def)

lemma Contains_char: "Contains s [c] \<longleftrightarrow> c \<in> set s"
  by (induction s) auto

lemma HasSuffix_iff: "HasSuffix s suf \<longleftrightarrow> (\<exists>t. s = t @ suf)"
proof
  assume "HasSuffix s suf"
  then obtain t where "rev s = rev suf @ t" by (auto simp: HasSuffix_def HasPrefix_iff)
  then have "s = rev t @ suf" by (metis rev_append rev_rev_ident)
  then show "\<exists>t. s = t @ suf" by blast
qed (auto simp: HasSuffix_def)

end
