(* ===== verification/Go_Regexp.thy ===== *)
theory Go_Regexp
  imports Go_Strings
begin

text \<open>
  The fragment of Go's \<^verbatim>\<open>regexp\<close> the server compiles: byte classes, concatenation, an
  optional group and a bounded repetition of a class, anchored at both ends. \<open>rx_run r s\<close>
  lists every remainder of \<open>s\<close> that a match of \<open>r\<close> at its start can leave;
  \<open>MatchString\<close> asks for the empty remainder, which is what \<open>^...$\<close> demands without the
  multi-line flag. The locale \<open>label_regex\<close> proves once what the two label patterns of the
  code accept.
\<close>

datatype rx =
    Cls "char \<Rightarrow> bool"
  | Seq rx rx
  | Opt rx
  | UpTo nat "char \<Rightarrow> bool"

fun upto_run :: "nat \<Rightarrow> (char \<Rightarrow> bool) \<Rightarrow> string \<Rightarrow> string list" where
  "upto_run 0 p s = [s]"
| "upto_run (Suc n) p [] = [[]]"
| "upto_run (Suc n) p (c # cs) = (c # cs) # (if p c then upto_run n p cs else [])"

fun rx_run :: "rx \<Rightarrow> string \<Rightarrow> string list" where
  "rx_run (Cls p) s = (case s of [] \<Rightarrow> [] | c # cs \<Rightarrow> if p c then [cs] else [])"
| "rx_run (Seq r1 r2) s = concat (map (rx_run r2) (rx_run r1 s))"
| "rx_run (Opt r) s = s # rx_run r s"
| "rx_run (UpTo n p) s = upto_run n p s"

definition MatchString :: "rx \<Rightarrow> string \<Rightarrow> bool" where
  "MatchString r s = ([] \<in> set (rx_run r s))"

section \<open>Byte classes\<close>

definition in_range :: "char \<Rightarrow> char \<Rightarrow> char \<Rightarrow> bool" where
  "in_range lo hi c \<longleftrightarrow> (of_char lo :: nat) \<le> of_char c \<and> (of_char c :: nat) \<le> of_char hi"

definition is_lower :: "char \<Rightarrow> bool" where "is_lower c = in_range CHR ''a'' CHR ''z'' c"
definition is_upper :: "char \<Rightarrow> bool" where "is_upper c = in_range CHR ''A'' CHR ''Z'' c"
definition is_digit :: "char \<Rightarrow> bool" where "is_digit c = in_range CHR ''0'' CHR ''9'' c"

lemmas class_defs = is_lower_def is_upper_def is_digit_def in_range_def

lemma lower_char_fixes_lower: "is_lower c \<Longrightarrow> lower_char c = c"
  by (auto simp: class_defs lower_char_def Let_def)

lemma lower_char_fixes_digit: "is_digit c \<Longrightarrow> lower_char c = c"
  by (auto simp: class_defs lower_char_def Let_def)

section \<open>What a bounded repetition matches\<close>

lemma upto_run_iff:
  "t \<in> set (upto_run n p s) \<longleftrightarrow>
     (\<exists>u. s = u @ t \<and> length u \<le> n \<and> (\<forall>c \<in> set u. p c))"
proof (induction n p s arbitrary: t rule: upto_run.induct)
  case (3 n p c cs)
  show ?case
  proof (cases "p c")
    case True
    with 3 show ?thesis
      by (auto simp: Cons_eq_append_conv)
  next
    case False
    then show ?thesis by (auto simp: Cons_eq_append_conv)
  qed
qed auto

lemma rx_run_Cls_iff: "t \<in> set (rx_run (Cls p) s) \<longleftrightarrow> (\<exists>c. p c \<and> s = c # t)"
  by (cases s) auto

text \<open>\<open>cls_seq ps\<close> is a concatenation of byte classes; it matches byte by byte.\<close>

fun cls_seq :: "(char \<Rightarrow> bool) list \<Rightarrow> rx" where
  "cls_seq [] = UpTo 0 (\<lambda>c. True)"
| "cls_seq (p # ps) = Seq (Cls p) (cls_seq ps)"

lemma cls_seq_iff: "MatchString (cls_seq ps) s \<longleftrightarrow> list_all2 (\<lambda>p c. p c) ps s"
  unfolding MatchString_def
  by (induction ps arbitrary: s) (auto simp: list_all2_Cons1 split: list.splits)

text \<open>\<open>label_rx outer inner\<close> is the pattern \<^verbatim>\<open>^O(I{0,61}O)?$\<close> of the label checks.\<close>

definition label_rx :: "(char \<Rightarrow> bool) \<Rightarrow> (char \<Rightarrow> bool) \<Rightarrow> rx" where
  "label_rx outer inner = Seq (Cls outer) (Opt (Seq (UpTo 61 inner) (Cls outer)))"

lemma label_rx_iff:
  "MatchString (label_rx outer inner) s \<longleftrightarrow>
     (\<exists>a. outer a \<and> (s = [a] \<or>
        (\<exists>u b. s = a # u @ [b] \<and> length u \<le> 61 \<and> (\<forall>c \<in> set u. inner c) \<and> outer b)))"
  (is "?l \<longleftrightarrow> ?r")
proof -
  have run: "t \<in> set (rx_run (Seq (UpTo 61 inner) (Cls outer)) v) \<longleftrightarrow>
      (\<exists>u b. v = u @ b # t \<and> length u \<le> 61 \<and> (\<forall>c \<in> set u. inner c) \<and> outer b)" for t v
    by (auto simp: upto_run_iff rx_run_Cls_iff simp del: rx_run.simps(1))
  show ?thesis
    unfolding MatchString_def label_rx_def
    by (cases s) (auto simp: run simp del: rx_run.simps(2,4) simp add: rx_run.simps(2) [of "Cls outer"])
qed

locale label_regex =
  fixes outer :: "char \<Rightarrow> bool" and inner :: "char \<Rightarrow> bool"
  assumes outer_inner: "outer c \<Longrightarrow> inner c"
begin

lemma accepts_iff:
  "MatchString (label_rx outer inner) s \<longleftrightarrow>
     s \<noteq> [] \<and> length s \<le> 63 \<and> outer (hd s) \<and> outer (last s) \<and> (\<forall>c \<in> set s. inner c)"
proof
  assume "MatchString (label_rx outer inner) s"
  then show "s \<noteq> [] \<and> length s \<le> 63 \<and> outer (hd s) \<and> outer (last s) \<and> (\<forall>c \<in> set s. inner c)"
    by (auto simp: label_rx_iff outer_inner)
next
  assume s: "s \<noteq> [] \<and> length s \<le> 63 \<and> outer (hd s) \<and> outer (last s) \<and> (\<forall>c \<in> set s. inner c)"
  then obtain a v where v: "s = a # v" by (cases s) auto
  show "MatchString (label_rx outer inner) s"
  proof (cases v rule: rev_cases)
    case Nil
    with s v show ?thesis by (auto simp: label_rx_iff)
  next
    case (snoc u b)
    with s v show ?thesis by (auto simp: label_rx_iff)
  qed
qed

lemma accepts_chars: "MatchString (label_rx outer inner) s \<Longrightarrow> c \<in> set s \<Longrightarrow> inner c"
  by (simp add: accepts_iff)

lemma accepts_length: "MatchString (label_rx outer inner) s \<Longrightarrow> 0 < length s \<and> length s \<le> 63"
  by (simp add: accepts_iff)

end

end
