(* ===== verification/Guard.thy ===== *)
theory Guard
  imports Go_Regexp
begin

text \<open>
  Package \<^verbatim>\<open>guard\<close>: the self-protection checks every tool runs on the namespace and the name
  it is given (\<^verbatim>\<open>pkg/guard/guard.go\<close>). The lemmas say which namespaces can never be
  targeted and which names pass.
\<close>

datatype guard_error =
    NamespaceEmpty
  | NamespaceNotPermitted string
  | NameEmpty
  | NameInvalid string

definition systemNamespaces :: "string list" where
  "systemNamespaces =
     [''tentacular-system'', ''tentacular-support'', ''tentacular-exoskeleton'',
      ''kube-system'', ''kube-public'', ''kube-node-lease'', ''default'']"

definition IsSystemNamespace :: "string \<Rightarrow> bool" where
  "IsSystemNamespace ns = (ns \<in> set systemNamespaces)"

definition CheckNamespace :: "string \<Rightarrow> guard_error + unit" where
  "CheckNamespace namespace =
     (if namespace = [] then Inl NamespaceEmpty
      else if namespace \<in> set systemNamespaces then Inl (NamespaceNotPermitted namespace)
      else Inr ())"

definition label_outer :: "char \<Rightarrow> bool" where
  "label_outer c \<longleftrightarrow> is_lower c \<or> is_upper c \<or> is_digit c"

definition label_inner :: "char \<Rightarrow> bool" where
  "label_inner c \<longleftrightarrow> is_lower c \<or> is_upper c \<or> is_digit c \<or> c = CHR ''.'' \<or> c = CHR ''_'' \<or> c = CHR ''-''"

definition validLabelValue :: rx where
  "validLabelValue = label_rx label_outer label_inner"

definition CheckName :: "string \<Rightarrow> guard_error + unit" where
  "CheckName name =
     (if name = [] then Inl NameEmpty
      else if \<not> MatchString validLabelValue name then Inl (NameInvalid name)
      else Inr ())"

interpretation labelv: label_regex label_outer label_inner
  by unfold_locales (auto simp: label_outer_def label_inner_def)

lemma CheckNamespace_ok_iff:
  "CheckNamespace ns = Inr () \<longleftrightarrow> ns \<noteq> [] \<and> \<not> IsSystemNamespace ns"
  by (simp add: CheckNamespace_def IsSystemNamespace_def)

lemma CheckNamespace_cases:
  "CheckNamespace ns = Inr () \<or> (\<exists>e. CheckNamespace ns = Inl e)"
  by (cases "CheckNamespace ns") auto

text \<open>A name passes \<^verbatim>\<open>CheckName\<close> exactly when it is a Kubernetes label value: 1 to 63 bytes,
  each alphanumeric, dot, underscore or hyphen, the first and the last alphanumeric.\<close>

theorem CheckName_accepts_label_values:
  "CheckName name = Inr () \<longleftrightarrow>
     0 < length name \<and> length name \<le> 63 \<and>
     label_outer (hd name) \<and> label_outer (last name) \<and> list_all label_inner name"
  by (auto simp: CheckName_def validLabelValue_def labelv.accepts_iff list_all_iff)

lemma CheckName_no_slash: "CheckName name = Inr () \<Longrightarrow> CHR ''/'' \<notin> set name"
  by (auto simp: CheckName_def validLabelValue_def label_inner_def class_defs
      dest!: labelv.accepts_chars [rotated] split: if_splits)

end
