(* ===== verification/Authz_Mode.thy ===== *)
theory Authz_Mode
  imports Go_Regexp
begin

unbundle bit_operations_syntax

text \<open>
  The permission modes of package \<^verbatim>\<open>authz\<close>: \<^verbatim>\<open>mode.go\<close> (the nine permission bits of a
  16-bit \<^verbatim>\<open>Mode\<close>, printing and parsing of the rwx string) and \<^verbatim>\<open>presets.go\<close> (the named
  sharing presets). The lemmas are the two round trips between a mode and its string, the
  correctness of the reverse lookup of presets.
\<close>

type_synonym mode = "16 word"

definition ModeOwnerRead :: mode where "ModeOwnerRead = push_bit 8 1"
definition ModeOwnerWrite :: mode where "ModeOwnerWrite = push_bit 7 1"
definition ModeOwnerExecute :: mode where "ModeOwnerExecute = push_bit 6 1"
definition ModeGroupRead :: mode where "ModeGroupRead = push_bit 5 1"
definition ModeGroupWrite :: mode where "ModeGroupWrite = push_bit 4 1"
definition ModeGroupExecute :: mode where "ModeGroupExecute = push_bit 3 1"
definition ModeOtherRead :: mode where "ModeOtherRead = push_bit 2 1"
definition ModeOtherWrite :: mode where "ModeOtherWrite = push_bit 1 1"
definition ModeOtherExecute :: mode where "ModeOtherExecute = push_bit 0 1"

lemmas mode_bit_defs =
  ModeOwnerRead_def ModeOwnerWrite_def ModeOwnerExecute_def
  ModeGroupRead_def ModeGroupWrite_def ModeGroupExecute_def
  ModeOtherRead_def ModeOtherWrite_def ModeOtherExecute_def

definition OwnerRead :: "mode \<Rightarrow> bool" where "OwnerRead m \<longleftrightarrow> m AND ModeOwnerRead \<noteq> 0"
definition OwnerWrite :: "mode \<Rightarrow> bool" where "OwnerWrite m \<longleftrightarrow> m AND ModeOwnerWrite \<noteq> 0"
definition OwnerExecute :: "mode \<Rightarrow> bool" where "OwnerExecute m \<longleftrightarrow> m AND ModeOwnerExecute \<noteq> 0"
definition GroupRead :: "mode \<Rightarrow> bool" where "GroupRead m \<longleftrightarrow> m AND ModeGroupRead \<noteq> 0"
definition GroupWrite :: "mode \<Rightarrow> bool" where "GroupWrite m \<longleftrightarrow> m AND ModeGroupWrite \<noteq> 0"
definition GroupExecute :: "mode \<Rightarrow> bool" where "GroupExecute m \<longleftrightarrow> m AND ModeGroupExecute \<noteq> 0"
definition OtherRead :: "mode \<Rightarrow> bool" where "OtherRead m \<longleftrightarrow> m AND ModeOtherRead \<noteq> 0"
definition OtherWrite :: "mode \<Rightarrow> bool" where "OtherWrite m \<longleftrightarrow> m AND ModeOtherWrite \<noteq> 0"
definition OtherExecute :: "mode \<Rightarrow> bool" where "OtherExecute m \<longleftrightarrow> m AND ModeOtherExecute \<noteq> 0"

lemmas mode_test_defs =
  OwnerRead_def OwnerWrite_def OwnerExecute_def GroupRead_def GroupWrite_def GroupExecute_def
  OtherRead_def OtherWrite_def OtherExecute_def

definition rwx_bit :: "bool \<Rightarrow> char \<Rightarrow> char" where
  "rwx_bit b ch = (if b then ch else CHR ''-'')"

definition ModeString :: "mode \<Rightarrow> string" where
  "ModeString m =
     [rwx_bit (OwnerRead m) CHR ''r'', rwx_bit (OwnerWrite m) CHR ''w'', rwx_bit (OwnerExecute m) CHR ''x'',
      rwx_bit (GroupRead m) CHR ''r'', rwx_bit (GroupWrite m) CHR ''w'', rwx_bit (GroupExecute m) CHR ''x'',
      rwx_bit (OtherRead m) CHR ''r'', rwx_bit (OtherWrite m) CHR ''w'', rwx_bit (OtherExecute m) CHR ''x'']"

datatype mode_error = ModeLength nat string | ModeChar char nat string

definition mode_table :: "(nat \<times> char \<times> mode) list" where
  "mode_table =
     [(0, CHR ''r'', ModeOwnerRead), (1, CHR ''w'', ModeOwnerWrite), (2, CHR ''x'', ModeOwnerExecute),
      (3, CHR ''r'', ModeGroupRead), (4, CHR ''w'', ModeGroupWrite), (5, CHR ''x'', ModeGroupExecute),
      (6, CHR ''r'', ModeOtherRead), (7, CHR ''w'', ModeOtherWrite), (8, CHR ''x'', ModeOtherExecute)]"

fun parse_loop :: "(nat \<times> char \<times> mode) list \<Rightarrow> string \<Rightarrow> mode \<Rightarrow> mode_error + mode" where
  "parse_loop [] s m = Inr m"
| "parse_loop ((pos, ch, b) # vs) s m =
     (let c = s ! pos in
      if c = ch then parse_loop vs s (m OR b)
      else if c \<noteq> CHR ''-'' then Inl (ModeChar c pos s)
      else parse_loop vs s m)"

definition ParseMode :: "string \<Rightarrow> mode_error + mode" where
  "ParseMode s = (if length s \<noteq> 9 then Inl (ModeLength (length s) s) else parse_loop mode_table s 0)"

section \<open>Presets\<close>

definition owner_all :: mode where
  "owner_all = ModeOwnerRead OR ModeOwnerWrite OR ModeOwnerExecute"

definition group_all :: mode where
  "group_all = ModeGroupRead OR ModeGroupWrite OR ModeGroupExecute"

definition presets :: "(string \<times> mode) list" where
  "presets =
     [(''private'', owner_all),
      (''group-read'', owner_all OR ModeGroupRead OR ModeGroupExecute),
      (''group-run'', owner_all OR ModeGroupExecute),
      (''group-edit'', owner_all OR group_all),
      (''public-read'', owner_all OR ModeGroupRead OR ModeOtherRead),
      (''member-read'', owner_all OR ModeGroupRead OR ModeGroupExecute),
      (''member-edit'', owner_all OR group_all),
      (''open-read'', owner_all OR group_all OR ModeOtherRead),
      (''open-run'', owner_all OR group_all OR ModeOtherRead OR ModeOtherExecute)]"

definition DefaultMode :: mode where
  "DefaultMode = (case map_of presets ''group-read'' of None \<Rightarrow> 0 | Some m \<Rightarrow> m)"

definition DefaultEnclaveMode :: mode where
  "DefaultEnclaveMode = (case map_of presets ''member-edit'' of None \<Rightarrow> 0 | Some m \<Rightarrow> m)"

definition PresetFromName :: "string \<Rightarrow> mode \<times> bool" where
  "PresetFromName name = (case map_of presets name of None \<Rightarrow> (0, False) | Some m \<Rightarrow> (m, True))"

definition presetPriority :: "string list" where
  "presetPriority =
     [''private'', ''member-edit'', ''member-read'', ''group-run'', ''open-read'', ''open-run'',
      ''public-read'', ''group-edit'', ''group-read'']"

fun preset_search :: "string list \<Rightarrow> mode \<Rightarrow> string" where
  "preset_search [] m = []"
| "preset_search (n # ns) m = (if map_of presets n = Some m then n else preset_search ns m)"

definition PresetName :: "mode \<Rightarrow> string" where
  "PresetName m = preset_search presetPriority m"

definition presetNames :: "string list" where
  "presetNames = sort (map fst presets)"

definition ValidPresetNames :: string where
  "ValidPresetNames = Join presetNames '', ''"

section \<open>Bit arithmetic\<close>

lemma bit_push_bit_one: "bit (push_bit k 1 :: mode) n \<longleftrightarrow> n = k \<and> n < 16"
  by (auto simp: bit_simps)

text \<open>Each constant has exactly one bit, and each test reads that bit.\<close>

lemma bit_mode_constants [simp]:
  "bit ModeOwnerRead n \<longleftrightarrow> n = 8" "bit ModeOwnerWrite n \<longleftrightarrow> n = 7"
  "bit ModeOwnerExecute n \<longleftrightarrow> n = 6" "bit ModeGroupRead n \<longleftrightarrow> n = 5"
  "bit ModeGroupWrite n \<longleftrightarrow> n = 4" "bit ModeGroupExecute n \<longleftrightarrow> n = 3"
  "bit ModeOtherRead n \<longleftrightarrow> n = 2" "bit ModeOtherWrite n \<longleftrightarrow> n = 1"
  "bit ModeOtherExecute n \<longleftrightarrow> n = 0"
  unfolding mode_bit_defs bit_push_bit_one by auto

lemma and_single_bit:
  fixes m b :: mode
  assumes "\<And>n. bit b n \<longleftrightarrow> n = k" and "k < 16"
  shows "m AND b \<noteq> 0 \<longleftrightarrow> bit m k"
proof
  assume "m AND b \<noteq> 0"
  then obtain n where "bit (m AND b) n" using bit_eqI [of "m AND b" 0] by auto
  then show "bit m k" using assms by (auto simp: bit_and_iff)
next
  assume "bit m k"
  then have "bit (m AND b) k" using assms by (simp add: bit_and_iff)
  then show "m AND b \<noteq> 0" by auto
qed

lemma mode_tests [authz_simps]:
  "OwnerRead m = bit m 8" "OwnerWrite m = bit m 7" "OwnerExecute m = bit m 6"
  "GroupRead m = bit m 5" "GroupWrite m = bit m 4" "GroupExecute m = bit m 3"
  "OtherRead m = bit m 2" "OtherWrite m = bit m 1" "OtherExecute m = bit m 0"
  unfolding mode_test_defs by (rule and_single_bit; simp)+

section \<open>Printing and parsing\<close>

lemma length_ModeString [simp]: "length (ModeString m) = 9"
  by (simp add: ModeString_def)

text \<open>The parser accepts a table position when the byte there is the position's letter or a
  hyphen, and sets the position's bit for the letter.\<close>

definition collect_bits :: "(nat \<times> char \<times> mode) list \<Rightarrow> string \<Rightarrow> mode \<Rightarrow> mode" where
  "collect_bits vs s m = fold (\<lambda>(pos, ch, b) acc. if s ! pos = ch then acc OR b else acc) vs m"

definition rwx_ok :: "string \<Rightarrow> bool" where
  "rwx_ok s \<longleftrightarrow> length s = 9 \<and> list_all (\<lambda>(pos, ch, b). s ! pos = ch \<or> s ! pos = CHR ''-'') mode_table"

lemma parse_loop_iff:
  "parse_loop vs s m = Inr m' \<longleftrightarrow>
     list_all (\<lambda>(pos, ch, b). s ! pos = ch \<or> s ! pos = CHR ''-'') vs \<and> m' = collect_bits vs s m"
  by (induction vs s m rule: parse_loop.induct) (auto simp: Let_def collect_bits_def)

lemma ParseMode_ok_iff: "ParseMode s = Inr m \<longleftrightarrow> rwx_ok s \<and> m = collect_bits mode_table s 0"
  by (simp add: ParseMode_def parse_loop_iff rwx_ok_def)

lemma bit_collect_bits:
  "bit (collect_bits vs s m) n \<longleftrightarrow>
     bit m n \<or> list_ex (\<lambda>(pos, ch, b). s ! pos = ch \<and> bit b n) vs"
  unfolding collect_bits_def
proof (induction vs arbitrary: m)
  case (Cons v vs)
  obtain pos ch b where [simp]: "v = (pos, ch, b)" by (cases v)
  show ?case using Cons by (cases "s ! pos = ch") (auto simp: bit_or_iff)
qed simp

lemma ModeString_rwx:
  "ModeString m =
     [rwx_bit (bit m 8) CHR ''r'', rwx_bit (bit m 7) CHR ''w'', rwx_bit (bit m 6) CHR ''x'',
      rwx_bit (bit m 5) CHR ''r'', rwx_bit (bit m 4) CHR ''w'', rwx_bit (bit m 3) CHR ''x'',
      rwx_bit (bit m 2) CHR ''r'', rwx_bit (bit m 1) CHR ''w'', rwx_bit (bit m 0) CHR ''x'']"
  unfolding ModeString_def mode_tests ..

lemma rwx_bit_eq [simp]: "c \<noteq> CHR ''-'' \<Longrightarrow> rwx_bit b c = c \<longleftrightarrow> b"
  by (simp add: rwx_bit_def)

lemma rwx_bit_range: "rwx_bit b c = c \<or> rwx_bit b c = CHR ''-''"
  by (simp add: rwx_bit_def)

lemma rwx_ok_ModeString: "rwx_ok (ModeString m)"
  unfolding rwx_ok_def ModeString_rwx mode_table_def by (simp add: rwx_bit_range del: rwx_bit_eq)

lemma less_9_cases: "(n::nat) < 9 \<longleftrightarrow> n \<in> {0, 1, 2, 3, 4, 5, 6, 7, 8}"
  by auto

lemma collect_bits_ModeString: "collect_bits mode_table (ModeString m) 0 = m AND mask 9"
proof (rule bit_word_eqI)
  fix n assume "n < LENGTH(16)"
  have "bit (collect_bits mode_table (ModeString m) 0) n \<longleftrightarrow> n < 9 \<and> bit m n"
    unfolding bit_collect_bits less_9_cases
    by (simp add: mode_table_def ModeString_rwx) blast
  then show "bit (collect_bits mode_table (ModeString m) 0) n = bit (m AND mask 9) n"
    by (auto simp: bit_simps)
qed

lemma ParseMode_ModeString_eq: "ParseMode (ModeString m) = Inr (m AND mask 9)"
  by (simp add: ParseMode_ok_iff rwx_ok_ModeString collect_bits_ModeString)

text \<open>Parsing the printed form of any 16-bit mode gives back its nine permission bits.\<close>

theorem ParseMode_ModeString: "ParseMode (ModeString m) = Inr (m AND mask 9)"
  by (rule ParseMode_ModeString_eq)

lemma bit_collect_mode_table:
  "bit (collect_bits mode_table s 0) n \<longleftrightarrow>
     n = 8 \<and> s ! 0 = CHR ''r'' \<or> n = 7 \<and> s ! 1 = CHR ''w'' \<or> n = 6 \<and> s ! 2 = CHR ''x'' \<or>
     n = 5 \<and> s ! 3 = CHR ''r'' \<or> n = 4 \<and> s ! 4 = CHR ''w'' \<or> n = 3 \<and> s ! 5 = CHR ''x'' \<or>
     n = 2 \<and> s ! 6 = CHR ''r'' \<or> n = 1 \<and> s ! 7 = CHR ''w'' \<or> n = 0 \<and> s ! 8 = CHR ''x''"
  unfolding bit_collect_bits by (simp add: mode_table_def) blast

lemma mode_string_char:
  "c = ch \<or> c = CHR ''-'' \<Longrightarrow> ch \<noteq> CHR ''-'' \<Longrightarrow> rwx_bit (c = ch) ch = c"
  by (auto simp: rwx_bit_def)

lemma length_9_nth: "length s = 9 \<Longrightarrow> s = [s ! 0, s ! 1, s ! 2, s ! 3, s ! 4, s ! 5, s ! 6, s ! 7, s ! 8]"
  by (rule nth_equalityI) (auto simp: less_Suc_eq numeral_eq_Suc)

lemma ModeString_collect_bits: "rwx_ok s \<Longrightarrow> ModeString (collect_bits mode_table s 0) = s"
proof -
  assume ok: "rwx_ok s"
  have "ModeString (collect_bits mode_table s 0) =
      [s ! 0, s ! 1, s ! 2, s ! 3, s ! 4, s ! 5, s ! 6, s ! 7, s ! 8]"
    unfolding ModeString_rwx bit_collect_mode_table
    using ok by (simp add: rwx_ok_def mode_table_def mode_string_char)
  with length_9_nth [of s] ok show ?thesis by (simp add: rwx_ok_def)
qed

lemma ModeString_of_parsed: "ParseMode s = Inr m \<Longrightarrow> ModeString m = s"
  by (auto simp: ParseMode_ok_iff ModeString_collect_bits)

text \<open>Whatever the parser accepts is printed back unchanged, so a mode string has one
  meaning and one spelling.\<close>

theorem ModeString_ParseMode: "ParseMode s = Inr m \<Longrightarrow> ModeString m = s"
  by (rule ModeString_of_parsed)

theorem ModeString_ParseMode_witness:
  "ModeString (0b111101000 :: mode) = ''rwxr-x---''"
proof -
  have "ParseMode ''rwxr-x---'' = Inr 0b111101000"
    by (simp add: ParseMode_def mode_table_def mode_bit_defs Let_def)
  then show ?thesis by (rule ModeString_ParseMode)
qed

lemma ParseMode_bounded: "ParseMode s = Inr m \<Longrightarrow> m AND mask 9 = m"
  using ParseMode_ModeString_eq [of m] by (simp add: ModeString_of_parsed)

section \<open>Reverse lookup of presets\<close>

lemma preset_search_sound: "preset_search ns m \<noteq> [] \<Longrightarrow> map_of presets (preset_search ns m) = Some m"
  by (induction ns) (auto split: if_splits)

lemma preset_search_complete:
  "n \<in> set ns \<Longrightarrow> map_of presets n = Some m \<Longrightarrow> [] \<notin> set ns \<Longrightarrow> preset_search ns m \<noteq> []"
  by (induction ns) auto

lemma presetPriority_covers: "set presetPriority = fst ` set presets" "[] \<notin> set presetPriority"
  unfolding presetPriority_def presets_def by auto

lemma PresetName_iff: "PresetName m \<noteq> [] \<longleftrightarrow> (\<exists>n. map_of presets n = Some m)"
proof
  assume "\<exists>n. map_of presets n = Some m"
  then obtain n where n: "map_of presets n = Some m" ..
  then have "n \<in> set presetPriority"
    unfolding presetPriority_covers by (force dest: map_of_SomeD)
  with n show "PresetName m \<noteq> []"
    unfolding PresetName_def using presetPriority_covers(2) preset_search_complete by blast
qed (auto simp: PresetName_def dest: preset_search_sound)

text \<open>The reverse lookup finds a name exactly for the modes that some preset has, and the
  name it finds denotes that mode again.\<close>

theorem PresetName_reverse_lookup:
  "(PresetName m = [] \<longleftrightarrow> (\<forall>n. PresetFromName n \<noteq> (m, True))) \<and>
   PresetFromName (PresetName m) = (if PresetName m = [] then (0, False) else (m, True))"
proof
  show "PresetName m = [] \<longleftrightarrow> (\<forall>n. PresetFromName n \<noteq> (m, True))"
    using PresetName_iff [of m] by (auto simp: PresetFromName_def split: option.splits)
  have "map_of presets [] = None" by (simp add: presets_def)
  then show "PresetFromName (PresetName m) = (if PresetName m = [] then (0, False) else (m, True))"
    using preset_search_sound [of presetPriority m] by (simp add: PresetFromName_def PresetName_def)
qed

end
