(* ===== verification/Authz_Annotations.thy ===== *)
theory Authz_Annotations
  imports Authz_Mode
begin

text \<open>
  The annotation codecs of package \<^verbatim>\<open>authz\<close>: ownership of a Deployment or a Namespace
  (\<^verbatim>\<open>annotations.go\<close>) and enclave metadata of a Namespace (\<^verbatim>\<open>enclave_annotations.go\<close>).
  The lemmas are the round trips through the annotation map, also when the written
  annotations are merged over existing ones, the normal form of member lists, and what the
  validators accept. The package variable \<^verbatim>\<open>MaxEnclaveMembers\<close> is the argument \<open>maxMembers\<close>.
\<close>

section \<open>Annotation keys\<close>

definition AnnotationOwner :: string where "AnnotationOwner = ''tentacular.io/owner''"
definition AnnotationOwnerSub :: string where "AnnotationOwnerSub = ''tentacular.io/owner-sub''"
definition AnnotationOwnerEmail :: string where "AnnotationOwnerEmail = ''tentacular.io/owner-email''"
definition AnnotationOwnerName :: string where "AnnotationOwnerName = ''tentacular.io/owner-name''"
definition AnnotationGroup :: string where "AnnotationGroup = ''tentacular.io/group''"
definition AnnotationMode :: string where "AnnotationMode = ''tentacular.io/mode''"
definition AnnotationAuthProvider :: string where "AnnotationAuthProvider = ''tentacular.io/auth-provider''"
definition AnnotationDefaultMode :: string where "AnnotationDefaultMode = ''tentacular.io/default-mode''"
definition AnnotationDefaultGroup :: string where "AnnotationDefaultGroup = ''tentacular.io/default-group''"
definition AnnotationEnclave :: string where "AnnotationEnclave = ''tentacular.io/enclave''"
definition AnnotationEnclaveOwner :: string where "AnnotationEnclaveOwner = ''tentacular.io/enclave-owner''"
definition AnnotationEnclaveOwnerSub :: string where "AnnotationEnclaveOwnerSub = ''tentacular.io/enclave-owner-sub''"
definition AnnotationEnclaveMembers :: string where "AnnotationEnclaveMembers = ''tentacular.io/enclave-members''"
definition AnnotationEnclavePlatform :: string where "AnnotationEnclavePlatform = ''tentacular.io/enclave-platform''"
definition AnnotationEnclaveChannelID :: string where "AnnotationEnclaveChannelID = ''tentacular.io/enclave-channel-id''"
definition AnnotationEnclaveChannelName :: string where "AnnotationEnclaveChannelName = ''tentacular.io/enclave-channel-name''"
definition AnnotationEnclaveStatus :: string where "AnnotationEnclaveStatus = ''tentacular.io/enclave-status''"
definition AnnotationEnclaveDefaultMode :: string where "AnnotationEnclaveDefaultMode = ''tentacular.io/enclave-default-mode''"
definition AnnotationEnclaveCreatedAt :: string where "AnnotationEnclaveCreatedAt = ''tentacular.io/enclave-created-at''"
definition AnnotationEnclaveUpdatedAt :: string where "AnnotationEnclaveUpdatedAt = ''tentacular.io/enclave-updated-at''"

lemmas annotation_key_defs =
  AnnotationOwner_def AnnotationOwnerSub_def AnnotationOwnerEmail_def AnnotationOwnerName_def
  AnnotationGroup_def AnnotationMode_def AnnotationAuthProvider_def AnnotationDefaultMode_def
  AnnotationDefaultGroup_def AnnotationEnclave_def AnnotationEnclaveOwner_def
  AnnotationEnclaveOwnerSub_def AnnotationEnclaveMembers_def AnnotationEnclavePlatform_def
  AnnotationEnclaveChannelID_def AnnotationEnclaveChannelName_def AnnotationEnclaveStatus_def
  AnnotationEnclaveDefaultMode_def AnnotationEnclaveCreatedAt_def AnnotationEnclaveUpdatedAt_def

definition annotation_keys :: "string list" where
  "annotation_keys =
     [AnnotationOwner, AnnotationOwnerSub, AnnotationOwnerEmail, AnnotationOwnerName,
      AnnotationGroup, AnnotationMode, AnnotationAuthProvider, AnnotationDefaultMode,
      AnnotationDefaultGroup, AnnotationEnclave, AnnotationEnclaveOwner,
      AnnotationEnclaveOwnerSub, AnnotationEnclaveMembers, AnnotationEnclavePlatform,
      AnnotationEnclaveChannelID, AnnotationEnclaveChannelName, AnnotationEnclaveStatus,
      AnnotationEnclaveDefaultMode, AnnotationEnclaveCreatedAt, AnnotationEnclaveUpdatedAt]"

lemma annotation_keys_distinct: "distinct annotation_keys" "distinct (rev annotation_keys)"
  by (simp_all only: distinct_rev) (simp_all add: annotation_keys_def annotation_key_defs)

lemmas annotation_keys_neq [simp] =
  annotation_keys_distinct(1) [unfolded annotation_keys_def, simplified]
  annotation_keys_distinct(2) [unfolded annotation_keys_def, simplified rev.simps append.simps distinct.simps, simplified]

section \<open>Ownership\<close>

record OwnerInfo =
  OI_OwnerSub :: string
  OI_OwnerEmail :: string
  OI_OwnerName :: string
  OI_Group :: string
  OI_AuthProvider :: string
  OI_PresetName :: string
  OI_Mode :: mode

text \<open>The mode of an annotation map: the parsed mode annotation, or a default when the
  annotation is absent, empty or not a mode string. Both readers of ownership use it with
  \<open>DefaultMode\<close>, and the evaluator with \<open>DefaultEnclaveMode\<close>.\<close>

definition resolve_mode :: "mode \<Rightarrow> strmap \<Rightarrow> mode" where
  "resolve_mode dflt annotations =
     (case annotations AnnotationMode of
        None \<Rightarrow> dflt
      | Some raw \<Rightarrow>
          if raw \<noteq> [] then (case ParseMode raw of Inr m \<Rightarrow> m | Inl e \<Rightarrow> dflt) else dflt)"

definition ReadOwnerInfo :: "strmap \<Rightarrow> OwnerInfo" where
  "ReadOwnerInfo annotations =
     (let m = resolve_mode DefaultMode annotations in
      \<lparr>OI_OwnerSub = mget annotations AnnotationOwnerSub,
       OI_OwnerEmail = mget annotations AnnotationOwnerEmail,
       OI_OwnerName = mget annotations AnnotationOwnerName,
       OI_Group = mget annotations AnnotationGroup,
       OI_AuthProvider = mget annotations AnnotationAuthProvider,
       OI_PresetName = PresetName m,
       OI_Mode = m\<rparr>)"

definition GetAnnotation :: "strmap \<Rightarrow> string \<Rightarrow> string" where
  "GetAnnotation annotations newKey =
     (let v = mget annotations newKey in
      if v \<noteq> [] then v
      else if 14 < length newKey \<and> take 14 newKey = ''tentacular.io/''
      then mget annotations (''tentacular.dev/'' @ drop 14 newKey)
      else [])"

definition WriteOwnerAnnotations :: "string \<Rightarrow> string \<Rightarrow> string \<Rightarrow> mode \<Rightarrow> strmap" where
  "WriteOwnerAnnotations ownerSub ownerEmail ownerName m =
     [AnnotationOwner \<mapsto> ownerEmail,
      AnnotationOwnerSub \<mapsto> ownerSub,
      AnnotationOwnerEmail \<mapsto> ownerEmail,
      AnnotationOwnerName \<mapsto> ownerName,
      AnnotationMode \<mapsto> ModeString m]"

definition WriteNamespaceAnnotations :: "string \<Rightarrow> string \<Rightarrow> string \<Rightarrow> mode \<Rightarrow> mode \<Rightarrow> strmap" where
  "WriteNamespaceAnnotations ownerSub ownerEmail ownerName m defaultMode =
     (let annotations =
        [AnnotationOwner \<mapsto> ownerEmail,
         AnnotationOwnerSub \<mapsto> ownerSub,
         AnnotationOwnerEmail \<mapsto> ownerEmail,
         AnnotationOwnerName \<mapsto> ownerName,
         AnnotationMode \<mapsto> ModeString m]
      in if defaultMode \<noteq> 0 then annotations(AnnotationDefaultMode \<mapsto> ModeString defaultMode)
         else annotations)"

definition ReadNamespaceOwnerInfo :: "strmap \<Rightarrow> OwnerInfo" where
  "ReadNamespaceOwnerInfo annotations =
     (let m = resolve_mode DefaultMode annotations in
      \<lparr>OI_OwnerSub = mget annotations AnnotationOwnerSub,
       OI_OwnerEmail = mget annotations AnnotationOwnerEmail,
       OI_OwnerName = mget annotations AnnotationOwnerName,
       OI_Group = mget annotations AnnotationGroup,
       OI_AuthProvider = mget annotations AnnotationAuthProvider,
       OI_PresetName = PresetName m,
       OI_Mode = m\<rparr>)"

section \<open>Enclave metadata\<close>

definition dns_outer :: "char \<Rightarrow> bool" where
  "dns_outer c \<longleftrightarrow> is_lower c \<or> is_digit c"

definition dns_inner :: "char \<Rightarrow> bool" where
  "dns_inner c \<longleftrightarrow> is_lower c \<or> is_digit c \<or> c = CHR ''-''"

definition dns1123LabelRe :: rx where
  "dns1123LabelRe = label_rx dns_outer dns_inner"

definition rwx_cls :: "char \<Rightarrow> char \<Rightarrow> bool" where
  "rwx_cls ch c \<longleftrightarrow> c = ch \<or> c = CHR ''-''"

definition validRwxRe :: rx where
  "validRwxRe = cls_seq
     [rwx_cls CHR ''r'', rwx_cls CHR ''w'', rwx_cls CHR ''x'',
      rwx_cls CHR ''r'', rwx_cls CHR ''w'', rwx_cls CHR ''x'',
      rwx_cls CHR ''r'', rwx_cls CHR ''w'', rwx_cls CHR ''x'']"

record EnclaveInfo =
  EI_Enclave :: string
  EI_Owner :: string
  EI_OwnerSub :: string
  EI_Platform :: string
  EI_ChannelID :: string
  EI_ChannelName :: string
  EI_Status :: string
  EI_DefaultMode :: string
  EI_CreatedAt :: string
  EI_UpdatedAt :: string
  EI_Members :: "string list"

definition ParseMembers :: "string \<Rightarrow> string list" where
  "ParseMembers csv =
     (if csv = [] then []
      else filter (\<lambda>t. t \<noteq> []) (map (\<lambda>part. ToLower (TrimSpace part)) (Split CHR '','' csv)))"

definition FormatMembers :: "string list \<Rightarrow> string" where
  "FormatMembers members = Join members '',''"

definition ReadEnclaveInfo :: "strmap \<Rightarrow> EnclaveInfo" where
  "ReadEnclaveInfo annotations =
     \<lparr>EI_Enclave = mget annotations AnnotationEnclave,
      EI_Owner = mget annotations AnnotationEnclaveOwner,
      EI_OwnerSub = mget annotations AnnotationEnclaveOwnerSub,
      EI_Platform = mget annotations AnnotationEnclavePlatform,
      EI_ChannelID = mget annotations AnnotationEnclaveChannelID,
      EI_ChannelName = mget annotations AnnotationEnclaveChannelName,
      EI_Status = mget annotations AnnotationEnclaveStatus,
      EI_DefaultMode = mget annotations AnnotationEnclaveDefaultMode,
      EI_CreatedAt = mget annotations AnnotationEnclaveCreatedAt,
      EI_UpdatedAt = mget annotations AnnotationEnclaveUpdatedAt,
      EI_Members = ParseMembers (mget annotations AnnotationEnclaveMembers)\<rparr>"

definition WriteEnclaveAnnotations :: "EnclaveInfo \<Rightarrow> strmap" where
  "WriteEnclaveAnnotations info =
     [AnnotationEnclave \<mapsto> EI_Enclave info,
      AnnotationEnclaveOwner \<mapsto> EI_Owner info,
      AnnotationEnclaveOwnerSub \<mapsto> EI_OwnerSub info,
      AnnotationEnclaveMembers \<mapsto> FormatMembers (EI_Members info),
      AnnotationEnclavePlatform \<mapsto> EI_Platform info,
      AnnotationEnclaveChannelID \<mapsto> EI_ChannelID info,
      AnnotationEnclaveChannelName \<mapsto> EI_ChannelName info,
      AnnotationEnclaveStatus \<mapsto> EI_Status info,
      AnnotationEnclaveDefaultMode \<mapsto> EI_DefaultMode info,
      AnnotationEnclaveCreatedAt \<mapsto> EI_CreatedAt info,
      AnnotationEnclaveUpdatedAt \<mapsto> EI_UpdatedAt info]"

datatype enclave_error =
    TooManyMembers nat nat
  | NameNotLabel string
  | NameHasDot string
  | OwnerEmpty
  | OwnerNotEmail string
  | MemberEmpty nat
  | MemberNotEmail string nat
  | PlatformNotAllowed string
  | StatusNotAllowed string
  | DefaultModeInvalid string

definition ValidateMembers :: "nat \<Rightarrow> string list \<Rightarrow> enclave_error + unit" where
  "ValidateMembers maxMembers members =
     (if length members > maxMembers then Inl (TooManyMembers (length members) maxMembers) else Inr ())"

definition ValidateEnclaveName :: "string \<Rightarrow> enclave_error + unit" where
  "ValidateEnclaveName name =
     (if \<not> MatchString dns1123LabelRe name then Inl (NameNotLabel name)
      else if Contains name ''.'' then Inl (NameHasDot name)
      else Inr ())"

fun check_members :: "nat \<Rightarrow> string list \<Rightarrow> enclave_error + unit" where
  "check_members i [] = Inr ()"
| "check_members i (m # ms) =
     (if m = [] then Inl (MemberEmpty i)
      else if \<not> Contains m ''@'' then Inl (MemberNotEmail m i)
      else check_members (Suc i) ms)"

definition ValidateEnclaveInfo :: "nat \<Rightarrow> EnclaveInfo \<Rightarrow> enclave_error + unit" where
  "ValidateEnclaveInfo maxMembers info =
     (case ValidateEnclaveName (EI_Enclave info) of Inl e \<Rightarrow> Inl e | Inr _ \<Rightarrow>
      let owner = ToLower (EI_Owner info) in
      if owner = [] then Inl OwnerEmpty
      else if \<not> Contains owner ''@'' then Inl (OwnerNotEmail owner)
      else (case check_members 0 (EI_Members info) of Inl e \<Rightarrow> Inl e | Inr _ \<Rightarrow>
        if EI_Platform info \<notin> {''slack'', []} then Inl (PlatformNotAllowed (EI_Platform info))
        else if EI_Status info \<notin> {''active'', ''provisioning'', ''frozen'', []}
        then Inl (StatusNotAllowed (EI_Status info))
        else if EI_DefaultMode info \<noteq> [] \<and> \<not> MatchString validRwxRe (EI_DefaultMode info)
        then Inl (DefaultModeInvalid (EI_DefaultMode info))
        else ValidateMembers maxMembers (EI_Members info)))"

definition IsEnclave :: "strmap \<Rightarrow> bool" where
  "IsEnclave annotations \<longleftrightarrow> mget annotations AnnotationEnclave \<noteq> []"

section \<open>Modes\<close>

lemma validRwxRe_iff: "MatchString validRwxRe s \<longleftrightarrow> rwx_ok s"
proof (cases "length s = 9")
  case True
  show ?thesis
    unfolding validRwxRe_def cls_seq_iff
    by (subst length_9_nth [OF True]) (simp add: rwx_cls_def rwx_ok_def mode_table_def True)
next
  case False
  then show ?thesis
    unfolding validRwxRe_def cls_seq_iff by (auto simp: rwx_ok_def dest!: list_all2_lengthD)
qed

text \<open>The pattern that validates an enclave's default mode accepts exactly the strings that
  the parser turns into a mode.\<close>

theorem validRwxRe_iff_ParseMode: "MatchString validRwxRe s \<longleftrightarrow> (\<exists>m. ParseMode s = Inr m)"
  by (simp add: validRwxRe_iff ParseMode_ok_iff)

lemma resolve_mode_written:
  "annotations AnnotationMode = Some (ModeString m) \<Longrightarrow> resolve_mode dflt annotations = m AND mask 9"
  using length_ModeString [of m]
  by (auto simp: resolve_mode_def ParseMode_ModeString_eq simp del: length_ModeString)

text \<open>Ownership written over any existing annotations is read back: subject, e-mail, name and
  the nine permission bits; the preset is recomputed from the mode, and the group and the
  auth provider stay those of the existing annotations.\<close>

theorem ReadOwnerInfo_WriteOwnerAnnotations:
  "ReadOwnerInfo (old ++ WriteOwnerAnnotations ownerSub ownerEmail ownerName m) =
     \<lparr>OI_OwnerSub = ownerSub, OI_OwnerEmail = ownerEmail, OI_OwnerName = ownerName,
      OI_Group = mget old AnnotationGroup, OI_AuthProvider = mget old AnnotationAuthProvider,
      OI_PresetName = PresetName (m AND mask 9), OI_Mode = m AND mask 9\<rparr>"
proof -
  have "resolve_mode DefaultMode (old ++ WriteOwnerAnnotations ownerSub ownerEmail ownerName m) = m AND mask 9"
    by (rule resolve_mode_written) (simp add: WriteOwnerAnnotations_def)
  then show ?thesis
    by (simp add: ReadOwnerInfo_def Let_def WriteOwnerAnnotations_def)
qed

lemma ReadNamespaceOwnerInfo_WriteNamespaceAnnotations:
  "ReadNamespaceOwnerInfo (old ++ WriteNamespaceAnnotations ownerSub ownerEmail ownerName m dm) =
     \<lparr>OI_OwnerSub = ownerSub, OI_OwnerEmail = ownerEmail, OI_OwnerName = ownerName,
      OI_Group = mget old AnnotationGroup, OI_AuthProvider = mget old AnnotationAuthProvider,
      OI_PresetName = PresetName (m AND mask 9), OI_Mode = m AND mask 9\<rparr>"
proof -
  have "resolve_mode DefaultMode (old ++ WriteNamespaceAnnotations ownerSub ownerEmail ownerName m dm) = m AND mask 9"
    by (rule resolve_mode_written) (simp add: WriteNamespaceAnnotations_def Let_def)
  then show ?thesis
    by (simp add: ReadNamespaceOwnerInfo_def Let_def WriteNamespaceAnnotations_def)
qed

section \<open>Member lists\<close>

text \<open>A member is normalised when it is non-empty, trimmed, in lower case and free of commas.\<close>

definition normal_member :: "string \<Rightarrow> bool" where
  "normal_member m \<longleftrightarrow> m \<noteq> [] \<and> ToLower (TrimSpace m) = m \<and> CHR '','' \<notin> set m"

lemma ToLower_member:
  assumes "\<And>a. lower_char a = c \<longleftrightarrow> a = c"
  shows "c \<in> set (ToLower s) \<longleftrightarrow> c \<in> set s"
proof -
  have "lower_char c = c" using assms by blast
  then show ?thesis using assms by (force simp: ToLower_def image_iff)
qed

lemma comma_ToLower: "CHR '','' \<in> set (ToLower s) \<longleftrightarrow> CHR '','' \<in> set s"
  by (rule ToLower_member) (rule lower_char_comma)

lemma normal_member_part:
  assumes "part \<in> set (Split CHR '','' csv)" and "ToLower (TrimSpace part) \<noteq> []"
  shows "normal_member (ToLower (TrimSpace part))"
proof -
  have "CHR '','' \<notin> set part" using assms(1) by (rule Split_no_sep)
  then have "CHR '','' \<notin> set (TrimSpace part)"
    using set_Trim [of is_space part] by (auto simp: TrimSpace_def)
  then show ?thesis
    using assms(2) by (simp add: normal_member_def TrimSpace_ToLower comma_ToLower)
qed

lemma ParseMembers_normal: "m \<in> set (ParseMembers csv) \<Longrightarrow> normal_member m"
  by (auto simp: ParseMembers_def normal_member_part split: if_splits)

lemma ParseMembers_FormatMembers:
  assumes "\<forall>m \<in> set ms. normal_member m"
  shows "ParseMembers (FormatMembers ms) = ms"
proof (cases "ms = []")
  case False
  have "filter (\<lambda>t. t \<noteq> []) (map (\<lambda>part. ToLower (TrimSpace part)) ms) = ms"
    using assms by (induction ms) (auto simp: normal_member_def)
  moreover have "Split CHR '','' (Join ms '','') = ms"
    using False assms by (intro Split_Join) (auto simp: normal_member_def)
  moreover have "Join ms '','' \<noteq> []"
    using False assms by (auto simp: Join_eq_Nil normal_member_def)
  ultimately show ?thesis by (simp add: ParseMembers_def FormatMembers_def)
qed (simp add: ParseMembers_def FormatMembers_def)

lemma ParseMembers_FormatMembers_iff:
  "ParseMembers (FormatMembers ms) = ms \<longleftrightarrow> list_all normal_member ms"
  unfolding list_all_iff using ParseMembers_FormatMembers ParseMembers_normal by metis

lemma ParseMembers_stable:
  "ParseMembers (FormatMembers (ParseMembers csv)) = ParseMembers csv"
  by (rule ParseMembers_FormatMembers) (auto dest: ParseMembers_normal)

lemma ReadEnclaveInfo_written:
  "ReadEnclaveInfo (old ++ WriteEnclaveAnnotations info) =
     info\<lparr>EI_Members := ParseMembers (FormatMembers (EI_Members info))\<rparr>"
  by (simp add: ReadEnclaveInfo_def WriteEnclaveAnnotations_def)

text \<open>C39: enclave metadata written over any existing annotations is read back unchanged exactly
  when its members are normalised (trimmed, lower case, non-empty, without commas), and
  metadata that was read from annotations always is: reading, writing and reading again is
  stable.\<close>

theorem ReadEnclaveInfo_WriteEnclaveAnnotations:
  "(ReadEnclaveInfo (old ++ WriteEnclaveAnnotations info) = info \<longleftrightarrow>
      list_all normal_member (EI_Members info)) \<and>
   ReadEnclaveInfo (old ++ WriteEnclaveAnnotations (ReadEnclaveInfo ann)) = ReadEnclaveInfo ann"
proof
  have "info\<lparr>EI_Members := ms\<rparr> = info \<longleftrightarrow> ms = EI_Members info" for ms
    by (cases info) auto
  then show "ReadEnclaveInfo (old ++ WriteEnclaveAnnotations info) = info \<longleftrightarrow>
      list_all normal_member (EI_Members info)"
    unfolding ReadEnclaveInfo_written by (simp add: ParseMembers_FormatMembers_iff)
  show "ReadEnclaveInfo (old ++ WriteEnclaveAnnotations (ReadEnclaveInfo ann)) = ReadEnclaveInfo ann"
    unfolding ReadEnclaveInfo_written by (simp add: ReadEnclaveInfo_def ParseMembers_stable)
qed

section \<open>Validation\<close>

interpretation dns: label_regex dns_outer dns_inner
  by unfold_locales (auto simp: dns_outer_def dns_inner_def)

lemma ValidateEnclaveName_iff:
  "ValidateEnclaveName name = Inr () \<longleftrightarrow>
     name \<noteq> [] \<and> length name \<le> 63 \<and> dns_outer (hd name) \<and> dns_outer (last name) \<and> list_all dns_inner name"
proof -
  have "\<not> Contains name ''.''" if "MatchString dns1123LabelRe name"
    using that dns.accepts_chars [of name "CHR ''.''"]
    by (auto simp: Contains_char dns1123LabelRe_def dns_inner_def class_defs)
  then show ?thesis
    by (auto simp: ValidateEnclaveName_def dns1123LabelRe_def dns.accepts_iff list_all_iff)
qed

lemma ValidateEnclaveName_chars:
  "ValidateEnclaveName name = Inr () \<Longrightarrow> c \<in> set name \<Longrightarrow> dns_inner c"
  by (auto simp: ValidateEnclaveName_iff list_all_iff)

lemma check_members_iff:
  "check_members i ms = Inr () \<longleftrightarrow> list_all (\<lambda>m. CHR ''@'' \<in> set m) ms"
  by (induction i ms rule: check_members.induct) (auto simp: Contains_char)

lemma at_ToLower: "CHR ''@'' \<in> set (ToLower s) \<longleftrightarrow> CHR ''@'' \<in> set s"
proof -
  have "lower_char c = CHR ''@'' \<longleftrightarrow> c = CHR ''@''" for c
  proof
    assume "lower_char c = CHR ''@''"
    then have "(of_char (lower_char c) :: nat) = 64" by simp
    then have "(of_char c :: nat) = of_char CHR ''@''" by (auto simp: lower_char_code split: if_splits)
    then show "c = CHR ''@''" by (simp only: of_char_eq_iff)
  qed (simp add: lower_char_def)
  then show ?thesis by (rule ToLower_member)
qed

lemma ValidateEnclaveInfo_ok_owner:
  "ValidateEnclaveInfo maxMembers info = Inr () \<Longrightarrow> CHR ''@'' \<in> set (EI_Owner info)"
  unfolding ValidateEnclaveInfo_def Let_def ok_simps by (auto simp: Contains_char at_ToLower)

text \<open>The validator of enclave metadata accepts exactly the metadata whose name is a DNS
  label, whose owner and members contain an at sign, whose platform and status are in the
  allowed sets, whose default mode is empty or parses, and whose member count is within the
  configured maximum.\<close>

theorem ValidateEnclaveInfo_accepts:
  "ValidateEnclaveInfo maxMembers info = Inr () \<longleftrightarrow>
     ValidateEnclaveName (EI_Enclave info) = Inr () \<and>
     CHR ''@'' \<in> set (EI_Owner info) \<and>
     list_all (\<lambda>m. CHR ''@'' \<in> set m) (EI_Members info) \<and>
     EI_Platform info \<in> {''slack'', []} \<and>
     EI_Status info \<in> {''active'', ''provisioning'', ''frozen'', []} \<and>
     (EI_DefaultMode info = [] \<or> (\<exists>m. ParseMode (EI_DefaultMode info) = Inr m)) \<and>
     length (EI_Members info) \<le> maxMembers"
proof -
  have "ToLower (EI_Owner info) \<noteq> [] \<and> Contains (ToLower (EI_Owner info)) ''@'' \<longleftrightarrow>
      CHR ''@'' \<in> set (EI_Owner info)"
    by (auto simp: Contains_char at_ToLower)
  moreover have "MatchString validRwxRe t \<longleftrightarrow> (\<exists>m. ParseMode t = Inr m)" for t
    by (simp add: validRwxRe_iff ParseMode_ok_iff)
  ultimately show ?thesis
    unfolding ValidateEnclaveInfo_def Let_def ValidateMembers_def ok_simps check_members_iff not_less
    by blast
qed

end
