(* ===== verification/Auth.thy ===== *)
theory Auth
  imports Go_Strings
begin

text \<open>
  Authentication: the OIDC validator of \<^verbatim>\<open>pkg/exoskeleton/auth.go\<close> and the HTTP middlewares of
  \<^verbatim>\<open>pkg/auth/auth.go\<close>. The identity provider is third-party code: discovery
  (\<^verbatim>\<open>oidc.NewProvider\<close>) and signature verification (\<^verbatim>\<open>verifier.Verify\<close>) are functions
  the definitions take. A request carries its path, its Authorization header (empty when
  absent, as \<^verbatim>\<open>Header.Get\<close> returns) and the deployer stored in its context; a handler maps a
  request to a response. The lemmas say which requests reach the wrapped handler, and with
  which identity.
\<close>

section \<open>Identities and OIDC tokens\<close>

record DeployerInfo =
  Email :: string
  DisplayName :: string
  Subject :: string
  Provider :: string
  AgentType :: string
  SessionID :: string

record AuthConfig =
  IssuerURL :: string
  ClientID :: string
  ClientSecret :: string
  TrustedAZPs :: "string list"
  AuthEnabled :: bool

record keycloakClaims =
  C_Email :: string
  C_Name :: string
  C_PreferredUser :: string
  C_AZP :: string
  C_IdentityProvider :: string
  C_Groups :: "string list"

record IDToken =
  T_Subject :: string
  T_Claims :: "string + keycloakClaims"

type_synonym verifier = "string \<Rightarrow> string + IDToken"

record OIDCValidator =
  V_trustedAZPs :: "string list"
  V_verifier :: verifier
  V_clientID :: string

datatype oidc_error =
    OIDCNotEnabled
  | OIDCNoIssuer
  | OIDCNoClientID
  | OIDCDiscovery string string
  | OIDCVerification string
  | OIDCClaims string
  | OIDCUntrustedAZP string "string list"
  | OIDCNoSubject

definition NewOIDCValidator :: "(string \<Rightarrow> string + verifier) \<Rightarrow> AuthConfig \<Rightarrow> oidc_error + OIDCValidator" where
  "NewOIDCValidator newProvider cfg =
     (if \<not> AuthEnabled cfg then Inl OIDCNotEnabled
      else if IssuerURL cfg = [] then Inl OIDCNoIssuer
      else if ClientID cfg = [] then Inl OIDCNoClientID
      else case newProvider (IssuerURL cfg) of
        Inl e \<Rightarrow> Inl (OIDCDiscovery (IssuerURL cfg) e)
      | Inr v \<Rightarrow>
          Inr \<lparr>V_trustedAZPs = ClientID cfg # TrustedAZPs cfg, V_verifier = v, V_clientID = ClientID cfg\<rparr>)"

definition determineProvider :: "keycloakClaims \<Rightarrow> string" where
  "determineProvider claims =
     (if C_IdentityProvider claims \<noteq> [] then C_IdentityProvider claims else ''keycloak'')"

definition ValidateToken :: "OIDCValidator \<Rightarrow> string \<Rightarrow> oidc_error + DeployerInfo" where
  "ValidateToken v tokenString =
     (case V_verifier v tokenString of
        Inl e \<Rightarrow> Inl (OIDCVerification e)
      | Inr idToken \<Rightarrow>
          (case T_Claims idToken of
             Inl e \<Rightarrow> Inl (OIDCClaims e)
           | Inr claims \<Rightarrow>
               if C_AZP claims \<notin> set (V_trustedAZPs v)
               then Inl (OIDCUntrustedAZP (C_AZP claims) (V_trustedAZPs v))
               else if T_Subject idToken = [] then Inl OIDCNoSubject
               else Inr \<lparr>Email = C_Email claims,
                         DisplayName = (if C_Name claims = [] then C_PreferredUser claims else C_Name claims),
                         Subject = T_Subject idToken,
                         Provider = determineProvider claims,
                         AgentType = [],
                         SessionID = []\<rparr>))"

section \<open>Middlewares\<close>

record request =
  R_Method :: string
  R_Path :: string
  R_Authorization :: string
  R_Deployer :: "DeployerInfo option"

record response =
  W_Status :: nat
  W_WWWAuthenticate :: "string option"
  W_Body :: string

type_synonym handler = "request \<Rightarrow> response"

definition DeployerFromContext :: "request \<Rightarrow> DeployerInfo option" where
  "DeployerFromContext r = R_Deployer r"

datatype token_error = TokenFileUnreadable string string | TokenFileEmpty string

definition LoadToken :: "(string \<Rightarrow> string + string) \<Rightarrow> string \<Rightarrow> token_error + string" where
  "LoadToken readFile path =
     (case readFile path of
        Inl e \<Rightarrow> Inl (TokenFileUnreadable path e)
      | Inr data \<Rightarrow>
          let token = TrimSpace data in
          if token = [] then Inl (TokenFileEmpty path) else Inr token)"

definition writeUnauthorized :: "string \<Rightarrow> string \<Rightarrow> response" where
  "writeUnauthorized resourceMetadataURL msg =
     \<lparr>W_Status = 401,
      W_WWWAuthenticate =
        (if resourceMetadataURL \<noteq> [] then Some (''Bearer resource_metadata='' @ quote_str resourceMetadataURL)
         else None),
      W_Body = msg @ [CHR 0x0A]\<rparr>"

definition bypassAuth :: "string \<Rightarrow> bool" where
  "bypassAuth path \<longleftrightarrow> path = ''/healthz'' \<or> path = ''/.well-known/oauth-protected-resource''"

definition Middleware :: "string \<Rightarrow> string \<Rightarrow> handler \<Rightarrow> handler" where
  "Middleware token resourceMetadataURL next r =
     (if bypassAuth (R_Path r) then next r
      else if R_Authorization r = [] then writeUnauthorized resourceMetadataURL ''missing authorization header''
      else if \<not> HasPrefix (R_Authorization r) ''Bearer ''
      then writeUnauthorized resourceMetadataURL ''invalid authorization header format''
      else if TrimPrefix (R_Authorization r) ''Bearer '' \<noteq> token
      then writeUnauthorized resourceMetadataURL ''invalid token''
      else next r)"

definition looksLikeJWT :: "string \<Rightarrow> bool" where
  "looksLikeJWT token =
     (let parts = Split CHR ''.'' token in
      length parts = 3 \<and> 0 < length (parts ! 0) \<and> 0 < length (parts ! 1) \<and> 0 < length (parts ! 2))"

definition bearer_deployer :: DeployerInfo where
  "bearer_deployer =
     \<lparr>Email = [], DisplayName = [], Subject = [], Provider = ''bearer-token'', AgentType = [], SessionID = []\<rparr>"

definition bearer_fallback :: "string \<Rightarrow> string \<Rightarrow> string \<Rightarrow> handler \<Rightarrow> handler" where
  "bearer_fallback token provided resourceMetadataURL next r =
     (if provided \<noteq> token then writeUnauthorized resourceMetadataURL ''invalid token''
      else next (r\<lparr>R_Deployer := Some bearer_deployer\<rparr>))"

definition DualAuthMiddleware :: "string \<Rightarrow> OIDCValidator option \<Rightarrow> string \<Rightarrow> handler \<Rightarrow> handler" where
  "DualAuthMiddleware token validator resourceMetadataURL next r =
     (case validator of
        None \<Rightarrow> Middleware token resourceMetadataURL next r
      | Some v \<Rightarrow>
          if bypassAuth (R_Path r) then next r
          else if R_Authorization r = [] then writeUnauthorized resourceMetadataURL ''missing authorization header''
          else if \<not> HasPrefix (R_Authorization r) ''Bearer ''
          then writeUnauthorized resourceMetadataURL ''invalid authorization header format''
          else let provided = TrimPrefix (R_Authorization r) ''Bearer '' in
            if looksLikeJWT provided then
              (case ValidateToken v provided of
                 Inr deployer \<Rightarrow> next (r\<lparr>R_Deployer := Some deployer\<rparr>)
               | Inl e \<Rightarrow> bearer_fallback token provided resourceMetadataURL next r)
            else bearer_fallback token provided resourceMetadataURL next r)"

section \<open>What authentication guarantees\<close>

lemma ValidateToken_ok_iff:
  "ValidateToken v t = Inr d \<longleftrightarrow>
     (\<exists>tok claims. V_verifier v t = Inr tok \<and> T_Claims tok = Inr claims \<and>
        C_AZP claims \<in> set (V_trustedAZPs v) \<and> T_Subject tok \<noteq> [] \<and>
        d = \<lparr>Email = C_Email claims,
             DisplayName = (if C_Name claims = [] then C_PreferredUser claims else C_Name claims),
             Subject = T_Subject tok, Provider = determineProvider claims, AgentType = [], SessionID = []\<rparr>)"
  by (auto simp: ValidateToken_def split: sum.splits if_splits)

lemma determineProvider_nonempty [simp]: "determineProvider claims \<noteq> []"
  by (simp add: determineProvider_def)

text \<open>An identity that a configured OIDC validator produces has a verified token behind it,
  a non-empty subject and provider, and an authorized party that is the configured client or
  one of the configured trusted clients.\<close>

theorem ValidateToken_trusted:
  assumes "NewOIDCValidator newProvider cfg = Inr v" and "ValidateToken v t = Inr d"
  shows "Subject d \<noteq> [] \<and> Provider d \<noteq> [] \<and>
     (\<exists>tok claims. V_verifier v t = Inr tok \<and> T_Claims tok = Inr claims \<and> Email d = C_Email claims \<and>
        C_AZP claims \<in> insert (ClientID cfg) (set (TrustedAZPs cfg)))"
proof -
  have "V_trustedAZPs v = ClientID cfg # TrustedAZPs cfg"
    using assms(1) by (auto simp: NewOIDCValidator_def split: if_splits sum.splits)
  with assms(2) show ?thesis by (auto simp: ValidateToken_ok_iff)
qed

definition sample_verifier :: verifier where
  "sample_verifier t =
     (if t = ''a.b.c''
      then Inr \<lparr>T_Subject = ''u1'',
                T_Claims = Inr \<lparr>C_Email = ''ann@x'', C_Name = [], C_PreferredUser = ''ann'', C_AZP = ''cli'',
                                C_IdentityProvider = [], C_Groups = []\<rparr>\<rparr>
      else Inl ''bad signature'')"

definition sample_auth_config :: AuthConfig where
  "sample_auth_config =
     \<lparr>IssuerURL = ''https://idp'', ClientID = ''srv'', ClientSecret = [], TrustedAZPs = [''cli''], AuthEnabled = True\<rparr>"

definition sample_validator :: OIDCValidator where
  "sample_validator = \<lparr>V_trustedAZPs = [''srv'', ''cli''], V_verifier = sample_verifier, V_clientID = ''srv''\<rparr>"

definition sample_deployer :: DeployerInfo where
  "sample_deployer =
     \<lparr>Email = ''ann@x'', DisplayName = ''ann'', Subject = ''u1'', Provider = ''keycloak'', AgentType = [], SessionID = []\<rparr>"

theorem ValidateToken_trusted_witness:
  "Subject sample_deployer \<noteq> [] \<and> Provider sample_deployer \<noteq> [] \<and>
     (\<exists>tok claims. V_verifier sample_validator ''a.b.c'' = Inr tok \<and> T_Claims tok = Inr claims \<and>
        Email sample_deployer = C_Email claims \<and>
        C_AZP claims \<in> insert (ClientID sample_auth_config) (set (TrustedAZPs sample_auth_config)))"
proof (rule ValidateToken_trusted [where newProvider = "\<lambda>u. Inr sample_verifier"])
  show "NewOIDCValidator (\<lambda>u. Inr sample_verifier) sample_auth_config = Inr sample_validator"
    by (simp add: NewOIDCValidator_def sample_auth_config_def sample_validator_def)
  show "ValidateToken sample_validator ''a.b.c'' = Inr sample_deployer"
    by (simp add: ValidateToken_ok_iff sample_validator_def sample_verifier_def sample_deployer_def
        determineProvider_def)
qed

text \<open>The specification of the middlewares: the identity a request is admitted with.
  \<open>Some None\<close> admits it without one, \<open>None\<close> rejects it.\<close>

definition admit :: "string \<Rightarrow> OIDCValidator option \<Rightarrow> string \<Rightarrow> DeployerInfo option option" where
  "admit token validator provided =
     (case validator of
        None \<Rightarrow> if provided = token then Some None else None
      | Some v \<Rightarrow>
          if looksLikeJWT provided \<and> \<not> isl (ValidateToken v provided)
          then Some (Some (projr (ValidateToken v provided)))
          else if provided = token then Some (Some bearer_deployer) else None)"

lemma HasPrefix_TrimPrefix: "HasPrefix s p \<Longrightarrow> s = p @ TrimPrefix s p"
  by (auto simp: HasPrefix_iff)

text \<open>A request outside the two public paths reaches the wrapped handler exactly when its
  Authorization header is the word Bearer, a space and an admitted credential, and then with
  the admitted identity; every other such request gets a 401 response, whatever the handler.\<close>

theorem DualAuthMiddleware_admits:
  "DualAuthMiddleware token validator url next r =
     (if bypassAuth (R_Path r) then next r
      else if HasPrefix (R_Authorization r) ''Bearer '' \<and>
              admit token validator (TrimPrefix (R_Authorization r) ''Bearer '') \<noteq> None
      then (case the (admit token validator (TrimPrefix (R_Authorization r) ''Bearer '')) of
              None \<Rightarrow> next r
            | Some d \<Rightarrow> next (r\<lparr>R_Deployer := Some d\<rparr>))
      else writeUnauthorized url
        (if R_Authorization r = [] then ''missing authorization header''
         else if \<not> HasPrefix (R_Authorization r) ''Bearer '' then ''invalid authorization header format''
         else ''invalid token''))"
  by (cases validator; cases "R_Authorization r = []")
    (auto simp: DualAuthMiddleware_def Middleware_def admit_def bearer_fallback_def Let_def split: sum.splits)

text \<open>A token that is shaped like a JWT has exactly two dots and no empty segment.\<close>

lemma looksLikeJWT_iff:
  "looksLikeJWT t \<longleftrightarrow>
     (\<exists>a b c. t = a @ ''.'' @ b @ ''.'' @ c \<and> a \<noteq> [] \<and> b \<noteq> [] \<and> c \<noteq> [] \<and>
        CHR ''.'' \<notin> set (a @ b @ c))"
proof
  assume jwt: "looksLikeJWT t"
  then have "length (Split CHR ''.'' t) = Suc (Suc (Suc 0))"
    by (simp add: looksLikeJWT_def Let_def)
  then obtain a b c where abc: "Split CHR ''.'' t = [a, b, c]" by (auto simp: length_Suc_conv)
  then have "t = a @ ''.'' @ b @ ''.'' @ c" using Join_Split [of "CHR ''.''" t] by simp
  moreover have "CHR ''.'' \<notin> set (a @ b @ c)" using Split_no_sep [of _ "CHR ''.''" t] abc by auto
  moreover have "a \<noteq> [] \<and> b \<noteq> [] \<and> c \<noteq> []" using jwt abc by (simp add: looksLikeJWT_def)
  ultimately show "\<exists>a b c. t = a @ ''.'' @ b @ ''.'' @ c \<and> a \<noteq> [] \<and> b \<noteq> [] \<and> c \<noteq> [] \<and>
      CHR ''.'' \<notin> set (a @ b @ c)" by blast
next
  assume "\<exists>a b c. t = a @ ''.'' @ b @ ''.'' @ c \<and> a \<noteq> [] \<and> b \<noteq> [] \<and> c \<noteq> [] \<and> CHR ''.'' \<notin> set (a @ b @ c)"
  then show "looksLikeJWT t"
    by (auto simp: looksLikeJWT_def Split_append_sep Split_single)
qed

end
