(* ===== verification/Authz_Evaluator.thy ===== *)
theory Authz_Evaluator
  imports Authz_Annotations Auth
begin

text \<open>
  The access evaluator, \<^verbatim>\<open>pkg/authz/evaluator.go\<close>. A nil \<^verbatim>\<open>*Evaluator\<close> and a nil
  \<^verbatim>\<open>*DeployerInfo\<close> are \<open>None\<close>. The specification is a role model: a request has one role
  (operator, enclave owner, tentacle owner, member, other) and a role is granted an action
  by the bits of a mode. The lemmas show that both checks implement the role model, that a
  tentacle check never allows what the enclave check denies inside an enclave, and, through
  the locale \<open>access_check\<close>, the properties both checks share.
\<close>

datatype Action = Read | Write | Execute

record Decision =
  Reason :: string
  Allowed :: bool

definition Allow :: Decision where
  "Allow = \<lparr>Reason = ''allowed'', Allowed = True\<rparr>"

definition Deny :: "string \<Rightarrow> Decision" where
  "Deny reason = \<lparr>Reason = reason, Allowed = False\<rparr>"

record Evaluator =
  E_DefaultMode :: mode
  E_Enabled :: bool

definition NewEvaluator :: "mode \<Rightarrow> Evaluator" where
  "NewEvaluator defaultMode = \<lparr>E_DefaultMode = defaultMode, E_Enabled = True\<rparr>"

fun action_bit :: "mode \<Rightarrow> Action \<Rightarrow> bool \<Rightarrow> bool \<Rightarrow> bool" where
  "action_bit m Read isOwner isGroup =
     (if isOwner then OwnerRead m else if isGroup then GroupRead m else OtherRead m)"
| "action_bit m Write isOwner isGroup =
     (if isOwner then OwnerWrite m else if isGroup then GroupWrite m else OtherWrite m)"
| "action_bit m Execute isOwner isGroup =
     (if isOwner then OwnerExecute m else if isGroup then GroupExecute m else OtherExecute m)"

fun action_str :: "Action \<Rightarrow> string" where
  "action_str Read = ''read''"
| "action_str Write = ''write''"
| "action_str Execute = ''execute''"

definition checkBits :: "mode \<Rightarrow> Action \<Rightarrow> bool \<Rightarrow> bool \<Rightarrow> Decision" where
  "checkBits m action isOwner isGroup =
     (if action_bit m action isOwner isGroup then Allow
      else Deny (''permission denied: '' @
             (if isOwner then ''owner'' else if isGroup then ''member'' else ''other'') @
             '' lacks '' @ action_str action @ '' access''))"

definition CheckEnclave :: "Evaluator option \<Rightarrow> DeployerInfo option \<Rightarrow> strmap \<Rightarrow> Action \<Rightarrow> Decision" where
  "CheckEnclave e deployer enclaveAnn action =
     (case e of None \<Rightarrow> Allow | Some ev \<Rightarrow>
      if \<not> E_Enabled ev then Allow
      else (case deployer of None \<Rightarrow> Deny ''no deployer identity in request context'' | Some d \<Rightarrow>
        if Provider d = ''bearer-token'' then Allow
        else if mget enclaveAnn AnnotationEnclave = [] then Deny ''namespace is not an enclave''
        else let m = resolve_mode DefaultEnclaveMode enclaveAnn;
                 deployerEmail = ToLower (Email d);
                 enclaveOwner = ToLower (mget enclaveAnn AnnotationEnclaveOwner)
             in if enclaveOwner \<noteq> [] \<and> deployerEmail = enclaveOwner then Allow
                else if deployerEmail \<in> set (ParseMembers (mget enclaveAnn AnnotationEnclaveMembers))
                then checkBits m action False True
                else checkBits m action False False))"

definition Check :: "Evaluator option \<Rightarrow> DeployerInfo option \<Rightarrow> strmap \<Rightarrow> Action \<Rightarrow> Decision" where
  "Check e deployer annotations action = CheckEnclave e deployer annotations action"

definition CheckTentacle ::
  "Evaluator option \<Rightarrow> DeployerInfo option \<Rightarrow> strmap \<Rightarrow> strmap \<Rightarrow> Action \<Rightarrow> Decision" where
  "CheckTentacle e deployer enclaveAnn tentacleAnn action =
     (case e of None \<Rightarrow> Allow | Some ev \<Rightarrow>
      if \<not> E_Enabled ev then Allow
      else (case deployer of None \<Rightarrow> Deny ''no deployer identity in request context'' | Some d \<Rightarrow>
        if Provider d = ''bearer-token'' then Allow
        else let deployerEmail = ToLower (Email d);
                 enclaveOwner = ToLower (mget enclaveAnn AnnotationEnclaveOwner)
             in if enclaveOwner \<noteq> [] \<and> deployerEmail = enclaveOwner then Allow
                else let dec = CheckEnclave e deployer enclaveAnn action in
                  if \<not> Allowed dec then dec
                  else let m = resolve_mode DefaultEnclaveMode tentacleAnn;
                           tentacleOwner = ToLower (mget tentacleAnn AnnotationOwner)
                       in if tentacleOwner \<noteq> [] \<and> deployerEmail = tentacleOwner
                          then checkBits m action True False
                          else if deployerEmail \<in> set (ParseMembers (mget enclaveAnn AnnotationEnclaveMembers))
                          then checkBits m action False True
                          else checkBits m action False False))"

section \<open>Order and enumeration of actions\<close>

text \<open>The actions are Go constants numbered from 0; the order is that of the numbers.\<close>

fun action_num :: "Action \<Rightarrow> nat" where
  "action_num Read = 0"
| "action_num Write = 1"
| "action_num Execute = 2"

lemma action_num_inj [simp]: "action_num a = action_num b \<longleftrightarrow> a = b"
  by (cases a; cases b) auto

instantiation Action :: linorder
begin

definition less_eq_Action :: "Action \<Rightarrow> Action \<Rightarrow> bool" where
  "less_eq_Action a b \<longleftrightarrow> action_num a \<le> action_num b"

definition less_Action :: "Action \<Rightarrow> Action \<Rightarrow> bool" where
  "less_Action a b \<longleftrightarrow> action_num a < action_num b"

instance
  by standard (auto simp: less_eq_Action_def less_Action_def)

end

lemma UNIV_Action: "(UNIV :: Action set) = {Read, Write, Execute}"
  by (auto intro: Action.exhaust)

instantiation Action :: enum
begin

definition enum_Action :: "Action list" where
  "enum_Action = [Read, Write, Execute]"

definition enum_all_Action :: "(Action \<Rightarrow> bool) \<Rightarrow> bool" where
  "enum_all_Action P \<longleftrightarrow> P Read \<and> P Write \<and> P Execute"

definition enum_ex_Action :: "(Action \<Rightarrow> bool) \<Rightarrow> bool" where
  "enum_ex_Action P \<longleftrightarrow> P Read \<or> P Write \<or> P Execute"

instance
proof
  show "(UNIV :: Action set) = set enum_class.enum" by (simp add: UNIV_Action enum_Action_def)
  show "distinct (enum_class.enum :: Action list)" by (simp add: enum_Action_def)
  fix P :: "Action \<Rightarrow> bool"
  show "enum_class.enum_all P = Ball UNIV P" by (simp add: enum_all_Action_def UNIV_Action)
  show "enum_class.enum_ex P = Bex UNIV P" by (simp add: enum_ex_Action_def UNIV_Action)
qed

end

section \<open>The role model\<close>

datatype role = Operator | EnclaveOwner | TentacleOwner | Member | Other

text \<open>\<open>grants m r a\<close>: the operator and the enclave owner are granted everything; the other
  roles have the triple of mode bits of their class.\<close>

fun grants :: "mode \<Rightarrow> role \<Rightarrow> Action \<Rightarrow> bool" where
  "grants m Operator a = True"
| "grants m EnclaveOwner a = True"
| "grants m TentacleOwner Read = bit m 8"
| "grants m TentacleOwner Write = bit m 7"
| "grants m TentacleOwner Execute = bit m 6"
| "grants m Member Read = bit m 5"
| "grants m Member Write = bit m 4"
| "grants m Member Execute = bit m 3"
| "grants m Other Read = bit m 2"
| "grants m Other Write = bit m 1"
| "grants m Other Execute = bit m 0"

definition same_email :: "string \<Rightarrow> string \<Rightarrow> bool" where
  "same_email a b \<longleftrightarrow> b \<noteq> [] \<and> ToLower a = ToLower b"

definition is_member :: "DeployerInfo \<Rightarrow> strmap \<Rightarrow> bool" where
  "is_member d enclaveAnn \<longleftrightarrow> ToLower (Email d) \<in> set (ParseMembers (mget enclaveAnn AnnotationEnclaveMembers))"

definition enclave_role :: "DeployerInfo \<Rightarrow> strmap \<Rightarrow> role" where
  "enclave_role d enclaveAnn =
     (if Provider d = ''bearer-token'' then Operator
      else if same_email (Email d) (mget enclaveAnn AnnotationEnclaveOwner) then EnclaveOwner
      else if is_member d enclaveAnn then Member
      else Other)"

definition tentacle_role :: "DeployerInfo \<Rightarrow> strmap \<Rightarrow> strmap \<Rightarrow> role" where
  "tentacle_role d enclaveAnn tentacleAnn =
     (case enclave_role d enclaveAnn of
        Operator \<Rightarrow> Operator
      | EnclaveOwner \<Rightarrow> EnclaveOwner
      | r \<Rightarrow> if same_email (Email d) (mget tentacleAnn AnnotationOwner) then TentacleOwner else r)"

definition enforcing :: "Evaluator option \<Rightarrow> bool" where
  "enforcing e \<longleftrightarrow> (case e of None \<Rightarrow> False | Some ev \<Rightarrow> E_Enabled ev)"

lemma Allowed_simps [simp, authz_simps]: "Allowed Allow" "\<not> Allowed (Deny reason)"
  by (simp_all add: Allow_def Deny_def)

lemma checkBits_grants [authz_simps]:
  "Allowed (checkBits m a True g) \<longleftrightarrow> grants m TentacleOwner a"
  "Allowed (checkBits m a False True) \<longleftrightarrow> grants m Member a"
  "Allowed (checkBits m a False False) \<longleftrightarrow> grants m Other a"
  by (cases a; simp add: checkBits_def mode_tests)+

lemma CheckEnclave_not_enforcing: "\<not> enforcing e \<Longrightarrow> CheckEnclave e d ann a = Allow"
  by (auto simp: CheckEnclave_def enforcing_def split: option.splits)

lemma CheckTentacle_not_enforcing: "\<not> enforcing e \<Longrightarrow> CheckTentacle e d ann tann a = Allow"
  by (auto simp: CheckTentacle_def enforcing_def split: option.splits)

lemma CheckEnclave_enforcing:
  "enforcing e \<Longrightarrow> Allowed (CheckEnclave e (Some d) ann a) \<longleftrightarrow>
     Provider d = ''bearer-token'' \<or>
     IsEnclave ann \<and> grants (resolve_mode DefaultEnclaveMode ann) (enclave_role d ann) a"
  by (auto simp: CheckEnclave_def enforcing_def enclave_role_def same_email_def is_member_def IsEnclave_def
      Let_def checkBits_grants split: option.splits)

lemma CheckEnclave_no_deployer:
  "enforcing e \<Longrightarrow> \<not> Allowed (CheckEnclave e None ann a)"
  by (auto simp: CheckEnclave_def enforcing_def split: option.splits)

lemma CheckTentacle_no_deployer:
  "enforcing e \<Longrightarrow> \<not> Allowed (CheckTentacle e None ann tann a)"
  by (auto simp: CheckTentacle_def enforcing_def split: option.splits)

text \<open>The specification of the two checks as a table of roles.\<close>

definition enclave_access :: "Evaluator option \<Rightarrow> DeployerInfo option \<Rightarrow> strmap \<Rightarrow> Action \<Rightarrow> bool" where
  "enclave_access e deployer enclaveAnn a =
     (if enforcing e then
        (case deployer of None \<Rightarrow> False | Some d \<Rightarrow>
           (case enclave_role d enclaveAnn of
              Operator \<Rightarrow> True
            | r \<Rightarrow> IsEnclave enclaveAnn \<and> grants (resolve_mode DefaultEnclaveMode enclaveAnn) r a))
      else True)"

definition tentacle_access ::
  "Evaluator option \<Rightarrow> DeployerInfo option \<Rightarrow> strmap \<Rightarrow> strmap \<Rightarrow> Action \<Rightarrow> bool" where
  "tentacle_access e deployer enclaveAnn tentacleAnn a =
     (if enforcing e then
        (case deployer of None \<Rightarrow> False | Some d \<Rightarrow>
           (case tentacle_role d enclaveAnn tentacleAnn of
              Operator \<Rightarrow> True
            | EnclaveOwner \<Rightarrow> True
            | r \<Rightarrow> enclave_access e deployer enclaveAnn a \<and>
                  grants (resolve_mode DefaultEnclaveMode tentacleAnn) r a))
      else True)"

lemma enclave_role_operator_iff: "enclave_role d ann = Operator \<longleftrightarrow> Provider d = ''bearer-token''"
  by (simp add: enclave_role_def)

lemma enclave_role_not_tentacle [simp]: "enclave_role d ann \<noteq> TentacleOwner"
  by (simp add: enclave_role_def)

lemma CheckEnclave_access: "Allowed (CheckEnclave e deployer ann a) = enclave_access e deployer ann a"
proof (cases "enforcing e")
  case True
  show ?thesis
  proof (cases deployer)
    case None
    then show ?thesis using True by (simp add: enclave_access_def CheckEnclave_no_deployer)
  next
    case (Some d)
    then show ?thesis
      using True by (auto simp: enclave_access_def CheckEnclave_enforcing
          simp flip: enclave_role_operator_iff [of d ann] split: role.splits)
  qed
qed (simp add: enclave_access_def CheckEnclave_not_enforcing)

text \<open>C10: the enclave check allows an action exactly when the role model does: without a running
  evaluator everything; otherwise nothing to a caller without identity, everything to the
  operator, and inside an enclave everything to its owner, the member bits to its members
  and the other bits to everybody else.\<close>

theorem CheckEnclave_implements_roles:
  "Allowed (CheckEnclave e deployer enclaveAnn a) = enclave_access e deployer enclaveAnn a"
  by (rule CheckEnclave_access)

lemma CheckTentacle_access:
  "Allowed (CheckTentacle e deployer ann tann a) = tentacle_access e deployer ann tann a"
proof (cases "enforcing e")
  case True
  then obtain ev where e: "e = Some ev" "E_Enabled ev"
    by (cases e) (auto simp: enforcing_def)
  show ?thesis
  proof (cases deployer)
    case None
    then show ?thesis using True by (simp add: tentacle_access_def CheckTentacle_no_deployer)
  next
    case (Some d)
    have "CheckTentacle e (Some d) ann tann a =
      (if enclave_role d ann \<in> {Operator, EnclaveOwner} then Allow
       else if \<not> Allowed (CheckEnclave e (Some d) ann a) then CheckEnclave e (Some d) ann a
       else if same_email (Email d) (mget tann AnnotationOwner)
       then checkBits (resolve_mode DefaultEnclaveMode tann) a True False
       else checkBits (resolve_mode DefaultEnclaveMode tann) a False (is_member d ann))"
      unfolding CheckTentacle_def
      by (auto simp: e Let_def enclave_role_def same_email_def is_member_def)
    then show ?thesis
      using True Some
      by (auto simp: tentacle_access_def tentacle_role_def CheckEnclave_access checkBits_grants enclave_role_def
          split: role.splits if_splits)
  qed
qed (simp add: tentacle_access_def CheckTentacle_not_enforcing)


text \<open>Inside an enclave the tentacle layer only restricts: what the tentacle check allows,
  the enclave check allows.\<close>

theorem CheckTentacle_within_CheckEnclave:
  assumes "IsEnclave enclaveAnn" and "Allowed (CheckTentacle e deployer enclaveAnn tentacleAnn a)"
  shows "Allowed (CheckEnclave e deployer enclaveAnn a)"
  using assms
  by (auto simp: CheckTentacle_access CheckEnclave_access tentacle_access_def enclave_access_def
      tentacle_role_def split: if_splits option.splits role.splits)

definition sample_enclave :: strmap where
  "sample_enclave =
     [AnnotationEnclave \<mapsto> ''lab'', AnnotationEnclaveOwner \<mapsto> ''Ann@x'', AnnotationEnclaveMembers \<mapsto> ''bob@x, Cy@x'']"

theorem CheckTentacle_within_CheckEnclave_witness:
  "Allowed (CheckEnclave (Some (NewEvaluator DefaultMode)) (Some sample_deployer) sample_enclave Write)"
proof (rule CheckTentacle_within_CheckEnclave [where tentacleAnn = Map.empty])
  show "IsEnclave sample_enclave" by (simp add: IsEnclave_def sample_enclave_def)
  show "Allowed (CheckTentacle (Some (NewEvaluator DefaultMode)) (Some sample_deployer) sample_enclave Map.empty Write)"
    by code_simp
qed

section \<open>What both checks promise\<close>

locale access_check =
  fixes check :: "Evaluator option \<Rightarrow> DeployerInfo option \<Rightarrow> strmap \<Rightarrow> Action \<Rightarrow> Decision"
  assumes off: "\<not> enforcing e \<Longrightarrow> check e deployer ann a = Allow"
    and anonymous: "enforcing e \<Longrightarrow> \<not> Allowed (check e None ann a)"
    and operator: "Provider d = ''bearer-token'' \<Longrightarrow> check e (Some d) ann a = Allow"
    and owner: "IsEnclave ann \<Longrightarrow> same_email (Email d) (mget ann AnnotationEnclaveOwner) \<Longrightarrow>
      check e (Some d) ann a = Allow"
    and email_case: "check e (Some (d\<lparr>Email := ToLower (Email d)\<rparr>)) ann a = check e (Some d) ann a"
begin

lemma allowed_needs_identity: "enforcing e \<Longrightarrow> Allowed (check e deployer ann a) \<Longrightarrow> deployer \<noteq> None"
  using anonymous by (cases deployer) auto

lemma email_variants_agree:
  assumes "ToLower x = ToLower y"
  shows "check e (Some (d\<lparr>Email := x\<rparr>)) ann a = check e (Some (d\<lparr>Email := y\<rparr>)) ann a"
  using email_case [of e "d\<lparr>Email := x\<rparr>" ann a] email_case [of e "d\<lparr>Email := y\<rparr>" ann a] assms
  by simp

lemma no_identity_fails_closed: "Allowed (check e None ann a) \<longleftrightarrow> \<not> enforcing e"
  using off anonymous by (metis Allowed_simps(1))

end

lemma same_email_ToLower [simp]: "same_email (ToLower x) y = same_email x y"
  by (simp add: same_email_def)

lemma is_member_ToLower [simp]: "is_member (d\<lparr>Email := ToLower (Email d)\<rparr>) ann = is_member d ann"
  by (simp add: is_member_def)

interpretation enclave_check: access_check CheckEnclave
proof unfold_locales
  show "CheckEnclave e deployer ann a = Allow" if "\<not> enforcing e" for e deployer ann a
    using that by (rule CheckEnclave_not_enforcing)
  show "\<not> Allowed (CheckEnclave e None ann a)" if "enforcing e" for e ann a
    using that by (rule CheckEnclave_no_deployer)
qed (auto simp: CheckEnclave_def same_email_def IsEnclave_def Let_def split: option.split)

interpretation tentacle_check: access_check "\<lambda>e d ann. CheckTentacle e d ann tentacleAnn" for tentacleAnn
proof unfold_locales
  show "CheckTentacle e deployer ann tentacleAnn a = Allow" if "\<not> enforcing e" for e deployer ann a
    using that by (rule CheckTentacle_not_enforcing)
  show "\<not> Allowed (CheckTentacle e None ann tentacleAnn a)" if "enforcing e" for e ann a
    using that by (rule CheckTentacle_no_deployer)
qed (auto simp: CheckTentacle_def same_email_def Let_def enclave_check.email_case split: option.split)

text \<open>The decision does not depend on the letter case of the caller's e-mail address, for the
  enclave check and for the tentacle check.\<close>

theorem access_ignores_email_case:
  assumes "ToLower x = ToLower y"
  shows "CheckEnclave e (Some (d\<lparr>Email := x\<rparr>)) ann a = CheckEnclave e (Some (d\<lparr>Email := y\<rparr>)) ann a \<and>
    CheckTentacle e (Some (d\<lparr>Email := x\<rparr>)) ann tann a = CheckTentacle e (Some (d\<lparr>Email := y\<rparr>)) ann tann a"
  using enclave_check.email_variants_agree [OF assms] tentacle_check.email_variants_agree [OF assms] by blast

theorem access_ignores_email_case_witness:
  "CheckEnclave None (Some (sample_deployer\<lparr>Email := ''Ann@x''\<rparr>)) sample_enclave Read =
     CheckEnclave None (Some (sample_deployer\<lparr>Email := ''aNN@x''\<rparr>)) sample_enclave Read \<and>
   CheckTentacle None (Some (sample_deployer\<lparr>Email := ''Ann@x''\<rparr>)) sample_enclave Map.empty Read =
     CheckTentacle None (Some (sample_deployer\<lparr>Email := ''aNN@x''\<rparr>)) sample_enclave Map.empty Read"
  by (rule access_ignores_email_case) code_simp

text \<open>An enforcing evaluator denies every request without an identity, at both layers; only an
  absent or disabled evaluator lets it pass.\<close>

theorem anonymous_fails_closed:
  "Allowed (CheckEnclave e None ann a) \<longleftrightarrow> \<not> enforcing e"
  by (rule enclave_check.no_identity_fails_closed)

section \<open>Monotonicity and the default mode\<close>

definition mode_le :: "mode \<Rightarrow> mode \<Rightarrow> bool" where
  "mode_le m1 m2 \<longleftrightarrow> m1 AND m2 = m1"

lemma mode_le_bit: "mode_le m1 m2 \<Longrightarrow> bit m1 n \<Longrightarrow> bit m2 n"
  unfolding mode_le_def by (metis bit_and_iff)

lemma grants_mono: "mode_le m1 m2 \<Longrightarrow> grants m1 r a \<Longrightarrow> grants m2 r a"
  by (cases r; cases a) (auto dest: mode_le_bit)

text \<open>Adding permission bits to the mode of the enclave and of the tentacle never takes access
  away, from anybody.\<close>

theorem tentacle_access_monotone:
  assumes "mode_le m1 m2" and "mode_le t1 t2"
    and "Allowed (CheckTentacle e deployer (ann(AnnotationMode \<mapsto> ModeString m1))
           (tann(AnnotationMode \<mapsto> ModeString t1)) a)"
  shows "Allowed (CheckTentacle e deployer (ann(AnnotationMode \<mapsto> ModeString m2))
           (tann(AnnotationMode \<mapsto> ModeString t2)) a)"
proof -
  have mode: "resolve_mode dflt (x(AnnotationMode \<mapsto> ModeString m)) = m AND mask 9" for dflt x m
    by (rule resolve_mode_written) simp
  have le: "mode_le (u AND mask 9) (v AND mask 9)" if "mode_le u v" for u v
    using that by (auto simp: mode_le_def bit_eq_iff bit_simps)
  have role: "enclave_role d (x(AnnotationMode \<mapsto> v)) = enclave_role d x"
    "tentacle_role d (x(AnnotationMode \<mapsto> v)) (y(AnnotationMode \<mapsto> w)) = tentacle_role d x y"
    "IsEnclave (x(AnnotationMode \<mapsto> v)) = IsEnclave x" for d x y v w
    by (simp_all add: enclave_role_def tentacle_role_def is_member_def IsEnclave_def)
  show ?thesis
    using assms(3) grants_mono [OF le [OF assms(1)]] grants_mono [OF le [OF assms(2)]]
    by (auto simp: CheckTentacle_access tentacle_access_def enclave_access_def mode role
        split: if_splits option.splits role.splits)
qed

theorem tentacle_access_monotone_witness:
  "Allowed (CheckTentacle (Some (NewEvaluator DefaultMode)) (Some sample_deployer)
     (sample_enclave(AnnotationMode \<mapsto> ModeString ModeGroupRead)) ([AnnotationMode \<mapsto> ModeString DefaultMode]) Read)"
proof (rule tentacle_access_monotone [of 0 _ 0])
  show "Allowed (CheckTentacle (Some (NewEvaluator DefaultMode)) (Some sample_deployer)
     (sample_enclave(AnnotationMode \<mapsto> ModeString 0)) ([AnnotationMode \<mapsto> ModeString 0]) Read)"
    by code_simp
qed (simp_all add: mode_le_def)

lemma DefaultEnclaveMode_bits: "bit DefaultEnclaveMode n \<longleftrightarrow> n \<in> {3, 4, 5, 6, 7, 8}"
  by (auto simp: DefaultEnclaveMode_def presets_def owner_all_def group_all_def bit_or_iff)

text \<open>With no mode annotation on enclave and tentacle, an enforcing evaluator allows a caller an
  action exactly when it is the operator, the owner of the enclave, or a member of it; a
  stranger is allowed nothing.\<close>

theorem default_access_is_membership:
  "enforcing e \<and> IsEnclave ann \<and> ann AnnotationMode = None \<and> tann AnnotationMode = None \<Longrightarrow>
     Allowed (CheckTentacle e (Some d) ann tann a) \<longleftrightarrow> enclave_role d ann \<noteq> Other"
  by (cases a; cases "enclave_role d ann")
    (auto simp: CheckTentacle_access tentacle_access_def enclave_access_def tentacle_role_def
      resolve_mode_def DefaultEnclaveMode_bits)

theorem default_access_is_membership_witness:
  "Allowed (CheckTentacle (Some (NewEvaluator DefaultMode)) (Some (sample_deployer\<lparr>Email := ''Bob@X''\<rparr>)) sample_enclave Map.empty Write) \<longleftrightarrow>
     enclave_role (sample_deployer\<lparr>Email := ''Bob@X''\<rparr>) sample_enclave \<noteq> Other"
  by (rule default_access_is_membership)
    (simp add: enforcing_def NewEvaluator_def IsEnclave_def sample_enclave_def)

end
