(* ===== verification/Kube_Api.thy ===== *)
theory Kube_Api
  imports Go_Strings
begin

text \<open>
  The Kubernetes objects the server handles and the client it talks through. The API server
  and client-go are not part of the program: a client is a value of the record type
  \<open>'s kube\<close>, a bundle of calls over an unknown world \<open>'s\<close>, and the definitions that use it take
  it as an argument. A read inspects the world and may fail; a write may fail and always
  leaves some world behind. Nothing else is assumed of a client here; where a proof needs
  more, the law is a named predicate (\<open>ns_store\<close>, \<open>dep_frame\<close>, \<dots>) that appears as
  a hypothesis, and \<open>mem_kube\<close> is an in-memory client that satisfies them.
\<close>

datatype api_err = NotFound | AlreadyExists | Conflict | OtherErr string

record Namespace =
  N_Name :: string
  N_Labels :: strmap
  N_Annotations :: strmap
  N_Phase :: string
  N_ResourceVersion :: nat

record Deployment =
  D_Name :: string
  D_Namespace :: string
  D_Labels :: strmap
  D_Annotations :: strmap
  D_ResourceVersion :: nat

record NetPeer =
  Peer_NamespaceSelector :: strmap
  Peer_PodSelector :: strmap

record EgressRule =
  Egress_Ports :: "(string \<times> nat) list"
  Egress_To :: "NetPeer list"

record NetworkPolicy =
  NP_Name :: string
  NP_Labels :: strmap
  NP_PodSelector :: strmap
  NP_PolicyTypes :: "string list"
  NP_Egress :: "EgressRule list"

record ResourceQuota =
  RQ_Name :: string
  RQ_Labels :: strmap
  RQ_Hard :: strmap

record LimitRange =
  LR_Name :: string
  LR_Labels :: strmap
  LR_DefaultRequest :: strmap
  LR_Default :: strmap

record ServiceAccount =
  SA_Name :: string
  SA_Labels :: strmap

record PolicyRule =
  PR_APIGroups :: "string list"
  PR_Resources :: "string list"
  PR_Verbs :: "string list"

record RoleObj =
  RO_Name :: string
  RO_Labels :: strmap
  RO_Rules :: "PolicyRule list"

record RoleBinding =
  RB_Name :: string
  RB_Labels :: strmap
  RB_Subjects :: "(string \<times> string \<times> string) list"
  RB_RoleRef :: "string \<times> string \<times> string"

record ConfigMap =
  CM_Name :: string
  CM_Labels :: strmap
  CM_Data :: strmap
  CM_ResourceVersion :: nat

type_synonym ('s, 'a) kread = "'s \<Rightarrow> api_err + 'a"
type_synonym ('s, 'a) kwrite = "('s, api_err, 'a) comp"

record 's kube =
  ns_get :: "string \<Rightarrow> ('s, Namespace) kread"
  ns_list :: "string \<Rightarrow> ('s, Namespace list) kread"
  ns_create :: "Namespace \<Rightarrow> ('s, Namespace) kwrite"
  ns_update :: "Namespace \<Rightarrow> ('s, Namespace) kwrite"
  ns_delete :: "string \<Rightarrow> ('s, unit) kwrite"
  dep_get :: "string \<Rightarrow> string \<Rightarrow> ('s, Deployment) kread"
  dep_list :: "string \<Rightarrow> string \<Rightarrow> ('s, Deployment list) kread"
  dep_update :: "string \<Rightarrow> Deployment \<Rightarrow> ('s, Deployment) kwrite"
  dep_delete :: "string \<Rightarrow> string \<Rightarrow> ('s, unit) kwrite"
  netpol_create :: "string \<Rightarrow> NetworkPolicy \<Rightarrow> ('s, NetworkPolicy) kwrite"
  quota_get :: "string \<Rightarrow> string \<Rightarrow> ('s, ResourceQuota) kread"
  quota_create :: "string \<Rightarrow> ResourceQuota \<Rightarrow> ('s, ResourceQuota) kwrite"
  quota_update :: "string \<Rightarrow> ResourceQuota \<Rightarrow> ('s, ResourceQuota) kwrite"
  limits_create :: "string \<Rightarrow> LimitRange \<Rightarrow> ('s, LimitRange) kwrite"
  sa_create :: "string \<Rightarrow> ServiceAccount \<Rightarrow> ('s, ServiceAccount) kwrite"
  sa_delete :: "string \<Rightarrow> string \<Rightarrow> ('s, unit) kwrite"
  role_create :: "string \<Rightarrow> RoleObj \<Rightarrow> ('s, RoleObj) kwrite"
  rolebinding_create :: "string \<Rightarrow> RoleBinding \<Rightarrow> ('s, RoleBinding) kwrite"
  cm_get :: "string \<Rightarrow> string \<Rightarrow> ('s, ConfigMap) kread"
  cm_create :: "string \<Rightarrow> ConfigMap \<Rightarrow> ('s, ConfigMap) kwrite"
  cm_update :: "string \<Rightarrow> ConfigMap \<Rightarrow> ('s, ConfigMap) kwrite"

section \<open>Documented behaviour of the API server\<close>

text \<open>A read right after a successful update of a namespace returns the annotations and labels
  that were written.\<close>

definition ns_store :: "'s kube \<Rightarrow> bool" where
  "ns_store k \<longleftrightarrow>
     (\<forall>ns s ns' s'. ns_update k ns s = (Inr ns', s') \<longrightarrow>
        (\<exists>ns2. ns_get k (N_Name ns) s' = Inr ns2 \<and>
           N_Annotations ns2 = N_Annotations ns \<and> N_Labels ns2 = N_Labels ns))"

text \<open>A successful deletion leaves the namespace gone or terminating, and a namespace that is
  fetched or created has the name it was asked for.\<close>

definition ns_names :: "'s kube \<Rightarrow> bool" where
  "ns_names k \<longleftrightarrow> (\<forall>name s ns. ns_get k name s = Inr ns \<longrightarrow> N_Name ns = name)"

definition ns_gone :: "'s kube \<Rightarrow> string \<Rightarrow> 's \<Rightarrow> bool" where
  "ns_gone k name s \<longleftrightarrow>
     (case ns_get k name s of Inl e \<Rightarrow> e = NotFound | Inr ns \<Rightarrow> N_Phase ns = ''Terminating'')"

definition ns_deletes :: "'s kube \<Rightarrow> bool" where
  "ns_deletes k \<longleftrightarrow> (\<forall>name s u s'. ns_delete k name s = (Inr u, s') \<longrightarrow> ns_gone k name s')"

text \<open>Listing with the selector of the managed-by label returns only namespaces with the label.\<close>

definition ns_select :: "'s kube \<Rightarrow> bool" where
  "ns_select k \<longleftrightarrow>
     (\<forall>s l. ns_list k ''app.kubernetes.io/managed-by=tentacular'' s = Inr l \<longrightarrow>
        list_all (\<lambda>ns. mget (N_Labels ns) ''app.kubernetes.io/managed-by'' = ''tentacular'') l)"

text \<open>A ConfigMap that was created or updated is read back with the data that was written, and a
  fetched ConfigMap has the name it was asked for.\<close>

definition cm_store :: "'s kube \<Rightarrow> bool" where
  "cm_store k \<longleftrightarrow>
     (\<forall>ns cm s cm' s'. cm_update k ns cm s = (Inr cm', s') \<or> cm_create k ns cm s = (Inr cm', s') \<longrightarrow>
        (\<exists>cm2. cm_get k ns (CM_Name cm) s' = Inr cm2 \<and> CM_Data cm2 = CM_Data cm)) \<and>
     (\<forall>ns n s cm. cm_get k ns n s = Inr cm \<longrightarrow> CM_Name cm = n)"

end
