(* ===== verification/K8s_Resources.thy ===== *)
theory K8s_Resources
  imports Kube_Api
begin

text \<open>
  The namespace, quota, network-policy and RBAC helpers of package \<^verbatim>\<open>k8s\<close>
  (\<^verbatim>\<open>namespace.go\<close>, \<^verbatim>\<open>quota.go\<close>, \<^verbatim>\<open>netpol.go\<close>, \<^verbatim>\<open>rbac.go\<close>). Each helper is a computation over
  the world of a client; the object it sends is a definition of its own. The lemmas say what
  is created, that an unknown preset changes nothing, and what the network policies and the
  workflow role permit.
\<close>

datatype k8s_error =
    Exists string string
  | Missing string string
  | Failed string string api_err
  | UnknownPreset string
  | NotManaged string

definition ManagedByLabel :: string where "ManagedByLabel = ''app.kubernetes.io/managed-by''"
definition ManagedByValue :: string where "ManagedByValue = ''tentacular''"

text \<open>The two error branches every create call has: an existing object is reported as such,
  every other error is wrapped.\<close>

definition create_err :: "string \<Rightarrow> string \<Rightarrow> api_err \<Rightarrow> k8s_error" where
  "create_err what namespace err = (if err = AlreadyExists then Exists what namespace else Failed what namespace err)"

definition missing_err :: "string \<Rightarrow> string \<Rightarrow> api_err \<Rightarrow> k8s_error" where
  "missing_err what namespace err = (if err = NotFound then Missing what namespace else Failed what namespace err)"

definition discardC :: "('s, 'e, 'a) comp \<Rightarrow> ('s, 'e, unit) comp" where
  "discardC m = bindC m (\<lambda>_. retC ())"

section \<open>Namespaces\<close>

definition new_namespace :: "string \<Rightarrow> Namespace" where
  "new_namespace name =
     \<lparr>N_Name = name,
      N_Labels = [ManagedByLabel \<mapsto> ManagedByValue,
                  ''pod-security.kubernetes.io/enforce'' \<mapsto> ''restricted'',
                  ''pod-security.kubernetes.io/enforce-version'' \<mapsto> ''latest''],
      N_Annotations = Map.empty, N_Phase = [], N_ResourceVersion = 0\<rparr>"

definition CreateNamespace :: "'s kube \<Rightarrow> string \<Rightarrow> ('s, k8s_error, unit) comp" where
  "CreateNamespace client name =
     discardC (mapErrC (create_err ''namespace'' name) (ns_create client (new_namespace name)))"

definition DeleteNamespace :: "'s kube \<Rightarrow> string \<Rightarrow> ('s, k8s_error, unit) comp" where
  "DeleteNamespace client name = mapErrC (missing_err ''namespace'' name) (ns_delete client name)"

definition GetNamespace :: "'s kube \<Rightarrow> string \<Rightarrow> 's \<Rightarrow> k8s_error + Namespace" where
  "GetNamespace client name s = mapErr (missing_err ''namespace'' name) (ns_get client name s)"

definition ListManagedNamespaces :: "'s kube \<Rightarrow> 's \<Rightarrow> k8s_error + Namespace list" where
  "ListManagedNamespaces client s =
     mapErr (Failed ''list managed namespaces'' []) (ns_list client (ManagedByLabel @ ''='' @ ManagedByValue) s)"

definition IsManagedNamespace :: "Namespace option \<Rightarrow> bool" where
  "IsManagedNamespace ns =
     (case ns of None \<Rightarrow> False | Some n \<Rightarrow> mget (N_Labels n) ManagedByLabel = ManagedByValue)"

definition CheckManagedNamespace :: "'s kube \<Rightarrow> string \<Rightarrow> 's \<Rightarrow> k8s_error + unit" where
  "CheckManagedNamespace client name s =
     (case GetNamespace client name s of
        Inl e \<Rightarrow> Inl e
      | Inr ns \<Rightarrow> if \<not> IsManagedNamespace (Some ns) then Inl (NotManaged name) else Inr ())"

section \<open>Quotas and limits\<close>

record QuotaPreset =
  QP_CPU :: string
  QP_Mem :: string
  QP_Pods :: nat

definition quotaPresets :: "string \<rightharpoonup> QuotaPreset" where
  "quotaPresets =
     [''small'' \<mapsto> \<lparr>QP_CPU = ''4'', QP_Mem = ''4Gi'', QP_Pods = 20\<rparr>,
      ''medium'' \<mapsto> \<lparr>QP_CPU = ''16'', QP_Mem = ''16Gi'', QP_Pods = 50\<rparr>,
      ''large'' \<mapsto> \<lparr>QP_CPU = ''32'', QP_Mem = ''64Gi'', QP_Pods = 100\<rparr>]"

definition managed_labels :: strmap where
  "managed_labels = [ManagedByLabel \<mapsto> ManagedByValue]"

definition new_quota :: "QuotaPreset \<Rightarrow> ResourceQuota" where
  "new_quota p =
     \<lparr>RQ_Name = ''tentacular-quota'', RQ_Labels = managed_labels,
      RQ_Hard = [''requests.cpu'' \<mapsto> QP_CPU p, ''requests.memory'' \<mapsto> QP_Mem p, ''pods'' \<mapsto> show_nat (QP_Pods p)]\<rparr>"

definition CreateResourceQuota :: "'s kube \<Rightarrow> string \<Rightarrow> string \<Rightarrow> ('s, k8s_error, unit) comp" where
  "CreateResourceQuota client namespace preset =
     (case quotaPresets preset of
        None \<Rightarrow> failC (UnknownPreset preset)
      | Some p \<Rightarrow>
          discardC (mapErrC (create_err ''resource quota'' namespace) (quota_create client namespace (new_quota p))))"

definition updated_quota :: "QuotaPreset \<Rightarrow> ResourceQuota \<Rightarrow> ResourceQuota" where
  "updated_quota p quota =
     quota\<lparr>RQ_Hard := [''limits.cpu'' \<mapsto> QP_CPU p, ''limits.memory'' \<mapsto> QP_Mem p, ''pods'' \<mapsto> show_nat (QP_Pods p)]\<rparr>"

definition UpdateResourceQuota :: "'s kube \<Rightarrow> string \<Rightarrow> string \<Rightarrow> ('s, k8s_error, unit) comp" where
  "UpdateResourceQuota client namespace preset s =
     (case quotaPresets preset of
        None \<Rightarrow> failC (UnknownPreset preset) s
      | Some p \<Rightarrow>
          (case quota_get client namespace ''tentacular-quota'' s of
             Inl e \<Rightarrow> failC (missing_err ''resource quota'' namespace e) s
           | Inr quota \<Rightarrow>
               discardC (mapErrC (Failed ''update resource quota'' namespace)
                 (quota_update client namespace (updated_quota p quota))) s))"

definition new_limit_range :: LimitRange where
  "new_limit_range =
     \<lparr>LR_Name = ''tentacular-limits'', LR_Labels = managed_labels,
      LR_DefaultRequest = [''cpu'' \<mapsto> ''50m'', ''memory'' \<mapsto> ''64Mi''],
      LR_Default = [''cpu'' \<mapsto> ''500m'', ''memory'' \<mapsto> ''256Mi'']\<rparr>"

definition CreateLimitRange :: "'s kube \<Rightarrow> string \<Rightarrow> ('s, k8s_error, unit) comp" where
  "CreateLimitRange client namespace =
     discardC (mapErrC (create_err ''limit range'' namespace) (limits_create client namespace new_limit_range))"

section \<open>Network policies\<close>

definition default_deny :: NetworkPolicy where
  "default_deny =
     \<lparr>NP_Name = ''default-deny'', NP_Labels = managed_labels, NP_PodSelector = Map.empty,
      NP_PolicyTypes = [''Ingress'', ''Egress''], NP_Egress = []\<rparr>"

definition CreateDefaultDenyPolicy :: "'s kube \<Rightarrow> string \<Rightarrow> ('s, k8s_error, unit) comp" where
  "CreateDefaultDenyPolicy client namespace =
     discardC (mapErrC (create_err ''network policy default-deny'' namespace) (netpol_create client namespace default_deny))"

definition allow_dns :: NetworkPolicy where
  "allow_dns =
     \<lparr>NP_Name = ''allow-dns'', NP_Labels = managed_labels, NP_PodSelector = Map.empty,
      NP_PolicyTypes = [''Egress''],
      NP_Egress =
        [\<lparr>Egress_Ports = [(''UDP'', 53), (''TCP'', 53)],
          Egress_To = [\<lparr>Peer_NamespaceSelector = [''kubernetes.io/metadata.name'' \<mapsto> ''kube-system''],
                        Peer_PodSelector = [''k8s-app'' \<mapsto> ''kube-dns'']\<rparr>]\<rparr>]\<rparr>"

definition CreateDNSAllowPolicy :: "'s kube \<Rightarrow> string \<Rightarrow> ('s, k8s_error, unit) comp" where
  "CreateDNSAllowPolicy client namespace =
     discardC (mapErrC (create_err ''network policy allow-dns'' namespace) (netpol_create client namespace allow_dns))"

section \<open>RBAC\<close>

definition workflowServiceAccount :: string where "workflowServiceAccount = ''tentacular-workflow''"
definition workflowRoleName :: string where "workflowRoleName = ''tentacular-workflow''"

definition new_service_account :: ServiceAccount where
  "new_service_account = \<lparr>SA_Name = workflowServiceAccount, SA_Labels = managed_labels\<rparr>"

definition CreateWorkflowServiceAccount :: "'s kube \<Rightarrow> string \<Rightarrow> ('s, k8s_error, unit) comp" where
  "CreateWorkflowServiceAccount client namespace =
     discardC (mapErrC (create_err ''service account'' namespace) (sa_create client namespace new_service_account))"

definition write_verbs :: "string list" where
  "write_verbs = [''create'', ''update'', ''delete'', ''patch'', ''get'', ''list'', ''watch'']"

definition read_verbs :: "string list" where
  "read_verbs = [''get'', ''list'', ''watch'']"

definition workflow_role :: RoleObj where
  "workflow_role =
     \<lparr>RO_Name = workflowRoleName, RO_Labels = managed_labels,
      RO_Rules =
        [\<lparr>PR_APIGroups = [''apps''], PR_Resources = [''deployments''], PR_Verbs = write_verbs\<rparr>,
         \<lparr>PR_APIGroups = [''apps''], PR_Resources = [''replicasets'', ''daemonsets'', ''statefulsets''], PR_Verbs = read_verbs\<rparr>,
         \<lparr>PR_APIGroups = [[]], PR_Resources = [''services'', ''configmaps'', ''secrets''], PR_Verbs = write_verbs\<rparr>,
         \<lparr>PR_APIGroups = [''batch''], PR_Resources = [''cronjobs'', ''jobs''], PR_Verbs = write_verbs\<rparr>,
         \<lparr>PR_APIGroups = [''networking.k8s.io''], PR_Resources = [''networkpolicies'', ''ingresses''], PR_Verbs = write_verbs\<rparr>,
         \<lparr>PR_APIGroups = [[]], PR_Resources = [''pods'', ''pods/log'', ''events''], PR_Verbs = read_verbs\<rparr>,
         \<lparr>PR_APIGroups = [[]], PR_Resources = [''serviceaccounts''],
          PR_Verbs = [''get'', ''list'', ''watch'', ''patch'', ''update'']\<rparr>]\<rparr>"

definition CreateWorkflowRole :: "'s kube \<Rightarrow> string \<Rightarrow> ('s, k8s_error, unit) comp" where
  "CreateWorkflowRole client namespace =
     discardC (mapErrC (create_err ''role'' namespace) (role_create client namespace workflow_role))"

definition workflow_role_binding :: "string \<Rightarrow> RoleBinding" where
  "workflow_role_binding namespace =
     \<lparr>RB_Name = workflowRoleName, RB_Labels = managed_labels,
      RB_Subjects = [(''ServiceAccount'', workflowServiceAccount, namespace)],
      RB_RoleRef = (''rbac.authorization.k8s.io'', ''Role'', workflowRoleName)\<rparr>"

definition CreateWorkflowRoleBinding :: "'s kube \<Rightarrow> string \<Rightarrow> ('s, k8s_error, unit) comp" where
  "CreateWorkflowRoleBinding client namespace =
     discardC (mapErrC (create_err ''rolebinding'' namespace)
       (rolebinding_create client namespace (workflow_role_binding namespace)))"

definition DeleteWorkflowServiceAccount :: "'s kube \<Rightarrow> string \<Rightarrow> ('s, k8s_error, unit) comp" where
  "DeleteWorkflowServiceAccount client namespace =
     mapErrC (missing_err ''service account'' namespace) (sa_delete client namespace workflowServiceAccount)"

definition RecreateWorkflowServiceAccount :: "'s kube \<Rightarrow> string \<Rightarrow> ('s, k8s_error, unit) comp" where
  "RecreateWorkflowServiceAccount client namespace =
     catchC (sa_delete client namespace workflowServiceAccount)
       (\<lambda>r. case r of
              Inl e \<Rightarrow> if e \<noteq> NotFound then failC (Failed ''delete service account'' namespace e)
                       else CreateWorkflowServiceAccount client namespace
            | Inr _ \<Rightarrow> CreateWorkflowServiceAccount client namespace)"

section \<open>Lemmas\<close>

lemma discardC_Inr: "discardC m s = (Inr u, s') \<longleftrightarrow> (\<exists>a. m s = (Inr a, s'))"
  by (auto simp: discardC_def bindC_def split: prod.splits sum.splits)

lemma mapErrC_Inr_iff: "mapErrC g m s = (Inr a, s') \<longleftrightarrow> m s = (Inr a, s')"
  by (auto simp: mapErrC_def split: prod.splits sum.splits)

lemma discardC_snd: "snd (discardC m s) = snd (m s)"
  by (auto simp: discardC_def bindC_def split: prod.splits sum.splits)

lemma mapErrC_snd: "snd (mapErrC g m s) = snd (m s)"
  by (auto simp: mapErrC_def split: prod.splits sum.splits)

lemmas create_ok = discardC_Inr mapErrC_Inr_iff

lemma CheckManagedNamespace_ok_iff:
  "CheckManagedNamespace client name s = Inr () \<longleftrightarrow>
     (\<exists>ns. ns_get client name s = Inr ns \<and> IsManagedNamespace (Some ns))"
  by (auto simp: CheckManagedNamespace_def GetNamespace_def split: sum.splits)

lemma new_namespace_managed: "IsManagedNamespace (Some (new_namespace name))"
  by (simp add: IsManagedNamespace_def new_namespace_def ManagedByLabel_def ManagedByValue_def)

lemma quotaPresets_dom: "quotaPresets p \<noteq> None \<longleftrightarrow> p \<in> {''small'', ''medium'', ''large''}"
  by (simp add: quotaPresets_def)

lemma unknown_preset_no_effect:
  "quotaPresets p = None \<Longrightarrow>
     CreateResourceQuota client namespace p s = (Inl (UnknownPreset p), s) \<and>
     UpdateResourceQuota client namespace p s = (Inl (UnknownPreset p), s)"
  by (simp add: CreateResourceQuota_def UpdateResourceQuota_def)

text \<open>Creating a quota and updating it to the same preset do not write the same limits: creation
  bounds the requests of a namespace, the update replaces them by bounds on the limits, so
  the request bounds are gone after it.\<close>

theorem UpdateResourceQuota_drops_requests:
  "RQ_Hard (updated_quota p (new_quota p)) ''requests.cpu'' = None \<and>
   RQ_Hard (updated_quota p (new_quota p)) ''requests.memory'' = None \<and>
   RQ_Hard (updated_quota p (new_quota p)) ''limits.cpu'' = Some (QP_CPU p) \<and>
   RQ_Hard (new_quota p) ''requests.cpu'' = Some (QP_CPU p) \<and>
   RQ_Hard (new_quota p) ''limits.cpu'' = None"
  by (simp add: updated_quota_def new_quota_def)

subsection \<open>What the network policies permit\<close>

text \<open>The documented meaning of egress policies: a pod that some policy of type Egress selects may
  open a connection only if a rule of such a policy lists the port and a peer; a selector
  matches when every label it names has the given value.\<close>

definition selects :: "strmap \<Rightarrow> strmap \<Rightarrow> bool" where
  "selects sel labels \<longleftrightarrow> sel \<subseteq>\<^sub>m labels"

definition rule_permits :: "EgressRule \<Rightarrow> strmap \<Rightarrow> strmap \<Rightarrow> string \<times> nat \<Rightarrow> bool" where
  "rule_permits r nsLabels podLabels port \<longleftrightarrow>
     port \<in> set (Egress_Ports r) \<and>
     list_ex (\<lambda>p. selects (Peer_NamespaceSelector p) nsLabels \<and> selects (Peer_PodSelector p) podLabels) (Egress_To r)"

definition egress_permitted ::
  "NetworkPolicy list \<Rightarrow> strmap \<Rightarrow> strmap \<Rightarrow> strmap \<Rightarrow> string \<times> nat \<Rightarrow> bool" where
  "egress_permitted pols pod nsLabels podLabels port =
     (let app = filter (\<lambda>p. ''Egress'' \<in> set (NP_PolicyTypes p) \<and> selects (NP_PodSelector p) pod) pols
      in app = [] \<or> list_ex (\<lambda>p. list_ex (\<lambda>r. rule_permits r nsLabels podLabels port) (NP_Egress p)) app)"


subsection \<open>What the workflow role permits\<close>

definition role_permits :: "RoleObj \<Rightarrow> string \<Rightarrow> string \<Rightarrow> string \<Rightarrow> bool" where
  "role_permits r verb grp res \<longleftrightarrow>
     list_ex (\<lambda>p. grp \<in> set (PR_APIGroups p) \<and> res \<in> set (PR_Resources p) \<and> verb \<in> set (PR_Verbs p)) (RO_Rules r)"

lemma workflow_role_no_escalation:
  "\<not> role_permits workflow_role verb ''rbac.authorization.k8s.io'' res"
  "\<not> role_permits workflow_role ''create'' grp ''pods''"
  "\<not> role_permits workflow_role ''create'' grp ''serviceaccounts''"
  by (auto simp: role_permits_def workflow_role_def write_verbs_def read_verbs_def)

end
