(* ===== verification/Mem_Kube.thy ===== *)
theory Mem_Kube
  imports K8s_Resources "HOL-Library.AList"
begin

text \<open>
  A Kubernetes client whose world is a few association lists. It shows that the laws the
  proofs assume of the API server can hold together, and gives the concrete worlds on which
  the theorems with hypotheses are instantiated. It is not a model of any code.
\<close>

record mem =
  mem_ns :: "(string \<times> Namespace) list"
  mem_dep :: "((string \<times> string) \<times> Deployment) list"
  mem_quota :: "((string \<times> string) \<times> ResourceQuota) list"
  mem_cm :: "((string \<times> string) \<times> ConfigMap) list"
  mem_objs :: "(string \<times> string) list"

definition has_label :: "string \<Rightarrow> strmap \<Rightarrow> bool" where
  "has_label sel labels \<longleftrightarrow>
     sel = [] \<or> mget labels (takeWhile (\<lambda>c. c \<noteq> CHR ''='') sel) = tl (dropWhile (\<lambda>c. c \<noteq> CHR ''='') sel)"

definition fetch :: "('k \<times> 'v) list \<Rightarrow> 'k \<Rightarrow> api_err + 'v" where
  "fetch xs k = (case map_of xs k of None \<Rightarrow> Inl NotFound | Some v \<Rightarrow> Inr v)"

definition mem_put ::
  "('s \<Rightarrow> ('k \<times> 'v) list) \<Rightarrow> (('k \<times> 'v) list \<Rightarrow> 's \<Rightarrow> 's) \<Rightarrow> bool \<Rightarrow> 'k \<Rightarrow> 'v \<Rightarrow> ('s, api_err, 'v) comp" where
  "mem_put sel upd fresh k v s =
     (case map_of (sel s) k of
        None \<Rightarrow> if fresh then (Inr v, upd (AList.update k v (sel s)) s) else (Inl NotFound, s)
      | Some _ \<Rightarrow> if fresh then (Inl AlreadyExists, s) else (Inr v, upd (AList.update k v (sel s)) s))"

definition mem_del ::
  "('s \<Rightarrow> ('k \<times> 'v) list) \<Rightarrow> (('k \<times> 'v) list \<Rightarrow> 's \<Rightarrow> 's) \<Rightarrow> 'k \<Rightarrow> ('s, api_err, unit) comp" where
  "mem_del sel upd k s =
     (case map_of (sel s) k of None \<Rightarrow> (Inl NotFound, s) | Some _ \<Rightarrow> (Inr (), upd (AList.delete k (sel s)) s))"

definition mem_log :: "string \<Rightarrow> string \<Rightarrow> 'v \<Rightarrow> (mem, api_err, 'v) comp" where
  "mem_log what ns v s = (Inr v, s\<lparr>mem_objs := (what, ns) # mem_objs s\<rparr>)"

definition mem_kube :: "mem kube" where
  "mem_kube =
     \<lparr>ns_get = (\<lambda>n s. map_sum id (\<lambda>ns. ns\<lparr>N_Name := n\<rparr>) (fetch (mem_ns s) n)),
      ns_list = (\<lambda>sel s. Inr (filter (\<lambda>ns. has_label sel (N_Labels ns)) (map snd (mem_ns s)))),
      ns_create = (\<lambda>ns. mem_put mem_ns (\<lambda>x s. s\<lparr>mem_ns := x\<rparr>) True (N_Name ns) ns),
      ns_update = (\<lambda>ns. mem_put mem_ns (\<lambda>x s. s\<lparr>mem_ns := x\<rparr>) False (N_Name ns) ns),
      ns_delete = (\<lambda>n. mem_del mem_ns (\<lambda>x s. s\<lparr>mem_ns := x\<rparr>) n),
      dep_get = (\<lambda>ns n s. fetch (mem_dep s) (ns, n)),
      dep_list = (\<lambda>ns sel s. Inr (filter (\<lambda>d. has_label sel (D_Labels d)) (map snd (filter (\<lambda>x. fst (fst x) = ns) (mem_dep s))))),
      dep_update = (\<lambda>ns d. mem_put mem_dep (\<lambda>x s. s\<lparr>mem_dep := x\<rparr>) False (ns, D_Name d) d),
      dep_delete = (\<lambda>ns n. mem_del mem_dep (\<lambda>x s. s\<lparr>mem_dep := x\<rparr>) (ns, n)),
      netpol_create = (\<lambda>ns p. mem_log (''networkpolicy/'' @ NP_Name p) ns p),
      quota_get = (\<lambda>ns n s. fetch (mem_quota s) (ns, n)),
      quota_create = (\<lambda>ns q. mem_put mem_quota (\<lambda>x s. s\<lparr>mem_quota := x\<rparr>) True (ns, RQ_Name q) q),
      quota_update = (\<lambda>ns q. mem_put mem_quota (\<lambda>x s. s\<lparr>mem_quota := x\<rparr>) False (ns, RQ_Name q) q),
      limits_create = (\<lambda>ns l. mem_log (''limitrange/'' @ LR_Name l) ns l),
      sa_create = (\<lambda>ns a. mem_log (''serviceaccount/'' @ SA_Name a) ns a),
      sa_delete = (\<lambda>ns n. mem_log (''serviceaccount-deleted/'' @ n) ns ()),
      role_create = (\<lambda>ns r. mem_log (''role/'' @ RO_Name r) ns r),
      rolebinding_create = (\<lambda>ns r. mem_log (''rolebinding/'' @ RB_Name r) ns r),
      cm_get = (\<lambda>ns n s. map_sum id (\<lambda>cm. cm\<lparr>CM_Name := n\<rparr>) (fetch (mem_cm s) (ns, n))),
      cm_create = (\<lambda>ns c. mem_put mem_cm (\<lambda>x s. s\<lparr>mem_cm := x\<rparr>) True (ns, CM_Name c) c),
      cm_update = (\<lambda>ns c. mem_put mem_cm (\<lambda>x s. s\<lparr>mem_cm := x\<rparr>) False (ns, CM_Name c) c)\<rparr>"

lemma mem_ns_store: "ns_store mem_kube"
  by (auto simp: ns_store_def mem_kube_def mem_put_def fetch_def update_conv' split: option.splits)

lemma mem_ns_deletes: "ns_deletes mem_kube"
  by (auto simp: ns_deletes_def ns_gone_def mem_kube_def mem_del_def fetch_def delete_conv' split: option.splits)

lemma mem_ns_select: "ns_select mem_kube"
  by (auto simp: ns_select_def mem_kube_def has_label_def list_all_iff)

lemma mem_ns_names: "ns_names mem_kube"
  by (auto simp: ns_names_def mem_kube_def fetch_def split: option.splits)

lemma mem_cm_store: "cm_store mem_kube"
  by (auto simp: cm_store_def mem_kube_def mem_put_def fetch_def update_conv' split: option.splits)

definition empty_mem :: mem where
  "empty_mem = \<lparr>mem_ns = [], mem_dep = [], mem_quota = [], mem_cm = [], mem_objs = []\<rparr>"

end
