(* ===== verification/Scheduler.thy ===== *)
theory Scheduler
  imports Mem_Kube Authz_Annotations
begin

text \<open>
  The in-process cron scheduler (\<^verbatim>\<open>pkg/scheduler/scheduler.go\<close>, \<^verbatim>\<open>discover.go\<close>), the
  function of \<^verbatim>\<open>pkg/tools/deploy.go\<close> that keeps it in step with a Deployment, and the
  workflow trigger of \<^verbatim>\<open>pkg/k8s/run.go\<close>. The cron library is a record of two calls over an
  unknown state \<open>'c\<close>; the callback it is given is identified with the namespace and name it
  triggers. \<open>cron_laws\<close> states what the library documents. Every method of the scheduler holds
  its mutex for its whole body, so the methods are atomic steps on the state. The locale
  \<open>schedule_registry\<close> is the contract clients rely on: the table of schedules as a map.
\<close>

section \<open>Running a workflow\<close>

datatype http_result = ReqErr string | DoErr string bool | Resp nat "string + string"

datatype run_error =
    RunRequest string
  | RunTransport string
  | RunRead string
  | RunStatus nat string
  | RunDeadline run_error

definition tryRunOnce :: "http_result \<Rightarrow> (bool \<times> run_error) + string" where
  "tryRunOnce r =
     (case r of
        ReqErr e \<Rightarrow> Inl (False, RunRequest e)
      | DoErr e dial \<Rightarrow> Inl (dial, RunTransport e)
      | Resp status body \<Rightarrow>
          (case body of
             Inl e \<Rightarrow> Inl (False, RunRead e)
           | Inr b \<Rightarrow>
               if status < 200 \<or> status \<ge> 300 then Inl (False, RunStatus status b)
               else if b = [] then Inr ''null'' else Inr b))"

partial_function (option) run_loop ::
  "(nat \<Rightarrow> http_result) \<Rightarrow> (nat \<Rightarrow> bool) \<Rightarrow> nat \<Rightarrow> (run_error + string) option" where
  "run_loop http expired n =
     (case tryRunOnce (http n) of
        Inr body \<Rightarrow> Some (Inr body)
      | Inl (isConn, err) \<Rightarrow>
          if \<not> isConn then Some (Inl err)
          else if expired n then Some (Inl (RunDeadline err))
          else run_loop http expired (Suc n))"

definition RunWorkflow ::
  "(nat \<Rightarrow> string \<Rightarrow> string \<Rightarrow> http_result) \<Rightarrow> (nat \<Rightarrow> bool) \<Rightarrow> string \<Rightarrow> string \<Rightarrow> string \<Rightarrow>
     (run_error + string) option" where
  "RunWorkflow http expired namespace name input =
     (let payload = (if 0 < length input then input else ''{}'');
          url = ''http://'' @ name @ ''.'' @ namespace @ ''.svc.cluster.local:8080/run''
      in run_loop (\<lambda>n. http n url payload) expired 0)"

definition retries :: "(nat \<Rightarrow> http_result) \<Rightarrow> (nat \<Rightarrow> bool) \<Rightarrow> nat \<Rightarrow> bool" where
  "retries h expired n \<longleftrightarrow> (\<exists>err. tryRunOnce (h n) = Inl (True, err)) \<and> \<not> expired n"

lemma run_loop_retry: "retries h expired n \<Longrightarrow> run_loop h expired n = run_loop h expired (Suc n)"
  by (subst run_loop.simps) (auto simp: retries_def)

lemma run_loop_stop:
  "\<not> retries h expired n \<Longrightarrow>
     run_loop h expired n =
       Some (case tryRunOnce (h n) of
               Inr body \<Rightarrow> Inr body
             | Inl (isConn, err) \<Rightarrow> if isConn then Inl (RunDeadline err) else Inl err)"
  by (subst run_loop.simps) (auto simp: retries_def split: sum.splits prod.splits)

lemma run_loop_reaches:
  "\<forall>m. n \<le> m \<and> m < n + k \<longrightarrow> retries h expired m \<Longrightarrow> run_loop h expired n = run_loop h expired (n + k)"
proof (induction k)
  case (Suc k)
  then have "run_loop h expired n = run_loop h expired (n + k)" by simp
  also have "\<dots> = run_loop h expired (Suc (n + k))" using Suc.prems by (intro run_loop_retry) simp
  finally show ?case by simp
qed simp

definition stop_at :: "(nat \<Rightarrow> http_result) \<Rightarrow> (nat \<Rightarrow> bool) \<Rightarrow> nat" where
  "stop_at h expired = (LEAST n. \<not> retries h expired n)"

lemma run_loop_at_stop:
  assumes "\<not> retries h expired n"
  shows "run_loop h expired 0 = run_loop h expired (stop_at h expired) \<and> \<not> retries h expired (stop_at h expired) \<and>
    stop_at h expired \<le> n \<and> (\<forall>m < stop_at h expired. retries h expired m)"
proof -
  have stop: "\<not> retries h expired (stop_at h expired)"
    using assms unfolding stop_at_def by (rule LeastI)
  have before: "retries h expired m" if "m < stop_at h expired" for m
    using not_less_Least [of m "\<lambda>n. \<not> retries h expired n"] that unfolding stop_at_def by blast
  have "stop_at h expired \<le> n"
    using assms unfolding stop_at_def by (rule Least_le)
  with stop before run_loop_reaches [of 0 "stop_at h expired" h expired] show ?thesis by simp
qed

lemma run_loop_result:
  assumes "expired n"
  shows "\<exists>r. run_loop h expired 0 = Some r \<and>
      (\<forall>b. r = Inr b \<longleftrightarrow> (\<exists>k. tryRunOnce (h k) = Inr b \<and> (\<forall>m < k. retries h expired m)))"
proof -
  let ?k = "stop_at h expired"
  have "\<not> retries h expired n" using assms by (simp add: retries_def)
  note st = run_loop_at_stop [OF this]
  have r: "run_loop h expired 0 = Some (case tryRunOnce (h ?k) of Inr body \<Rightarrow> Inr body
             | Inl (isConn, err) \<Rightarrow> if isConn then Inl (RunDeadline err) else Inl err)"
    using st run_loop_stop [of h expired ?k] by simp
  have same: "k = ?k" if "tryRunOnce (h k) = Inr b" "\<forall>m < k. retries h expired m" for k b
  proof (rule linorder_cases [of k ?k])
    assume "k < ?k"
    then have "retries h expired k" using st by blast
    with that(1) show ?thesis by (auto simp: retries_def)
  qed (use st that(2) in \<open>simp_all\<close>)
  have "(case tryRunOnce (h ?k) of Inr body \<Rightarrow> Inr body
             | Inl (isConn, err) \<Rightarrow> if isConn then Inl (RunDeadline err) else Inl err) = Inr b \<longleftrightarrow>
      tryRunOnce (h ?k) = Inr b" for b
    by (cases "tryRunOnce (h ?k)") (auto split: prod.splits)
  moreover have "tryRunOnce (h ?k) = Inr b \<longleftrightarrow> (\<exists>k. tryRunOnce (h k) = Inr b \<and> (\<forall>m < k. retries h expired m))" for b
  proof
    assume "tryRunOnce (h ?k) = Inr b"
    with st show "\<exists>k. tryRunOnce (h k) = Inr b \<and> (\<forall>m < k. retries h expired m)" by blast
  next
    assume "\<exists>k. tryRunOnce (h k) = Inr b \<and> (\<forall>m < k. retries h expired m)"
    then obtain k where k: "tryRunOnce (h k) = Inr b" "\<forall>m < k. retries h expired m" by blast
    with same [OF k] show "tryRunOnce (h ?k) = Inr b" by simp
  qed
  ultimately show "\<exists>r. run_loop h expired 0 = Some r \<and>
      (\<forall>b. r = Inr b \<longleftrightarrow> (\<exists>k. tryRunOnce (h k) = Inr b \<and> (\<forall>m < k. retries h expired m)))"
    unfolding r by (intro exI conjI) (rule refl, simp)
qed

text \<open>Triggering a workflow always returns once the deadline of its context has passed (or
  earlier), and it returns a response body exactly when some attempt succeeds before the
  deadline with only dial failures before it.\<close>

theorem RunWorkflow_returns:
  assumes "expired n"
  shows "\<exists>r. RunWorkflow http expired namespace name input = Some r \<and>
    (\<forall>b. r = Inr b \<longleftrightarrow>
       (\<exists>k. tryRunOnce (http k (''http://'' @ name @ ''.'' @ namespace @ ''.svc.cluster.local:8080/run'')
               (if 0 < length input then input else ''{}'')) = Inr b \<and>
          (\<forall>m < k. retries (\<lambda>i. http i (''http://'' @ name @ ''.'' @ namespace @ ''.svc.cluster.local:8080/run'')
               (if 0 < length input then input else ''{}'')) expired m)))"
  unfolding RunWorkflow_def Let_def using assms by (rule run_loop_result [where expired = expired and n = n])

theorem RunWorkflow_returns_witness:
  "\<exists>r. RunWorkflow (\<lambda>n u p. DoErr ''refused'' True) (\<lambda>n. n = 40) ''lab'' ''wf'' [] = Some r \<and>
    (\<forall>b. r = Inr b \<longleftrightarrow>
       (\<exists>k. tryRunOnce (DoErr ''refused'' True) = Inr b \<and>
          (\<forall>m < k. retries (\<lambda>i. DoErr ''refused'' True) (\<lambda>n. n = 40) m)))"
  by (rule RunWorkflow_returns [where n = 40 and http = "\<lambda>n u p. DoErr ''refused'' True"]) simp

section \<open>The scheduler\<close>

definition CronAnnotation :: string where "CronAnnotation = ''tentacular.io/cron-schedule''"

definition annotationWithFallback :: "strmap \<Rightarrow> string \<Rightarrow> string" where
  "annotationWithFallback annotations newKey =
     (let v = mget annotations newKey in
      if v \<noteq> [] then v
      else if 14 < length newKey \<and> take 14 newKey = ''tentacular.io/''
      then mget annotations (''tentacular.dev/'' @ drop 14 newKey)
      else [])"

record 'c cron_ops =
  AddFunc :: "string \<Rightarrow> string \<times> string \<Rightarrow> ('c, string, nat) comp"
  Remove :: "nat \<Rightarrow> 'c \<Rightarrow> 'c"

record entry =
  e_namespace :: string
  e_name :: string
  e_schedule :: string
  e_cronID :: nat

record 'c Scheduler =
  S_cron :: 'c
  S_entries :: "(string \<times> entry) list"

datatype sched_error = InvalidSchedule string string string

definition NewScheduler :: "'c \<Rightarrow> 'c Scheduler" where
  "NewScheduler cron0 = \<lparr>S_cron = cron0, S_entries = []\<rparr>"

definition sched_key :: "string \<Rightarrow> string \<Rightarrow> string" where
  "sched_key namespace name = namespace @ ''/'' @ name"

definition add_entry :: "'c cron_ops \<Rightarrow> string \<Rightarrow> string \<Rightarrow> string \<Rightarrow> ('c Scheduler, sched_error, unit) comp" where
  "add_entry ops namespace name schedule s =
     (case AddFunc ops schedule (namespace, name) (S_cron s) of
        (Inl err, c) \<Rightarrow> (Inl (InvalidSchedule schedule (sched_key namespace name) err), s\<lparr>S_cron := c\<rparr>)
      | (Inr cid, c) \<Rightarrow>
          (Inr (), s\<lparr>S_cron := c,
             S_entries := AList.update (sched_key namespace name)
               \<lparr>e_namespace = namespace, e_name = name, e_schedule = schedule, e_cronID = cid\<rparr> (S_entries s)\<rparr>))"

definition Register :: "'c cron_ops \<Rightarrow> string \<Rightarrow> string \<Rightarrow> string \<Rightarrow> ('c Scheduler, sched_error, unit) comp" where
  "Register ops namespace name schedule s =
     (case map_of (S_entries s) (sched_key namespace name) of
        Some existing \<Rightarrow>
          if e_schedule existing = schedule then (Inr (), s)
          else add_entry ops namespace name schedule (s\<lparr>S_cron := Remove ops (e_cronID existing) (S_cron s)\<rparr>)
      | None \<Rightarrow> add_entry ops namespace name schedule s)"

definition Deregister :: "'c cron_ops \<Rightarrow> string \<Rightarrow> string \<Rightarrow> 'c Scheduler \<Rightarrow> 'c Scheduler" where
  "Deregister ops namespace name s =
     (case map_of (S_entries s) (sched_key namespace name) of
        Some existing \<Rightarrow>
          s\<lparr>S_cron := Remove ops (e_cronID existing) (S_cron s),
            S_entries := AList.delete (sched_key namespace name) (S_entries s)\<rparr>
      | None \<Rightarrow> s)"

definition Entries :: "'c Scheduler \<Rightarrow> nat" where
  "Entries s = length (S_entries s)"

definition syncCronSchedule ::
  "'s kube \<Rightarrow> 's \<Rightarrow> 'c cron_ops \<Rightarrow> string \<Rightarrow> string \<Rightarrow> 'c Scheduler \<Rightarrow> 'c Scheduler" where
  "syncCronSchedule client w ops namespace name sched =
     (case dep_get client namespace name w of
        Inl e \<Rightarrow> sched
      | Inr deploy \<Rightarrow>
          let schedule = GetAnnotation (D_Annotations deploy) CronAnnotation in
          if schedule = [] then Deregister ops namespace name sched
          else snd (Register ops namespace name schedule sched))"

definition wf_label_name :: "Deployment \<Rightarrow> string" where
  "wf_label_name deploy =
     (let lbl = mget (D_Labels deploy) ''app.kubernetes.io/name'' in if lbl = [] then D_Name deploy else lbl)"

fun scan_deployments :: "'c cron_ops \<Rightarrow> string \<Rightarrow> Deployment list \<Rightarrow> 'c Scheduler \<Rightarrow> 'c Scheduler" where
  "scan_deployments ops nsName [] sched = sched"
| "scan_deployments ops nsName (deploy # rest) sched =
     (let schedule = annotationWithFallback (D_Annotations deploy) CronAnnotation in
      if schedule = [] then scan_deployments ops nsName rest sched
      else scan_deployments ops nsName rest (snd (Register ops nsName (wf_label_name deploy) schedule sched)))"

fun scan_namespaces :: "'s kube \<Rightarrow> 's \<Rightarrow> 'c cron_ops \<Rightarrow> Namespace list \<Rightarrow> 'c Scheduler \<Rightarrow> 'c Scheduler" where
  "scan_namespaces client w ops [] sched = sched"
| "scan_namespaces client w ops (ns # rest) sched =
     (case dep_list client (N_Name ns) (ManagedByLabel @ ''='' @ ManagedByValue) w of
        Inl e \<Rightarrow> scan_namespaces client w ops rest sched
      | Inr deploys \<Rightarrow> scan_namespaces client w ops rest (scan_deployments ops (N_Name ns) deploys sched))"

definition ScanWorkflows :: "'s kube \<Rightarrow> 's \<Rightarrow> 'c cron_ops \<Rightarrow> ('c Scheduler, k8s_error, unit) comp" where
  "ScanWorkflows client w ops sched =
     (case ListManagedNamespaces client w of
        Inl e \<Rightarrow> (Inl e, sched)
      | Inr namespaces \<Rightarrow> (Inr (), scan_namespaces client w ops namespaces sched))"

section \<open>The table of schedules\<close>

locale schedule_registry =
  fixes register :: "string \<Rightarrow> string \<Rightarrow> string \<Rightarrow> ('st, 'e, unit) comp"
    and deregister :: "string \<Rightarrow> string \<Rightarrow> 'st \<Rightarrow> 'st"
    and view :: "'st \<Rightarrow> string \<rightharpoonup> string"
  assumes register_ok: "register ns n sch st = (Inr u, st') \<Longrightarrow> view st' = (view st)(sched_key ns n \<mapsto> sch)"
    and register_err: "register ns n sch st = (Inl e, st') \<Longrightarrow> view st' = view st"
    and deregister: "view (deregister ns n st) = (view st)(sched_key ns n := None)"
begin

lemma register_frame: "k \<noteq> sched_key ns n \<Longrightarrow> view (snd (register ns n sch st)) k = view st k"
  using register_ok [of ns n sch st] register_err [of ns n sch st]
  by (cases "register ns n sch st"; cases "fst (register ns n sch st)") auto

lemma register_view:
  "view (snd (register ns n sch st)) = view st \<or>
   view (snd (register ns n sch st)) = (view st)(sched_key ns n \<mapsto> sch)"
  using register_ok [of ns n sch st] register_err [of ns n sch st]
  by (cases "register ns n sch st"; cases "fst (register ns n sch st)") auto

lemma register_snd:
  "view (snd (register ns n sch st)) =
     (if isl (fst (register ns n sch st)) then view st else (view st)(sched_key ns n \<mapsto> sch))"
  using register_ok [of ns n sch st] register_err [of ns n sch st]
  by (cases "register ns n sch st"; cases "fst (register ns n sch st)") auto

lemma register_deregister:
  "register ns n sch st = (Inr u, st') \<Longrightarrow> view (deregister ns n st') = (view st)(sched_key ns n := None)"
  by (auto simp: deregister dest: register_ok)

end

definition schedules :: "'c Scheduler \<Rightarrow> string \<rightharpoonup> string" where
  "schedules s k = map_option e_schedule (map_of (S_entries s) k)"

lemma map_option_update: "(\<lambda>k. map_option f ((m(a \<mapsto> b)) k)) = (\<lambda>k. map_option f (m k))(a \<mapsto> f b)"
  by auto

lemma schedules_add_entry_ok:
  "add_entry ops ns n sch s = (Inr u, s') \<Longrightarrow> schedules s' = (schedules s)(sched_key ns n \<mapsto> sch)"
  by (auto simp: add_entry_def schedules_def fun_eq_iff update_conv' split: prod.splits sum.splits)

lemma schedules_add_entry_err:
  "add_entry ops ns n sch s = (Inl e, s') \<Longrightarrow> S_entries s' = S_entries s"
  by (auto simp: add_entry_def split: prod.splits sum.splits)

interpretation registry: schedule_registry "Register ops" "Deregister ops" schedules for ops
proof unfold_locales
  fix ns n sch u st st' e
  show "schedules st' = (schedules st)(sched_key ns n \<mapsto> sch)" if "Register ops ns n sch st = (Inr u, st')"
    using that schedules_add_entry_ok
    by (fastforce simp: Register_def schedules_def fun_eq_iff split: option.splits if_splits)
  show "schedules st' = schedules st" if "Register ops ns n sch st = (Inl e, st')"
    using that by (auto simp: Register_def schedules_def fun_eq_iff split: option.splits if_splits
        dest!: schedules_add_entry_err)
  show "schedules (Deregister ops ns n st) = (schedules st)(sched_key ns n := None)"
    by (auto simp: Deregister_def schedules_def fun_eq_iff delete_conv' split: option.splits)
qed

lemma annotationWithFallback_eq: "annotationWithFallback annotations key = GetAnnotation annotations key"
  by (simp add: annotationWithFallback_def GetAnnotation_def Let_def)

text \<open>After a deployment has been synchronised, the schedule recorded for it is the one its
  annotation asks for: none when the annotation (new or legacy key) is absent, the
  annotated one when the cron library accepts it, the previous one otherwise; the schedules
  of all other workflows are untouched.\<close>

theorem syncCronSchedule_schedules:
  "dep_get client ns n w = Inr deploy \<Longrightarrow>
   schedules (syncCronSchedule client w ops ns n st) =
     (let sch = GetAnnotation (D_Annotations deploy) CronAnnotation in
      if sch = [] then (schedules st)(sched_key ns n := None)
      else if isl (fst (Register ops ns n sch st)) then schedules st
      else (schedules st)(sched_key ns n \<mapsto> sch))"
  using registry.register_snd [of ops ns n "GetAnnotation (D_Annotations deploy) CronAnnotation" st]
  by (simp add: syncCronSchedule_def Let_def registry.deregister)

text \<open>The schedules a restart restores come from annotations of managed deployments.\<close>

definition asks_for :: "'s kube \<Rightarrow> 's \<Rightarrow> string \<Rightarrow> string \<Rightarrow> bool" where
  "asks_for client w key sch \<longleftrightarrow>
     (\<exists>ns ds d. dep_list client ns (ManagedByLabel @ ''='' @ ManagedByValue) w = Inr ds \<and> d \<in> set ds \<and>
        sch = GetAnnotation (D_Annotations d) CronAnnotation \<and> sch \<noteq> [] \<and>
        key = sched_key ns (wf_label_name d))"

definition sound_table :: "'s kube \<Rightarrow> 's \<Rightarrow> 'c Scheduler \<Rightarrow> bool" where
  "sound_table client w st \<longleftrightarrow> (\<forall>k v. schedules st k = Some v \<longrightarrow> asks_for client w k v)"

lemma sound_table_Register:
  assumes "sound_table client w st" and "asks_for client w (sched_key ns n) sch"
  shows "sound_table client w (snd (Register ops ns n sch st))"
  using assms registry.register_view [of ops ns n sch st] unfolding sound_table_def
  by (elim disjE) (simp_all split: if_split)

lemma asks_forI:
  "dep_list client ns (ManagedByLabel @ ''='' @ ManagedByValue) w = Inr ds \<Longrightarrow> d \<in> set ds \<Longrightarrow>
     annotationWithFallback (D_Annotations d) CronAnnotation \<noteq> [] \<Longrightarrow>
     asks_for client w (sched_key ns (wf_label_name d)) (annotationWithFallback (D_Annotations d) CronAnnotation)"
  unfolding asks_for_def annotationWithFallback_eq
  by (intro exI [of _ ns] exI [of _ ds] exI [of _ d]) simp

lemma scan_deployments_sound:
  assumes "dep_list client ns (ManagedByLabel @ ''='' @ ManagedByValue) w = Inr ds" and "set rest \<subseteq> set ds"
    and "sound_table client w st"
  shows "sound_table client w (scan_deployments ops ns rest st)"
  using assms
proof (induction ops ns rest st rule: scan_deployments.induct)
  case (2 ops ns d rest st)
  then have "d \<in> set ds" "set rest \<subseteq> set ds" by auto
  with 2 show ?case
    by (simp add: Let_def sound_table_Register asks_forI)
qed simp

lemma scan_namespaces_sound:
  assumes "sound_table client w st"
  shows "sound_table client w (scan_namespaces client w ops nss st)"
  using assms
proof (induction client w ops nss st rule: scan_namespaces.induct)
  case (2 client w ops ns rest st)
  show ?case
  proof (cases "dep_list client (N_Name ns) (ManagedByLabel @ ''='' @ ManagedByValue) w")
    case (Inl e)
    then show ?thesis using 2 by simp
  next
    case (Inr ds)
    then have "sound_table client w (scan_deployments ops (N_Name ns) ds st)"
      by (rule scan_deployments_sound) (simp_all add: 2(3))
    then show ?thesis using 2(2) Inr by simp
  qed
qed simp

text \<open>A scheduler restored after a restart holds only schedules that the annotation of some managed
  deployment asks for, each under the namespace and workflow name of that deployment.\<close>

theorem ScanWorkflows_sound:
  assumes "ScanWorkflows client w ops (NewScheduler cron0) = (r, st)" and "schedules st key = Some sch"
  shows "asks_for client w key sch"
proof -
  have "sound_table client w (NewScheduler cron0)"
    by (simp add: sound_table_def schedules_def NewScheduler_def)
  then have "sound_table client w st"
    using assms(1) scan_namespaces_sound by (fastforce simp: ScanWorkflows_def split: sum.splits)
  with assms(2) show ?thesis by (simp add: sound_table_def)
qed

section \<open>The jobs that run\<close>

text \<open>What the cron library documents, over its table of running jobs: adding a valid schedule
  starts a job under a fresh id, adding an invalid one starts nothing, removing an id stops
  its job.\<close>

definition cron_laws :: "'c cron_ops \<Rightarrow> ('c \<Rightarrow> nat \<rightharpoonup> string \<times> string \<times> string) \<Rightarrow> (string \<Rightarrow> bool) \<Rightarrow> bool" where
  "cron_laws ops jobs valid \<longleftrightarrow>
     (\<forall>sch job c. valid sch \<longrightarrow>
        (\<exists>i c'. AddFunc ops sch job c = (Inr i, c') \<and> jobs c i = None \<and> jobs c' = (jobs c)(i \<mapsto> (sch, job)))) \<and>
     (\<forall>sch job c. \<not> valid sch \<longrightarrow> (\<exists>e c'. AddFunc ops sch job c = (Inl e, c') \<and> jobs c' = jobs c)) \<and>
     (\<forall>i c. jobs (Remove ops i c) = (jobs c)(i := None))"

lemma cron_add_ok:
  "cron_laws ops jobs valid \<Longrightarrow> AddFunc ops sch job c = (Inr i, c') \<Longrightarrow>
     valid sch \<and> jobs c i = None \<and> jobs c' = (jobs c)(i \<mapsto> (sch, job))"
  unfolding cron_laws_def by (metis (no_types, lifting) Inl_Inr_False Inr_inject Pair_inject)

lemma cron_add_err:
  "cron_laws ops jobs valid \<Longrightarrow> AddFunc ops sch job c = (Inl e, c') \<Longrightarrow> \<not> valid sch \<and> jobs c' = jobs c"
  unfolding cron_laws_def by (metis (no_types, lifting) Inl_Inr_False Pair_inject)

lemma cron_remove: "cron_laws ops jobs valid \<Longrightarrow> jobs (Remove ops i c) = (jobs c)(i := None)"
  by (simp add: cron_laws_def)

text \<open>The scheduler is consistent when its entries and the running jobs describe each other.\<close>

definition entry_job :: "entry \<Rightarrow> string \<times> string \<times> string" where
  "entry_job e = (e_schedule e, e_namespace e, e_name e)"

definition consistent :: "(string \<rightharpoonup> entry) \<Rightarrow> (nat \<rightharpoonup> string \<times> string \<times> string) \<Rightarrow> bool" where
  "consistent en jb \<longleftrightarrow>
     (\<forall>k e. en k = Some e \<longrightarrow> k = sched_key (e_namespace e) (e_name e) \<and> jb (e_cronID e) = Some (entry_job e)) \<and>
     (\<forall>k1 k2 e1 e2. en k1 = Some e1 \<and> en k2 = Some e2 \<and> e_cronID e1 = e_cronID e2 \<longrightarrow> k1 = k2) \<and>
     (\<forall>i j. jb i = Some j \<longrightarrow> (\<exists>k e. en k = Some e \<and> e_cronID e = i))"

definition sched_inv :: "('c \<Rightarrow> nat \<rightharpoonup> string \<times> string \<times> string) \<Rightarrow> 'c Scheduler \<Rightarrow> bool" where
  "sched_inv jobs s \<longleftrightarrow> consistent (map_of (S_entries s)) (jobs (S_cron s))"

lemma consistentD:
  assumes "consistent en jb"
  shows "en k = Some e \<Longrightarrow> k = sched_key (e_namespace e) (e_name e)"
    and "en k = Some e \<Longrightarrow> jb (e_cronID e) = Some (entry_job e)"
    and "en k1 = Some e1 \<Longrightarrow> en k2 = Some e2 \<Longrightarrow> e_cronID e1 = e_cronID e2 \<Longrightarrow> k1 = k2"
    and "jb i = Some j \<Longrightarrow> \<exists>k e. en k = Some e \<and> e_cronID e = i"
  using assms unfolding consistent_def by blast+

text \<open>Dropping the entry of a key together with its job, and adding an entry for a free key with
  its job, keep the two tables consistent.\<close>

lemma consistent_drop:
  assumes c: "consistent en jb" and k: "en k = Some e"
  shows "consistent (en(k := None)) (jb(e_cronID e := None))"
  unfolding consistent_def
proof (intro conjI allI impI)
  fix k' e' assume "(en(k := None)) k' = Some e'"
  then have k': "en k' = Some e'" "k' \<noteq> k" by (auto split: if_splits)
  then have "e_cronID e' \<noteq> e_cronID e" using consistentD(3) [OF c] k by blast
  then show "k' = sched_key (e_namespace e') (e_name e')"
    "(jb(e_cronID e := None)) (e_cronID e') = Some (entry_job e')"
    using consistentD(1,2) [OF c k'(1)] by simp_all
next
  fix i j assume "(jb(e_cronID e := None)) i = Some j"
  then have i: "jb i = Some j" "i \<noteq> e_cronID e" by (auto split: if_splits)
  then obtain k' e' where "en k' = Some e'" "e_cronID e' = i" using consistentD(4) [OF c] by blast
  then show "\<exists>k' e'. (en(k := None)) k' = Some e' \<and> e_cronID e' = i"
    using i k by (intro exI [of _ k'] exI [of _ e']) auto
next
  fix k1 k2 e1 e2
  assume "(en(k := None)) k1 = Some e1 \<and> (en(k := None)) k2 = Some e2 \<and> e_cronID e1 = e_cronID e2"
  then show "k1 = k2" using consistentD(3) [OF c] by (auto split: if_splits)
qed

lemma consistent_add:
  assumes c: "consistent en jb" and free: "en (sched_key ns n) = None" "jb i = None"
    and e: "e = \<lparr>e_namespace = ns, e_name = n, e_schedule = sch, e_cronID = i\<rparr>"
  shows "consistent (en(sched_key ns n \<mapsto> e)) (jb(i \<mapsto> (sch, ns, n)))"
  unfolding consistent_def
proof (intro conjI allI impI)
  fix k' e' assume "(en(sched_key ns n \<mapsto> e)) k' = Some e'"
  then consider (new) "k' = sched_key ns n" "e' = e" | (old) "en k' = Some e'"
    by (cases "k' = sched_key ns n") simp_all
  then have "k' = sched_key (e_namespace e') (e_name e') \<and> (jb(i \<mapsto> (sch, ns, n))) (e_cronID e') = Some (entry_job e')"
  proof cases
    case new
    then show ?thesis using e by (simp add: entry_job_def)
  next
    case old
    note cons = consistentD(1,2) [OF c old]
    have "e_cronID e' \<noteq> i" using cons(2) free(2) by (metis option.distinct(1))
    with cons show ?thesis by (intro conjI) simp_all
  qed
  then show "k' = sched_key (e_namespace e') (e_name e')"
    "(jb(i \<mapsto> (sch, ns, n))) (e_cronID e') = Some (entry_job e')" by blast+
next
  fix j v assume "(jb(i \<mapsto> (sch, ns, n))) j = Some v"
  then consider "j = i" | "jb j = Some v" by (cases "j = i") simp_all
  then show "\<exists>k' e'. (en(sched_key ns n \<mapsto> e)) k' = Some e' \<and> e_cronID e' = j"
  proof cases
    case 1
    then show ?thesis using e by (intro exI [of _ "sched_key ns n"] exI [of _ e]) simp
  next
    case 2
    then obtain k' e' where "en k' = Some e'" "e_cronID e' = j" using consistentD(4) [OF c] by blast
    then show ?thesis using free(1) by (intro exI [of _ k'] exI [of _ e']) auto
  qed
next
  fix k1 k2 e1 e2
  assume a: "(en(sched_key ns n \<mapsto> e)) k1 = Some e1 \<and> (en(sched_key ns n \<mapsto> e)) k2 = Some e2 \<and> e_cronID e1 = e_cronID e2"
  have "e_cronID e' \<noteq> i" if "en k' = Some e'" for k' e'
    using consistentD(2) [OF c that] free(2) by auto
  note fresh = this
  show "k1 = k2"
  proof (cases "k1 = sched_key ns n"; cases "k2 = sched_key ns n")
    assume "k1 = sched_key ns n" "k2 \<noteq> sched_key ns n"
    with a e fresh [of k2 e2] show ?thesis by auto
  next
    assume "k1 \<noteq> sched_key ns n" "k2 = sched_key ns n"
    with a e fresh [of k1 e1] show ?thesis by auto
  next
    assume "k1 \<noteq> sched_key ns n" "k2 \<noteq> sched_key ns n"
    with a show ?thesis using consistentD(3) [OF c, of k1 e1 k2 e2] by simp
  qed simp
qed

lemma map_of_AList_update: "map_of (AList.update k v xs) = (map_of xs)(k \<mapsto> v)"
  by (simp add: update_conv')

lemma map_of_AList_delete: "map_of (AList.delete k xs) = (map_of xs)(k := None)"
  by (simp add: delete_conv')

lemma sched_inv_add_entry:
  assumes laws: "cron_laws ops jobs valid"
    and c: "consistent ((map_of (S_entries s))(sched_key ns n := None)) (jobs (S_cron s))"
    and ok: "add_entry ops ns n sch s = (Inr u, s')"
  shows "sched_inv jobs s' \<and> (\<exists>i. jobs (S_cron s') i = Some (sch, ns, n))"
proof -
  obtain i c' where add: "AddFunc ops sch (ns, n) (S_cron s) = (Inr i, c')"
    and s': "s' = s\<lparr>S_cron := c', S_entries := AList.update (sched_key ns n)
      \<lparr>e_namespace = ns, e_name = n, e_schedule = sch, e_cronID = i\<rparr> (S_entries s)\<rparr>"
    using ok by (auto simp: add_entry_def split: prod.splits sum.splits)
  note j = cron_add_ok [OF laws add]
  have "consistent ((map_of (S_entries s))(sched_key ns n := None, sched_key ns n \<mapsto>
      \<lparr>e_namespace = ns, e_name = n, e_schedule = sch, e_cronID = i\<rparr>)) ((jobs (S_cron s))(i \<mapsto> (sch, ns, n)))"
    by (rule consistent_add [OF c]) (simp_all add: j)
  moreover have "jobs (S_cron s') i = Some (sch, ns, n)" by (simp add: s' j)
  ultimately show ?thesis by (auto simp: sched_inv_def s' map_of_AList_update j)
qed

lemma Register_inv:
  assumes laws: "cron_laws ops jobs valid" and inv: "sched_inv jobs s"
    and ok: "Register ops ns n sch s = (Inr u, s')"
  shows "sched_inv jobs s' \<and> (\<exists>i. jobs (S_cron s') i = Some (sch, ns, n)) \<or>
    (\<exists>e. map_of (S_entries s) (sched_key ns n) = Some e \<and> e_schedule e = sch \<and> s' = s)"
proof (cases "map_of (S_entries s) (sched_key ns n)")
  case None
  then have "(map_of (S_entries s))(sched_key ns n := None) = map_of (S_entries s)" by auto
  then have "consistent ((map_of (S_entries s))(sched_key ns n := None)) (jobs (S_cron s))"
    using inv by (simp add: sched_inv_def)
  then show ?thesis
    using sched_inv_add_entry [OF laws] ok None by (simp add: Register_def)
next
  case (Some e)
  show ?thesis
  proof (cases "e_schedule e = sch")
    case True
    then show ?thesis using ok Some by (simp add: Register_def)
  next
    case False
    let ?s1 = "s\<lparr>S_cron := Remove ops (e_cronID e) (S_cron s)\<rparr>"
    have "consistent ((map_of (S_entries s))(sched_key ns n := None)) (jobs (S_cron ?s1))"
      using consistent_drop [OF inv [unfolded sched_inv_def] Some] cron_remove [OF laws] by simp
    moreover have "add_entry ops ns n sch ?s1 = (Inr u, s')" using ok Some False by (simp add: Register_def)
    ultimately show ?thesis
      using sched_inv_add_entry [OF laws, of ?s1 ns n sch u s'] by simp
  qed
qed

text \<open>With a cron library that behaves as documented, a successful registration keeps the
  scheduler consistent: every entry has its running job, every running job its entry.\<close>

theorem Register_keeps_consistent:
  assumes "cron_laws ops jobs valid" and "sched_inv jobs s" and "Register ops ns n sch s = (Inr u, s')"
  shows "sched_inv jobs s' \<and> schedules s' = (schedules s)(sched_key ns n \<mapsto> sch)"
  using Register_inv [OF assms] assms(2) registry.register_ok [OF assms(3)] by auto

lemma Deregister_inv:
  assumes "cron_laws ops jobs valid" and "sched_inv jobs s"
  shows "sched_inv jobs (Deregister ops ns n s)"
proof (cases "map_of (S_entries s) (sched_key ns n)")
  case None
  then show ?thesis using assms(2) by (simp add: Deregister_def)
next
  case (Some e)
  with consistent_drop [OF assms(2) [unfolded sched_inv_def] Some] show ?thesis
    by (simp add: Deregister_def sched_inv_def map_of_AList_delete cron_remove [OF assms(1)])
qed

text \<open>A cron library held in a list: the next free id and the running jobs. A schedule is valid when
  it has five fields.\<close>

definition list_cron :: "(nat \<times> (nat \<times> string \<times> string \<times> string) list) cron_ops" where
  "list_cron =
     \<lparr>AddFunc = (\<lambda>sch job (i, js). if length (Split CHR '' '' sch) = 5 then (Inr i, (Suc i, (i, sch, job) # js))
                                  else (Inl ''bad spec'', (i, js))),
      Remove = (\<lambda>i (k, js). (k, AList.delete i js))\<rparr>"

definition list_jobs :: "nat \<times> (nat \<times> string \<times> string \<times> string) list \<Rightarrow> nat \<rightharpoonup> string \<times> string \<times> string" where
  "list_jobs c i = (if i < fst c then map_of (snd c) i else None)"

lemma list_cron_laws: "cron_laws list_cron list_jobs (\<lambda>sch. length (Split CHR '' '' sch) = 5)"
  unfolding cron_laws_def list_cron_def
  by (auto simp: list_jobs_def fun_eq_iff map_of_AList_delete)

type_synonym list_sched = "(nat \<times> (nat \<times> string \<times> string \<times> string) list) Scheduler"

definition empty_sched :: list_sched where
  "empty_sched = NewScheduler (0, [])"

definition sample_sched :: list_sched where
  "sample_sched = snd (Register list_cron ''lab'' ''wf'' ''0 * * * *'' empty_sched)"

lemma empty_sched_inv: "sched_inv list_jobs empty_sched"
  by (simp add: empty_sched_def sched_inv_def NewScheduler_def consistent_def list_jobs_def)

lemma sample_sched_registered: "Register list_cron ''lab'' ''wf'' ''0 * * * *'' empty_sched = (Inr (), sample_sched)"
proof -
  have "fst (Register list_cron ''lab'' ''wf'' ''0 * * * *'' empty_sched) = Inr ()" by code_simp
  then show ?thesis unfolding sample_sched_def by (metis prod.collapse)
qed

theorem Register_keeps_consistent_witness:
  "sched_inv list_jobs sample_sched \<and>
   schedules sample_sched = (schedules empty_sched)(sched_key ''lab'' ''wf'' \<mapsto> ''0 * * * *'')"
  by (rule Register_keeps_consistent [OF list_cron_laws empty_sched_inv sample_sched_registered])

text \<open>A rejected update loses a workflow: when a registered workflow is re-registered with a
  schedule the cron library rejects, its job is stopped but its entry stays, and
  registering the old schedule again reports success without starting a job.\<close>

theorem Register_rejected_update_loses_job:
  assumes "cron_laws ops jobs valid" and "sched_inv jobs s"
    and "map_of (S_entries s) (sched_key ns n) = Some e" and "\<not> valid bad" and "e_schedule e \<noteq> bad"
  shows "\<exists>err s1. Register ops ns n bad s = (Inl err, s1) \<and>
    Register ops ns n (e_schedule e) s1 = (Inr (), s1) \<and>
    schedules s1 = schedules s \<and> jobs (S_cron s1) (e_cronID e) = None"
proof -
  let ?c = "Remove ops (e_cronID e) (S_cron s)"
  obtain msg c' where add: "AddFunc ops bad (ns, n) ?c = (Inl msg, c')" and c': "jobs c' = jobs ?c"
    using assms(1,4) unfolding cron_laws_def by metis
  have "Register ops ns n bad s = (Inl (InvalidSchedule bad (sched_key ns n) msg), s\<lparr>S_cron := c'\<rparr>)"
    using assms(3,5) add by (simp add: Register_def add_entry_def)
  moreover have "Register ops ns n (e_schedule e) (s\<lparr>S_cron := c'\<rparr>) = (Inr (), s\<lparr>S_cron := c'\<rparr>)"
    using assms(3) by (simp add: Register_def)
  moreover have "jobs c' (e_cronID e) = None" using c' cron_remove [OF assms(1)] by simp
  moreover have "schedules (s\<lparr>S_cron := c'\<rparr>) = schedules s" by (simp add: schedules_def fun_eq_iff)
  ultimately show ?thesis by fastforce
qed

definition sample_entry :: entry where
  "sample_entry = \<lparr>e_namespace = ''lab'', e_name = ''wf'', e_schedule = ''0 * * * *'', e_cronID = 0\<rparr>"

theorem Register_rejected_update_loses_job_witness:
  "\<exists>err s1. Register list_cron ''lab'' ''wf'' ''hourly'' sample_sched = (Inl err, s1) \<and>
    Register list_cron ''lab'' ''wf'' (e_schedule sample_entry) s1 = (Inr (), s1) \<and>
    schedules s1 = schedules sample_sched \<and> list_jobs (S_cron s1) (e_cronID sample_entry) = None"
proof (rule Register_rejected_update_loses_job [OF list_cron_laws])
  show "sched_inv list_jobs sample_sched"
    using Register_inv [OF list_cron_laws empty_sched_inv sample_sched_registered] empty_sched_inv by auto
  show "map_of (S_entries sample_sched) (sched_key ''lab'' ''wf'') = Some sample_entry" by code_simp
  show "length (Split CHR '' '' ''hourly'') \<noteq> 5" by code_simp
  show "e_schedule sample_entry \<noteq> ''hourly''" by (simp add: sample_entry_def)
qed

section \<open>Sample worlds\<close>

definition sample_deploy :: Deployment where
  "sample_deploy =
     \<lparr>D_Name = ''wf'', D_Namespace = ''lab'', D_Labels = [''app.kubernetes.io/managed-by'' \<mapsto> ''tentacular''],
      D_Annotations = [''tentacular.dev/cron-schedule'' \<mapsto> ''0 * * * *''], D_ResourceVersion = 1\<rparr>"

definition sample_ns :: Namespace where
  "sample_ns =
     \<lparr>N_Name = ''lab'', N_Labels = [''app.kubernetes.io/managed-by'' \<mapsto> ''tentacular''],
      N_Annotations = Map.empty, N_Phase = ''Active'', N_ResourceVersion = 1\<rparr>"

definition sample_mem :: mem where
  "sample_mem = empty_mem\<lparr>mem_ns := [(''lab'', sample_ns)], mem_dep := [((''lab'', ''wf''), sample_deploy)]\<rparr>"

theorem syncCronSchedule_schedules_witness:
  "schedules (syncCronSchedule mem_kube sample_mem list_cron ''lab'' ''wf'' empty_sched) =
     (let sch = GetAnnotation (D_Annotations sample_deploy) CronAnnotation in
      if sch = [] then (schedules empty_sched)(sched_key ''lab'' ''wf'' := None)
      else if isl (fst (Register list_cron ''lab'' ''wf'' sch empty_sched)) then schedules empty_sched
      else (schedules empty_sched)(sched_key ''lab'' ''wf'' \<mapsto> sch))"
  by (rule syncCronSchedule_schedules) (simp add: mem_kube_def fetch_def sample_mem_def empty_mem_def)

theorem ScanWorkflows_sound_witness: "asks_for mem_kube sample_mem ''lab/wf'' ''0 * * * *''"
proof (rule ScanWorkflows_sound)
  let ?r = "ScanWorkflows mem_kube sample_mem list_cron (NewScheduler (0, []))"
  show "?r = (fst ?r, snd ?r)" by simp
  show "schedules (snd ?r) ''lab/wf'' = Some ''0 * * * *''" by code_simp
qed

end
