(* ===== verification/Authz_Helpers.thy ===== *)
theory Authz_Helpers
  imports Authz_Evaluator Mem_Kube
begin

text \<open>
  The helpers every tool handler uses to authorize a call, \<^verbatim>\<open>pkg/tools/authz_helpers.go\<close>, and
  the participant test of \<^verbatim>\<open>pkg/tools/enclave.go\<close>. The lemmas say what a resolved namespace
  is, when a namespace check passes, and what happens to bearer-token callers when no OIDC
  validator is configured.
\<close>

datatype helper_error =
    ErrNoDeployer
  | ErrAmbiguousNamespace
  | ErrNoIdentity
  | ErrResolveList k8s_error
  | ErrNoEnclaves string
  | ErrGetNamespace string api_err
  | ErrDenied string

definition requireDeployer :: "DeployerInfo option \<Rightarrow> Evaluator option \<Rightarrow> helper_error + unit" where
  "requireDeployer deployer eval =
     (if deployer \<noteq> None then Inr ()
      else case eval of
        None \<Rightarrow> Inr ()
      | Some ev \<Rightarrow> if \<not> E_Enabled ev then Inr () else Inl ErrNoDeployer)"

definition checkAuthz ::
  "Evaluator option \<Rightarrow> DeployerInfo option \<Rightarrow> strmap \<Rightarrow> strmap \<Rightarrow> Action \<Rightarrow> Decision" where
  "checkAuthz eval deployer nsAnnotations resourceAnnotations action =
     CheckTentacle eval deployer nsAnnotations resourceAnnotations action"

definition checkNamespaceAuthz ::
  "'s kube \<Rightarrow> string \<Rightarrow> DeployerInfo option \<Rightarrow> Evaluator option \<Rightarrow> Action \<Rightarrow> 's \<Rightarrow> helper_error + unit" where
  "checkNamespaceAuthz client namespace deployer eval action s =
     (if eval = None then Inr ()
      else case ns_get client namespace s of
        Inl e \<Rightarrow> if e = NotFound then Inr () else Inl (ErrGetNamespace namespace e)
      | Inr ns \<Rightarrow>
          let decision = CheckEnclave eval deployer (N_Annotations ns) action in
          if \<not> Allowed decision then Inl (ErrDenied (Reason decision)) else Inr ())"

definition isEnclaveParticipant :: "EnclaveInfo \<Rightarrow> string \<Rightarrow> bool" where
  "isEnclaveParticipant info email =
     (let emailLower = ToLower email in
      ToLower (EI_Owner info) = emailLower \<or> emailLower \<in> set (EI_Members info))"

fun matching_enclaves :: "string \<Rightarrow> Namespace list \<Rightarrow> string list" where
  "matching_enclaves email [] = []"
| "matching_enclaves email (ns # rest) =
     (if \<not> IsEnclave (N_Annotations ns) then matching_enclaves email rest
      else if isEnclaveParticipant (ReadEnclaveInfo (N_Annotations ns)) email
      then N_Name ns # matching_enclaves email rest
      else matching_enclaves email rest)"

definition resolveNamespace ::
  "'s kube \<Rightarrow> string \<Rightarrow> DeployerInfo option \<Rightarrow> 's \<Rightarrow> helper_error + string" where
  "resolveNamespace client namespace deployer s =
     (if namespace \<noteq> [] then Inr namespace
      else case deployer of
        None \<Rightarrow> Inl ErrNoIdentity
      | Some d \<Rightarrow>
          if Email d = [] then Inl ErrNoIdentity
          else (case ListManagedNamespaces client s of
            Inl e \<Rightarrow> Inl (ErrResolveList e)
          | Inr namespaces \<Rightarrow>
              (case matching_enclaves (Email d) namespaces of
                 [] \<Rightarrow> Inl (ErrNoEnclaves (Email d))
               | [m] \<Rightarrow> Inr m
               | _ \<Rightarrow> Inl ErrAmbiguousNamespace)))"

definition fetchNamespaceAnnotations :: "'s kube \<Rightarrow> string \<Rightarrow> 's \<Rightarrow> helper_error + strmap" where
  "fetchNamespaceAnnotations client namespace s =
     (case ns_get client namespace s of
        Inl e \<Rightarrow> if e = NotFound then Inr Map.empty else Inl (ErrGetNamespace namespace e)
      | Inr ns \<Rightarrow> Inr (N_Annotations ns))"

section \<open>Lemmas\<close>

lemma requireDeployer_iff: "requireDeployer deployer eval = Inr () \<longleftrightarrow> deployer \<noteq> None \<or> \<not> enforcing eval"
  by (auto simp: requireDeployer_def enforcing_def split: option.splits)

lemma requireDeployer_cases:
  "requireDeployer deployer eval = Inr () \<or> requireDeployer deployer eval = Inl ErrNoDeployer"
  by (auto simp: requireDeployer_def split: option.splits)

lemma matching_enclaves_filter:
  "matching_enclaves email nss =
     map N_Name (filter (\<lambda>ns. IsEnclave (N_Annotations ns) \<and>
       isEnclaveParticipant (ReadEnclaveInfo (N_Annotations ns)) email) nss)"
  by (induction nss) auto

text \<open>Being a participant is being the owner or a member in the sense of the evaluator.\<close>

lemma participant_role:
  "isEnclaveParticipant (ReadEnclaveInfo ann) (Email d) \<longleftrightarrow>
     ToLower (mget ann AnnotationEnclaveOwner) = ToLower (Email d) \<or> is_member d ann"
  by (auto simp: isEnclaveParticipant_def ReadEnclaveInfo_def is_member_def Let_def)

text \<open>When the namespace is left out, the resolved namespace is the only enclave among the managed
  namespaces in which the caller is owner or member; with none or several such enclaves the
  call is rejected.\<close>

theorem resolveNamespace_unique:
  assumes "ListManagedNamespaces client s = Inr nss" and "Email d \<noteq> []"
  shows "resolveNamespace client [] (Some d) s = Inr n \<longleftrightarrow>
    map N_Name (filter (\<lambda>ns. IsEnclave (N_Annotations ns) \<and>
      isEnclaveParticipant (ReadEnclaveInfo (N_Annotations ns)) (Email d)) nss) = [n]"
  using assms
  by (simp add: resolveNamespace_def matching_enclaves_filter split: list.splits)

definition lab_ns :: Namespace where
  "lab_ns =
     \<lparr>N_Name = ''lab'', N_Labels = [''app.kubernetes.io/managed-by'' \<mapsto> ''tentacular''],
      N_Annotations = sample_enclave, N_Phase = ''Active'', N_ResourceVersion = 1\<rparr>"

definition lab_mem :: mem where
  "lab_mem = empty_mem\<lparr>mem_ns := [(''lab'', lab_ns)]\<rparr>"

theorem resolveNamespace_unique_witness:
  "resolveNamespace mem_kube [] (Some sample_deployer) lab_mem = Inr ''lab'' \<longleftrightarrow>
    map N_Name (filter (\<lambda>ns. IsEnclave (N_Annotations ns) \<and>
      isEnclaveParticipant (ReadEnclaveInfo (N_Annotations ns)) (Email sample_deployer)) [lab_ns]) = [''lab'']"
proof (rule resolveNamespace_unique)
  show "ListManagedNamespaces mem_kube lab_mem = Inr [lab_ns]"
    by (simp add: ListManagedNamespaces_def mem_kube_def lab_mem_def empty_mem_def lab_ns_def has_label_def
        ManagedByLabel_def ManagedByValue_def)
  show "Email sample_deployer \<noteq> []" by (simp add: sample_deployer_def)
qed

lemma checkNamespaceAuthz_ok_iff:
  "checkNamespaceAuthz client namespace deployer (Some ev) action s = Inr () \<longleftrightarrow>
     ns_get client namespace s = Inl NotFound \<or>
     (\<exists>ns. ns_get client namespace s = Inr ns \<and> enclave_access (Some ev) deployer (N_Annotations ns) action)"
  by (auto simp: checkNamespaceAuthz_def Let_def CheckEnclave_access split: sum.splits)

text \<open>Without an OIDC validator a request that presents the right bearer token is admitted but
  carries no identity, so a handler that requires one under an enforcing evaluator rejects it
  exactly as it rejects an anonymous call.\<close>

theorem bearer_only_callers_rejected:
  assumes "R_Deployer r = None"
  shows "DualAuthMiddleware token None url (\<lambda>q. h (requireDeployer (DeployerFromContext q) (Some (NewEvaluator m)))) r =
    DualAuthMiddleware token None url (\<lambda>q. h (Inl ErrNoDeployer)) r"
  using assms
  by (simp add: DualAuthMiddleware_def Middleware_def DeployerFromContext_def requireDeployer_def NewEvaluator_def)

theorem bearer_only_callers_rejected_witness:
  "DualAuthMiddleware ''secret'' None [] (\<lambda>q. \<lparr>W_Status = (if isl (requireDeployer (DeployerFromContext q) (Some (NewEvaluator DefaultMode))) then 500 else 200),
       W_WWWAuthenticate = None, W_Body = []\<rparr>)
     \<lparr>R_Method = ''POST'', R_Path = ''/mcp'', R_Authorization = ''Bearer secret'', R_Deployer = None\<rparr> =
   DualAuthMiddleware ''secret'' None [] (\<lambda>q. \<lparr>W_Status = (if isl (Inl ErrNoDeployer :: helper_error + unit) then 500 else 200),
       W_WWWAuthenticate = None, W_Body = []\<rparr>)
     \<lparr>R_Method = ''POST'', R_Path = ''/mcp'', R_Authorization = ''Bearer secret'', R_Deployer = None\<rparr>"
  by (rule bearer_only_callers_rejected
      [where h = "\<lambda>x. \<lparr>W_Status = (if isl x then 500 else 200), W_WWWAuthenticate = None, W_Body = []\<rparr>"]) simp

end
