(* ===== verification/Identity.thy ===== *)
theory Identity
  imports Sha256 Authz_Annotations
begin

text \<open>
  The identity compiler of the exoskeleton, \<^verbatim>\<open>pkg/exoskeleton/identity.go\<close>: the database
  role, bucket, NATS user and SPIFFE identity derived from an enclave and a tentacle name.
  The locale \<open>name_truncation\<close> states what the two truncating functions promise and proves
  length, alphabet and idempotence once. The lemmas bound every identifier, show which of
  them separate tenants and that the two compilers agree.
\<close>

record Identity =
  I_Namespace :: string
  I_Workflow :: string
  I_Principal :: string
  I_PgRole :: string
  I_PgSchema :: string
  I_NATSUser :: string
  I_NATSPrefix :: string
  I_S3Prefix :: string
  I_S3User :: string
  I_S3Policy :: string

record EnclaveIdentity =
  EN_Enclave :: string
  EN_PgDB :: string
  EN_S3Bucket :: string
  EN_NATSAcct :: string

record TentacleIdentity =
  TI_Enclave :: EnclaveIdentity
  TI_Tentacle :: string
  TI_PgSchema :: string
  TI_S3Prefix :: string
  TI_NATSUser :: string
  TI_SpireSVID :: string

datatype identity_error =
    ErrEmptyNamespace
  | ErrEmptyWorkflow
  | ErrEmptyEnclave
  | ErrEmptyTentacle
  | ErrNotLabel string
  | ErrHasDot string

definition maxPgIdentLen :: nat where "maxPgIdentLen = 63"
definition maxS3BucketLen :: nat where "maxS3BucketLen = 63"

definition pg_safe :: "char \<Rightarrow> bool" where
  "pg_safe c \<longleftrightarrow> is_lower c \<or> is_digit c \<or> c = CHR ''_''"

definition replacePg :: "string \<Rightarrow> string" where
  "replacePg s = filter pg_safe (ToLower (ReplaceAllChar CHR ''-'' ''_'' s))"

definition hash_suffix :: "char \<Rightarrow> string \<Rightarrow> string" where
  "hash_suffix sep raw = sep # concat (map hex_byte (take 4 (Sum256 raw)))"

definition truncatePg :: "string \<Rightarrow> string" where
  "truncatePg raw =
     (if length raw \<le> maxPgIdentLen then raw
      else let suffix = hash_suffix CHR ''_'' raw in take (maxPgIdentLen - length suffix) raw @ suffix)"

definition truncateS3Bucket :: "string \<Rightarrow> string" where
  "truncateS3Bucket raw =
     (if length raw \<le> maxS3BucketLen then raw
      else let suffix = hash_suffix CHR ''-'' raw in take (maxS3BucketLen - length suffix) raw @ suffix)"

definition sanitizePg :: "string \<Rightarrow> string \<Rightarrow> string" where
  "sanitizePg namespace workflow =
     (let raw = ''tn_'' @ replacePg namespace @ ''_'' @ replacePg workflow in truncatePg raw)"

definition CompileIdentity :: "string \<Rightarrow> string \<Rightarrow> identity_error + Identity" where
  "CompileIdentity namespace workflow =
     (if namespace = [] then Inl ErrEmptyNamespace
      else if workflow = [] then Inl ErrEmptyWorkflow
      else let pgBase = sanitizePg namespace workflow in
        Inr \<lparr>I_Namespace = namespace,
             I_Workflow = workflow,
             I_Principal = ''spiffe://tentacular/ns/'' @ namespace @ ''/tentacles/'' @ workflow,
             I_PgRole = pgBase,
             I_PgSchema = pgBase,
             I_NATSUser = ''tentacle.'' @ namespace @ ''.'' @ workflow,
             I_NATSPrefix = ''tentacular.'' @ namespace @ ''.'' @ workflow @ ''.>'',
             I_S3Prefix = ''ns/'' @ namespace @ ''/tentacles/'' @ workflow @ ''/'',
             I_S3User = pgBase,
             I_S3Policy = truncatePg (''tn_'' @ replacePg namespace @ ''_'' @ replacePg workflow @ ''_policy'')\<rparr>)"

definition exo_ValidateEnclaveName :: "string \<Rightarrow> identity_error + unit" where
  "exo_ValidateEnclaveName name =
     (if name = [] then Inl ErrEmptyEnclave
      else if \<not> MatchString dns1123LabelRe name then Inl (ErrNotLabel name)
      else if Contains name ''.'' then Inl (ErrHasDot name)
      else Inr ())"

definition CompileEnclaveIdentity :: "string \<Rightarrow> identity_error + EnclaveIdentity" where
  "CompileEnclaveIdentity enclave =
     (case exo_ValidateEnclaveName enclave of Inl e \<Rightarrow> Inl e | Inr _ \<Rightarrow>
        Inr \<lparr>EN_Enclave = enclave,
             EN_PgDB = truncatePg (''tn_'' @ replacePg enclave),
             EN_S3Bucket = truncateS3Bucket (''tentacular-'' @ enclave),
             EN_NATSAcct = ''tentacular.'' @ enclave\<rparr>)"

definition CompileTentacleIdentity :: "string \<Rightarrow> string \<Rightarrow> identity_error + TentacleIdentity" where
  "CompileTentacleIdentity enclave tentacle =
     (case CompileEnclaveIdentity enclave of Inl e \<Rightarrow> Inl e | Inr enc \<Rightarrow>
      if tentacle = [] then Inl ErrEmptyTentacle
      else Inr \<lparr>TI_Enclave = enc,
                TI_Tentacle = tentacle,
                TI_PgSchema = truncatePg (''tn_'' @ replacePg enclave @ ''_'' @ replacePg tentacle),
                TI_S3Prefix = ''tentacles/'' @ tentacle @ ''/'',
                TI_NATSUser = ''tentacular.'' @ enclave @ ''.'' @ tentacle,
                TI_SpireSVID = ''spiffe://tentacular/enclaves/'' @ enclave @ ''/tentacles/'' @ tentacle\<rparr>)"

section \<open>Truncation\<close>

lemma hex_digit_class: "n < 16 \<Longrightarrow> is_digit (hex_digit n) \<or> is_lower (hex_digit n)"
  by (auto simp: hex_digit_def class_defs)

lemma hex_byte_chars: "b < 256 \<Longrightarrow> c \<in> set (hex_byte b) \<Longrightarrow> is_digit c \<or> is_lower c"
  using hex_digit_class [of "b div 16"] hex_digit_class [of "b mod 16"] by (auto simp: hex_byte_def)

lemma length_hash_suffix [simp]: "length (hash_suffix sep raw) = 9"
proof -
  have "length (concat (map hex_byte bs)) = 2 * length bs" for bs
    by (induction bs) (auto simp: hex_byte_def)
  then show ?thesis by (simp add: hash_suffix_def)
qed

lemma hash_suffix_chars:
  "c \<in> set (hash_suffix sep raw) \<Longrightarrow> c = sep \<or> is_digit c \<or> is_lower c"
  by (auto simp: hash_suffix_def dest!: in_set_takeD Sum256_bytes dest: hex_byte_chars)

lemma last_Cons_in: "xs \<noteq> [] \<Longrightarrow> last (x # xs) \<in> set xs"
  by simp

lemma last_hash_suffix: "is_digit (last (hash_suffix sep raw)) \<or> is_lower (last (hash_suffix sep raw))"
proof -
  have "concat (map hex_byte (take 4 (Sum256 raw))) \<noteq> []"
  proof
    assume "concat (map hex_byte (take 4 (Sum256 raw))) = []"
    then have "length (hash_suffix sep raw) = 1" unfolding hash_suffix_def by (simp only: list.size)
    then show False by simp
  qed
  then have "last (hash_suffix sep raw) \<in> set (concat (map hex_byte (take 4 (Sum256 raw))))"
    unfolding hash_suffix_def by (rule last_Cons_in)
  then show ?thesis
    by (auto dest!: in_set_takeD Sum256_bytes dest: hex_byte_chars)
qed

locale name_truncation =
  fixes trunc :: "string \<Rightarrow> string" and sep :: char
  assumes short: "length raw \<le> 63 \<Longrightarrow> trunc raw = raw"
    and long: "63 < length raw \<Longrightarrow> trunc raw = take 54 raw @ hash_suffix sep raw"
begin

lemma length_trunc: "length (trunc raw) \<le> 63"
  by (cases "length raw \<le> 63") (auto simp: short long)

lemma trunc_idem: "trunc (trunc raw) = trunc raw"
  by (rule short) (rule length_trunc)

lemma trunc_prefix: "take 54 (trunc raw) = take 54 raw"
  by (cases "length raw \<le> 63") (auto simp: short long)

lemma trunc_chars:
  assumes "c \<in> set (trunc raw)"
  shows "c \<in> set raw \<or> c = sep \<or> is_digit c \<or> is_lower c"
  using assms by (cases "length raw \<le> 63") (auto simp: short long dest: in_set_takeD hash_suffix_chars)

lemma trunc_nonempty: "raw \<noteq> [] \<Longrightarrow> trunc raw \<noteq> []"
  by (cases "length raw \<le> 63") (auto simp: short long hash_suffix_def)

lemma hd_trunc: "raw \<noteq> [] \<Longrightarrow> hd (trunc raw) = hd raw"
  using trunc_prefix [of raw] trunc_nonempty [of raw]
  by (metis hd_take zero_less_numeral)

lemma last_trunc:
  "last (trunc raw) = last raw \<or> is_digit (last (trunc raw)) \<or> is_lower (last (trunc raw))"
proof (cases "length raw \<le> 63")
  case False
  have "hash_suffix sep raw \<noteq> []" by (simp add: hash_suffix_def)
  with False show ?thesis using last_hash_suffix [of sep raw] by (simp add: long)
qed (simp add: short)

end

interpretation pg: name_truncation truncatePg "CHR ''_''"
  by unfold_locales (simp_all add: truncatePg_def maxPgIdentLen_def)

interpretation s3: name_truncation truncateS3Bucket "CHR ''-''"
  by unfold_locales (simp_all add: truncateS3Bucket_def maxS3BucketLen_def)

section \<open>Properties of the identities\<close>

text \<open>A usable Postgres identifier: at most 63 bytes, each a lower-case letter, a digit or an
  underscore, starting with the prefix of the server.\<close>

definition pg_ident :: "string \<Rightarrow> bool" where
  "pg_ident s \<longleftrightarrow> length s \<le> 63 \<and> list_all pg_safe s \<and> HasPrefix s ''tn_''"

lemma replacePg_safe: "c \<in> set (replacePg s) \<Longrightarrow> pg_safe c"
  by (simp add: replacePg_def)

lemma pg_safe_literals [simp]:
  "pg_safe CHR ''t''" "pg_safe CHR ''n''" "pg_safe CHR ''_''" "pg_safe CHR ''p''" "pg_safe CHR ''o''"
  "pg_safe CHR ''l''" "pg_safe CHR ''i''" "pg_safe CHR ''c''" "pg_safe CHR ''y''"
  by (simp_all add: pg_safe_def class_defs)

lemma pg_ident_truncatePg:
  assumes "\<forall>c \<in> set t. pg_safe c"
  shows "pg_ident (truncatePg (''tn_'' @ t))"
proof -
  let ?r = "truncatePg (''tn_'' @ t)"
  have "pg_safe c" if "c \<in> set ?r" for c
    using pg.trunc_chars [OF that]
  proof (elim disjE)
    assume "c \<in> set (''tn_'' @ t)"
    then show ?thesis using assms by auto
  qed (auto simp: pg_safe_def)
  moreover have "take 3 ?r = ''tn_''"
  proof -
    have "take 3 (take 54 ?r) = take 3 (take 54 (''tn_'' @ t))" by (simp add: pg.trunc_prefix)
    then show ?thesis by (simp add: take_Cons')
  qed
  then have "?r = ''tn_'' @ drop 3 ?r" using append_take_drop_id [of 3 ?r] by simp
  then have "HasPrefix ?r ''tn_''" unfolding HasPrefix_iff by (rule exI)
  ultimately show ?thesis by (auto simp: pg_ident_def list_all_iff pg.length_trunc)
qed

lemma CompileIdentity_ok_iff:
  "(\<exists>i. CompileIdentity ns flow = Inr i) \<longleftrightarrow> ns \<noteq> [] \<and> flow \<noteq> []"
  by (auto simp: CompileIdentity_def Let_def)

lemma pg_ident_sanitizePg: "pg_ident (sanitizePg ns flow)"
  unfolding sanitizePg_def Let_def by (rule pg_ident_truncatePg) (auto simp: replacePg_safe)

text \<open>For every namespace and workflow name, however long and whatever bytes it has, the
  database role, schema, object-store user and policy name are usable identifiers: at most
  63 bytes over lower-case letters, digits and underscores, with the server's prefix.\<close>

theorem CompileIdentity_identifiers:
  assumes "CompileIdentity ns flow = Inr i"
  shows "pg_ident (I_PgRole i) \<and> pg_ident (I_PgSchema i) \<and> pg_ident (I_S3User i) \<and> pg_ident (I_S3Policy i)"
proof -
  have "pg_ident (truncatePg (''tn_'' @ replacePg ns @ ''_'' @ replacePg flow @ ''_policy''))"
    by (rule pg_ident_truncatePg) (auto simp: replacePg_safe)
  with assms show ?thesis
    by (auto simp: CompileIdentity_def Let_def pg_ident_sanitizePg split: if_splits)
qed

definition sample_identity :: Identity where
  "sample_identity =
     \<lparr>I_Namespace = ''lab'', I_Workflow = ''My-wf'',
      I_Principal = ''spiffe://tentacular/ns/lab/tentacles/My-wf'',
      I_PgRole = ''tn_lab_my_wf'', I_PgSchema = ''tn_lab_my_wf'',
      I_NATSUser = ''tentacle.lab.My-wf'', I_NATSPrefix = ''tentacular.lab.My-wf.>'',
      I_S3Prefix = ''ns/lab/tentacles/My-wf/'', I_S3User = ''tn_lab_my_wf'', I_S3Policy = ''tn_lab_my_wf_policy''\<rparr>"

lemma sample_identity_compiled: "CompileIdentity ''lab'' ''My-wf'' = Inr sample_identity"
proof -
  have "replacePg ''lab'' = ''lab''" "replacePg ''My-wf'' = ''my_wf''" by code_simp+
  then show ?thesis
    by (simp add: CompileIdentity_def sanitizePg_def sample_identity_def truncatePg_def maxPgIdentLen_def Let_def)
qed

theorem CompileIdentity_identifiers_witness:
  "pg_ident (I_PgRole sample_identity) \<and> pg_ident (I_PgSchema sample_identity) \<and>
     pg_ident (I_S3User sample_identity) \<and> pg_ident (I_S3Policy sample_identity)"
  by (rule CompileIdentity_identifiers) (rule sample_identity_compiled)

lemma append_sep_inj:
  assumes "x @ s # y = x' @ s # y'" and "s \<notin> set x" and "s \<notin> set x'"
  shows "x = x' \<and> y = y'"
proof -
  have "takeWhile (\<lambda>c. c \<noteq> s) (z @ s # t) = z" if "s \<notin> set z" for z t
    using that by (induction z) auto
  then have "x = x'" using assms by metis
  with assms(1) show ?thesis by simp
qed

lemma CompileIdentity_fields:
  assumes "CompileIdentity ns flow = Inr i"
  shows "I_Principal i = ''spiffe://tentacular/ns/'' @ ns @ ''/tentacles/'' @ flow"
    and "I_NATSUser i = ''tentacle.'' @ ns @ ''.'' @ flow"
    and "I_NATSPrefix i = ''tentacular.'' @ ns @ ''.'' @ flow @ ''.>''"
    and "I_S3Prefix i = ''ns/'' @ ns @ ''/tentacles/'' @ flow @ ''/''"
  using assms by (auto simp: CompileIdentity_def Let_def split: if_splits)

text \<open>C37: the SPIFFE identity, the NATS user, the NATS subject prefix and the object prefix
  separate tenants: identities compiled from different namespaces or workflows differ in all
  four (namespaces, as Kubernetes has them, contain neither a dot nor a slash).\<close>

theorem CompileIdentity_separates:
  assumes "CompileIdentity ns1 wf1 = Inr i1" and "CompileIdentity ns2 wf2 = Inr i2"
    and "list_all dns_inner ns1" and "list_all dns_inner ns2" and "(ns1, wf1) \<noteq> (ns2, wf2)"
  shows "I_Principal i1 \<noteq> I_Principal i2 \<and> I_NATSUser i1 \<noteq> I_NATSUser i2 \<and>
         I_NATSPrefix i1 \<noteq> I_NATSPrefix i2 \<and> I_S3Prefix i1 \<noteq> I_S3Prefix i2"
proof -
  have dot: "CHR ''.'' \<notin> set ns1" "CHR ''.'' \<notin> set ns2" and slash: "CHR ''/'' \<notin> set ns1" "CHR ''/'' \<notin> set ns2"
    using assms(3,4) by (auto simp: list_all_iff dns_inner_def class_defs)
  have sep: "ns1 @ c # u = ns2 @ c # v \<longleftrightarrow> ns1 = ns2 \<and> u = v" if "c = CHR ''.'' \<or> c = CHR ''/''" for u v c
    using append_sep_inj [of ns1 c u ns2 v] that dot slash by auto
  have "I_Principal i1 \<noteq> I_Principal i2" "I_NATSUser i1 \<noteq> I_NATSUser i2"
    "I_NATSPrefix i1 \<noteq> I_NATSPrefix i2" "I_S3Prefix i1 \<noteq> I_S3Prefix i2"
    using assms(5) sep unfolding CompileIdentity_fields [OF assms(1)] CompileIdentity_fields [OF assms(2)]
    by simp_all
  then show ?thesis by blast
qed

definition sample_identity2 :: Identity where
  "sample_identity2 =
     \<lparr>I_Namespace = ''lab'', I_Workflow = ''x'',
      I_Principal = ''spiffe://tentacular/ns/lab/tentacles/x'',
      I_PgRole = ''tn_lab_x'', I_PgSchema = ''tn_lab_x'',
      I_NATSUser = ''tentacle.lab.x'', I_NATSPrefix = ''tentacular.lab.x.>'',
      I_S3Prefix = ''ns/lab/tentacles/x/'', I_S3User = ''tn_lab_x'', I_S3Policy = ''tn_lab_x_policy''\<rparr>"

lemma sample_identity2_compiled: "CompileIdentity ''lab'' ''x'' = Inr sample_identity2"
proof -
  have "replacePg ''lab'' = ''lab''" "replacePg ''x'' = ''x''" by code_simp+
  then show ?thesis
    by (simp add: CompileIdentity_def sanitizePg_def sample_identity2_def truncatePg_def maxPgIdentLen_def Let_def)
qed

theorem CompileIdentity_separates_witness:
  "I_Principal sample_identity \<noteq> I_Principal sample_identity2 \<and> I_NATSUser sample_identity \<noteq> I_NATSUser sample_identity2 \<and>
   I_NATSPrefix sample_identity \<noteq> I_NATSPrefix sample_identity2 \<and> I_S3Prefix sample_identity \<noteq> I_S3Prefix sample_identity2"
  by (rule CompileIdentity_separates [OF sample_identity_compiled sample_identity2_compiled])
    (simp_all add: dns_inner_def class_defs)

text \<open>The database role does not separate tenants: hyphens are folded into the separator, so
  different namespaces and workflows can compile to the same role, schema and object-store user.\<close>

theorem CompileIdentity_role_collision:
  "\<exists>i1 i2. CompileIdentity ''a-b'' ''c'' = Inr i1 \<and> CompileIdentity ''a'' ''b-c'' = Inr i2 \<and>
     I_PgRole i1 = I_PgRole i2 \<and> I_S3User i1 = I_S3User i2 \<and> I_Principal i1 \<noteq> I_Principal i2"
proof -
  have "replacePg ''a-b'' = ''a_b''" "replacePg ''c'' = ''c''" "replacePg ''a'' = ''a''" "replacePg ''b-c'' = ''b_c''"
    by code_simp+
  then show ?thesis by (simp add: CompileIdentity_def sanitizePg_def Let_def)
qed

lemma exo_ValidateEnclaveName_iff:
  "exo_ValidateEnclaveName name = Inr () \<longleftrightarrow> ValidateEnclaveName name = Inr ()"
  by (auto simp: exo_ValidateEnclaveName_def ValidateEnclaveName_def dns1123LabelRe_def dns.accepts_iff)

text \<open>The copy of the enclave-name check in the exoskeleton accepts exactly the names the
  authorization package accepts, and an enclave identity exists for exactly those names.\<close>

theorem ValidateEnclaveName_copies_agree:
  "(exo_ValidateEnclaveName name = Inr () \<longleftrightarrow> ValidateEnclaveName name = Inr ()) \<and>
   ((\<exists>i. CompileEnclaveIdentity name = Inr i) \<longleftrightarrow> ValidateEnclaveName name = Inr ())"
  using exo_ValidateEnclaveName_iff [of name]
  by (auto simp: CompileEnclaveIdentity_def split: sum.splits)

text \<open>The bucket and the database of an enclave are always usable: the bucket name is itself a
  DNS label of at most 63 bytes and the database name a Postgres identifier, also when the
  enclave name had to be shortened.\<close>

theorem CompileEnclaveIdentity_usable:
  assumes "CompileEnclaveIdentity enclave = Inr i"
  shows "MatchString dns1123LabelRe (EN_S3Bucket i) \<and> pg_ident (EN_PgDB i)"
proof -
  have ok: "ValidateEnclaveName enclave = Inr ()"
    and i: "EN_S3Bucket i = truncateS3Bucket (''tentacular-'' @ enclave)" "EN_PgDB i = truncatePg (''tn_'' @ replacePg enclave)"
    using assms exo_ValidateEnclaveName_iff [of enclave]
    by (auto simp: CompileEnclaveIdentity_def split: sum.splits)
  let ?raw = "''tentacular-'' @ enclave"
  have enc: "enclave \<noteq> []" "dns_outer (last enclave)" "\<forall>c \<in> set enclave. dns_inner c"
    using ok by (auto simp: ValidateEnclaveName_iff list_all_iff)
  have lit: "\<forall>c \<in> set ''tentacular-''. dns_inner c" "dns_outer CHR ''t''"
    by (simp_all add: dns_inner_def dns_outer_def class_defs)
  have "dns_inner c" if "c \<in> set (truncateS3Bucket ?raw)" for c
    using s3.trunc_chars [OF that] enc(3) lit(1) unfolding set_append dns_inner_def by blast
  moreover have "dns_outer (hd (truncateS3Bucket ?raw))"
    using s3.hd_trunc [of ?raw] lit(2) by simp
  moreover have "dns_outer (last (truncateS3Bucket ?raw))"
    using s3.last_trunc [of ?raw] enc(1,2) by (auto simp: dns_outer_def)
  moreover have "truncateS3Bucket ?raw \<noteq> []" by (rule s3.trunc_nonempty) simp
  ultimately show ?thesis
    using pg_ident_truncatePg [of "replacePg enclave"]
    unfolding i dns1123LabelRe_def dns.accepts_iff by (simp add: s3.length_trunc replacePg_safe)
qed

definition sample_enclave_identity :: EnclaveIdentity where
  "sample_enclave_identity =
     \<lparr>EN_Enclave = ''lab'', EN_PgDB = ''tn_lab'', EN_S3Bucket = ''tentacular-lab'', EN_NATSAcct = ''tentacular.lab''\<rparr>"

lemma sample_enclave_identity_compiled: "CompileEnclaveIdentity ''lab'' = Inr sample_enclave_identity"
proof -
  have "exo_ValidateEnclaveName ''lab'' = Inr ()" "replacePg ''lab'' = ''lab''" by code_simp+
  then show ?thesis
    by (simp add: CompileEnclaveIdentity_def sample_enclave_identity_def truncatePg_def truncateS3Bucket_def
        maxPgIdentLen_def maxS3BucketLen_def)
qed

theorem CompileEnclaveIdentity_usable_witness:
  "MatchString dns1123LabelRe (EN_S3Bucket sample_enclave_identity) \<and> pg_ident (EN_PgDB sample_enclave_identity)"
  by (rule CompileEnclaveIdentity_usable) (rule sample_enclave_identity_compiled)

lemma CompileTentacleIdentity_schema:
  "CompileTentacleIdentity enclave tentacle = Inr ti \<Longrightarrow>
     \<exists>i. CompileIdentity enclave tentacle = Inr i \<and> I_PgSchema i = TI_PgSchema ti"
  by (auto simp: CompileTentacleIdentity_def CompileEnclaveIdentity_def CompileIdentity_def sanitizePg_def
      exo_ValidateEnclaveName_def Let_def split: sum.splits if_splits)

end
