(* ===== verification/Exo_Config.thy ===== *)
theory Exo_Config
  imports Auth
begin

text \<open>
  Configuration of the exoskeleton, \<^verbatim>\<open>pkg/exoskeleton/config.go\<close>. The process environment is
  a function from variable names to values, the empty string for an unset one, as
  \<^verbatim>\<open>os.Getenv\<close> returns. The lemmas characterise the configurations the validator accepts.
\<close>

record PostgresConfig =
  PC_Host :: string
  PC_Port :: string
  PC_Database :: string
  PC_User :: string
  PC_Password :: string
  PC_SSLMode :: string

record NATSConfig =
  NC_URL :: string
  NC_Token :: string
  NC_AuthzConfigMap :: string
  NC_AuthzNamespace :: string
  NC_SPIFFEEnabled :: bool

record RustFSConfig =
  RC_Endpoint :: string
  RC_AccessKey :: string
  RC_SecretKey :: string
  RC_Bucket :: string
  RC_Region :: string

record SPIREConfig =
  SC_ClassName :: string
  SC_Enabled :: bool

record Config =
  Cfg_Postgres :: PostgresConfig
  Cfg_RustFS :: RustFSConfig
  Cfg_NATS :: NATSConfig
  Cfg_SPIRE :: SPIREConfig
  Cfg_Auth :: AuthConfig
  Cfg_Enabled :: bool
  Cfg_CleanupOnUndeploy :: bool

type_synonym env = "string \<Rightarrow> string"

definition envBool :: "env \<Rightarrow> string \<Rightarrow> bool" where
  "envBool getenv key =
     (let v = ToLower (getenv key) in v = ''true'' \<or> v = ''1'' \<or> v = ''yes'')"

definition envDefault :: "env \<Rightarrow> string \<Rightarrow> string \<Rightarrow> string" where
  "envDefault getenv key dflt = (let v = getenv key in if v = [] then dflt else v)"

definition parseTrustedAZPs :: "string \<Rightarrow> string list" where
  "parseTrustedAZPs val =
     (if val = [] then [] else filter (\<lambda>s. s \<noteq> []) (map TrimSpace (Split CHR '','' val)))"

definition LoadFromEnv :: "env \<Rightarrow> Config" where
  "LoadFromEnv getenv =
     \<lparr>Cfg_Postgres =
        \<lparr>PC_Host = getenv ''TENTACULAR_POSTGRES_ADMIN_HOST'',
         PC_Port = envDefault getenv ''TENTACULAR_POSTGRES_ADMIN_PORT'' ''5432'',
         PC_Database = envDefault getenv ''TENTACULAR_POSTGRES_ADMIN_DATABASE'' ''tentacular'',
         PC_User = getenv ''TENTACULAR_POSTGRES_ADMIN_USER'',
         PC_Password = getenv ''TENTACULAR_POSTGRES_ADMIN_PASSWORD'',
         PC_SSLMode = envDefault getenv ''TENTACULAR_POSTGRES_SSLMODE'' ''disable''\<rparr>,
      Cfg_RustFS =
        \<lparr>RC_Endpoint = getenv ''TENTACULAR_RUSTFS_ENDPOINT'',
         RC_AccessKey = getenv ''TENTACULAR_RUSTFS_ACCESS_KEY'',
         RC_SecretKey = getenv ''TENTACULAR_RUSTFS_SECRET_KEY'',
         RC_Bucket = envDefault getenv ''TENTACULAR_RUSTFS_BUCKET'' ''tentacular'',
         RC_Region = envDefault getenv ''TENTACULAR_RUSTFS_REGION'' ''us-east-1''\<rparr>,
      Cfg_NATS =
        \<lparr>NC_URL = getenv ''TENTACULAR_NATS_URL'',
         NC_Token = getenv ''TENTACULAR_NATS_TOKEN'',
         NC_AuthzConfigMap = envDefault getenv ''TENTACULAR_NATS_AUTHZ_CONFIGMAP'' ''nats-tentacular-authz'',
         NC_AuthzNamespace = envDefault getenv ''TENTACULAR_NATS_AUTHZ_NAMESPACE'' ''tentacular-exoskeleton'',
         NC_SPIFFEEnabled = envBool getenv ''TENTACULAR_NATS_SPIFFE_ENABLED''\<rparr>,
      Cfg_SPIRE =
        \<lparr>SC_ClassName = envDefault getenv ''TENTACULAR_SPIRE_CLASS_NAME'' ''tentacular-system-spire'',
         SC_Enabled = envBool getenv ''TENTACULAR_EXOSKELETON_SPIRE_ENABLED''\<rparr>,
      Cfg_Auth =
        \<lparr>IssuerURL = getenv ''TENTACULAR_KEYCLOAK_ISSUER'',
         ClientID = getenv ''TENTACULAR_KEYCLOAK_CLIENT_ID'',
         ClientSecret = getenv ''TENTACULAR_KEYCLOAK_CLIENT_SECRET'',
         TrustedAZPs = parseTrustedAZPs (getenv ''TENTACULAR_KEYCLOAK_TRUSTED_AZPS''),
         AuthEnabled = envBool getenv ''TENTACULAR_EXOSKELETON_AUTH_ENABLED''\<rparr>,
      Cfg_Enabled = envBool getenv ''TENTACULAR_EXOSKELETON_ENABLED'',
      Cfg_CleanupOnUndeploy = envBool getenv ''TENTACULAR_EXOSKELETON_CLEANUP_ON_UNDEPLOY''\<rparr>"

definition PostgresEnabled :: "Config \<Rightarrow> bool" where
  "PostgresEnabled c \<longleftrightarrow> Cfg_Enabled c \<and> PC_Host (Cfg_Postgres c) \<noteq> [] \<and> PC_User (Cfg_Postgres c) \<noteq> [] \<and>
     PC_Password (Cfg_Postgres c) \<noteq> []"

definition NATSEnabled :: "Config \<Rightarrow> bool" where
  "NATSEnabled c \<longleftrightarrow> Cfg_Enabled c \<and> NC_URL (Cfg_NATS c) \<noteq> []"

definition RustFSEnabled :: "Config \<Rightarrow> bool" where
  "RustFSEnabled c \<longleftrightarrow> Cfg_Enabled c \<and> RC_Endpoint (Cfg_RustFS c) \<noteq> [] \<and> RC_AccessKey (Cfg_RustFS c) \<noteq> [] \<and>
     RC_SecretKey (Cfg_RustFS c) \<noteq> []"

definition ConfigAuthEnabled :: "Config \<Rightarrow> bool" where
  "ConfigAuthEnabled c \<longleftrightarrow> AuthEnabled (Cfg_Auth c) \<and> IssuerURL (Cfg_Auth c) \<noteq> [] \<and> ClientID (Cfg_Auth c) \<noteq> []"

definition SPIREEnabled :: "Config \<Rightarrow> bool" where
  "SPIREEnabled c \<longleftrightarrow> Cfg_Enabled c \<and> SC_Enabled (Cfg_SPIRE c)"

definition missing :: "(string \<times> string) list \<Rightarrow> string" where
  "missing vars = Join (map fst (filter (\<lambda>(name, v). v = []) vars)) '', ''"

definition pg_problems :: "Config \<Rightarrow> string list" where
  "pg_problems c =
     (let p = Cfg_Postgres c in
      if (PC_Host p \<noteq> [] \<or> PC_User p \<noteq> [] \<or> PC_Password p \<noteq> []) \<and> \<not> PostgresEnabled c
      then [''postgres partially configured, missing: '' @
            missing [(''TENTACULAR_POSTGRES_ADMIN_HOST'', PC_Host p), (''TENTACULAR_POSTGRES_ADMIN_USER'', PC_User p),
                     (''TENTACULAR_POSTGRES_ADMIN_PASSWORD'', PC_Password p)]]
      else [])"

definition nats_problems :: "Config \<Rightarrow> string list" where
  "nats_problems c =
     (let n = Cfg_NATS c in
      if NC_URL n \<noteq> [] \<and> \<not> NC_SPIFFEEnabled n \<and> NC_Token n = []
      then [''nats URL configured but no auth method set; provide TENTACULAR_NATS_TOKEN or enable TENTACULAR_NATS_SPIFFE_ENABLED'']
      else [])"

definition rustfs_problems :: "Config \<Rightarrow> string list" where
  "rustfs_problems c =
     (let r = Cfg_RustFS c in
      if (RC_Endpoint r \<noteq> [] \<or> RC_AccessKey r \<noteq> [] \<or> RC_SecretKey r \<noteq> []) \<and> \<not> RustFSEnabled c
      then [''rustfs partially configured, missing: '' @
            missing [(''TENTACULAR_RUSTFS_ENDPOINT'', RC_Endpoint r), (''TENTACULAR_RUSTFS_ACCESS_KEY'', RC_AccessKey r),
                     (''TENTACULAR_RUSTFS_SECRET_KEY'', RC_SecretKey r)]]
      else [])"

definition auth_problems :: "Config \<Rightarrow> string list" where
  "auth_problems c =
     (let a = Cfg_Auth c in
      if AuthEnabled a \<and> \<not> ConfigAuthEnabled c
      then [''auth enabled but missing: '' @
            missing [(''TENTACULAR_KEYCLOAK_ISSUER'', IssuerURL a), (''TENTACULAR_KEYCLOAK_CLIENT_ID'', ClientID a)]]
      else [])"

definition Validate :: "Config \<Rightarrow> string + unit" where
  "Validate c =
     (if \<not> Cfg_Enabled c then Inr ()
      else let problems = pg_problems c @ nats_problems c @ rustfs_problems c @ auth_problems c in
        if 0 < length problems then Inl (''exoskeleton config: '' @ Join problems ''; '') else Inr ())"

lemma parseTrustedAZPs_clean:
  "s \<in> set (parseTrustedAZPs v) \<Longrightarrow> s \<noteq> [] \<and> TrimSpace s = s"
  by (auto simp: parseTrustedAZPs_def split: if_splits)

text \<open>An enabled exoskeleton passes validation exactly when every service is either untouched or
  completely configured: Postgres and RustFS have all or none of their credentials, a NATS
  URL comes with a token or SPIFFE, and enabled authentication has issuer and client; the
  predicates that decide which services start agree with it.\<close>

theorem Validate_accepts:
  "Validate c = Inr () \<longleftrightarrow>
     (if Cfg_Enabled c then
        (PostgresEnabled c \<or> (PC_Host (Cfg_Postgres c) = [] \<and> PC_User (Cfg_Postgres c) = [] \<and> PC_Password (Cfg_Postgres c) = [])) \<and>
        (RustFSEnabled c \<or> (RC_Endpoint (Cfg_RustFS c) = [] \<and> RC_AccessKey (Cfg_RustFS c) = [] \<and> RC_SecretKey (Cfg_RustFS c) = [])) \<and>
        (NC_URL (Cfg_NATS c) = [] \<or> NC_SPIFFEEnabled (Cfg_NATS c) \<or> 0 < length (NC_Token (Cfg_NATS c))) \<and>
        (AuthEnabled (Cfg_Auth c) = ConfigAuthEnabled c)
      else True)"
  by (auto simp: Validate_def pg_problems_def nats_problems_def rustfs_problems_def auth_problems_def
      ConfigAuthEnabled_def Let_def)

end
