(* ===== verification/Nats_Authz.thy ===== *)
theory Nats_Authz
  imports Identity Exo_Config Mem_Kube Guard
begin

text \<open>
  The NATS registrar, \<^verbatim>\<open>pkg/exoskeleton/registrar_nats.go\<close>: the authorization file it keeps in
  a ConfigMap, its parser and renderer, and the registration of a tentacle in token and
  SPIFFE mode. The main lemma is that the parser reads back what the renderer wrote; with
  it, registering a tentacle changes its own entry and nobody else's, and removing it
  removes exactly that. \<^verbatim>\<open>sort.Slice\<close> is modelled by a stable sort on the user.
\<close>

record NATSCreds =
  NCr_URL :: string
  NCr_Token :: string
  NCr_SubjectPrefix :: string
  NCr_Protocol :: string
  NCr_AuthMethod :: string

record natsAuthzEntry =
  NA_User :: string
  NA_PublishAllow :: "string list"
  NA_SubscribeAllow :: "string list"

datatype nats_error =
    NatsNoClientset
  | NatsConnect string
  | NatsGet api_err
  | NatsCreate api_err
  | NatsUpdate api_err

section \<open>Parsing\<close>

definition Index :: "string \<Rightarrow> char \<Rightarrow> nat option" where
  "Index s c = (if c \<in> set s then Some (length (takeWhile (\<lambda>x. x \<noteq> c) s)) else None)"

definition LastIndex :: "string \<Rightarrow> char \<Rightarrow> nat option" where
  "LastIndex s c = (if c \<in> set s then Some (length s - 1 - length (takeWhile (\<lambda>x. x \<noteq> c) (rev s))) else None)"

definition trim_quotes :: "string \<Rightarrow> string" where
  "trim_quotes s = Trim (\<lambda>c. c = CHR 0x22) s"

definition parseAllowList :: "string \<Rightarrow> string list" where
  "parseAllowList line =
     (case (Index line CHR ''['', LastIndex line CHR '']'') of
        (Some start, Some stop) \<Rightarrow>
          if stop \<le> start then []
          else let inner = take (stop - (start + 1)) (drop (start + 1) line) in
            filter (\<lambda>p. p \<noteq> []) (map (\<lambda>p. trim_quotes (TrimSpace p)) (Split CHR '','' inner))
      | _ \<Rightarrow> [])"

text \<open>The state of the parser's loop: finished entries, the current one, and the two flags.\<close>

type_synonym pstate = "natsAuthzEntry list \<times> natsAuthzEntry option \<times> bool \<times> bool"

definition push_entry :: "natsAuthzEntry list \<Rightarrow> natsAuthzEntry option \<Rightarrow> natsAuthzEntry list" where
  "push_entry entries current = (case current of None \<Rightarrow> entries | Some e \<Rightarrow> entries @ [e])"

fun parse_line :: "pstate \<Rightarrow> string \<Rightarrow> pstate" where
  "parse_line (entries, current, inPublish, inSubscribe) line =
     (let trimmed = TrimSpace line in
      if HasPrefix trimmed ''user = '' then
        (push_entry entries current,
         Some \<lparr>NA_User = trim_quotes (TrimPrefix trimmed ''user = ''), NA_PublishAllow = [], NA_SubscribeAllow = []\<rparr>,
         False, False)
      else (case current of
        None \<Rightarrow> (entries, current, inPublish, inSubscribe)
      | Some cur \<Rightarrow>
          if HasPrefix trimmed ''publish'' \<and> Contains trimmed ''{'' then (entries, current, True, False)
          else if HasPrefix trimmed ''subscribe'' \<and> Contains trimmed ''{'' then (entries, current, False, True)
          else if HasPrefix trimmed ''allow = ['' then
            (let subjects = parseAllowList trimmed in
             if inPublish then (entries, Some (cur\<lparr>NA_PublishAllow := subjects\<rparr>), inPublish, inSubscribe)
             else if inSubscribe then (entries, Some (cur\<lparr>NA_SubscribeAllow := subjects\<rparr>), inPublish, inSubscribe)
             else (entries, current, inPublish, inSubscribe))
          else if trimmed = ''}'' \<and> (inPublish \<or> inSubscribe) then (entries, current, False, False)
          else (entries, current, inPublish, inSubscribe)))"

definition parseAuthzConfig :: "string \<Rightarrow> natsAuthzEntry list" where
  "parseAuthzConfig conf =
     (if conf = [] then []
      else case foldl parse_line ([], None, False, False) (Split CHR 0x0A conf) of
        (entries, current, _, _) \<Rightarrow> push_entry entries current)"

section \<open>Rendering\<close>

definition quoteSubjects :: "string list \<Rightarrow> string" where
  "quoteSubjects subjects = Join (map quote_str subjects) '', ''"

definition render_entry :: "natsAuthzEntry \<Rightarrow> string" where
  "render_entry e =
     ''    {'' @ [CHR 0x0A] @
     ''      user = '' @ quote_str (NA_User e) @ [CHR 0x0A] @
     ''      permissions = {'' @ [CHR 0x0A] @
     ''        publish = {'' @ [CHR 0x0A] @
     ''          allow = ['' @ quoteSubjects (NA_PublishAllow e) @ '']'' @ [CHR 0x0A] @
     ''        }'' @ [CHR 0x0A] @
     ''        subscribe = {'' @ [CHR 0x0A] @
     ''          allow = ['' @ quoteSubjects (NA_SubscribeAllow e) @ '']'' @ [CHR 0x0A] @
     ''        }'' @ [CHR 0x0A] @
     ''      }'' @ [CHR 0x0A] @
     ''    }''"

definition renderAuthzConfig :: "natsAuthzEntry list \<Rightarrow> string" where
  "renderAuthzConfig entries =
     ''authorization {'' @ [CHR 0x0A] @
     ''  users = ['' @ [CHR 0x0A] @
     Join (map render_entry (sort_key NA_User entries)) ('','' @ [CHR 0x0A]) @
     [CHR 0x0A] @ ''  ]'' @ [CHR 0x0A] @
     ''}'' @ [CHR 0x0A]"

section \<open>Registration\<close>

definition buildAuthzEntry :: "Identity \<Rightarrow> natsAuthzEntry" where
  "buildAuthzEntry i =
     \<lparr>NA_User = I_Principal i, NA_PublishAllow = [I_NATSPrefix i], NA_SubscribeAllow = [I_NATSPrefix i]\<rparr>"

fun upsert_entry :: "natsAuthzEntry \<Rightarrow> natsAuthzEntry list \<Rightarrow> natsAuthzEntry list" where
  "upsert_entry entry [] = [entry]"
| "upsert_entry entry (e # es) = (if NA_User e = NA_User entry then entry # es else e # upsert_entry entry es)"

definition upsert_conf :: "Identity \<Rightarrow> string \<Rightarrow> string" where
  "upsert_conf i conf = renderAuthzConfig (upsert_entry (buildAuthzEntry i) (parseAuthzConfig conf))"

definition remove_entry :: "Identity \<Rightarrow> natsAuthzEntry list \<Rightarrow> natsAuthzEntry list" where
  "remove_entry i entries = filter (\<lambda>e. NA_User e \<noteq> I_Principal i) entries"

definition authz_key :: string where "authz_key = ''authorization.conf''"

definition new_authz_cm :: "NATSConfig \<Rightarrow> Identity \<Rightarrow> ConfigMap" where
  "new_authz_cm cfg i =
     \<lparr>CM_Name = NC_AuthzConfigMap cfg,
      CM_Labels = [''app.kubernetes.io/managed-by'' \<mapsto> ''tentacular'', ''tentacular.io/exoskeleton'' \<mapsto> ''true''],
      CM_Data = [authz_key \<mapsto> renderAuthzConfig [buildAuthzEntry i]],
      CM_ResourceVersion = 0\<rparr>"

definition upsertAuthzEntry :: "'s kube \<Rightarrow> NATSConfig \<Rightarrow> Identity \<Rightarrow> ('s, nats_error, unit) comp" where
  "upsertAuthzEntry client cfg i s =
     (case cm_get client (NC_AuthzNamespace cfg) (NC_AuthzConfigMap cfg) s of
        Inl e \<Rightarrow>
          if e \<noteq> NotFound then (Inl (NatsGet e), s)
          else discardC (mapErrC NatsCreate (cm_create client (NC_AuthzNamespace cfg) (new_authz_cm cfg i))) s
      | Inr cm \<Rightarrow>
          discardC (mapErrC NatsUpdate (cm_update client (NC_AuthzNamespace cfg)
            (cm\<lparr>CM_Data := (CM_Data cm)(authz_key \<mapsto> upsert_conf i (mget (CM_Data cm) authz_key))\<rparr>))) s)"

definition registerToken :: "NATSConfig \<Rightarrow> Identity \<Rightarrow> NATSCreds" where
  "registerToken cfg i =
     \<lparr>NCr_URL = NC_URL cfg, NCr_Token = NC_Token cfg, NCr_SubjectPrefix = I_NATSPrefix i,
      NCr_Protocol = ''nats'', NCr_AuthMethod = ''token''\<rparr>"

definition registerSPIFFE :: "'s kube \<Rightarrow> NATSConfig \<Rightarrow> Identity \<Rightarrow> ('s, nats_error, NATSCreds) comp" where
  "registerSPIFFE client cfg i =
     bindC (upsertAuthzEntry client cfg i)
       (\<lambda>_. retC \<lparr>NCr_URL = NC_URL cfg, NCr_Token = [], NCr_SubjectPrefix = I_NATSPrefix i,
                  NCr_Protocol = ''nats'', NCr_AuthMethod = ''spiffe''\<rparr>)"

definition nats_Register :: "'s kube \<Rightarrow> NATSConfig \<Rightarrow> Identity \<Rightarrow> ('s, nats_error, NATSCreds) comp" where
  "nats_Register client cfg i =
     (if NC_SPIFFEEnabled cfg then registerSPIFFE client cfg i else retC (registerToken cfg i))"

definition unregisterSPIFFE :: "'s kube \<Rightarrow> NATSConfig \<Rightarrow> Identity \<Rightarrow> ('s, nats_error, unit) comp" where
  "unregisterSPIFFE client cfg i s =
     (case cm_get client (NC_AuthzNamespace cfg) (NC_AuthzConfigMap cfg) s of
        Inl e \<Rightarrow> if e = NotFound then (Inr (), s) else (Inl (NatsGet e), s)
      | Inr cm \<Rightarrow>
          let entries = parseAuthzConfig (mget (CM_Data cm) authz_key);
              newEntries = remove_entry i entries in
          if length newEntries = length entries then (Inr (), s)
          else discardC (mapErrC NatsUpdate (cm_update client (NC_AuthzNamespace cfg)
                 (cm\<lparr>CM_Data := (CM_Data cm)(authz_key \<mapsto> renderAuthzConfig newEntries)\<rparr>))) s)"

definition nats_Unregister :: "'s kube \<Rightarrow> NATSConfig \<Rightarrow> Identity \<Rightarrow> ('s, nats_error, unit) comp" where
  "nats_Unregister client cfg i =
     (if NC_SPIFFEEnabled cfg then unregisterSPIFFE client cfg i else retC ())"

definition NewNATSRegistrar ::
  "(string \<Rightarrow> string \<Rightarrow> string + unit) \<Rightarrow> NATSConfig \<Rightarrow> bool \<Rightarrow> nats_error + NATSConfig" where
  "NewNATSRegistrar connect cfg hasClientset =
     (if NC_SPIFFEEnabled cfg then (if \<not> hasClientset then Inl NatsNoClientset else Inr cfg)
      else case connect (NC_URL cfg) (NC_Token cfg) of Inl e \<Rightarrow> Inl (NatsConnect e) | Inr _ \<Rightarrow> Inr cfg)"

section \<open>Lines\<close>

text \<open>Text that quoting leaves alone and that has no separator of the file format: printable bytes
  other than the space, the quote, the backslash and the comma.\<close>

definition plain_char :: "char \<Rightarrow> bool" where
  "plain_char c \<longleftrightarrow> 33 \<le> (of_char c :: nat) \<and> (of_char c :: nat) \<le> 126 \<and> c \<notin> {CHR 0x22, CHR 0x5C, CHR '',''}"

definition plain :: "string \<Rightarrow> bool" where
  "plain s \<longleftrightarrow> (\<forall>c \<in> set s. plain_char c)"

definition plain_entry :: "natsAuthzEntry \<Rightarrow> bool" where
  "plain_entry e \<longleftrightarrow> plain (NA_User e) \<and>
     (\<forall>t \<in> set (NA_PublishAllow e @ NA_SubscribeAllow e). plain t \<and> t \<noteq> [])"

lemma not_plain_char [simp]:
  "\<not> plain_char CHR 0x22" "\<not> plain_char CHR 0x5C" "\<not> plain_char CHR '',''" "\<not> plain_char CHR 0x0A"
  by (simp_all add: plain_char_def)

lemma plain_char_not_space: "plain_char c \<Longrightarrow> \<not> is_space c"
  by (simp add: plain_char_def is_space_def Let_def)

lemma plain_not_mem: "plain s \<Longrightarrow> \<not> plain_char c \<Longrightarrow> c \<notin> set s"
  by (auto simp: plain_def)

lemma quote_char_plain: "plain_char c \<Longrightarrow> quote_char c = [c]"
proof -
  assume p: "plain_char c"
  have "(of_char c :: nat) \<noteq> 34"
  proof
    assume "(of_char c :: nat) = 34"
    then have "(of_char c :: nat) = of_char CHR 0x22" by simp
    with p show False by (simp only: of_char_eq_iff) (simp add: plain_char_def)
  qed
  moreover have "(of_char c :: nat) \<noteq> 92"
  proof
    assume "(of_char c :: nat) = 92"
    then have "(of_char c :: nat) = of_char CHR 0x5C" by simp
    with p show False by (simp only: of_char_eq_iff) (simp add: plain_char_def)
  qed
  ultimately show ?thesis using p by (simp add: quote_char_def plain_char_def Let_def)
qed

lemma quote_str_plain: "plain s \<Longrightarrow> quote_str s = CHR 0x22 # s @ [CHR 0x22]"
proof -
  assume "plain s"
  then have "concat (map quote_char s) = s"
    unfolding plain_def by (induction s) (simp_all add: quote_char_plain)
  then show ?thesis by (simp add: quote_str_def)
qed

lemma trim_quotes_quoted: "plain s \<Longrightarrow> trim_quotes (CHR 0x22 # s @ [CHR 0x22]) = s"
proof (cases "s = []")
  case False
  assume "plain s"
  then have "CHR 0x22 \<notin> set s" by (simp add: plain_not_mem)
  then have "hd s \<noteq> CHR 0x22" "last s \<noteq> CHR 0x22"
    using False hd_in_set last_in_set by metis+
  then have "dropWhile (\<lambda>c. c = CHR 0x22) (s @ [CHR 0x22]) = s @ [CHR 0x22]"
    and "dropWhile (\<lambda>c. c = CHR 0x22) (rev s) = rev s"
    using False by (simp_all add: dropWhile_hd hd_rev)
  then show ?thesis by (simp add: trim_quotes_def Trim_def TrimLeft_def TrimRight_def)
qed (simp add: trim_quotes_def Trim_def TrimLeft_def TrimRight_def)

lemma is_space_literals [simp]: "is_space CHR '' ''" "\<not> is_space CHR 0x22" "\<not> is_space CHR '']''" "\<not> is_space CHR ''u''"
  "\<not> is_space CHR ''a''" "\<not> is_space CHR ''p''" "\<not> is_space CHR ''s''" "\<not> is_space CHR ''{''" "\<not> is_space CHR ''}''"
  "\<not> is_space CHR '',''" "\<not> is_space CHR ''[''"
  by (simp_all add: is_space_def)

lemma TrimSpace_indent:
  "t \<noteq> [] \<Longrightarrow> \<not> is_space (hd t) \<Longrightarrow> \<not> is_space (last t) \<Longrightarrow> \<forall>c \<in> set sp. is_space c \<Longrightarrow> TrimSpace (sp @ t) = t"
  by (simp add: TrimSpace_def Trim_def TrimLeft_def TrimRight_def dropWhile_append2 dropWhile_hd hd_rev)

lemma TrimSpace_quoted:
  "TrimSpace (CHR 0x22 # s @ [CHR 0x22]) = CHR 0x22 # s @ [CHR 0x22]"
  "TrimSpace (CHR '' '' # CHR 0x22 # s @ [CHR 0x22]) = CHR 0x22 # s @ [CHR 0x22]"
  using TrimSpace_indent [of "CHR 0x22 # s @ [CHR 0x22]" "[]"]
    TrimSpace_indent [of "CHR 0x22 # s @ [CHR 0x22]" "'' ''"] by simp_all

section \<open>Allow lists\<close>

definition quoted :: "string \<Rightarrow> string" where
  "quoted s = CHR 0x22 # s @ [CHR 0x22]"

lemma Split_Join_comma_space:
  "qs \<noteq> [] \<Longrightarrow> \<forall>q \<in> set qs. CHR '','' \<notin> set q \<Longrightarrow>
     Split CHR '','' (Join qs '', '') = hd qs # map (\<lambda>q. CHR '' '' # q) (tl qs)"
proof (induction qs "'', ''" rule: Join.induct)
  case (3 x y ys)
  then have "Split CHR '','' (Join (y # ys) '', '') = y # map (\<lambda>q. CHR '' '' # q) ys" by simp
  then have "Split CHR '','' (CHR '' '' # Join (y # ys) '', '') = (CHR '' '' # y) # map (\<lambda>q. CHR '' '' # q) ys"
    by simp
  then show ?case using 3 by (simp add: Split_append_sep)
qed (simp_all add: Split_single)

lemma allow_parts:
  assumes "\<forall>t \<in> set ts. plain t \<and> t \<noteq> []"
  shows "filter (\<lambda>p. p \<noteq> []) (map (\<lambda>p. trim_quotes (TrimSpace p)) (Split CHR '','' (quoteSubjects ts))) = ts"
proof (cases ts)
  case Nil
  then show ?thesis
    by (simp add: quoteSubjects_def TrimSpace_def trim_quotes_def Trim_def TrimLeft_def TrimRight_def)
next
  case (Cons t us)
  have q: "map quote_str ts = map quoted ts"
    using assms by (auto simp: quote_str_plain quoted_def)
  have "\<forall>q \<in> set (map quoted ts). CHR '','' \<notin> set q"
    using assms plain_not_mem [of _ "CHR '',''"] by (fastforce simp: quoted_def)
  then have "Split CHR '','' (quoteSubjects ts) = quoted t # map (\<lambda>q. CHR '' '' # q) (map quoted us)"
    unfolding quoteSubjects_def q using Cons by (subst Split_Join_comma_space) simp_all
  moreover have "filter (\<lambda>p. p \<noteq> []) (map (\<lambda>p. trim_quotes (TrimSpace p)) (map (\<lambda>q. CHR '' '' # q) (map quoted us))) = us"
    using assms unfolding Cons by (induction us) (simp_all add: quoted_def TrimSpace_quoted trim_quotes_quoted)
  ultimately show ?thesis
    using assms Cons by (simp add: quoted_def TrimSpace_quoted trim_quotes_quoted)
qed

lemma parseAllowList_rendered:
  assumes "\<forall>t \<in> set ts. plain t \<and> t \<noteq> []"
  shows "parseAllowList (''allow = ['' @ quoteSubjects ts @ '']'') = ts"
proof -
  let ?line = "''allow = ['' @ quoteSubjects ts @ '']''"
  have "Index ?line CHR ''['' = Some 8" by (simp add: Index_def)
  moreover have "LastIndex ?line CHR '']'' = Some (9 + length (quoteSubjects ts))" by (simp add: LastIndex_def)
  moreover have "take (length (quoteSubjects ts)) (drop 9 ?line) = quoteSubjects ts" by simp
  ultimately show ?thesis
    unfolding parseAllowList_def by (simp only: prod.case option.case) (simp add: allow_parts [OF assms])
qed

section \<open>The parser reads what the renderer writes\<close>

definition entry_lines :: "natsAuthzEntry \<Rightarrow> string list" where
  "entry_lines e =
     [''    {'',
      ''      '' @ ''user = '' @ quoted (NA_User e),
      ''      permissions = {'',
      ''        publish = {'',
      ''          '' @ ''allow = ['' @ quoteSubjects (NA_PublishAllow e) @ '']'',
      ''        }'',
      ''        subscribe = {'',
      ''          '' @ ''allow = ['' @ quoteSubjects (NA_SubscribeAllow e) @ '']'',
      ''        }'',
      ''      }'']"

fun body_lines :: "natsAuthzEntry list \<Rightarrow> string list" where
  "body_lines [] = [[]]"
| "body_lines [e] = entry_lines e @ [''    }'']"
| "body_lines (e # f # es) = entry_lines e @ [''    },''] @ body_lines (f # es)"

lemma Join_append: "xs \<noteq> [] \<Longrightarrow> ys \<noteq> [] \<Longrightarrow> Join (xs @ ys) sep = Join xs sep @ sep @ Join ys sep"
  by (induction xs sep rule: Join.induct) (auto simp: Join_Cons)

lemma body_lines_not_Nil [simp]: "body_lines es \<noteq> []"
  by (cases es rule: body_lines.cases) (auto simp: entry_lines_def)

lemma render_entry_lines: "plain (NA_User e) \<Longrightarrow> render_entry e = Join (entry_lines e @ [''    }'']) [CHR 0x0A]"
  by (simp add: render_entry_def entry_lines_def quote_str_plain quoted_def)

lemma render_entry_lines_comma:
  "plain (NA_User e) \<Longrightarrow> render_entry e @ '','' = Join (entry_lines e @ [''    },'']) [CHR 0x0A]"
  by (simp add: render_entry_def entry_lines_def quote_str_plain quoted_def)

lemma Join_render_entries:
  "\<forall>e \<in> set es. plain (NA_User e) \<Longrightarrow>
     Join (map render_entry es) ('','' @ [CHR 0x0A]) = Join (body_lines es) [CHR 0x0A]"
proof (induction es rule: body_lines.induct)
  case (3 e f es)
  have "Join (map render_entry (e # f # es)) ('','' @ [CHR 0x0A]) =
      (render_entry e @ '','') @ [CHR 0x0A] @ Join (map render_entry (f # es)) ('','' @ [CHR 0x0A])"
    by simp
  also have "\<dots> = Join (entry_lines e @ [''    },'']) [CHR 0x0A] @ [CHR 0x0A] @ Join (body_lines (f # es)) [CHR 0x0A]"
    using 3 by (simp only: render_entry_lines_comma list.set_intros ball_simps) simp
  also have "\<dots> = Join ((entry_lines e @ [''    },'']) @ body_lines (f # es)) [CHR 0x0A]"
    by (subst Join_append) simp_all
  finally show ?case by simp
qed (simp_all add: render_entry_lines)

definition conf_lines :: "natsAuthzEntry list \<Rightarrow> string list" where
  "conf_lines es = [''authorization {'', ''  users = [''] @ body_lines es @ [''  ]'', ''}'', []]"

lemma renderAuthzConfig_lines:
  assumes "\<forall>e \<in> set es. plain (NA_User e)"
  shows "renderAuthzConfig es = Join (conf_lines (sort_key NA_User es)) [CHR 0x0A]"
proof -
  have "Join (conf_lines (sort_key NA_User es)) [CHR 0x0A] =
      ''authorization {'' @ [CHR 0x0A] @ ''  users = ['' @ [CHR 0x0A] @
      Join (body_lines (sort_key NA_User es)) [CHR 0x0A] @ [CHR 0x0A] @ Join [''  ]'', ''}'', []] [CHR 0x0A]"
    unfolding conf_lines_def by (simp add: Join_append Join_Cons)
  then show ?thesis
    using Join_render_entries [of "sort_key NA_User es"] assms by (simp add: renderAuthzConfig_def)
qed

lemma Join_no_char: "c \<notin> set sep \<Longrightarrow> \<forall>q \<in> set qs. c \<notin> set q \<Longrightarrow> c \<notin> set (Join qs sep)"
  by (induction qs sep rule: Join.induct) simp_all

lemma newline_quoteSubjects: "\<forall>t \<in> set ts. plain t \<Longrightarrow> CHR 0x0A \<notin> set (quoteSubjects ts)"
proof -
  assume "\<forall>t \<in> set ts. plain t"
  then have "\<forall>q \<in> set (map quote_str ts). CHR 0x0A \<notin> set q"
    using plain_not_mem [of _ "CHR 0x0A"] by (fastforce simp: quote_str_plain)
  then show ?thesis
    unfolding quoteSubjects_def by (intro Join_no_char) simp_all
qed

lemma newline_entry_lines: "plain_entry e \<Longrightarrow> l \<in> set (entry_lines e) \<Longrightarrow> CHR 0x0A \<notin> set l"
  using newline_quoteSubjects [of "NA_PublishAllow e"] newline_quoteSubjects [of "NA_SubscribeAllow e"]
    plain_not_mem [of "NA_User e" "CHR 0x0A"]
  unfolding entry_lines_def list.set insert_iff empty_iff
  by (elim disjE) (simp_all add: quoted_def plain_entry_def)

lemma newline_body_lines: "\<forall>e \<in> set es. plain_entry e \<Longrightarrow> l \<in> set (body_lines es) \<Longrightarrow> CHR 0x0A \<notin> set l"
  by (induction es rule: body_lines.induct) (auto dest: newline_entry_lines)

lemma Split_conf:
  "\<forall>e \<in> set es. plain_entry e \<Longrightarrow> Split CHR 0x0A (Join (conf_lines es) [CHR 0x0A]) = conf_lines es"
  by (rule Split_Join) (auto simp: conf_lines_def dest: newline_body_lines)

subsection \<open>One entry\<close>

lemma trimmed_lines:
  "TrimSpace ''    {'' = ''{''" "TrimSpace ''      permissions = {'' = ''permissions = {''"
  "TrimSpace ''        publish = {'' = ''publish = {''" "TrimSpace ''        }'' = ''}''"
  "TrimSpace ''        subscribe = {'' = ''subscribe = {''" "TrimSpace ''      }'' = ''}''"
  "TrimSpace ''    }'' = ''}''" "TrimSpace ''    },'' = ''},''" "TrimSpace ''  ]'' = '']''" "TrimSpace ''}'' = ''}''"
  "TrimSpace ''authorization {'' = ''authorization {''" "TrimSpace ''  users = ['' = ''users = [''" "TrimSpace [] = []"
  by code_simp+

lemma trimmed_user: "TrimSpace (''      '' @ ''user = '' @ quoted u) = ''user = '' @ quoted u"
  by (rule TrimSpace_indent) (simp_all add: quoted_def)

lemma trimmed_allow: "TrimSpace (''          '' @ ''allow = ['' @ t @ '']'') = ''allow = ['' @ t @ '']''"
  by (rule TrimSpace_indent) simp_all

lemma parse_user_line:
  "plain u \<Longrightarrow> parse_line (acc, cur, b1, b2) (''      '' @ ''user = '' @ quoted u) =
     (push_entry acc cur, Some \<lparr>NA_User = u, NA_PublishAllow = [], NA_SubscribeAllow = []\<rparr>, False, False)"
  unfolding parse_line.simps trimmed_user Let_def
  by (simp add: TrimPrefix_def quoted_def trim_quotes_quoted)

lemma parse_allow_line:
  assumes "\<forall>t \<in> set ts. plain t \<and> t \<noteq> []"
  shows "parse_line (acc, Some e, True, False) (''          '' @ ''allow = ['' @ quoteSubjects ts @ '']'') =
      (acc, Some (e\<lparr>NA_PublishAllow := ts\<rparr>), True, False)"
    and "parse_line (acc, Some e, False, True) (''          '' @ ''allow = ['' @ quoteSubjects ts @ '']'') =
      (acc, Some (e\<lparr>NA_SubscribeAllow := ts\<rparr>), False, True)"
  unfolding parse_line.simps trimmed_allow Let_def parseAllowList_rendered [OF assms] by simp_all

lemma parse_fixed_lines:
  "parse_line (acc, cur, False, False) ''    {'' = (acc, cur, False, False)"
  "parse_line (acc, Some e, False, False) ''      permissions = {'' = (acc, Some e, False, False)"
  "parse_line (acc, Some e, False, False) ''        publish = {'' = (acc, Some e, True, False)"
  "parse_line (acc, Some e, b1, b2) ''        }'' = (acc, Some e, False, False)"
  "parse_line (acc, Some e, False, False) ''        subscribe = {'' = (acc, Some e, False, True)"
  "parse_line (acc, cur, False, False) ''      }'' = (acc, cur, False, False)"
  "parse_line (acc, cur, False, False) ''    }'' = (acc, cur, False, False)"
  "parse_line (acc, cur, False, False) ''    },'' = (acc, cur, False, False)"
  "parse_line (acc, cur, False, False) ''  ]'' = (acc, cur, False, False)"
  "parse_line (acc, cur, False, False) ''}'' = (acc, cur, False, False)"
  "parse_line (acc, cur, False, False) [] = (acc, cur, False, False)"
  "parse_line (acc, None, False, False) ''authorization {'' = (acc, None, False, False)"
  "parse_line (acc, None, False, False) ''  users = ['' = (acc, None, False, False)"
  unfolding parse_line.simps trimmed_lines Let_def by (simp_all split: option.splits)

declare parse_line.simps [simp del]

lemma parse_entry:
  assumes "plain_entry e"
  shows "foldl parse_line (acc, cur, False, False) (entry_lines e) = (push_entry acc cur, Some e, False, False)"
proof -
  have u: "plain (NA_User e)" and p: "\<forall>t \<in> set (NA_PublishAllow e). plain t \<and> t \<noteq> []"
    and q: "\<forall>t \<in> set (NA_SubscribeAllow e). plain t \<and> t \<noteq> []"
    using assms by (auto simp: plain_entry_def)
  show ?thesis
    unfolding entry_lines_def foldl.simps parse_fixed_lines parse_user_line [OF u]
      parse_allow_line(1) [OF p] parse_allow_line(2) [OF q] by simp
qed

lemma parse_body:
  "\<forall>e \<in> set es. plain_entry e \<Longrightarrow>
     (case foldl parse_line (acc, cur, False, False) (body_lines es) of (a, c, b1, b2) \<Rightarrow> (push_entry a c, b1, b2)) =
       (push_entry acc cur @ es, False, False)"
proof (induction es arbitrary: acc cur rule: body_lines.induct)
  case (3 e f es)
  then show ?case
    by (simp only: body_lines.simps foldl_append parse_entry list.set_intros ball_simps foldl.simps parse_fixed_lines)
      (simp add: push_entry_def)
qed (simp_all add: parse_fixed_lines parse_entry push_entry_def)

lemma parse_conf:
  assumes "\<forall>e \<in> set es. plain_entry e"
  shows "parseAuthzConfig (Join (conf_lines es) [CHR 0x0A]) = es"
proof -
  have "Join (conf_lines es) [CHR 0x0A] \<noteq> []" by (simp add: conf_lines_def Join_Cons)
  moreover obtain a c b1 b2 where
    f: "foldl parse_line ([], None, False, False) (body_lines es) = (a, c, b1, b2)"
    by (cases "foldl parse_line ([], None, False, False) (body_lines es)") blast
  then have "push_entry a c = es" "b1 = False" "b2 = False"
    using parse_body [OF assms, of "[]" None] by (simp_all add: push_entry_def)
  moreover have "foldl parse_line ([], None, False, False) (conf_lines es) = (a, c, b1, b2)"
    using f calculation(3,4) by (simp add: conf_lines_def parse_fixed_lines)
  ultimately show ?thesis
    unfolding parseAuthzConfig_def Split_conf [OF assms] by simp
qed

lemma parse_render:
  assumes "\<forall>e \<in> set es. plain_entry e"
  shows "parseAuthzConfig (renderAuthzConfig es) = sort_key NA_User es"
proof -
  have "\<forall>e \<in> set es. plain (NA_User e)" using assms by (simp add: plain_entry_def)
  then show ?thesis
    using parse_conf [of "sort_key NA_User es"] assms by (simp add: renderAuthzConfig_lines)
qed

text \<open>C36: the NATS authorization file round-trips: parsing a rendered list of entries gives the same
  entries ordered by user, as long as users and subjects are made of printable bytes without
  space, quote, backslash and comma.\<close>

theorem parseAuthzConfig_renderAuthzConfig:
  assumes "list_all plain_entry es"
  shows "parseAuthzConfig (renderAuthzConfig es) = sort_key NA_User es"
  using assms unfolding list_all_iff by (rule parse_render)

definition sample_entries :: "natsAuthzEntry list" where
  "sample_entries =
     [\<lparr>NA_User = ''spiffe://t/b'', NA_PublishAllow = [''t.b.>'', ''x.>''], NA_SubscribeAllow = []\<rparr>,
      \<lparr>NA_User = ''spiffe://t/a'', NA_PublishAllow = [], NA_SubscribeAllow = [''t.a.>'']\<rparr>]"

theorem parseAuthzConfig_renderAuthzConfig_witness:
  "parseAuthzConfig (renderAuthzConfig sample_entries) = sort_key NA_User sample_entries"
  by (rule parseAuthzConfig_renderAuthzConfig)
    (simp add: sample_entries_def plain_entry_def plain_def plain_char_def)

section \<open>The file as a table of users\<close>

locale authz_file =
  fixes add :: "Identity \<Rightarrow> string \<Rightarrow> string" and del :: "Identity \<Rightarrow> string \<Rightarrow> string"
    and view :: "string \<Rightarrow> string \<rightharpoonup> natsAuthzEntry" and ok :: "string \<Rightarrow> bool" and good :: "Identity \<Rightarrow> bool"
  assumes add_ok: "ok c \<Longrightarrow> good i \<Longrightarrow> ok (add i c)"
    and add_view: "ok c \<Longrightarrow> good i \<Longrightarrow> view (add i c) = (view c)(I_Principal i \<mapsto> buildAuthzEntry i)"
    and del_ok: "ok c \<Longrightarrow> ok (del i c)"
    and del_view: "ok c \<Longrightarrow> view (del i c) = (view c)(I_Principal i := None)"
begin

lemma add_idem: "ok c \<Longrightarrow> good i \<Longrightarrow> view (add i (add i c)) = view (add i c)"
  by (simp add: add_ok add_view)

lemma add_commute:
  "ok c \<Longrightarrow> good i \<Longrightarrow> good j \<Longrightarrow> I_Principal i \<noteq> I_Principal j \<Longrightarrow> view (add i (add j c)) = view (add j (add i c))"
  by (auto simp: add_ok add_view)

lemma del_add: "ok c \<Longrightarrow> good i \<Longrightarrow> view (del i (add i c)) = (view c)(I_Principal i := None)"
  by (simp add: add_ok add_view del_view)

lemma frame:
  "ok c \<Longrightarrow> good i \<Longrightarrow> u \<noteq> I_Principal i \<Longrightarrow> view (add i c) u = view c u \<and> view (del i c) u = view c u"
  by (simp add: add_view del_view)

end

definition entry_map :: "natsAuthzEntry list \<Rightarrow> string \<rightharpoonup> natsAuthzEntry" where
  "entry_map es = map_of (map (\<lambda>e. (NA_User e, e)) es)"

definition authz_view :: "string \<Rightarrow> string \<rightharpoonup> natsAuthzEntry" where
  "authz_view conf = entry_map (parseAuthzConfig conf)"

definition authz_ok :: "string \<Rightarrow> bool" where
  "authz_ok conf \<longleftrightarrow>
     list_all plain_entry (parseAuthzConfig conf) \<and> distinct (map NA_User (parseAuthzConfig conf))"

definition good_identity :: "Identity \<Rightarrow> bool" where
  "good_identity i \<longleftrightarrow> plain (I_Principal i) \<and> plain (I_NATSPrefix i) \<and> I_NATSPrefix i \<noteq> []"

definition remove_conf :: "Identity \<Rightarrow> string \<Rightarrow> string" where
  "remove_conf i conf = renderAuthzConfig (remove_entry i (parseAuthzConfig conf))"

lemma upsert_entry_users: "set (map NA_User (upsert_entry e es)) = insert (NA_User e) (set (map NA_User es))"
  by (induction es) auto

lemma upsert_entry_distinct: "distinct (map NA_User es) \<Longrightarrow> distinct (map NA_User (upsert_entry e es))"
proof (induction es)
  case (Cons f es)
  then show ?case using upsert_entry_users [of e es] by auto
qed simp

lemma upsert_entry_set: "f \<in> set (upsert_entry e es) \<Longrightarrow> f = e \<or> f \<in> set es"
  by (induction es) (auto split: if_splits)

lemma upsert_entry_map:
  "distinct (map NA_User es) \<Longrightarrow> entry_map (upsert_entry e es) = (entry_map es)(NA_User e \<mapsto> e)"
  by (induction es) (auto simp: entry_map_def fun_eq_iff map_of_eq_None_iff)

lemma entry_map_sort:
  assumes "distinct (map NA_User es)"
  shows "entry_map (sort_key NA_User es) = entry_map es"
proof -
  have "distinct (map NA_User (sort_key NA_User es))"
    using assms by (simp add: distinct_map)
  then show ?thesis
    unfolding entry_map_def using assms by (subst map_of_inject_set) (simp_all add: comp_def)
qed

lemma rendered_table:
  assumes "list_all plain_entry es" and "distinct (map NA_User es)"
  shows "authz_ok (renderAuthzConfig es) \<and> authz_view (renderAuthzConfig es) = entry_map es"
  using assms parse_render [of es] entry_map_sort [of es]
  by (simp add: authz_ok_def authz_view_def list_all_iff distinct_map)

lemma entry_map_remove: "entry_map (remove_entry i es) = (entry_map es)(I_Principal i := None)"
  by (induction es) (auto simp: entry_map_def remove_entry_def)

interpretation nats_file: authz_file upsert_conf remove_conf authz_view authz_ok good_identity
proof unfold_locales
  fix c i assume ok: "authz_ok c"
  let ?es = "parseAuthzConfig c"
  have es: "list_all plain_entry ?es" "distinct (map NA_User ?es)" using ok by (simp_all add: authz_ok_def)
  show "authz_ok (upsert_conf i c)" "authz_view (upsert_conf i c) = (authz_view c)(I_Principal i \<mapsto> buildAuthzEntry i)"
    if "good_identity i"
  proof -
    have "list_all plain_entry (upsert_entry (buildAuthzEntry i) ?es)"
      using that es(1) unfolding list_all_iff
      by (auto simp: good_identity_def plain_entry_def buildAuthzEntry_def dest!: upsert_entry_set)
    then have "authz_ok (upsert_conf i c) \<and> authz_view (upsert_conf i c) = entry_map (upsert_entry (buildAuthzEntry i) ?es)"
      unfolding upsert_conf_def using es(2) by (intro rendered_table) (simp_all add: upsert_entry_distinct)
    then show "authz_ok (upsert_conf i c)"
      "authz_view (upsert_conf i c) = (authz_view c)(I_Principal i \<mapsto> buildAuthzEntry i)"
      using upsert_entry_map [OF es(2), of "buildAuthzEntry i"] by (simp_all add: authz_view_def buildAuthzEntry_def)
  qed
  have "list_all plain_entry (remove_entry i ?es)" "distinct (map NA_User (remove_entry i ?es))"
    using es by (auto simp: remove_entry_def list_all_iff distinct_map_filter)
  then have "authz_ok (remove_conf i c) \<and> authz_view (remove_conf i c) = entry_map (remove_entry i ?es)"
    unfolding remove_conf_def by (rule rendered_table)
  then show "authz_ok (remove_conf i c)" "authz_view (remove_conf i c) = (authz_view c)(I_Principal i := None)"
    by (simp_all add: entry_map_remove authz_view_def)
qed

section \<open>Registration in SPIFFE mode\<close>

definition authz_conf :: "'s kube \<Rightarrow> NATSConfig \<Rightarrow> 's \<Rightarrow> string" where
  "authz_conf client cfg s =
     (case cm_get client (NC_AuthzNamespace cfg) (NC_AuthzConfigMap cfg) s of
        Inl e \<Rightarrow> [] | Inr cm \<Rightarrow> mget (CM_Data cm) authz_key)"

lemma new_authz_cm_conf: "mget (CM_Data (new_authz_cm cfg i)) authz_key = upsert_conf i []"
  by (simp add: new_authz_cm_def upsert_conf_def parseAuthzConfig_def)

lemma cm_storeD:
  assumes "cm_store client"
  shows "cm_update client ns cm s = (Inr cm', s') \<or> cm_create client ns cm s = (Inr cm', s') \<Longrightarrow>
      \<exists>cm2. cm_get client ns (CM_Name cm) s' = Inr cm2 \<and> CM_Data cm2 = CM_Data cm"
    and "cm_get client ns n s = Inr cm \<Longrightarrow> CM_Name cm = n"
  using assms unfolding cm_store_def by blast+

lemma upsertAuthzEntry_conf:
  assumes store: "cm_store client" and ok: "upsertAuthzEntry client cfg i s = (Inr u, s')"
  shows "authz_conf client cfg s' = upsert_conf i (authz_conf client cfg s)"
proof (cases "cm_get client (NC_AuthzNamespace cfg) (NC_AuthzConfigMap cfg) s")
  case (Inl e)
  then obtain cm' where "cm_create client (NC_AuthzNamespace cfg) (new_authz_cm cfg i) s = (Inr cm', s')"
    using ok by (auto simp: upsertAuthzEntry_def create_ok split: if_splits)
  then obtain cm2 where "cm_get client (NC_AuthzNamespace cfg) (CM_Name (new_authz_cm cfg i)) s' = Inr cm2"
    "CM_Data cm2 = CM_Data (new_authz_cm cfg i)"
    using cm_storeD(1) [OF store] by blast
  moreover have "CM_Name (new_authz_cm cfg i) = NC_AuthzConfigMap cfg" by (simp add: new_authz_cm_def)
  ultimately show ?thesis using Inl by (simp add: authz_conf_def new_authz_cm_conf)
next
  case (Inr cm)
  let ?cm = "cm\<lparr>CM_Data := (CM_Data cm)(authz_key \<mapsto> upsert_conf i (mget (CM_Data cm) authz_key))\<rparr>"
  obtain cm' where "cm_update client (NC_AuthzNamespace cfg) ?cm s = (Inr cm', s')"
    using ok Inr by (auto simp: upsertAuthzEntry_def create_ok)
  then obtain cm2 where "cm_get client (NC_AuthzNamespace cfg) (CM_Name ?cm) s' = Inr cm2" "CM_Data cm2 = CM_Data ?cm"
    using cm_storeD(1) [OF store] by blast
  moreover have "CM_Name ?cm = NC_AuthzConfigMap cfg" using cm_storeD(2) [OF store Inr] by simp
  ultimately show ?thesis using Inr by (simp add: authz_conf_def)
qed

text \<open>C35: registering a tentacle with NATS in SPIFFE mode, through a client that stores what it is
  given, leaves a well-formed authorization file in which the tentacle may publish and
  subscribe under its own prefix and every other user has exactly the permissions it had;
  the credentials carry no token.\<close>

theorem nats_Register_table:
  assumes "cm_store client" and "NC_SPIFFEEnabled cfg" and "good_identity i"
    and "authz_ok (authz_conf client cfg s)" and "nats_Register client cfg i s = (Inr creds, s')"
  shows "authz_ok (authz_conf client cfg s') \<and>
    authz_view (authz_conf client cfg s') =
      (authz_view (authz_conf client cfg s))(I_Principal i \<mapsto>
        \<lparr>NA_User = I_Principal i, NA_PublishAllow = [I_NATSPrefix i], NA_SubscribeAllow = [I_NATSPrefix i]\<rparr>) \<and>
    NCr_Token creds = [] \<and> NCr_SubjectPrefix creds = I_NATSPrefix i"
proof -
  obtain u where u: "upsertAuthzEntry client cfg i s = (Inr u, s')"
    and c: "NCr_Token creds = []" "NCr_SubjectPrefix creds = I_NATSPrefix i"
    using assms(2,5) by (auto simp: nats_Register_def registerSPIFFE_def elim!: bindC_InrE)
  show ?thesis
    using upsertAuthzEntry_conf [OF assms(1) u] nats_file.add_ok [OF assms(4,3)]
      nats_file.add_view [OF assms(4,3)] c
    by (simp add: buildAuthzEntry_def)
qed

definition sample_nats :: NATSConfig where
  "sample_nats =
     \<lparr>NC_URL = ''nats://n:4222'', NC_Token = [], NC_AuthzConfigMap = ''authz'', NC_AuthzNamespace = ''exo'',
      NC_SPIFFEEnabled = True\<rparr>"

lemma sample_identity_good: "good_identity sample_identity"
  by (simp add: good_identity_def sample_identity_def plain_def plain_char_def)

theorem nats_Register_table_witness:
  "authz_ok (authz_conf mem_kube sample_nats (snd (nats_Register mem_kube sample_nats sample_identity empty_mem))) \<and>
   authz_view (authz_conf mem_kube sample_nats (snd (nats_Register mem_kube sample_nats sample_identity empty_mem))) =
     (authz_view (authz_conf mem_kube sample_nats empty_mem))(I_Principal sample_identity \<mapsto>
       \<lparr>NA_User = I_Principal sample_identity, NA_PublishAllow = [I_NATSPrefix sample_identity],
        NA_SubscribeAllow = [I_NATSPrefix sample_identity]\<rparr>) \<and>
   NCr_Token (projr (fst (nats_Register mem_kube sample_nats sample_identity empty_mem))) = [] \<and>
   NCr_SubjectPrefix (projr (fst (nats_Register mem_kube sample_nats sample_identity empty_mem))) =
     I_NATSPrefix sample_identity"
proof (rule nats_Register_table [OF mem_cm_store _ sample_identity_good])
  show "NC_SPIFFEEnabled sample_nats" by (simp add: sample_nats_def)
  show "authz_ok (authz_conf mem_kube sample_nats empty_mem)"
    by (simp add: authz_conf_def mem_kube_def fetch_def empty_mem_def authz_ok_def parseAuthzConfig_def)
  show "nats_Register mem_kube sample_nats sample_identity empty_mem =
      (Inr (projr (fst (nats_Register mem_kube sample_nats sample_identity empty_mem))),
       snd (nats_Register mem_kube sample_nats sample_identity empty_mem))"
    by (simp add: nats_Register_def registerSPIFFE_def upsertAuthzEntry_def bindC_def discardC_def mapErrC_def
        sample_nats_def mem_kube_def fetch_def empty_mem_def mem_put_def)
qed

section \<open>Isolation of subjects\<close>

text \<open>The documented matching of NATS subjects: tokens separated by dots, \<^verbatim>\<open>*\<close> matches one token and
  a final \<^verbatim>\<open>>\<close> one or more.\<close>

fun token_match :: "string list \<Rightarrow> string list \<Rightarrow> bool" where
  "token_match [] ts = (ts = [])"
| "token_match (p # ps) [] = False"
| "token_match (p # ps) (t # ts) =
     (if p = ''>'' \<and> ps = [] then True else (p = ''*'' \<or> p = t) \<and> token_match ps ts)"

definition nats_match :: "string \<Rightarrow> string \<Rightarrow> bool" where
  "nats_match pattern subject = token_match (Split CHR ''.'' pattern) (Split CHR ''.'' subject)"

lemma Split_prefix:
  "CHR ''.'' \<notin> set ns \<Longrightarrow> CHR ''.'' \<notin> set flow \<Longrightarrow>
     Split CHR ''.'' (''tentacular.'' @ ns @ ''.'' @ flow @ ''.>'') = [''tentacular'', ns, flow, ''>'']"
  using Split_append_sep [of "CHR ''.''" "''tentacular''" "ns @ ''.'' @ flow @ ''.>''"]
  by (simp add: Split_append_sep)

lemma label_not_wildcard:
  "CheckName t = Inr () \<Longrightarrow> t \<noteq> ''*'' \<and> t \<noteq> ''>''"
  by (auto simp: CheckName_def validLabelValue_def labelv.accepts_iff label_outer_def class_defs split: if_splits)

lemma token_match_literal:
  "p \<noteq> ''*'' \<Longrightarrow> p \<noteq> ''>'' \<Longrightarrow> token_match (p # ps) ts \<longleftrightarrow> (\<exists>ts'. ts = p # ts' \<and> token_match ps ts')"
  by (cases ts) auto

text \<open>Two different tentacles whose names have no dot never share a NATS subject: no subject
  matches the allowed pattern of both.\<close>

theorem NATSPrefix_isolates:
  assumes "CompileIdentity ns1 wf1 = Inr i1" and "CompileIdentity ns2 wf2 = Inr i2"
    and "CheckName ns1 = Inr ()" and "CheckName ns2 = Inr ()" and "CheckName wf1 = Inr ()" and "CheckName wf2 = Inr ()"
    and "CHR ''.'' \<notin> set (ns1 @ wf1 @ ns2 @ wf2)" and "(ns1, wf1) \<noteq> (ns2, wf2)"
  shows "\<not> (nats_match (I_NATSPrefix i1) subj \<and> nats_match (I_NATSPrefix i2) subj)"
proof -
  have pat1: "Split CHR ''.'' (I_NATSPrefix i1) = [''tentacular'', ns1, wf1, ''>'']"
    unfolding CompileIdentity_fields [OF assms(1)] by (rule Split_prefix) (use assms(7) in simp_all)
  have pat2: "Split CHR ''.'' (I_NATSPrefix i2) = [''tentacular'', ns2, wf2, ''>'']"
    unfolding CompileIdentity_fields [OF assms(2)] by (rule Split_prefix) (use assms(7) in simp_all)
  show ?thesis
    using assms(8) label_not_wildcard [OF assms(3)] label_not_wildcard [OF assms(4)]
      label_not_wildcard [OF assms(5)] label_not_wildcard [OF assms(6)]
    unfolding nats_match_def pat1 pat2 by (auto simp: token_match_literal)
qed

theorem NATSPrefix_isolates_witness:
  "\<not> (nats_match (I_NATSPrefix sample_identity) ''tentacular.lab.x.y'' \<and>
      nats_match (I_NATSPrefix sample_identity2) ''tentacular.lab.x.y'')"
  by (rule NATSPrefix_isolates [OF sample_identity_compiled sample_identity2_compiled]) code_simp+

text \<open>The guard on workflow names admits dots, and then subjects are not isolated: the pattern of
  the workflow named a also matches the subjects of the workflow named a.b in the same
  namespace.\<close>

theorem NATSPrefix_dotted_name_overlaps:
  "CheckName ''a'' = Inr () \<and> CheckName ''a.b'' = Inr () \<and>
   (\<exists>i1 i2. CompileIdentity ''lab'' ''a'' = Inr i1 \<and> CompileIdentity ''lab'' ''a.b'' = Inr i2 \<and>
      nats_match (I_NATSPrefix i1) ''tentacular.lab.a.b.news'' \<and> nats_match (I_NATSPrefix i2) ''tentacular.lab.a.b.news'')"
proof (intro conjI)
  show "CheckName ''a'' = Inr ()" "CheckName ''a.b'' = Inr ()" by code_simp+
  have "nats_match ''tentacular.lab.a.>'' ''tentacular.lab.a.b.news''"
    "nats_match ''tentacular.lab.a.b.>'' ''tentacular.lab.a.b.news''" by code_simp+
  then show "\<exists>i1 i2. CompileIdentity ''lab'' ''a'' = Inr i1 \<and> CompileIdentity ''lab'' ''a.b'' = Inr i2 \<and>
      nats_match (I_NATSPrefix i1) ''tentacular.lab.a.b.news'' \<and> nats_match (I_NATSPrefix i2) ''tentacular.lab.a.b.news''"
    by (simp add: CompileIdentity_def Let_def)
qed

end
