(* ===== verification/Controller.thy ===== *)
theory Controller
  imports Nats_Authz
begin

text \<open>
  The exoskeleton controller, \<^verbatim>\<open>pkg/exoskeleton/controller.go\<close>: provisioning and removal of
  backing services for enclaves and tentacles. A registrar is a Go interface, here a record
  of its methods over the world; a disabled one is \<open>None\<close>. The NATS registrar of the code is
  one such record (\<open>nats_registrar\<close>); those of Postgres, RustFS and SPIRE are in the theories of these
  names, and \<open>Startup\<close> builds the controller from the four. The credentials of the three
  services are one datatype. The enrichment of manifests (\<^verbatim>\<open>ProcessManifests\<close>) has a theory of
  its own, \<open>Enrich\<close>.
\<close>

record PostgresCreds =
  PC_Host :: string
  PC_Port :: string
  PC_Database :: string
  PC_User :: string
  PC_Password :: string
  PC_Schema :: string
  PC_Protocol :: string

record RustFSCreds =
  RC_Endpoint :: string
  RC_AccessKey :: string
  RC_SecretKey :: string
  RC_Bucket :: string
  RC_Prefix :: string
  RC_Region :: string
  RC_Protocol :: string

datatype creds = PgCreds PostgresCreds | NatsCreds NATSCreds | RfsCreds RustFSCreds

record ('s, 'e) registrar =
  rg_Register :: "Identity \<Rightarrow> ('s, 'e, creds) comp"
  rg_Unregister :: "Identity \<Rightarrow> ('s, 'e, unit) comp"
  rg_EnsureEnclave :: "EnclaveIdentity \<Rightarrow> ('s, 'e, unit) comp"
  rg_CleanupEnclave :: "EnclaveIdentity \<Rightarrow> ('s, 'e, unit) comp"

record ('s, 'e) spire_registrar =
  sp_Register :: "Identity \<Rightarrow> string \<Rightarrow> ('s, 'e, unit) comp"
  sp_Unregister :: "Identity \<Rightarrow> string \<Rightarrow> ('s, 'e, unit) comp"

record ('s, 'e) Controller =
  c_cfg :: Config
  c_pg :: "('s, 'e) registrar option"
  c_nats :: "('s, 'e) registrar option"
  c_rustfs :: "('s, 'e) registrar option"
  c_spire :: "('s, 'e) spire_registrar option"

datatype 'e exo_error =
    ExoIdentity identity_error
  | ExoUnavailable string string
  | ExoEnsure string string 'e
  | ExoCleanup "(string \<times> 'e) list"

definition nats_EnsureEnclave :: "EnclaveIdentity \<Rightarrow> ('s, 'e, unit) comp" where
  "nats_EnsureEnclave i = retC ()"

definition nats_CleanupEnclave :: "EnclaveIdentity \<Rightarrow> ('s, 'e, unit) comp" where
  "nats_CleanupEnclave i = retC ()"

definition nats_registrar :: "'s kube \<Rightarrow> NATSConfig \<Rightarrow> ('s, nats_error) registrar" where
  "nats_registrar client cfg =
     \<lparr>rg_Register = (\<lambda>i. bindC (nats_Register client cfg i) (\<lambda>c. retC (NatsCreds c))),
      rg_Unregister = nats_Unregister client cfg,
      rg_EnsureEnclave = nats_EnsureEnclave,
      rg_CleanupEnclave = nats_CleanupEnclave\<rparr>"

definition NewControllerWithDeps ::
  "Config \<Rightarrow> ('s, 'e) registrar option \<Rightarrow> ('s, 'e) registrar option \<Rightarrow> ('s, 'e) registrar option \<Rightarrow>
     ('s, 'e) spire_registrar option \<Rightarrow> ('s, 'e) Controller" where
  "NewControllerWithDeps cfg pg nats rustfs spire =
     \<lparr>c_cfg = cfg, c_pg = pg, c_nats = nats, c_rustfs = rustfs, c_spire = spire\<rparr>"

definition PostgresAvailable :: "('s, 'e) Controller \<Rightarrow> bool" where
  "PostgresAvailable c \<longleftrightarrow> c_pg c \<noteq> None"

definition NATSAvailable :: "('s, 'e) Controller \<Rightarrow> bool" where
  "NATSAvailable c \<longleftrightarrow> c_nats c \<noteq> None"

definition RustFSAvailable :: "('s, 'e) Controller \<Rightarrow> bool" where
  "RustFSAvailable c \<longleftrightarrow> c_rustfs c \<noteq> None"

definition SPIREAvailable :: "('s, 'e) Controller \<Rightarrow> bool" where
  "SPIREAvailable c \<longleftrightarrow> c_spire c \<noteq> None"

section \<open>Cleanup\<close>

record CleanupReport =
  CR_Postgres :: string
  CR_NATS :: string
  CR_RustFS :: string
  CR_SPIRE :: string
  CR_Performed :: bool

definition Summary :: "CleanupReport \<Rightarrow> string" where
  "Summary r =
     (let parts = (if CR_Postgres r \<noteq> [] then [''postgres '' @ CR_Postgres r] else []) @
                  (if CR_NATS r \<noteq> [] then [''nats '' @ CR_NATS r] else []) @
                  (if CR_RustFS r \<noteq> [] then [''rustfs '' @ CR_RustFS r] else []) @
                  (if CR_SPIRE r \<noteq> [] then [''spire '' @ CR_SPIRE r] else [])
      in if parts = [] then ''no services cleaned up'' else Join parts '', '')"

text \<open>One step of a best-effort sequence: the call is made when the service is there, an error is
  collected under the name of the service, and the text for the report is produced on
  success.\<close>

definition attempt ::
  "string \<Rightarrow> ('s, 'e, unit) comp option \<Rightarrow> string \<Rightarrow> (string \<times> 'e) list \<times> 's \<Rightarrow> string \<times> (string \<times> 'e) list \<times> 's" where
  "attempt svc call done_text st =
     (case call of
        None \<Rightarrow> ([], st)
      | Some m \<Rightarrow>
          (case m (snd st) of
             (Inl e, s') \<Rightarrow> ([], fst st @ [(svc, e)], s')
           | (Inr _, s') \<Rightarrow> (done_text, fst st, s')))"

definition CleanupEnclave :: "('s, 'e) Controller \<Rightarrow> string \<Rightarrow> ('s, 'e exo_error, unit) comp" where
  "CleanupEnclave c enclaveName s =
     (if \<not> Cfg_Enabled (c_cfg c) then (Inr (), s)
      else case CompileEnclaveIdentity enclaveName of
        Inl e \<Rightarrow> (Inl (ExoIdentity e), s)
      | Inr i \<Rightarrow>
          let st1 = snd (attempt ''postgres'' (map_option (\<lambda>r. rg_CleanupEnclave r i) (c_pg c)) [] ([], s));
              st2 = snd (attempt ''nats'' (map_option (\<lambda>r. rg_CleanupEnclave r i) (c_nats c)) [] st1);
              st3 = snd (attempt ''rustfs'' (map_option (\<lambda>r. rg_CleanupEnclave r i) (c_rustfs c)) [] st2)
          in if 0 < length (fst st3) then (Inl (ExoCleanup (fst st3)), snd st3) else (Inr (), snd st3))"

definition empty_report :: CleanupReport where
  "empty_report = \<lparr>CR_Postgres = [], CR_NATS = [], CR_RustFS = [], CR_SPIRE = [], CR_Performed = False\<rparr>"

definition CleanupWithReport ::
  "('s, 'e) Controller \<Rightarrow> string \<Rightarrow> string \<Rightarrow> 's \<Rightarrow> CleanupReport \<times> 'e exo_error option \<times> 's" where
  "CleanupWithReport c namespace name s =
     (if \<not> Cfg_Enabled (c_cfg c) \<or> \<not> Cfg_CleanupOnUndeploy (c_cfg c) then (empty_report, None, s)
      else case CompileIdentity namespace name of
        Inl e \<Rightarrow> (empty_report, Some (ExoIdentity e), s)
      | Inr i \<Rightarrow>
          let (pg, st1) = attempt ''postgres'' (map_option (\<lambda>r. rg_Unregister r i) (c_pg c)) ''schema dropped'' ([], s);
              (nats, st2) = attempt ''nats'' (map_option (\<lambda>r. rg_Unregister r i) (c_nats c))
                 (if NC_SPIFFEEnabled (Cfg_NATS (c_cfg c)) then ''authz entry removed'' else ''no-op'') st1;
              (rustfs, st3) = attempt ''rustfs'' (map_option (\<lambda>r. rg_Unregister r i) (c_rustfs c)) ''user removed'' st2;
              (spire, st4) = attempt ''spire'' (map_option (\<lambda>r. sp_Unregister r i namespace) (c_spire c)) ''identity removed'' st3
          in (\<lparr>CR_Postgres = pg, CR_NATS = nats, CR_RustFS = rustfs, CR_SPIRE = spire, CR_Performed = True\<rparr>,
              if 0 < length (fst st4) then Some (ExoCleanup (fst st4)) else None, snd st4))"

definition Cleanup :: "('s, 'e) Controller \<Rightarrow> string \<Rightarrow> string \<Rightarrow> ('s, 'e exo_error, unit) comp" where
  "Cleanup c namespace name s =
     (case CleanupWithReport c namespace name s of
        (_, Some e, s') \<Rightarrow> (Inl e, s') | (_, None, s') \<Rightarrow> (Inr (), s'))"

section \<open>Provisioning\<close>

definition ensure_with ::
  "string \<Rightarrow> string \<Rightarrow> EnclaveIdentity \<Rightarrow> ('s, 'e) registrar option \<Rightarrow> ('s, 'e exo_error, unit) comp" where
  "ensure_with svc enclave i reg =
     (case reg of
        None \<Rightarrow> failC (ExoUnavailable enclave svc)
      | Some r \<Rightarrow> mapErrC (ExoEnsure svc enclave) (rg_EnsureEnclave r i))"

definition ensure_service ::
  "('s, 'e) Controller \<Rightarrow> string \<Rightarrow> EnclaveIdentity \<Rightarrow> string \<Rightarrow> ('s, 'e exo_error, unit) comp" where
  "ensure_service c enclave i svc =
     (if svc = ''postgres'' then ensure_with ''postgres'' enclave i (c_pg c)
      else if svc = ''rustfs'' \<or> svc = ''s3'' then ensure_with ''rustfs/s3'' enclave i (c_rustfs c)
      else if svc = ''nats'' then ensure_with ''nats'' enclave i (c_nats c)
      else retC ())"

fun ensure_services ::
  "('s, 'e) Controller \<Rightarrow> string \<Rightarrow> EnclaveIdentity \<Rightarrow> string list \<Rightarrow> ('s, 'e exo_error, unit) comp" where
  "ensure_services c enclave i [] = retC ()"
| "ensure_services c enclave i (svc # svcs) =
     bindC (ensure_service c enclave i svc) (\<lambda>_. ensure_services c enclave i svcs)"

definition EnsureEnclaveServices ::
  "('s, 'e) Controller \<Rightarrow> string \<Rightarrow> string list \<Rightarrow> ('s, 'e exo_error, unit) comp" where
  "EnsureEnclaveServices c enclave requiredServices =
     (if \<not> Cfg_Enabled (c_cfg c) then retC ()
      else if length requiredServices = 0 then retC ()
      else case CompileEnclaveIdentity enclave of
        Inl e \<Rightarrow> failC (ExoIdentity e)
      | Inr i \<Rightarrow> ensure_services c enclave i requiredServices)"

definition dep_service :: "string \<Rightarrow> string option" where
  "dep_service name =
     (if name = ''tentacular-postgres'' then Some ''postgres''
      else if name = ''tentacular-rustfs'' then Some ''rustfs''
      else if name = ''tentacular-nats'' then Some ''nats''
      else None)"

fun collect_services :: "string list \<Rightarrow> string list \<Rightarrow> string list" where
  "collect_services [] services = services"
| "collect_services (name # names) services =
     (case dep_service name of
        None \<Rightarrow> collect_services names services
      | Some svc \<Rightarrow> if svc \<in> set services then collect_services names services
                    else collect_services names (services @ [svc]))"

definition ExoServicesFromDeps :: "string list \<Rightarrow> string list" where
  "ExoServicesFromDeps deps = sort (collect_services deps [])"

section \<open>Lemmas\<close>

lemma collect_services_spec:
  "distinct services \<Longrightarrow>
     distinct (collect_services deps services) \<and>
     set (collect_services deps services) = set services \<union> {svc. \<exists>d \<in> set deps. dep_service d = Some svc}"
  by (induction deps services rule: collect_services.induct) (auto split: option.splits)

text \<open>The services required by a dependency map do not depend on the order in which Go iterates
  the map: any two enumerations of the same keys give the same sorted list without
  duplicates.\<close>

theorem ExoServicesFromDeps_order_free:
  assumes "set deps = set deps'"
  shows "ExoServicesFromDeps deps = ExoServicesFromDeps deps' \<and> distinct (ExoServicesFromDeps deps) \<and>
    set (ExoServicesFromDeps deps) = {svc. \<exists>d \<in> set deps. dep_service d = Some svc}"
proof -
  have "sort (collect_services deps []) = sort (collect_services deps' [])"
    using collect_services_spec [of "[]" deps] collect_services_spec [of "[]" deps'] assms
    by (intro sorted_distinct_set_unique) simp_all
  moreover have "distinct (ExoServicesFromDeps deps) \<and>
      set (ExoServicesFromDeps deps) = {svc. \<exists>d \<in> set deps. dep_service d = Some svc}"
    using collect_services_spec [of "[]" deps] by (simp add: ExoServicesFromDeps_def)
  ultimately show ?thesis unfolding ExoServicesFromDeps_def by blast
qed

theorem ExoServicesFromDeps_order_free_witness:
  "ExoServicesFromDeps [''tentacular-nats'', ''tentacular-postgres''] =
     ExoServicesFromDeps [''tentacular-postgres'', ''tentacular-nats'', ''tentacular-nats''] \<and>
   distinct (ExoServicesFromDeps [''tentacular-nats'', ''tentacular-postgres'']) \<and>
   set (ExoServicesFromDeps [''tentacular-nats'', ''tentacular-postgres'']) =
     {svc. \<exists>d \<in> set [''tentacular-nats'', ''tentacular-postgres'']. dep_service d = Some svc}"
  by (rule ExoServicesFromDeps_order_free) auto

lemma ensure_service_available:
  "ensure_service c enclave i svc s = (Inr u, s') \<Longrightarrow>
     (svc = ''postgres'' \<longrightarrow> PostgresAvailable c) \<and> (svc \<in> {''rustfs'', ''s3''} \<longrightarrow> RustFSAvailable c) \<and>
     (svc = ''nats'' \<longrightarrow> NATSAvailable c)"
  by (auto simp: ensure_service_def ensure_with_def PostgresAvailable_def RustFSAvailable_def NATSAvailable_def
      split: if_splits option.splits)

lemma ensure_services_available:
  "ensure_services c enclave i svcs s = (Inr u, s') \<Longrightarrow> svc \<in> set svcs \<Longrightarrow>
     (svc = ''postgres'' \<longrightarrow> PostgresAvailable c) \<and> (svc \<in> {''rustfs'', ''s3''} \<longrightarrow> RustFSAvailable c) \<and>
     (svc = ''nats'' \<longrightarrow> NATSAvailable c)"
proof (induction svcs arbitrary: s)
  case (Cons x xs)
  from Cons.prems(1) obtain v s1 where "ensure_service c enclave i x s = (Inr v, s1)"
    "ensure_services c enclave i xs s1 = (Inr u, s')"
    by (auto elim!: bindC_InrE)
  then show ?case
    using Cons.IH [of s1] Cons.prems(2) ensure_service_available [of c enclave i x s v s1] by auto
qed simp

definition runs :: "('s, 'e, unit) comp option \<Rightarrow> 's \<Rightarrow> 's" where
  "runs call s = (case call of None \<Rightarrow> s | Some m \<Rightarrow> snd (m s))"

definition fails :: "string \<Rightarrow> ('s, 'e, unit) comp option \<Rightarrow> 's \<Rightarrow> (string \<times> 'e) list" where
  "fails svc call s = (case call of None \<Rightarrow> [] | Some m \<Rightarrow> (case fst (m s) of Inl e \<Rightarrow> [(svc, e)] | Inr _ \<Rightarrow> []))"

lemma attempt_runs: "snd (attempt svc call txt (errs, s)) = (errs @ fails svc call s, runs call s)"
  by (auto simp: attempt_def runs_def fails_def split: option.splits prod.splits sum.splits)

text \<open>Enclave cleanup is best effort: a failing service does not keep the later ones from being
  cleaned up, and the error lists exactly the services that failed.\<close>

theorem CleanupEnclave_best_effort:
  assumes "Cfg_Enabled (c_cfg c)" and "CompileEnclaveIdentity enclaveName = Inr i"
  shows "CleanupEnclave c enclaveName s =
    (let pg = map_option (\<lambda>r. rg_CleanupEnclave r i) (c_pg c);
         nats = map_option (\<lambda>r. rg_CleanupEnclave r i) (c_nats c);
         rustfs = map_option (\<lambda>r. rg_CleanupEnclave r i) (c_rustfs c);
         errs = fails ''postgres'' pg s @ fails ''nats'' nats (runs pg s) @ fails ''rustfs'' rustfs (runs nats (runs pg s))
     in (if errs = [] then Inr () else Inl (ExoCleanup errs), runs rustfs (runs nats (runs pg s))))"
  using assms by (simp add: CleanupEnclave_def attempt_runs Let_def)

definition sample_config :: Config where
  "sample_config =
     LoadFromEnv (\<lambda>k. if k = ''TENTACULAR_EXOSKELETON_ENABLED'' then ''yes'' else [])"

definition sample_controller :: "(nat, string) Controller" where
  "sample_controller =
     NewControllerWithDeps sample_config
       (Some \<lparr>rg_Register = (\<lambda>i. failC ''down''), rg_Unregister = (\<lambda>i s. (Inr (), s)), rg_EnsureEnclave = (\<lambda>i s. (Inr (), s)),
              rg_CleanupEnclave = (\<lambda>i s. (Inl ''db busy'', s))\<rparr>)
       None
       (Some \<lparr>rg_Register = (\<lambda>i. failC ''down''), rg_Unregister = (\<lambda>i s. (Inr (), s)), rg_EnsureEnclave = (\<lambda>i s. (Inr (), s)),
              rg_CleanupEnclave = (\<lambda>i s. (Inr (), Suc s))\<rparr>)
       None"

lemma sample_config_enabled: "Cfg_Enabled sample_config"
  by code_simp

theorem CleanupEnclave_best_effort_witness:
  "CleanupEnclave sample_controller ''lab'' 0 =
    (let pg = map_option (\<lambda>r. rg_CleanupEnclave r sample_enclave_identity) (c_pg sample_controller);
         nats = map_option (\<lambda>r. rg_CleanupEnclave r sample_enclave_identity) (c_nats sample_controller);
         rustfs = map_option (\<lambda>r. rg_CleanupEnclave r sample_enclave_identity) (c_rustfs sample_controller);
         errs = fails ''postgres'' pg 0 @ fails ''nats'' nats (runs pg 0) @ fails ''rustfs'' rustfs (runs nats (runs pg 0))
     in (if errs = [] then Inr () else Inl (ExoCleanup errs), runs rustfs (runs nats (runs pg 0))))"
  by (rule CleanupEnclave_best_effort)
    (simp_all add: sample_controller_def NewControllerWithDeps_def sample_config_enabled sample_enclave_identity_compiled)

end
