(* ===== verification/Enclave_Tools.thy ===== *)
theory Enclave_Tools
  imports Authz_Helpers Controller
begin

text \<open>
  The enclave tools of \<^verbatim>\<open>pkg/tools/enclave.go\<close>: provision, info, list, sync and deprovision,
  each with the closure that registers it (guard, identity check, identity overrides) and
  its handler. The world is that of the Kubernetes client and the exoskeleton controller;
  the formatted time of the call is an argument, and the package variables
  \<^verbatim>\<open>MaxEnclaveMembers\<close> and \<^verbatim>\<open>MaxEnclavesPerOwner\<close> are the arguments \<open>maxMembers\<close> and
  \<open>maxEnclaves\<close>. The context of a request is its deployer. Log output is not modelled.
\<close>

datatype 'e tool_error =
    TE_Guard guard_error
  | TE_Helper helper_error
  | TE_NoEmail
  | TE_NoSubject
  | TE_QuotaPreset string
  | TE_Members enclave_error
  | TE_Count k8s_error
  | TE_TooManyEnclaves string nat nat
  | TE_K8s k8s_error
  | TE_InvalidInfo enclave_error
  | TE_Fetch api_err
  | TE_Annotate api_err
  | TE_Step string k8s_error
  | TE_Exo "'e exo_error"
  | TE_GetNamespace string api_err
  | TE_NotEnclave string
  | TE_NotParticipant string
  | TE_NotOwner string
  | TE_AlreadyOwner string
  | TE_NotMember string
  | TE_Status string
  | TE_Mode string
  | TE_Quota k8s_error
  | TE_NoUpdates
  | TE_Conflict api_err
  | TE_Update string api_err
  | TE_ConflictPersisted nat string

definition validQuotaPresets :: "string list" where
  "validQuotaPresets = [''small'', ''medium'', ''large'']"

definition annotationEnclaveQuotaPreset :: string where
  "annotationEnclaveQuotaPreset = ''tentacular.io/enclave-quota-preset''"

definition enclaveRequiredServices :: "string list" where
  "enclaveRequiredServices = [''postgres'', ''rustfs'']"

section \<open>Provisioning\<close>

record EnclaveProvisionParams =
  PP_Name :: string
  PP_OwnerEmail :: string
  PP_OwnerSub :: string
  PP_Platform :: string
  PP_ChannelID :: string
  PP_ChannelName :: string
  PP_QuotaPreset :: string
  PP_DefaultMode :: string
  PP_Members :: "string list"

record EnclaveProvisionResult =
  PR_Name :: string
  PR_Status :: string
  PR_QuotaPreset :: string
  PR_Owner :: string
  PR_Members :: "string list"
  PR_ResourcesCreated :: "string list"

fun count_owned :: "string \<Rightarrow> Namespace list \<Rightarrow> nat" where
  "count_owned ownerEmail [] = 0"
| "count_owned ownerEmail (ns # rest) =
     (if \<not> IsEnclave (N_Annotations ns) then count_owned ownerEmail rest
      else if ToLower (EI_Owner (ReadEnclaveInfo (N_Annotations ns))) = ownerEmail
      then Suc (count_owned ownerEmail rest)
      else count_owned ownerEmail rest)"

definition countEnclavesOwnedBy :: "'s kube \<Rightarrow> string \<Rightarrow> 's \<Rightarrow> k8s_error + nat" where
  "countEnclavesOwnedBy client ownerEmail s =
     (case ListManagedNamespaces client s of Inl e \<Rightarrow> Inl e | Inr nss \<Rightarrow> Inr (count_owned ownerEmail nss))"

definition provision_info :: "string \<Rightarrow> EnclaveProvisionParams \<Rightarrow> EnclaveInfo" where
  "provision_info now params =
     \<lparr>EI_Enclave = PP_Name params, EI_Owner = PP_OwnerEmail params, EI_OwnerSub = PP_OwnerSub params,
      EI_Platform = PP_Platform params, EI_ChannelID = PP_ChannelID params, EI_ChannelName = PP_ChannelName params,
      EI_Status = ''active'', EI_DefaultMode = PP_DefaultMode params, EI_CreatedAt = now, EI_UpdatedAt = now,
      EI_Members = PP_Members params\<rparr>"

text \<open>The failing steps after the namespace exists return the error together with the flag
  \<^verbatim>\<open>exoProvisioned\<close> the deferred cleanup reads.\<close>

definition annotate_enclave ::
  "nat \<Rightarrow> 's kube \<Rightarrow> string \<Rightarrow> EnclaveProvisionParams \<Rightarrow> string \<Rightarrow> ('s, 'e tool_error \<times> bool, unit) comp" where
  "annotate_enclave maxMembers client now params preset s =
     (case ValidateEnclaveInfo maxMembers (provision_info now params) of
        Inl e \<Rightarrow> (Inl (TE_InvalidInfo e, False), s)
      | Inr _ \<Rightarrow>
          (case ns_get client (PP_Name params) s of
             Inl e \<Rightarrow> (Inl (TE_Fetch e, False), s)
           | Inr ns \<Rightarrow>
               let ann = (N_Annotations ns ++ WriteEnclaveAnnotations (provision_info now params))
                           (annotationEnclaveQuotaPreset \<mapsto> preset)
               in discardC (mapErrC (\<lambda>e. (TE_Annotate e, False)) (ns_update client (ns\<lparr>N_Annotations := ann\<rparr>))) s))"

definition step :: "string \<Rightarrow> ('s, k8s_error, unit) comp \<Rightarrow> ('s, 'e tool_error \<times> bool, unit) comp" where
  "step what m = mapErrC (\<lambda>e. (TE_Step what e, False)) m"

fun steps :: "('s, 'e, unit) comp list \<Rightarrow> ('s, 'e, unit) comp" where
  "steps [] = retC ()"
| "steps (m # ms) = bindC m (\<lambda>_. steps ms)"

definition provision_steps ::
  "nat \<Rightarrow> 's kube \<Rightarrow> ('s, 'e) Controller option \<Rightarrow> string \<Rightarrow> EnclaveProvisionParams \<Rightarrow> string \<Rightarrow>
     ('s, 'e tool_error \<times> bool, unit) comp" where
  "provision_steps maxMembers client exoCtrl now params preset =
     (let name = PP_Name params in
      steps
       [annotate_enclave maxMembers client now params preset,
        step ''default-deny network policy'' (CreateDefaultDenyPolicy client name),
        step ''allow-dns network policy'' (CreateDNSAllowPolicy client name),
        step ''resource quota'' (CreateResourceQuota client name preset),
        step ''limit range'' (CreateLimitRange client name),
        step ''workflow service account'' (CreateWorkflowServiceAccount client name),
        step ''workflow role'' (CreateWorkflowRole client name),
        step ''workflow role binding'' (CreateWorkflowRoleBinding client name),
        (case exoCtrl of
           None \<Rightarrow> retC ()
         | Some c \<Rightarrow> mapErrC (\<lambda>e. (TE_Exo e, True)) (EnsureEnclaveServices c name enclaveRequiredServices))])"

definition provision_rollback ::
  "'s kube \<Rightarrow> ('s, 'e) Controller option \<Rightarrow> string \<Rightarrow> bool \<Rightarrow> 's \<Rightarrow> 's" where
  "provision_rollback client exoCtrl name exoProvisioned s =
     (let s1 = (case exoCtrl of
                  None \<Rightarrow> s
                | Some c \<Rightarrow> if exoProvisioned then snd (CleanupEnclave c name s) else s)
      in snd (DeleteNamespace client name s1))"

definition provision_result :: "('s, 'e) Controller option \<Rightarrow> EnclaveProvisionParams \<Rightarrow> string \<Rightarrow> EnclaveProvisionResult" where
  "provision_result exoCtrl params preset =
     \<lparr>PR_Name = PP_Name params, PR_Status = ''active'', PR_QuotaPreset = preset, PR_Owner = PP_OwnerEmail params,
      PR_Members = PP_Members params,
      PR_ResourcesCreated =
        [''namespace/'' @ PP_Name params, ''annotation/enclave-metadata'', ''networkpolicy/default-deny'',
         ''networkpolicy/allow-dns'', ''resourcequota/tentacular-quota'', ''limitrange/tentacular-limits'',
         ''serviceaccount/tentacular-workflow'', ''role/tentacular-workflow'', ''rolebinding/tentacular-workflow''] @
        (if exoCtrl = None then [] else [''exoskeleton/postgres'', ''exoskeleton/rustfs''])\<rparr>"

definition provision_preset :: "EnclaveProvisionParams \<Rightarrow> string" where
  "provision_preset params = (if PP_QuotaPreset params = [] then ''medium'' else PP_QuotaPreset params)"

definition handleEnclaveProvision ::
  "nat \<Rightarrow> nat \<Rightarrow> 's kube \<Rightarrow> ('s, 'e) Controller option \<Rightarrow> string \<Rightarrow> EnclaveProvisionParams \<Rightarrow>
     ('s, 'e tool_error, EnclaveProvisionResult) comp" where
  "handleEnclaveProvision maxMembers maxEnclaves client exoCtrl now params s =
     (let preset = provision_preset params in
      if preset \<notin> set validQuotaPresets then (Inl (TE_QuotaPreset preset), s)
      else case ValidateMembers maxMembers (PP_Members params) of
        Inl e \<Rightarrow> (Inl (TE_Members e), s)
      | Inr _ \<Rightarrow>
      (case countEnclavesOwnedBy client (ToLower (PP_OwnerEmail params)) s of
         Inl e \<Rightarrow> (Inl (TE_Count e), s)
       | Inr existingCount \<Rightarrow>
           if existingCount \<ge> maxEnclaves
           then (Inl (TE_TooManyEnclaves (PP_OwnerEmail params) existingCount maxEnclaves), s)
           else
      (case CreateNamespace client (PP_Name params) s of
         (Inl e, s1) \<Rightarrow> (Inl (TE_K8s e), s1)
       | (Inr _, s1) \<Rightarrow>
      (case provision_steps maxMembers client exoCtrl now params preset s1 of
         (Inl (e, exoProvisioned), s2) \<Rightarrow> (Inl e, provision_rollback client exoCtrl (PP_Name params) exoProvisioned s2)
       | (Inr _, s2) \<Rightarrow> (Inr (provision_result exoCtrl params preset), s2)))))"

text \<open>The checks every enclave tool with a target makes before its handler runs.\<close>

definition tool_guard :: "Evaluator option \<Rightarrow> DeployerInfo option \<Rightarrow> string \<Rightarrow> 'e tool_error + unit" where
  "tool_guard eval deployer name =
     (case CheckNamespace name of
        Inl e \<Rightarrow> Inl (TE_Guard e)
      | Inr _ \<Rightarrow> (case requireDeployer deployer eval of Inl e \<Rightarrow> Inl (TE_Helper e) | Inr _ \<Rightarrow> Inr ()))"

definition is_oidc :: "DeployerInfo option \<Rightarrow> bool" where
  "is_oidc deployer = (case deployer of None \<Rightarrow> False | Some d \<Rightarrow> Provider d \<noteq> ''bearer-token'')"

definition enclave_provision ::
  "nat \<Rightarrow> nat \<Rightarrow> 's kube \<Rightarrow> ('s, 'e) Controller option \<Rightarrow> Evaluator option \<Rightarrow> string \<Rightarrow>
     DeployerInfo option \<Rightarrow> EnclaveProvisionParams \<Rightarrow> ('s, 'e tool_error, EnclaveProvisionResult) comp" where
  "enclave_provision maxMembers maxEnclaves client exoCtrl eval now deployer params =
     bindC (checkC (tool_guard eval deployer (PP_Name params))) (\<lambda>_.
       if is_oidc deployer then
         (let d = the deployer in
          if Email d = [] then failC TE_NoEmail
          else if Subject d = [] then failC TE_NoSubject
          else handleEnclaveProvision maxMembers maxEnclaves client exoCtrl now
                 (params\<lparr>PP_OwnerEmail := Email d, PP_OwnerSub := Subject d\<rparr>))
       else handleEnclaveProvision maxMembers maxEnclaves client exoCtrl now params)"

section \<open>Inspection\<close>

record EnclaveExoService =
  ES_Name :: string
  ES_Available :: bool

record EnclaveInfoResult =
  IR_Name :: string
  IR_Owner :: string
  IR_OwnerSub :: string
  IR_Members :: "string list"
  IR_Platform :: string
  IR_ChannelID :: string
  IR_ChannelName :: string
  IR_Status :: string
  IR_QuotaPreset :: string
  IR_CreatedAt :: string
  IR_UpdatedAt :: string
  IR_TentacleCount :: nat
  IR_ExoServices :: "EnclaveExoService list"

definition buildEnclaveExoServices :: "('s, 'e) Controller option \<Rightarrow> EnclaveExoService list" where
  "buildEnclaveExoServices exoCtrl =
     (case exoCtrl of
        None \<Rightarrow> [\<lparr>ES_Name = ''postgres'', ES_Available = False\<rparr>, \<lparr>ES_Name = ''rustfs'', ES_Available = False\<rparr>]
      | Some c \<Rightarrow> [\<lparr>ES_Name = ''postgres'', ES_Available = PostgresAvailable c\<rparr>,
                   \<lparr>ES_Name = ''rustfs'', ES_Available = RustFSAvailable c\<rparr>])"

definition info_result :: "EnclaveInfo \<Rightarrow> EnclaveInfoResult" where
  "info_result info =
     \<lparr>IR_Name = EI_Enclave info, IR_Owner = EI_Owner info, IR_OwnerSub = EI_OwnerSub info,
      IR_Members = EI_Members info, IR_Platform = EI_Platform info, IR_ChannelID = EI_ChannelID info,
      IR_ChannelName = EI_ChannelName info, IR_Status = EI_Status info, IR_QuotaPreset = [],
      IR_CreatedAt = EI_CreatedAt info, IR_UpdatedAt = EI_UpdatedAt info, IR_TentacleCount = 0, IR_ExoServices = []\<rparr>"

definition handleEnclaveInfo ::
  "'s kube \<Rightarrow> ('s, 'e) Controller option \<Rightarrow> string \<Rightarrow> DeployerInfo option \<Rightarrow> 's \<Rightarrow> 'e tool_error + EnclaveInfoResult" where
  "handleEnclaveInfo client exoCtrl name deployer s =
     (case ns_get client name s of
        Inl e \<Rightarrow> Inl (TE_GetNamespace name e)
      | Inr ns \<Rightarrow>
          let ann = N_Annotations ns in
          if \<not> IsEnclave ann then Inl (TE_NotEnclave name)
          else let info = ReadEnclaveInfo ann in
            if is_oidc deployer \<and> \<not> isEnclaveParticipant info (Email (the deployer)) \<and>
               \<not> OtherRead (resolve_mode DefaultEnclaveMode ann)
            then Inl (TE_NotParticipant name)
            else Inr ((info_result info)\<lparr>
                   IR_TentacleCount := (case dep_list client name [] s of Inl _ \<Rightarrow> 0 | Inr ds \<Rightarrow> length ds),
                   IR_QuotaPreset := mget ann annotationEnclaveQuotaPreset,
                   IR_ExoServices := buildEnclaveExoServices exoCtrl\<rparr>))"

definition enclave_info ::
  "'s kube \<Rightarrow> ('s, 'e) Controller option \<Rightarrow> Evaluator option \<Rightarrow> DeployerInfo option \<Rightarrow> string \<Rightarrow>
     ('s, 'e tool_error, EnclaveInfoResult) comp" where
  "enclave_info client exoCtrl eval deployer name =
     bindC (checkC (tool_guard eval deployer name)) (\<lambda>_ s. (handleEnclaveInfo client exoCtrl name deployer s, s))"

record EnclaveListItem =
  LI_Name :: string
  LI_Owner :: string
  LI_Status :: string
  LI_Platform :: string
  LI_ChannelName :: string
  LI_CreatedAt :: string
  LI_Members :: "string list"

definition list_item :: "EnclaveInfo \<Rightarrow> EnclaveListItem" where
  "list_item info =
     \<lparr>LI_Name = EI_Enclave info, LI_Owner = EI_Owner info, LI_Status = EI_Status info, LI_Platform = EI_Platform info,
      LI_ChannelName = EI_ChannelName info, LI_CreatedAt = EI_CreatedAt info, LI_Members = EI_Members info\<rparr>"

fun list_items :: "string \<Rightarrow> Namespace list \<Rightarrow> EnclaveListItem list" where
  "list_items callerEmail [] = []"
| "list_items callerEmail (ns # rest) =
     (let ann = N_Annotations ns in
      if N_Phase ns = ''Terminating'' then list_items callerEmail rest
      else if \<not> IsEnclave ann then list_items callerEmail rest
      else let info = ReadEnclaveInfo ann in
        if callerEmail \<noteq> [] \<and> \<not> isEnclaveParticipant info callerEmail \<and>
           \<not> OtherRead (resolve_mode DefaultEnclaveMode ann)
        then list_items callerEmail rest
        else list_item info # list_items callerEmail rest)"

definition handleEnclaveList :: "'s kube \<Rightarrow> string \<Rightarrow> 's \<Rightarrow> 'e tool_error + EnclaveListItem list" where
  "handleEnclaveList client callerEmail s =
     (case ListManagedNamespaces client s of Inl e \<Rightarrow> Inl (TE_K8s e) | Inr nss \<Rightarrow> Inr (list_items callerEmail nss))"

definition enclave_list ::
  "'s kube \<Rightarrow> Evaluator option \<Rightarrow> DeployerInfo option \<Rightarrow> string \<Rightarrow> 's \<Rightarrow> 'e tool_error + EnclaveListItem list" where
  "enclave_list client eval deployer callerEmail s =
     (case requireDeployer deployer eval of
        Inl e \<Rightarrow> Inl (TE_Helper e)
      | Inr _ \<Rightarrow> handleEnclaveList client (if is_oidc deployer then Email (the deployer) else callerEmail) s)"

section \<open>Guarded tools\<close>

text \<open>What every tool with a target namespace promises before its handler runs: a protected or empty
  namespace and a missing identity are rejected, and the world is left as it was.\<close>

locale guarded_tool =
  fixes tool :: "DeployerInfo option \<Rightarrow> 'p \<Rightarrow> ('s, 'e tool_error, 'r) comp"
    and target :: "'p \<Rightarrow> string" and eval :: "Evaluator option"
  assumes guarded: "tool_guard eval deployer (target p) = Inl e \<Longrightarrow> tool deployer p s = (Inl e, s)"
begin

lemma system_namespace_untouched:
  assumes "IsSystemNamespace (target p) \<or> target p = []"
  shows "\<exists>e. tool deployer p s = (Inl (TE_Guard e), s)"
proof -
  obtain e where "CheckNamespace (target p) = Inl e"
    using assms CheckNamespace_ok_iff [of "target p"] by (cases "CheckNamespace (target p)") auto
  then show ?thesis by (intro exI guarded) (simp add: tool_guard_def)
qed

lemma anonymous_untouched:
  assumes "enforcing eval"
  shows "\<exists>e. tool None p s = (Inl e, s)"
proof -
  have "requireDeployer None eval = Inl ErrNoDeployer"
    using assms requireDeployer_cases [of None eval] requireDeployer_iff [of None eval] by auto
  then have "\<exists>e. tool_guard eval None (target p) = Inl e"
    by (auto simp: tool_guard_def split: sum.splits)
  then show ?thesis using guarded by blast
qed

end

interpretation provision_tool: guarded_tool
  "enclave_provision maxMembers maxEnclaves client exoCtrl eval now" PP_Name eval
  for maxMembers maxEnclaves client exoCtrl eval now
  by unfold_locales (simp add: enclave_provision_def bindC_checkC_Inl)

interpretation info_tool: guarded_tool "enclave_info client exoCtrl eval" "\<lambda>name. name" eval
  for client exoCtrl eval
  by unfold_locales (simp add: enclave_info_def bindC_checkC_Inl)

section \<open>What provisioning guarantees\<close>

lemma steps_snoc_ok:
  "steps (m # ms) s = (Inr u, s') \<Longrightarrow> \<exists>v s1. m s = (Inr v, s1) \<and> steps ms s1 = (Inr u, s')"
  by (auto elim!: bindC_InrE)

lemma annotate_enclave_ok:
  assumes "annotate_enclave maxMembers client now params preset s = (Inr u, s')"
  shows "ValidateEnclaveInfo maxMembers (provision_info now params) = Inr () \<and>
    (\<exists>ns ns'. ns_get client (PP_Name params) s = Inr ns \<and>
       ns_update client (ns\<lparr>N_Annotations := (N_Annotations ns ++ WriteEnclaveAnnotations (provision_info now params))
         (annotationEnclaveQuotaPreset \<mapsto> preset)\<rparr>) s = (Inr ns', s'))"
  using assms by (auto simp: annotate_enclave_def create_ok Let_def split: sum.splits)

lemma provision_steps_ok:
  fixes exoCtrl :: "('s, 'e) Controller option"
  shows "provision_steps maxMembers client exoCtrl now params preset s = (Inr u, s') \<Longrightarrow>
     \<exists>v s1. (annotate_enclave maxMembers client now params preset :: ('s, 'e tool_error \<times> bool, unit) comp) s = (Inr v, s1)"
  unfolding provision_steps_def Let_def by (drule steps_snoc_ok) blast

lemma handleEnclaveProvision_ok:
  fixes exoCtrl :: "('s, 'e) Controller option"
  assumes "handleEnclaveProvision maxMembers maxEnclaves client exoCtrl now params s = (Inr r, s')"
  shows "\<exists>preset n s1 s2 v. preset \<in> set validQuotaPresets \<and>
    ValidateMembers maxMembers (PP_Members params) = Inr () \<and>
    countEnclavesOwnedBy client (ToLower (PP_OwnerEmail params)) s = Inr n \<and> n < maxEnclaves \<and>
    CreateNamespace client (PP_Name params) s = (Inr (), s1) \<and>
    (annotate_enclave maxMembers client now params preset :: ('s, 'e tool_error \<times> bool, unit) comp) s1 = (Inr v, s2) \<and>
    r = provision_result exoCtrl params preset"
proof -
  let ?preset = "provision_preset params"
  obtain n s1 u s2 where h: "?preset \<in> set validQuotaPresets" "ValidateMembers maxMembers (PP_Members params) = Inr ()"
    "countEnclavesOwnedBy client (ToLower (PP_OwnerEmail params)) s = Inr n" "n < maxEnclaves"
    "CreateNamespace client (PP_Name params) s = (Inr (), s1)"
    "provision_steps maxMembers client exoCtrl now params ?preset s1 = (Inr u, s2)"
    "r = provision_result exoCtrl params ?preset"
    using assms unfolding handleEnclaveProvision_def Let_def
    by (simp split: if_split_asm sum.splits prod.splits)
  then show ?thesis using provision_steps_ok [OF h(6)] by blast
qed

text \<open>The annotations that a provision call stores.\<close>

definition stored_info :: "EnclaveInfo \<Rightarrow> EnclaveInfo" where
  "stored_info info = info\<lparr>EI_Members := ParseMembers (FormatMembers (EI_Members info))\<rparr>"

lemma quota_preset_key_neq [simp]:
  "AnnotationEnclave \<noteq> annotationEnclaveQuotaPreset" "AnnotationEnclaveOwner \<noteq> annotationEnclaveQuotaPreset"
  "AnnotationEnclaveOwnerSub \<noteq> annotationEnclaveQuotaPreset" "AnnotationEnclaveMembers \<noteq> annotationEnclaveQuotaPreset"
  "AnnotationEnclavePlatform \<noteq> annotationEnclaveQuotaPreset" "AnnotationEnclaveChannelID \<noteq> annotationEnclaveQuotaPreset"
  "AnnotationEnclaveChannelName \<noteq> annotationEnclaveQuotaPreset" "AnnotationEnclaveStatus \<noteq> annotationEnclaveQuotaPreset"
  "AnnotationEnclaveDefaultMode \<noteq> annotationEnclaveQuotaPreset" "AnnotationEnclaveCreatedAt \<noteq> annotationEnclaveQuotaPreset"
  "AnnotationEnclaveUpdatedAt \<noteq> annotationEnclaveQuotaPreset"
  by (simp_all add: annotation_key_defs annotationEnclaveQuotaPreset_def)

lemma ReadEnclaveInfo_quota [simp]:
  "ReadEnclaveInfo (ann(annotationEnclaveQuotaPreset \<mapsto> v)) = ReadEnclaveInfo ann"
  by (simp add: ReadEnclaveInfo_def)


text \<open>C21: a failed provision leaves no half-built enclave behind by omission: it touched nothing, or
  the API rejected the creation of the namespace, or its last act was to delete the
  namespace it had created.\<close>

theorem handleEnclaveProvision_rollback:
  assumes "handleEnclaveProvision maxMembers maxEnclaves client exoCtrl now params s = (Inl e, s')"
  shows "s' = s \<or> (\<exists>err. ns_create client (new_namespace (PP_Name params)) s = (Inl err, s')) \<or>
    (\<exists>s1 res. ns_delete client (PP_Name params) s1 = (res, s'))"
proof -
  have "\<exists>s1 res. ns_delete client (PP_Name params) s1 = (res, provision_rollback client exoCtrl (PP_Name params) b s2)" for b s2
    unfolding provision_rollback_def Let_def DeleteNamespace_def mapErrC_snd by (metis prod.collapse)
  moreover have "\<exists>err. ns_create client (new_namespace (PP_Name params)) s = (Inl err, s1)"
    if "CreateNamespace client (PP_Name params) s = (Inl k, s1)" for k s1
    using that by (auto simp: CreateNamespace_def discardC_def bindC_def mapErrC_def split: prod.splits sum.splits)
  ultimately show ?thesis
    using assms by (auto simp: handleEnclaveProvision_def Let_def split: if_splits sum.splits prod.splits)
qed

section \<open>What listing shows\<close>

definition live_enclave :: "Namespace \<Rightarrow> bool" where
  "live_enclave ns \<longleftrightarrow> N_Phase ns \<noteq> ''Terminating'' \<and> IsEnclave (N_Annotations ns)"

definition visible_to :: "string \<Rightarrow> Namespace \<Rightarrow> bool" where
  "visible_to email ns \<longleftrightarrow>
     isEnclaveParticipant (ReadEnclaveInfo (N_Annotations ns)) email \<or>
     OtherRead (resolve_mode DefaultEnclaveMode (N_Annotations ns))"

definition item_of :: "Namespace \<Rightarrow> EnclaveListItem" where
  "item_of ns = list_item (ReadEnclaveInfo (N_Annotations ns))"

lemma list_items_filter:
  "list_items email nss = map item_of (filter (\<lambda>ns. live_enclave ns \<and> (email = [] \<or> visible_to email ns)) nss)"
  by (induction nss) (auto simp: live_enclave_def visible_to_def item_of_def Let_def)

text \<open>An OIDC caller with an e-mail address lists exactly the live enclaves it participates in or
  that are open for reading to others, whatever filter the request asks for.\<close>

theorem enclave_list_visibility:
  assumes "ListManagedNamespaces client s = Inr nss" and "Provider d \<noteq> ''bearer-token''" and "Email d \<noteq> []"
  shows "enclave_list client eval (Some d) callerEmail s =
    Inr (map item_of (filter (\<lambda>ns. live_enclave ns \<and> visible_to (Email d) ns) nss))"
  using assms
  by (simp add: enclave_list_def requireDeployer_def is_oidc_def handleEnclaveList_def list_items_filter)

theorem enclave_list_visibility_witness:
  "enclave_list mem_kube (Some (NewEvaluator DefaultMode)) (Some sample_deployer) ''other@x'' lab_mem =
    Inr (map item_of (filter (\<lambda>ns. live_enclave ns \<and> visible_to (Email sample_deployer) ns) [lab_ns]))"
  by (rule enclave_list_visibility)
    (simp_all add: ListManagedNamespaces_def mem_kube_def lab_mem_def empty_mem_def lab_ns_def has_label_def
      ManagedByLabel_def ManagedByValue_def sample_deployer_def)

text \<open>An OIDC caller whose token has no e-mail claim lists every live enclave: the filter that is
  forced to the caller's address is then empty, and an empty filter lists everything.\<close>

theorem enclave_list_without_email_shows_all:
  assumes "ListManagedNamespaces client s = Inr nss" and "Provider d \<noteq> ''bearer-token''" and "Email d = []"
  shows "enclave_list client eval (Some d) callerEmail s = Inr (map item_of (filter live_enclave nss))"
  using assms
  by (simp add: enclave_list_def requireDeployer_def is_oidc_def handleEnclaveList_def list_items_filter)

theorem enclave_list_without_email_shows_all_witness:
  "enclave_list mem_kube (Some (NewEvaluator DefaultMode)) (Some (sample_deployer\<lparr>Email := []\<rparr>)) [] lab_mem =
    Inr (map item_of (filter live_enclave [lab_ns]))"
  by (rule enclave_list_without_email_shows_all)
    (simp_all add: ListManagedNamespaces_def mem_kube_def lab_mem_def empty_mem_def lab_ns_def has_label_def
      ManagedByLabel_def ManagedByValue_def sample_deployer_def)

section \<open>Sample provision\<close>

definition sample_params :: EnclaveProvisionParams where
  "sample_params =
     \<lparr>PP_Name = ''den'', PP_OwnerEmail = ''eve@x'', PP_OwnerSub = ''e1'', PP_Platform = ''slack'', PP_ChannelID = ''C1'',
      PP_ChannelName = ''den'', PP_QuotaPreset = [], PP_DefaultMode = [], PP_Members = [''Bob@x'']\<rparr>"

definition sample_provision :: "(string tool_error + EnclaveProvisionResult) \<times> mem" where
  "sample_provision =
     enclave_provision 100 10 mem_kube None (Some (NewEvaluator DefaultMode)) ''t0'' (Some sample_deployer) sample_params empty_mem"

lemma sample_provision_ok: "fst sample_provision = Inr (projr (fst sample_provision))"
  by code_simp


definition sample_failure :: "(string tool_error + EnclaveProvisionResult) \<times> mem" where
  "sample_failure =
     handleEnclaveProvision 100 10 mem_kube None ''t0'' (sample_params\<lparr>PP_Platform := ''irc''\<rparr>) empty_mem"

lemma sample_failure_invalid: "fst sample_failure = Inl (TE_InvalidInfo (PlatformNotAllowed ''irc''))"
  by code_simp

theorem handleEnclaveProvision_rollback_witness:
  "snd sample_failure = empty_mem \<or>
    (\<exists>err. ns_create mem_kube (new_namespace (PP_Name (sample_params\<lparr>PP_Platform := ''irc''\<rparr>))) empty_mem = (Inl err, snd sample_failure)) \<or>
    (\<exists>s1 res. ns_delete mem_kube (PP_Name (sample_params\<lparr>PP_Platform := ''irc''\<rparr>)) s1 = (res, snd sample_failure))"
proof (rule handleEnclaveProvision_rollback)
  show "handleEnclaveProvision 100 10 mem_kube None ''t0'' (sample_params\<lparr>PP_Platform := ''irc''\<rparr>) empty_mem =
      ((Inl (TE_InvalidInfo (PlatformNotAllowed ''irc'')), snd sample_failure) :: (string tool_error + EnclaveProvisionResult) \<times> mem)"
    using sample_failure_invalid unfolding sample_failure_def by (metis prod.collapse)
qed

end
