(* ===== verification/Enclave_Sync.thy ===== *)
theory Enclave_Sync
  imports Enclave_Tools
begin

text \<open>
  The tools that change an enclave, \<^verbatim>\<open>enclave_sync\<close> and \<^verbatim>\<open>enclave_deprovision\<close> of
  \<^verbatim>\<open>pkg/tools/enclave.go\<close>. One attempt of a sync is a read-modify-write cycle whose failures
  carry the flag \<^verbatim>\<open>conflict\<close> that asks for a retry; the time of each attempt is read from a
  clock on the world. In Go the annotation map of the fetched namespace is shared between
  \<^verbatim>\<open>ann\<close> and \<^verbatim>\<open>ns.Annotations\<close>, so the writes to it are accumulated in the state of the
  cycle.
\<close>

record EnclaveSyncParams =
  SP_Name :: string
  SP_NewOwner :: string
  SP_NewChannelName :: string
  SP_NewStatus :: string
  SP_NewMode :: string
  SP_NewQuotaPreset :: string
  SP_AddMembers :: "string list"
  SP_RemoveMembers :: "string list"

record OwnershipTransfer =
  OT_TentacleName :: string
  OT_FromOwner :: string
  OT_ToOwner :: string
  OT_Error :: "api_err option"
  OT_Success :: bool

record EnclaveSyncResult =
  SR_Name :: string
  SR_Updated :: "string list"
  SR_Transfers :: "OwnershipTransfer list"
  SR_Enclave :: EnclaveInfoResult

section \<open>Transfer of orphaned tentacles\<close>

definition transferred :: "string \<Rightarrow> Deployment \<Rightarrow> Deployment" where
  "transferred newOwner dep =
     dep\<lparr>D_Annotations := (D_Annotations dep)(AnnotationOwner \<mapsto> newOwner, AnnotationOwnerEmail \<mapsto> newOwner,
                                              AnnotationOwnerSub \<mapsto> [])\<rparr>"

definition orphaned :: "string list \<Rightarrow> Deployment \<Rightarrow> bool" where
  "orphaned removedMembers dep =
     (let currentOwner = ToLower (mget (D_Annotations dep) AnnotationOwner) in
      currentOwner \<noteq> [] \<and> currentOwner \<in> set (map ToLower removedMembers))"

fun transfer_loop ::
  "'s kube \<Rightarrow> string \<Rightarrow> string list \<Rightarrow> string \<Rightarrow> Deployment list \<Rightarrow> 's \<Rightarrow> OwnershipTransfer list \<times> 's" where
  "transfer_loop client namespace removed newOwner [] s = ([], s)"
| "transfer_loop client namespace removed newOwner (dep # deps) s =
     (if \<not> orphaned removed dep then transfer_loop client namespace removed newOwner deps s
      else (case dep_update client namespace (transferred newOwner dep) s of (res, s1) \<Rightarrow>
        let t = \<lparr>OT_TentacleName = D_Name dep,
                 OT_FromOwner = ToLower (mget (D_Annotations dep) AnnotationOwner),
                 OT_ToOwner = newOwner,
                 OT_Error = (case res of Inl e \<Rightarrow> Some e | Inr _ \<Rightarrow> None),
                 OT_Success = (case res of Inl e \<Rightarrow> False | Inr _ \<Rightarrow> True)\<rparr>
        in (case transfer_loop client namespace removed newOwner deps s1 of (ts, s2) \<Rightarrow> (t # ts, s2))))"

definition transferOrphanedTentacles ::
  "'s kube \<Rightarrow> string \<Rightarrow> string list \<Rightarrow> string \<Rightarrow> ('s, api_err, OwnershipTransfer list) comp" where
  "transferOrphanedTentacles client namespace removedMembers newOwner s =
     (case dep_list client namespace ''app.kubernetes.io/managed-by=tentacular'' s of
        Inl e \<Rightarrow> (Inl e, s)
      | Inr deps \<Rightarrow> (case transfer_loop client namespace removedMembers newOwner deps s of (ts, s') \<Rightarrow> (Inr ts, s')))"

section \<open>One attempt\<close>

text \<open>The state of the cycle: the metadata being edited, the annotations of the fetched namespace,
  the list of updates and the transfers.\<close>

record sync_state =
  sy_info :: EnclaveInfo
  sy_ann :: strmap
  sy_updated :: "string list"
  sy_transfers :: "OwnershipTransfer list"

type_synonym ('s, 'e) sync_comp = "('s, bool \<times> 'e tool_error, sync_state) comp"

definition isOwnerOp :: "EnclaveSyncParams \<Rightarrow> bool" where
  "isOwnerOp p \<longleftrightarrow> SP_NewOwner p \<noteq> [] \<or> 0 < length (SP_AddMembers p) \<or> 0 < length (SP_RemoveMembers p) \<or>
     SP_NewStatus p \<noteq> [] \<or> SP_NewMode p \<noteq> [] \<or> SP_NewQuotaPreset p \<noteq> []"

definition owner_check :: "DeployerInfo option \<Rightarrow> string \<Rightarrow> EnclaveInfo \<Rightarrow> 'e tool_error + unit" where
  "owner_check deployer name info =
     (if is_oidc deployer then
        (if Email (the deployer) = [] then Inl TE_NoEmail
         else if Email (the deployer) \<noteq> EI_Owner info then Inl (TE_NotOwner name)
         else Inr ())
      else Inr ())"

fun add_members :: "string \<Rightarrow> string list \<Rightarrow> string list \<Rightarrow> string list" where
  "add_members owner members [] = members"
| "add_members owner members (m # ms) =
     (if m \<notin> set members \<and> m \<noteq> owner then add_members owner (members @ [m]) ms else add_members owner members ms)"

definition sync_add :: "nat \<Rightarrow> EnclaveSyncParams \<Rightarrow> sync_state \<Rightarrow> ('s, 'e) sync_comp" where
  "sync_add maxMembers p st =
     (if 0 < length (SP_AddMembers p) then
        (let info = (sy_info st)\<lparr>EI_Members := add_members (EI_Owner (sy_info st)) (EI_Members (sy_info st)) (SP_AddMembers p)\<rparr> in
         case ValidateMembers maxMembers (EI_Members info) of
           Inl e \<Rightarrow> failC (False, TE_Members e)
         | Inr _ \<Rightarrow> retC (st\<lparr>sy_info := info, sy_updated := sy_updated st @ [''members'']\<rparr>))
      else retC st)"

definition sync_remove :: "'s kube \<Rightarrow> EnclaveSyncParams \<Rightarrow> sync_state \<Rightarrow> ('s, 'e) sync_comp" where
  "sync_remove client p st s =
     (if 0 < length (SP_RemoveMembers p) then
        (let info = (sy_info st)\<lparr>EI_Members := filter (\<lambda>m. m \<notin> set (SP_RemoveMembers p)) (EI_Members (sy_info st))\<rparr>;
             updated = (if ''members'' \<in> set (sy_updated st) then sy_updated st else sy_updated st @ [''members''])
         in case transferOrphanedTentacles client (SP_Name p) (SP_RemoveMembers p) (EI_Owner info) s of
              (r, s') \<Rightarrow>
                let ts = (case r of Inl e \<Rightarrow> [] | Inr ts \<Rightarrow> ts) in
                (Inr (st\<lparr>sy_info := info, sy_transfers := ts,
                         sy_updated := (if 0 < length ts then updated @ [''ownership_transfers''] else updated)\<rparr>), s'))
      else (Inr st, s))"

definition sync_owner :: "EnclaveSyncParams \<Rightarrow> sync_state \<Rightarrow> ('s, 'e) sync_comp" where
  "sync_owner p st =
     (if SP_NewOwner p \<noteq> [] then
        (let info = sy_info st in
         if SP_NewOwner p = EI_Owner info then failC (False, TE_AlreadyOwner (SP_NewOwner p))
         else if \<not> isEnclaveParticipant info (SP_NewOwner p) then failC (False, TE_NotMember (SP_NewOwner p))
         else retC (st\<lparr>sy_info := info\<lparr>EI_Members := filter (\<lambda>m. m \<noteq> SP_NewOwner p) (EI_Members info) @ [EI_Owner info],
                                        EI_Owner := SP_NewOwner p, EI_OwnerSub := []\<rparr>,
                       sy_updated := sy_updated st @ [''owner'']\<rparr>))
      else retC st)"

definition sync_channel :: "EnclaveSyncParams \<Rightarrow> sync_state \<Rightarrow> ('s, 'e) sync_comp" where
  "sync_channel p st =
     (if SP_NewChannelName p \<noteq> [] then
        retC (st\<lparr>sy_info := (sy_info st)\<lparr>EI_ChannelName := SP_NewChannelName p\<rparr>,
                 sy_updated := sy_updated st @ [''channel_name'']\<rparr>)
      else retC st)"

definition sync_status :: "EnclaveSyncParams \<Rightarrow> sync_state \<Rightarrow> ('s, 'e) sync_comp" where
  "sync_status p st =
     (if SP_NewStatus p \<noteq> [] then
        (if SP_NewStatus p = ''active'' \<or> SP_NewStatus p = ''frozen'' then
           retC (st\<lparr>sy_info := (sy_info st)\<lparr>EI_Status := SP_NewStatus p\<rparr>, sy_updated := sy_updated st @ [''status'']\<rparr>)
         else failC (False, TE_Status (SP_NewStatus p)))
      else retC st)"

definition sync_mode :: "EnclaveSyncParams \<Rightarrow> sync_state \<Rightarrow> ('s, 'e) sync_comp" where
  "sync_mode p st =
     (if SP_NewMode p \<noteq> [] then
        (case ParseMode (SP_NewMode p) of
           Inl e \<Rightarrow> failC (False, TE_Mode (SP_NewMode p))
         | Inr _ \<Rightarrow> retC (st\<lparr>sy_info := (sy_info st)\<lparr>EI_DefaultMode := SP_NewMode p\<rparr>,
                              sy_ann := (sy_ann st)(AnnotationMode \<mapsto> SP_NewMode p),
                              sy_updated := sy_updated st @ [''mode'']\<rparr>))
      else retC st)"

definition sync_quota :: "'s kube \<Rightarrow> EnclaveSyncParams \<Rightarrow> sync_state \<Rightarrow> ('s, 'e) sync_comp" where
  "sync_quota client p st =
     (if SP_NewQuotaPreset p \<noteq> [] then
        (if SP_NewQuotaPreset p \<notin> set validQuotaPresets then failC (False, TE_QuotaPreset (SP_NewQuotaPreset p))
         else bindC (mapErrC (\<lambda>e. (False, TE_Quota e)) (UpdateResourceQuota client (SP_Name p) (SP_NewQuotaPreset p)))
                (\<lambda>_. retC (st\<lparr>sy_ann := (sy_ann st)(annotationEnclaveQuotaPreset \<mapsto> SP_NewQuotaPreset p),
                              sy_updated := sy_updated st @ [''quota_preset'']\<rparr>)))
      else retC st)"

definition sync_result :: "EnclaveSyncParams \<Rightarrow> sync_state \<Rightarrow> EnclaveSyncResult" where
  "sync_result p st =
     \<lparr>SR_Name = SP_Name p, SR_Updated = sy_updated st, SR_Transfers = sy_transfers st,
      SR_Enclave = info_result (sy_info st)\<rparr>"

definition sync_write ::
  "'s kube \<Rightarrow> string \<Rightarrow> EnclaveSyncParams \<Rightarrow> Namespace \<Rightarrow> sync_state \<Rightarrow> ('s, bool \<times> 'e tool_error, EnclaveSyncResult) comp" where
  "sync_write client now p ns st s =
     (if length (sy_updated st) = 0 then (Inl (False, TE_NoUpdates), s)
      else let st' = st\<lparr>sy_info := (sy_info st)\<lparr>EI_UpdatedAt := now\<rparr>\<rparr> in
        (case ns_update client (ns\<lparr>N_Annotations := sy_ann st' ++ WriteEnclaveAnnotations (sy_info st')\<rparr>) s of
           (Inl e, s') \<Rightarrow>
             if e = Conflict then (Inl (True, TE_Conflict e), s') else (Inl (False, TE_Update (SP_Name p) e), s')
         | (Inr _, s') \<Rightarrow> (Inr (sync_result p st'), s')))"

definition sync_edits :: "nat \<Rightarrow> 's kube \<Rightarrow> EnclaveSyncParams \<Rightarrow> sync_state \<Rightarrow> ('s, 'e) sync_comp" where
  "sync_edits maxMembers client p st =
     bindC (sync_add maxMembers p st) (\<lambda>st.
     bindC (sync_remove client p st) (\<lambda>st.
     bindC (sync_owner p st) (\<lambda>st.
     bindC (sync_channel p st) (\<lambda>st.
     bindC (sync_status p st) (\<lambda>st.
     bindC (sync_mode p st) (\<lambda>st. sync_quota client p st))))))"

definition attemptEnclaveSync ::
  "nat \<Rightarrow> 's kube \<Rightarrow> ('s \<Rightarrow> string) \<Rightarrow> EnclaveSyncParams \<Rightarrow> DeployerInfo option \<Rightarrow>
     ('s, bool \<times> 'e tool_error, EnclaveSyncResult) comp" where
  "attemptEnclaveSync maxMembers client clock p deployer s =
     (case ns_get client (SP_Name p) s of
        Inl e \<Rightarrow> (Inl (False, TE_GetNamespace (SP_Name p) e), s)
      | Inr ns \<Rightarrow>
          if \<not> IsEnclave (N_Annotations ns) then (Inl (False, TE_NotEnclave (SP_Name p)), s)
          else (case (if isOwnerOp p then owner_check deployer (SP_Name p) (ReadEnclaveInfo (N_Annotations ns)) else Inr ()) of
                  Inl e \<Rightarrow> (Inl (False, e), s)
                | Inr _ \<Rightarrow>
                    bindC (sync_edits maxMembers client p
                             \<lparr>sy_info = ReadEnclaveInfo (N_Annotations ns), sy_ann = N_Annotations ns,
                              sy_updated = [], sy_transfers = []\<rparr>)
                      (\<lambda>st s1. sync_write client (clock s1) p ns st s1) s))"

definition maxSyncRetries :: nat where "maxSyncRetries = 3"

fun sync_retry ::
  "nat \<Rightarrow> ('s, bool \<times> 'e tool_error, EnclaveSyncResult) comp \<Rightarrow> 'e tool_error \<Rightarrow> ('s, 'e tool_error, EnclaveSyncResult) comp" where
  "sync_retry 0 att gaveUp s = (Inl gaveUp, s)"
| "sync_retry (Suc n) att gaveUp s =
     (case att s of
        (Inl (conflict, e), s') \<Rightarrow> if conflict then sync_retry n att gaveUp s' else (Inl e, s')
      | (Inr r, s') \<Rightarrow> (Inr r, s'))"

definition handleEnclaveSync ::
  "nat \<Rightarrow> 's kube \<Rightarrow> ('s \<Rightarrow> string) \<Rightarrow> EnclaveSyncParams \<Rightarrow> DeployerInfo option \<Rightarrow>
     ('s, 'e tool_error, EnclaveSyncResult) comp" where
  "handleEnclaveSync maxMembers client clock p deployer =
     sync_retry maxSyncRetries (attemptEnclaveSync maxMembers client clock p deployer)
       (TE_ConflictPersisted maxSyncRetries (SP_Name p))"

definition enclave_sync ::
  "nat \<Rightarrow> 's kube \<Rightarrow> ('s \<Rightarrow> string) \<Rightarrow> Evaluator option \<Rightarrow> DeployerInfo option \<Rightarrow> EnclaveSyncParams \<Rightarrow>
     ('s, 'e tool_error, EnclaveSyncResult) comp" where
  "enclave_sync maxMembers client clock eval deployer p =
     bindC (checkC (tool_guard eval deployer (SP_Name p))) (\<lambda>_. handleEnclaveSync maxMembers client clock p deployer)"

section \<open>Deprovisioning\<close>

record EnclaveDeprovisionResult =
  DR_Name :: string
  DR_Deleted :: bool
  DR_TentaclesRemoved :: nat

fun delete_deployments :: "'s kube \<Rightarrow> string \<Rightarrow> Deployment list \<Rightarrow> nat \<times> 's \<Rightarrow> nat \<times> 's" where
  "delete_deployments client name [] st = st"
| "delete_deployments client name (dep # deps) (n, s) =
     (case dep_delete client name (D_Name dep) s of
        (Inl e, s') \<Rightarrow> delete_deployments client name deps (n, s')
      | (Inr _, s') \<Rightarrow> delete_deployments client name deps (Suc n, s'))"

fun cleanup_tentacles :: "('s, 'e) Controller \<Rightarrow> string \<Rightarrow> Deployment list \<Rightarrow> 's \<Rightarrow> 's" where
  "cleanup_tentacles c name [] s = s"
| "cleanup_tentacles c name (dep # deps) s =
     cleanup_tentacles c name deps (snd (Cleanup c name (D_Name dep) s))"

definition handleEnclaveDeprovision ::
  "'s kube \<Rightarrow> ('s, 'e) Controller option \<Rightarrow> string \<Rightarrow> DeployerInfo option \<Rightarrow>
     ('s, 'e tool_error, EnclaveDeprovisionResult) comp" where
  "handleEnclaveDeprovision client exoCtrl name deployer s =
     (case ns_get client name s of
        Inl e \<Rightarrow> (Inl (TE_GetNamespace name e), s)
      | Inr ns \<Rightarrow>
          if \<not> IsEnclave (N_Annotations ns) then (Inl (TE_NotEnclave name), s)
          else (case owner_check deployer name (ReadEnclaveInfo (N_Annotations ns)) of
            Inl e \<Rightarrow> (Inl e, s)
          | Inr _ \<Rightarrow>
              let deps = (case dep_list client name [] s of Inl e \<Rightarrow> [] | Inr ds \<Rightarrow> ds);
                  (removed, s1) = delete_deployments client name deps (0, s);
                  s2 = (case exoCtrl of None \<Rightarrow> s1 | Some c \<Rightarrow> cleanup_tentacles c name deps s1);
                  s3 = (case exoCtrl of None \<Rightarrow> s2 | Some c \<Rightarrow> snd (CleanupEnclave c name s2))
              in (case DeleteNamespace client name s3 of
                    (Inl e, s4) \<Rightarrow> (Inl (TE_K8s e), s4)
                  | (Inr _, s4) \<Rightarrow> (Inr \<lparr>DR_Name = name, DR_Deleted = True, DR_TentaclesRemoved = removed\<rparr>, s4))))"

definition enclave_deprovision ::
  "'s kube \<Rightarrow> ('s, 'e) Controller option \<Rightarrow> Evaluator option \<Rightarrow> DeployerInfo option \<Rightarrow> string \<Rightarrow>
     ('s, 'e tool_error, EnclaveDeprovisionResult) comp" where
  "enclave_deprovision client exoCtrl eval deployer name =
     bindC (checkC (tool_guard eval deployer name)) (\<lambda>_. handleEnclaveDeprovision client exoCtrl name deployer)"

interpretation sync_tool: guarded_tool "enclave_sync maxMembers client clock eval" SP_Name eval
  for maxMembers client clock eval
  by unfold_locales (simp add: enclave_sync_def bindC_checkC_Inl)

interpretation deprovision_tool: guarded_tool "enclave_deprovision client exoCtrl eval" "\<lambda>name. name" eval
  for client exoCtrl eval
  by unfold_locales (simp add: enclave_deprovision_def bindC_checkC_Inl)

section \<open>The edit a sync performs\<close>

text \<open>The metadata a sync should leave behind, as one function of the metadata it found.\<close>

definition edited_members :: "EnclaveSyncParams \<Rightarrow> EnclaveInfo \<Rightarrow> string list" where
  "edited_members p info =
     filter (\<lambda>m. m \<notin> set (SP_RemoveMembers p)) (add_members (EI_Owner info) (EI_Members info) (SP_AddMembers p))"

definition edited :: "EnclaveSyncParams \<Rightarrow> EnclaveInfo \<Rightarrow> EnclaveInfo" where
  "edited p info =
     info\<lparr>EI_Members := (if SP_NewOwner p = [] then edited_members p info
                         else filter (\<lambda>m. m \<noteq> SP_NewOwner p) (edited_members p info) @ [EI_Owner info]),
          EI_Owner := (if SP_NewOwner p = [] then EI_Owner info else SP_NewOwner p),
          EI_OwnerSub := (if SP_NewOwner p = [] then EI_OwnerSub info else []),
          EI_ChannelName := (if SP_NewChannelName p = [] then EI_ChannelName info else SP_NewChannelName p),
          EI_Status := (if SP_NewStatus p = [] then EI_Status info else SP_NewStatus p),
          EI_DefaultMode := (if SP_NewMode p = [] then EI_DefaultMode info else SP_NewMode p)\<rparr>"

text \<open>The requests whose edits are accepted.\<close>

definition acceptable :: "nat \<Rightarrow> EnclaveSyncParams \<Rightarrow> EnclaveInfo \<Rightarrow> bool" where
  "acceptable maxMembers p info \<longleftrightarrow>
     (SP_AddMembers p = [] \<or>
        ValidateMembers maxMembers (add_members (EI_Owner info) (EI_Members info) (SP_AddMembers p)) = Inr ()) \<and>
     (SP_NewOwner p = [] \<or> SP_NewOwner p \<noteq> EI_Owner info \<and>
        isEnclaveParticipant (info\<lparr>EI_Members := edited_members p info\<rparr>) (SP_NewOwner p)) \<and>
     SP_NewStatus p \<in> {[], ''active'', ''frozen''} \<and>
     (SP_NewMode p = [] \<or> (\<exists>m. ParseMode (SP_NewMode p) = Inr m)) \<and>
     SP_NewQuotaPreset p \<in> insert [] (set validQuotaPresets)"

named_theorems sync_ok

lemma sync_add_ok [sync_ok]:
  "sync_add maxMembers p st s = (Inr st', s') \<longleftrightarrow>
     s' = s \<and> (if SP_AddMembers p = [] then st' = st
       else ValidateMembers maxMembers (add_members (EI_Owner (sy_info st)) (EI_Members (sy_info st)) (SP_AddMembers p)) = Inr () \<and>
            st' = st\<lparr>sy_info := (sy_info st)\<lparr>EI_Members := add_members (EI_Owner (sy_info st)) (EI_Members (sy_info st)) (SP_AddMembers p)\<rparr>,
                     sy_updated := sy_updated st @ [''members'']\<rparr>)"
  by (auto simp: sync_add_def Let_def split: sum.splits)

lemma sync_remove_info:
  assumes "sync_remove client p st s = (r, s')"
  shows "\<exists>st'. r = Inr st' \<and> sy_ann st' = sy_ann st \<and>
    sy_info st' = (sy_info st)\<lparr>EI_Members := filter (\<lambda>m. m \<notin> set (SP_RemoveMembers p)) (EI_Members (sy_info st))\<rparr>"
  using assms by (auto simp: sync_remove_def Let_def split: if_splits prod.splits)

lemma sync_owner_ok [sync_ok]:
  "sync_owner p st s = (Inr st', s') \<longleftrightarrow>
     s' = s \<and> (if SP_NewOwner p = [] then st' = st
       else SP_NewOwner p \<noteq> EI_Owner (sy_info st) \<and> isEnclaveParticipant (sy_info st) (SP_NewOwner p) \<and>
            st' = st\<lparr>sy_info := (sy_info st)\<lparr>EI_Members := filter (\<lambda>m. m \<noteq> SP_NewOwner p) (EI_Members (sy_info st)) @ [EI_Owner (sy_info st)],
                                        EI_Owner := SP_NewOwner p, EI_OwnerSub := []\<rparr>,
                     sy_updated := sy_updated st @ [''owner'']\<rparr>)"
  by (auto simp: sync_owner_def Let_def)

lemma sync_channel_ok [sync_ok]:
  "sync_channel p st s = (Inr st', s') \<longleftrightarrow>
     s' = s \<and> (if SP_NewChannelName p = [] then st' = st
       else st' = st\<lparr>sy_info := (sy_info st)\<lparr>EI_ChannelName := SP_NewChannelName p\<rparr>,
                     sy_updated := sy_updated st @ [''channel_name'']\<rparr>)"
  by (auto simp: sync_channel_def)

lemma sync_status_ok [sync_ok]:
  "sync_status p st s = (Inr st', s') \<longleftrightarrow>
     s' = s \<and> (if SP_NewStatus p = [] then st' = st
       else SP_NewStatus p \<in> {''active'', ''frozen''} \<and>
            st' = st\<lparr>sy_info := (sy_info st)\<lparr>EI_Status := SP_NewStatus p\<rparr>, sy_updated := sy_updated st @ [''status'']\<rparr>)"
  by (auto simp: sync_status_def)

lemma sync_mode_ok [sync_ok]:
  "sync_mode p st s = (Inr st', s') \<longleftrightarrow>
     s' = s \<and> (if SP_NewMode p = [] then st' = st
       else (\<exists>m. ParseMode (SP_NewMode p) = Inr m) \<and>
            st' = st\<lparr>sy_info := (sy_info st)\<lparr>EI_DefaultMode := SP_NewMode p\<rparr>,
                     sy_ann := (sy_ann st)(AnnotationMode \<mapsto> SP_NewMode p),
                     sy_updated := sy_updated st @ [''mode'']\<rparr>)"
  by (auto simp: sync_mode_def split: sum.splits)

lemma sync_quota_ok:
  assumes "sync_quota client p st s = (Inr st', s')"
  shows "sy_info st' = sy_info st \<and> SP_NewQuotaPreset p \<in> insert [] (set validQuotaPresets)"
  using assms by (auto simp: sync_quota_def elim!: bindC_InrE split: if_splits)

lemma sync_edits_ok:
  assumes "sync_edits maxMembers client p st s = (Inr st', s')"
  shows "sy_info st' = edited p (sy_info st) \<and> acceptable maxMembers p (sy_info st)"
  using assms unfolding sync_edits_def
  apply (elim bindC_InrE)
  apply (drule sync_remove_info sync_quota_ok)+
  apply (auto simp: sync_ok edited_def edited_members_def acceptable_def split: if_split_asm)
  done

lemma attempt_ok:
  fixes client :: "'s kube"
  assumes "attemptEnclaveSync maxMembers client clock p deployer s =
    ((Inr r, s') :: ((bool \<times> 'e tool_error) + EnclaveSyncResult) \<times> 's)"
  obtains ns st ns' s1 where "ns_get client (SP_Name p) s = Inr ns" "IsEnclave (N_Annotations ns)"
    "(if isOwnerOp p then owner_check deployer (SP_Name p) (ReadEnclaveInfo (N_Annotations ns)) else Inr ()) =
       (Inr () :: 'e tool_error + unit)"
    "sy_info st = (edited p (ReadEnclaveInfo (N_Annotations ns)))\<lparr>EI_UpdatedAt := clock s1\<rparr>"
    "acceptable maxMembers p (ReadEnclaveInfo (N_Annotations ns))"
    "ns_update client (ns\<lparr>N_Annotations := sy_ann st ++ WriteEnclaveAnnotations (sy_info st)\<rparr>) s1 = (Inr ns', s')"
    "r = sync_result p st"
proof -
  obtain ns where ns: "ns_get client (SP_Name p) s = Inr ns" "IsEnclave (N_Annotations ns)"
    using assms by (auto simp: attemptEnclaveSync_def split: sum.splits if_splits)
  let ?info = "ReadEnclaveInfo (N_Annotations ns)"
  have chk: "(if isOwnerOp p then owner_check deployer (SP_Name p) ?info else Inr ()) = (Inr () :: 'e tool_error + unit)"
    using assms ns by (simp add: attemptEnclaveSync_def split: sum.splits if_splits)
  then have run: "bindC (sync_edits maxMembers client p
        \<lparr>sy_info = ?info, sy_ann = N_Annotations ns, sy_updated = [], sy_transfers = []\<rparr>)
      (\<lambda>st s1. sync_write client (clock s1) p ns st s1) s = ((Inr r, s') :: ((bool \<times> 'e tool_error) + EnclaveSyncResult) \<times> 's)"
    using assms ns by (simp add: attemptEnclaveSync_def)
  then obtain st s1 where ed: "(sync_edits maxMembers client p
        \<lparr>sy_info = ?info, sy_ann = N_Annotations ns, sy_updated = [], sy_transfers = []\<rparr> ::
          ('s, 'e) sync_comp) s = (Inr st, s1)"
      and wr: "(sync_write client (clock s1) p ns st s1 :: ((bool \<times> 'e tool_error) + _) \<times> _) = (Inr r, s')"
    by (rule bindC_InrE)
  note ok = sync_edits_ok [OF ed]
  let ?st = "st\<lparr>sy_info := (sy_info st)\<lparr>EI_UpdatedAt := clock s1\<rparr>\<rparr>"
  obtain ns' where "ns_update client (ns\<lparr>N_Annotations := sy_ann ?st ++ WriteEnclaveAnnotations (sy_info ?st)\<rparr>) s1 = (Inr ns', s')"
    "r = sync_result p ?st"
    using wr by (auto simp: sync_write_def Let_def split: if_splits prod.splits sum.splits)
  then show thesis using that [of ns ?st s1 ns'] ns chk ok by simp
qed

lemma sync_retry_ok:
  "sync_retry n att e s = (Inr r, s') \<Longrightarrow> \<exists>s1. att s1 = (Inr r, s')"
  by (induction n arbitrary: s) (auto split: prod.splits sum.splits if_splits)

text \<open>Who may run the operations reserved to the owner: the owner under the exact address of the
  annotation, and callers that did not come through OIDC.\<close>

definition owner_allowed :: "DeployerInfo option \<Rightarrow> EnclaveInfo \<Rightarrow> bool" where
  "owner_allowed deployer info \<longleftrightarrow>
     (if is_oidc deployer then Email (the deployer) \<noteq> [] \<and> Email (the deployer) = EI_Owner info else True)"

lemma owner_check_ok_iff: "owner_check deployer name info = Inr () \<longleftrightarrow> owner_allowed deployer info"
  by (auto simp: owner_check_def owner_allowed_def)

lemma owner_check_denied: "\<not> owner_allowed deployer info \<Longrightarrow> \<exists>e. owner_check deployer name info = Inl e"
  by (auto simp: owner_check_def owner_allowed_def split: if_splits)

text \<open>The request that only renames the channel of an enclave.\<close>

definition rename_only :: "string \<Rightarrow> string \<Rightarrow> EnclaveSyncParams" where
  "rename_only name channel =
     \<lparr>SP_Name = name, SP_NewOwner = [], SP_NewChannelName = channel, SP_NewStatus = [], SP_NewMode = [],
      SP_NewQuotaPreset = [], SP_AddMembers = [], SP_RemoveMembers = []\<rparr>"

lemma isOwnerOp_iff: "isOwnerOp p \<longleftrightarrow> (\<forall>channel. p \<noteq> rename_only (SP_Name p) channel)"
  by (cases p) (auto simp: isOwnerOp_def rename_only_def)

text \<open>C16: only the owner of an enclave changes it: a sync that asks for anything but a new channel name
  and comes from an OIDC caller whose address is not the owner's is rejected, and leaves the
  world untouched.\<close>

theorem enclave_sync_owner_only:
  assumes "\<And>channel. p \<noteq> rename_only (SP_Name p) channel" and "ns_get client (SP_Name p) s = Inr ns"
    and "\<not> owner_allowed deployer (ReadEnclaveInfo (N_Annotations ns))"
  shows "\<exists>e. enclave_sync maxMembers client clock eval deployer p s = (Inl (e :: 'e tool_error), s)"
proof -
  obtain e :: "'e tool_error" where "owner_check deployer (SP_Name p) (ReadEnclaveInfo (N_Annotations ns)) = Inl e"
    using owner_check_denied [OF assms(3)] by blast
  then have "\<exists>e. attemptEnclaveSync maxMembers client clock p deployer s = (Inl (False, e :: 'e tool_error), s)"
    using isOwnerOp_iff [of p] assms(1,2) by (simp add: attemptEnclaveSync_def)
  then have "\<exists>e. handleEnclaveSync maxMembers client clock p deployer s = (Inl (e :: 'e tool_error), s)"
    by (auto simp: handleEnclaveSync_def maxSyncRetries_def eval_nat_numeral)
  then show ?thesis
    by (cases "tool_guard eval deployer (SP_Name p) :: 'e tool_error + unit")
      (auto simp: enclave_sync_def bindC_def)
qed


text \<open>A handover keeps the old owner in the enclave and needs a new owner who was in it.\<close>

lemma edited_handover:
  assumes "acceptable maxMembers p info" and "SP_NewOwner p \<noteq> []"
  shows "EI_Owner (edited p info) = SP_NewOwner p \<and> EI_OwnerSub (edited p info) = [] \<and>
    EI_Owner info \<in> set (EI_Members (edited p info)) \<and> SP_NewOwner p \<notin> set (EI_Members (edited p info))"
  using assms by (auto simp: acceptable_def edited_def)

section \<open>Transfers\<close>

lemma transfer_loop_reports:
  "transfer_loop client namespace removed newOwner deps s = (ts, s') \<Longrightarrow>
     map OT_TentacleName ts = map D_Name (filter (orphaned removed) deps) \<and>
     list_all (\<lambda>t. OT_ToOwner t = newOwner \<and> OT_FromOwner t \<in> set (map ToLower removed) \<and>
                   (OT_Success t \<longleftrightarrow> OT_Error t = None)) ts"
  by (induction deps arbitrary: s ts)
    (auto simp: orphaned_def Let_def split: if_splits prod.splits sum.splits)

lemma transfer_loop_untouched:
  "filter (orphaned removed) deps = [] \<Longrightarrow> transfer_loop client namespace removed newOwner deps s = ([], s)"
  by (induction deps) (auto split: if_splits)

section \<open>What deprovisioning guarantees\<close>

text \<open>C17: an enclave is deprovisioned only for its owner or an operator, and a deprovisioning that
  reports success has left the namespace deleted or terminating, with no more tentacles counted
  as removed than were listed.\<close>

theorem enclave_deprovision_effect:
  fixes exoCtrl :: "('s, 'e) Controller option"
  assumes "enclave_deprovision client exoCtrl eval deployer name s = (Inr r, s')" and "ns_deletes client"
  shows "DR_Deleted r \<and> ns_gone client name s' \<and>
    (\<exists>ns. ns_get client name s = Inr ns \<and> IsEnclave (N_Annotations ns) \<and>
       owner_allowed deployer (ReadEnclaveInfo (N_Annotations ns)))"
proof -
  have run: "handleEnclaveDeprovision client exoCtrl name deployer s = (Inr r, s')"
    using assms(1) by (auto simp: enclave_deprovision_def bindC_checkC_Inr)
  then obtain ns where "ns_get client name s = Inr ns" "IsEnclave (N_Annotations ns)"
    and "\<exists>u. owner_check deployer name (ReadEnclaveInfo (N_Annotations ns)) = (Inr u :: 'e tool_error + unit)"
    by (auto simp: handleEnclaveDeprovision_def split: sum.splits if_splits)
  moreover obtain s3 where "DeleteNamespace client name s3 = (Inr (), s')" "DR_Deleted r"
    using run by (auto simp: handleEnclaveDeprovision_def Let_def split: sum.splits if_splits prod.splits)
  moreover have "ns_gone client name s'"
    using calculation(4) assms(2) by (auto simp: DeleteNamespace_def ns_deletes_def create_ok)
  ultimately show ?thesis by (auto simp: owner_check_ok_iff)
qed

theorem enclave_deprovision_owner_only:
  fixes exoCtrl :: "('s, 'e) Controller option"
  assumes "ns_get client name s = Inr ns" and "\<not> owner_allowed deployer (ReadEnclaveInfo (N_Annotations ns))"
  shows "\<exists>e. enclave_deprovision client exoCtrl eval deployer name s = (Inl e, s)"
proof -
  obtain e :: "'e tool_error" where "owner_check deployer name (ReadEnclaveInfo (N_Annotations ns)) = Inl e"
    using owner_check_denied [OF assms(2)] by blast
  then have "\<exists>e. handleEnclaveDeprovision client exoCtrl name deployer s = (Inl e, s)"
    using assms(1) by (simp add: handleEnclaveDeprovision_def)
  then show ?thesis
    by (cases "tool_guard eval deployer name :: 'e tool_error + unit")
      (auto simp: enclave_deprovision_def bindC_def)
qed

section \<open>Sample runs\<close>

definition lab_owner :: DeployerInfo where
  "lab_owner = sample_deployer\<lparr>Email := ''Ann@x''\<rparr>"

definition lab_sync :: EnclaveSyncParams where
  "lab_sync =
     \<lparr>SP_Name = ''lab'', SP_NewOwner = ''bob@x'', SP_NewChannelName = [], SP_NewStatus = ''frozen'', SP_NewMode = [],
      SP_NewQuotaPreset = [], SP_AddMembers = [''cy@x''], SP_RemoveMembers = []\<rparr>"

definition lab_dep :: Deployment where
  "lab_dep =
     \<lparr>D_Name = ''crawler'', D_Namespace = ''lab'', D_Labels = [''app.kubernetes.io/managed-by'' \<mapsto> ''tentacular''],
      D_Annotations = [AnnotationOwner \<mapsto> ''bob@x''], D_ResourceVersion = 1\<rparr>"

definition lab_world :: mem where
  "lab_world = lab_mem\<lparr>mem_dep := [((''lab'', ''crawler''), lab_dep)]\<rparr>"

definition lab_sync_run :: "(string tool_error + EnclaveSyncResult) \<times> mem" where
  "lab_sync_run =
     enclave_sync 100 mem_kube (\<lambda>_. ''t1'') (Some (NewEvaluator DefaultMode)) (Some lab_owner) lab_sync lab_world"

lemma lab_sync_ok: "fst lab_sync_run = Inr (projr (fst lab_sync_run))"
  by code_simp


lemma lab_get: "ns_get mem_kube ''lab'' lab_world = Inr (lab_ns\<lparr>N_Name := ''lab''\<rparr>)"
  by (simp add: mem_kube_def lab_world_def lab_mem_def empty_mem_def fetch_def)

lemma lab_stranger:
  "\<not> owner_allowed (Some sample_deployer) (ReadEnclaveInfo (N_Annotations (lab_ns\<lparr>N_Name := ''lab''\<rparr>)))"
  by code_simp

text \<open>The evaluator takes the two spellings of the address for one owner, the owner check does not.\<close>

lemma owner_check_case_sensitive:
  "Allowed (CheckEnclave (Some (NewEvaluator DefaultMode)) (Some sample_deployer) (N_Annotations lab_ns) Write) \<and>
   \<not> owner_allowed (Some sample_deployer) (ReadEnclaveInfo (N_Annotations lab_ns))"
  by code_simp

theorem enclave_sync_owner_only_witness:
  "\<exists>e. enclave_sync 100 mem_kube (\<lambda>_. ''t1'') (Some (NewEvaluator DefaultMode)) (Some sample_deployer)
     lab_sync lab_world = (Inl (e :: string tool_error), lab_world)"
proof (rule enclave_sync_owner_only)
  show "lab_sync \<noteq> rename_only (SP_Name lab_sync) channel" for channel
    by (simp add: lab_sync_def rename_only_def)
  show "ns_get mem_kube (SP_Name lab_sync) lab_world = Inr (lab_ns\<lparr>N_Name := ''lab''\<rparr>)"
    using lab_get by (simp add: lab_sync_def)
qed (rule lab_stranger)

definition lab_delete_run :: "(string tool_error + EnclaveDeprovisionResult) \<times> mem" where
  "lab_delete_run =
     enclave_deprovision mem_kube None (Some (NewEvaluator DefaultMode)) (Some lab_owner) ''lab'' lab_world"

lemma lab_delete_ok: "fst lab_delete_run = Inr \<lparr>DR_Name = ''lab'', DR_Deleted = True, DR_TentaclesRemoved = 1\<rparr>"
  by code_simp

theorem enclave_deprovision_effect_witness:
  "DR_Deleted \<lparr>DR_Name = ''lab'', DR_Deleted = True, DR_TentaclesRemoved = 1\<rparr> \<and>
   ns_gone mem_kube ''lab'' (snd lab_delete_run) \<and>
    (\<exists>ns. ns_get mem_kube ''lab'' lab_world = Inr ns \<and> IsEnclave (N_Annotations ns) \<and>
       owner_allowed (Some lab_owner) (ReadEnclaveInfo (N_Annotations ns)))"
proof (rule enclave_deprovision_effect)
  show "enclave_deprovision mem_kube None (Some (NewEvaluator DefaultMode)) (Some lab_owner) ''lab'' lab_world =
      ((Inr \<lparr>DR_Name = ''lab'', DR_Deleted = True, DR_TentaclesRemoved = 1\<rparr>, snd lab_delete_run) ::
         (string tool_error + EnclaveDeprovisionResult) \<times> mem)"
    using lab_delete_ok unfolding lab_delete_run_def by (metis prod.collapse)
qed (rule mem_ns_deletes)

section \<open>Where a sync is not atomic\<close>

text \<open>A sync is not all or nothing: a request that removes a member and asks for an unknown status
  is rejected, and the namespace keeps its metadata, but the tentacles of the member have
  already been handed to the owner.\<close>

theorem enclave_sync_rejected_after_transfer:
  "case enclave_sync 100 mem_kube (\<lambda>_. ''t1'') (Some (NewEvaluator DefaultMode)) (Some lab_owner)
       (lab_sync\<lparr>SP_NewOwner := [], SP_AddMembers := [], SP_RemoveMembers := [''bob@x''], SP_NewStatus := ''paused''\<rparr>) lab_world of
     (r, w) \<Rightarrow> r = Inl (TE_Status ''paused'' :: string tool_error) \<and> map (\<lambda>x. ReadEnclaveInfo (N_Annotations (snd x))) (mem_ns w) =
         map (\<lambda>x. ReadEnclaveInfo (N_Annotations (snd x))) (mem_ns lab_world) \<and>
       map (\<lambda>x. mget (D_Annotations (snd x)) AnnotationOwner) (mem_dep lab_world) = [''bob@x''] \<and>
       map (\<lambda>x. mget (D_Annotations (snd x)) AnnotationOwner) (mem_dep w) = [''Ann@x'']"
  by code_simp

text \<open>The bound on the number of members is checked before the addresses are normalised: one added
  member with a comma in it is stored as two.\<close>

lemma member_bound_by_comma:
  "ValidateMembers 1 [''bob@x,cy@x''] = Inr () \<and> ParseMembers (FormatMembers [''bob@x,cy@x'']) = [''bob@x'', ''cy@x'']"
  by code_simp

end
