(* ===== verification/Manifest.thy ===== *)
theory Manifest
  imports Complex_Main Kube_Api "HOL-Library.AList"
begin

text \<open>
  Manifests as the tools receive them: decoded JSON objects (\<^verbatim>\<open>map[string]any\<close>) that are read
  and edited through the package \<^verbatim>\<open>k8s.io/apimachinery/.../unstructured\<close>. A Go map is an
  association list here. The package is not part of the program: its functions are the fields
  of the record \<open>uns\<close>, an argument of every definition that calls them, and what they are
  documented to do is the hypothesis \<open>uns_laws\<close>, stated with the path walks \<open>walk\<close> and \<open>put\<close>.
  \<open>std_uns\<close> is an instance, for the theorems that are applied to concrete manifests.
\<close>

datatype json =
    JNull
  | JBool bool
  | JInt int
  | JFloat rat
  | JStr string
  | JArr "json list"
  | JObj "(string \<times> json) list"

type_synonym obj = "(string \<times> json) list"
type_synonym strs = "(string \<times> string) list"

text \<open>The three outcomes of a nested read: a value, no value, or a value of another type on the
  way.\<close>

datatype 'a found = Found 'a | Absent | Bad

fun found_or :: "'a \<Rightarrow> 'a found \<Rightarrow> 'a" where
  "found_or d (Found a) = a"
| "found_or d Absent = d"
| "found_or d Bad = d"

record uns =
  u_field :: "obj \<Rightarrow> string list \<Rightarrow> json found"
  u_bool :: "obj \<Rightarrow> string list \<Rightarrow> bool found"
  u_string :: "obj \<Rightarrow> string list \<Rightarrow> string found"
  u_int64 :: "obj \<Rightarrow> string list \<Rightarrow> int found"
  u_slice :: "obj \<Rightarrow> string list \<Rightarrow> json list found"
  u_string_slice :: "obj \<Rightarrow> string list \<Rightarrow> string list found"
  u_map :: "obj \<Rightarrow> string list \<Rightarrow> obj found"
  u_string_map :: "obj \<Rightarrow> string list \<Rightarrow> strs found"
  u_set :: "obj \<Rightarrow> json \<Rightarrow> string list \<Rightarrow> obj option"
  u_set_slice :: "obj \<Rightarrow> json list \<Rightarrow> string list \<Rightarrow> obj option"
  u_kind :: "obj \<Rightarrow> string"
  u_api_version :: "obj \<Rightarrow> string"
  u_name :: "obj \<Rightarrow> string"
  u_resource_version :: "obj \<Rightarrow> string"
  u_labels :: "obj \<Rightarrow> strs"
  u_annotations :: "obj \<Rightarrow> strs"
  u_set_labels :: "obj \<Rightarrow> strs \<Rightarrow> obj"
  u_set_annotations :: "obj \<Rightarrow> strs \<Rightarrow> obj"
  u_set_namespace :: "obj \<Rightarrow> string \<Rightarrow> obj"
  u_set_resource_version :: "obj \<Rightarrow> string \<Rightarrow> obj"

section \<open>Paths\<close>

fun walk :: "json \<Rightarrow> string list \<Rightarrow> json found" where
  "walk v [] = Found v"
| "walk JNull (f # fs) = Absent"
| "walk (JObj m) (f # fs) = (case map_of m f of None \<Rightarrow> Absent | Some v \<Rightarrow> walk v fs)"
| "walk v (f # fs) = Bad"

fun put :: "json \<Rightarrow> string list \<Rightarrow> obj \<Rightarrow> obj option" where
  "put v [] m = None"
| "put v [f] m = Some (AList.update f v m)"
| "put v (f # g # fs) m =
     (case map_of m f of
        None \<Rightarrow> map_option (\<lambda>x. AList.update f (JObj x) m) (put v (g # fs) [])
      | Some (JObj m') \<Rightarrow> map_option (\<lambda>x. AList.update f (JObj x) m) (put v (g # fs) m')
      | Some _ \<Rightarrow> None)"

fun typed :: "(json \<Rightarrow> 'a option) \<Rightarrow> json found \<Rightarrow> 'a found" where
  "typed f (Found v) = (case f v of None \<Rightarrow> Bad | Some a \<Rightarrow> Found a)"
| "typed f Absent = Absent"
| "typed f Bad = Bad"

fun as_bool :: "json \<Rightarrow> bool option" where
  "as_bool (JBool b) = Some b" | "as_bool _ = None"

fun as_str :: "json \<Rightarrow> string option" where
  "as_str (JStr s) = Some s" | "as_str _ = None"

fun as_int :: "json \<Rightarrow> int option" where
  "as_int (JInt i) = Some i" | "as_int _ = None"

fun as_arr :: "json \<Rightarrow> json list option" where
  "as_arr (JArr xs) = Some xs" | "as_arr _ = None"

fun as_obj :: "json \<Rightarrow> obj option" where
  "as_obj (JObj m) = Some m" | "as_obj _ = None"

fun all_some :: "'a option list \<Rightarrow> 'a list option" where
  "all_some [] = Some []"
| "all_some (None # xs) = None"
| "all_some (Some a # xs) = map_option ((#) a) (all_some xs)"

definition as_strs :: "json \<Rightarrow> string list option" where
  "as_strs v = (case as_arr v of None \<Rightarrow> None | Some xs \<Rightarrow> all_some (map as_str xs))"

definition as_strmap :: "json \<Rightarrow> strs option" where
  "as_strmap v =
     (case as_obj v of
        None \<Rightarrow> None
      | Some m \<Rightarrow> all_some (map (\<lambda>(k, x). map_option (Pair k) (as_str x)) m))"

definition of_strs :: "strs \<Rightarrow> json" where
  "of_strs ss = JObj (map (\<lambda>(k, v). (k, JStr v)) ss)"

definition put_or_keep :: "json \<Rightarrow> string list \<Rightarrow> obj \<Rightarrow> obj" where
  "put_or_keep v fs m = (case put v fs m of None \<Rightarrow> m | Some m' \<Rightarrow> m')"

text \<open>Setting a metadata string to the empty string removes the field.\<close>

definition drop_meta :: "string \<Rightarrow> obj \<Rightarrow> obj" where
  "drop_meta f m =
     (case map_of m ''metadata'' of
        Some (JObj meta) \<Rightarrow> AList.update ''metadata'' (JObj (AList.delete f meta)) m
      | _ \<Rightarrow> m)"

definition set_meta :: "string \<Rightarrow> string \<Rightarrow> obj \<Rightarrow> obj" where
  "set_meta f s m = (if s = [] then drop_meta f m else put_or_keep (JStr s) [''metadata'', f] m)"

text \<open>A string accessor reads a missing or ill-typed field as the empty string.\<close>

definition string_at :: "obj \<Rightarrow> string list \<Rightarrow> string" where
  "string_at m fs = found_or [] (typed as_str (walk (JObj m) fs))"

section \<open>Documented behaviour of the package\<close>

definition uns_laws :: "uns \<Rightarrow> bool" where
  "uns_laws u \<longleftrightarrow>
     (\<forall>m fs. u_field u m fs = walk (JObj m) fs \<and>
        u_bool u m fs = typed as_bool (walk (JObj m) fs) \<and>
        u_string u m fs = typed as_str (walk (JObj m) fs) \<and>
        u_int64 u m fs = typed as_int (walk (JObj m) fs) \<and>
        u_slice u m fs = typed as_arr (walk (JObj m) fs) \<and>
        u_string_slice u m fs = typed as_strs (walk (JObj m) fs) \<and>
        u_map u m fs = typed as_obj (walk (JObj m) fs) \<and>
        u_string_map u m fs = typed as_strmap (walk (JObj m) fs)) \<and>
     (\<forall>m v fs. u_set u m v fs = put v fs m) \<and>
     (\<forall>m xs fs. u_set_slice u m xs fs = put (JArr xs) fs m) \<and>
     (\<forall>m. u_kind u m = string_at m [''kind''] \<and> u_api_version u m = string_at m [''apiVersion''] \<and>
        u_name u m = string_at m [''metadata'', ''name''] \<and>
        u_resource_version u m = string_at m [''metadata'', ''resourceVersion'']) \<and>
     (\<forall>m. u_labels u m = found_or [] (typed as_strmap (walk (JObj m) [''metadata'', ''labels''])) \<and>
        u_annotations u m = found_or [] (typed as_strmap (walk (JObj m) [''metadata'', ''annotations'']))) \<and>
     (\<forall>m ss. u_set_labels u m ss = put_or_keep (of_strs ss) [''metadata'', ''labels''] m \<and>
        u_set_annotations u m ss = put_or_keep (of_strs ss) [''metadata'', ''annotations''] m) \<and>
     (\<forall>m s. u_set_namespace u m s = set_meta ''namespace'' s m \<and>
        u_set_resource_version u m s = set_meta ''resourceVersion'' s m)"

definition std_uns :: uns where
  "std_uns =
     \<lparr>u_field = (\<lambda>m. walk (JObj m)),
      u_bool = (\<lambda>m fs. typed as_bool (walk (JObj m) fs)),
      u_string = (\<lambda>m fs. typed as_str (walk (JObj m) fs)),
      u_int64 = (\<lambda>m fs. typed as_int (walk (JObj m) fs)),
      u_slice = (\<lambda>m fs. typed as_arr (walk (JObj m) fs)),
      u_string_slice = (\<lambda>m fs. typed as_strs (walk (JObj m) fs)),
      u_map = (\<lambda>m fs. typed as_obj (walk (JObj m) fs)),
      u_string_map = (\<lambda>m fs. typed as_strmap (walk (JObj m) fs)),
      u_set = (\<lambda>m v fs. put v fs m),
      u_set_slice = (\<lambda>m xs fs. put (JArr xs) fs m),
      u_kind = (\<lambda>m. string_at m [''kind'']),
      u_api_version = (\<lambda>m. string_at m [''apiVersion'']),
      u_name = (\<lambda>m. string_at m [''metadata'', ''name'']),
      u_resource_version = (\<lambda>m. string_at m [''metadata'', ''resourceVersion'']),
      u_labels = (\<lambda>m. found_or [] (typed as_strmap (walk (JObj m) [''metadata'', ''labels'']))),
      u_annotations = (\<lambda>m. found_or [] (typed as_strmap (walk (JObj m) [''metadata'', ''annotations'']))),
      u_set_labels = (\<lambda>m ss. put_or_keep (of_strs ss) [''metadata'', ''labels''] m),
      u_set_annotations = (\<lambda>m ss. put_or_keep (of_strs ss) [''metadata'', ''annotations''] m),
      u_set_namespace = (\<lambda>m s. set_meta ''namespace'' s m),
      u_set_resource_version = (\<lambda>m s. set_meta ''resourceVersion'' s m)\<rparr>"

lemma std_uns_laws: "uns_laws std_uns"
  by (simp add: uns_laws_def std_uns_def)

named_theorems uns_simps

lemma uns_read [uns_simps]:
  assumes "uns_laws u"
  shows "u_field u m fs = walk (JObj m) fs"
    and "u_bool u m fs = typed as_bool (walk (JObj m) fs)"
    and "u_string u m fs = typed as_str (walk (JObj m) fs)"
    and "u_int64 u m fs = typed as_int (walk (JObj m) fs)"
    and "u_slice u m fs = typed as_arr (walk (JObj m) fs)"
    and "u_string_slice u m fs = typed as_strs (walk (JObj m) fs)"
    and "u_map u m fs = typed as_obj (walk (JObj m) fs)"
    and "u_string_map u m fs = typed as_strmap (walk (JObj m) fs)"
  using assms by (simp_all add: uns_laws_def)

lemma uns_meta [uns_simps]:
  assumes "uns_laws u"
  shows "u_set u m v fs = put v fs m"
    and "u_set_slice u m xs fs = put (JArr xs) fs m"
    and "u_kind u m = string_at m [''kind'']"
    and "u_api_version u m = string_at m [''apiVersion'']"
    and "u_name u m = string_at m [''metadata'', ''name'']"
    and "u_resource_version u m = string_at m [''metadata'', ''resourceVersion'']"
    and "u_labels u m = found_or [] (typed as_strmap (walk (JObj m) [''metadata'', ''labels'']))"
    and "u_annotations u m = found_or [] (typed as_strmap (walk (JObj m) [''metadata'', ''annotations'']))"
    and "u_set_labels u m ss = put_or_keep (of_strs ss) [''metadata'', ''labels''] m"
    and "u_set_annotations u m ss = put_or_keep (of_strs ss) [''metadata'', ''annotations''] m"
    and "u_set_namespace u m s = set_meta ''namespace'' s m"
    and "u_set_resource_version u m s = set_meta ''resourceVersion'' s m"
  using assms by (simp_all add: uns_laws_def)

section \<open>Reading after writing\<close>

lemma map_of_update: "map_of (AList.update f v m) k = (if k = f then Some v else map_of m k)"
  by (simp add: update_conv')

lemma walk_put_same: "put v fs m = Some m' \<Longrightarrow> walk (JObj m') fs = Found v"
proof (induction v fs m arbitrary: m' rule: put.induct)
  case (3 v f g fs m)
  then show ?case by (auto simp: map_of_update split: option.splits json.splits)
qed (auto simp: map_of_update)

text \<open>Two paths that part at some field do not interfere; a write below a path that was not an object
  leaves nothing else changed.\<close>

fun diverge :: "string list \<Rightarrow> string list \<Rightarrow> bool" where
  "diverge (f # fs) (g # gs) = (f \<noteq> g \<or> diverge fs gs)"
| "diverge _ _ = False"

lemma walk_new: "put v fs [] = Some m' \<Longrightarrow> diverge fs gs \<Longrightarrow> walk (JObj m') gs = Absent"
proof (induction fs arbitrary: gs m')
  case (Cons f fs)
  then show ?case
    by (cases gs; cases fs) (auto simp: map_of_update split: option.splits if_splits)
qed simp

lemma walk_put_diverge: "put v fs m = Some m' \<Longrightarrow> diverge fs gs \<Longrightarrow> walk (JObj m') gs = walk (JObj m) gs"
proof (induction v fs m arbitrary: m' gs rule: put.induct)
  case (2 v f m)
  then show ?case by (cases gs) (auto simp: map_of_update)
next
  case (3 v f g fs m)
  then obtain h hs where gs: "gs = h # hs" by (cases gs) auto
  show ?case
  proof (cases "h = f")
    case False
    with 3 gs show ?thesis by (auto simp: map_of_update split: option.splits json.splits)
  next
    case True
    with 3(4) gs have d: "diverge (g # fs) hs" by simp
    show ?thesis
    proof (cases "map_of m f")
      case None
      with 3(3) True gs d show ?thesis by (auto simp: map_of_update walk_new)
    next
      case (Some x)
      with 3(3) obtain m1 z where "x = JObj m1" "put v (g # fs) m1 = Some z" "m' = AList.update f (JObj z) m"
        by (cases x) auto
      with 3(2) Some True gs d show ?thesis by (simp add: map_of_update)
    qed
  qed
qed simp

text \<open>A write to a path where nothing was found fails only when a null is in the way.\<close>

lemma put_fails_null: "walk (JObj m) fs = Absent \<Longrightarrow> put v fs m = None \<Longrightarrow> fs \<noteq> [] \<Longrightarrow> \<exists>gs hs. fs = gs @ hs \<and> walk (JObj m) gs = Found JNull"
proof (induction v fs m rule: put.induct)
  case (3 v f g fs m)
  show ?case
  proof (cases "map_of m f")
    case None
    have "put v (g # fs) [] \<noteq> None" by (induction fs arbitrary: g) (auto split: option.splits)
    with None 3 show ?thesis by auto
  next
    case (Some x)
    show ?thesis
    proof (cases x)
      case (JObj m')
      with 3 Some have "\<exists>gs hs. g # fs = gs @ hs \<and> walk (JObj m') gs = Found JNull" by auto
      then obtain gs hs where "g # fs = gs @ hs" "walk (JObj m') gs = Found JNull" by blast
      then show ?thesis using Some JObj by (intro exI [of _ "f # gs"] exI [of _ hs]) simp
    next
      case JNull
      with Some show ?thesis by (intro exI [of _ "[f]"] exI [of _ "g # fs"]) simp
    qed (use 3 Some in auto)
  qed
qed auto

lemma walk_put_string: "put v fs m = Some m' \<Longrightarrow> diverge fs gs \<Longrightarrow> string_at m' gs = string_at m gs"
  by (simp add: string_at_def walk_put_diverge)

text \<open>Whether a write succeeds does not depend on the value, and a write elsewhere keeps it possible.\<close>

lemma put_succeeds: "put v fs m \<noteq> None \<longleftrightarrow> put w fs m \<noteq> None"
  by (induction v fs m rule: put.induct) (auto split: option.splits json.splits)

lemma put_new: "fs \<noteq> [] \<Longrightarrow> put v fs [] \<noteq> None"
proof (induction fs)
  case (Cons f fs)
  then show ?case by (cases fs) auto
qed simp

lemma put_found: "walk (JObj m) fs = Found x \<Longrightarrow> fs \<noteq> [] \<Longrightarrow> put v fs m \<noteq> None"
proof (induction v fs m rule: put.induct)
  case (3 v f g fs m)
  then show ?case by (auto split: option.splits json.splits)
qed auto

lemma put_after_new: "put v fs [] = Some m' \<Longrightarrow> diverge fs gs \<Longrightarrow> put w gs m' \<noteq> None"
proof (induction fs arbitrary: gs m')
  case (Cons f fs)
  then obtain h hs where gs: "gs = h # hs" by (cases gs) auto
  show ?case
  proof (cases hs)
    case (Cons k ks)
    with Cons.prems gs Cons.IH [of _ hs] put_new [of hs w] show ?thesis
      by (cases fs) (auto simp: map_of_update)
  qed (simp add: gs)
qed simp

lemma put_after: "put v fs m = Some m' \<Longrightarrow> diverge fs gs \<Longrightarrow> put w gs m \<noteq> None \<Longrightarrow> put w gs m' \<noteq> None"
proof (induction v fs m arbitrary: m' gs rule: put.induct)
  case (2 v f m)
  then obtain h hs where gs: "gs = h # hs" by (cases gs) auto
  with 2 show ?case by (cases hs) (auto simp: map_of_update split: option.splits json.splits)
next
  case (3 v f g fs m)
  then obtain h hs where gs: "gs = h # hs" by (cases gs) auto
  show ?case
  proof (cases "hs = [] \<or> h \<noteq> f")
    case True
    with 3(3-5) gs show ?thesis
      by (cases hs) (auto simp: map_of_update split: option.splits json.splits)
  next
    case False
    then obtain k ks where hs: "hs = k # ks" and h: "h = f" by (cases hs) auto
    with 3(4) gs have d: "diverge (g # fs) hs" by simp
    show ?thesis
    proof (cases "map_of m f")
      case None
      with 3(3) obtain z where z: "put v (g # fs) [] = Some z" and m': "m' = AList.update f (JObj z) m" by auto
      have "put w (k # ks) z \<noteq> None" using put_after_new [OF z d, of w] hs by simp
      then show ?thesis by (auto simp: m' gs h hs map_of_update)
    next
      case (Some x)
      with 3(3) obtain m1 z where "x = JObj m1" "put v (g # fs) m1 = Some z" "m' = AList.update f (JObj z) m"
        by (cases x) auto
      with 3(2,5) Some d hs h gs show ?thesis by (auto simp: map_of_update)
    qed
  qed
qed simp

text \<open>A value that is not an object survives every write to a path at which nothing was found.\<close>

lemma walk_through: "walk v (fs @ gs) = Found x \<Longrightarrow> \<exists>y. walk v fs = Found y"
  by (induction v fs rule: walk.induct) (auto split: option.splits)

lemma walk_leaf_below: "walk v fs = Found y \<Longrightarrow> (\<And>m. y \<noteq> JObj m) \<Longrightarrow> gs \<noteq> [] \<Longrightarrow> put w (fs @ gs) m = None" if "v = JObj m" "fs \<noteq> []"
  using that
proof (induction w "fs @ gs" m arbitrary: v fs rule: put.induct)
  case (2 w f m)
  then show ?case by (cases fs) auto
next
  case (3 w f g hs m)
  then obtain fs' where fs: "fs = f # fs'" by (cases fs) auto
  have eq: "fs @ gs = f # g # hs" using 3(3) by simp
  have "put w (f # g # hs) m = None"
  proof (cases "map_of m f")
    case (Some x)
    show ?thesis
    proof (cases x)
      case (JObj m1)
      with 3(3-8) fs Some have "fs' \<noteq> []" by (cases fs') auto
      with 3(2) [OF Some JObj, of fs' "JObj m1"] 3(3-8) fs Some JObj
      have "put w (g # hs) m1 = None" by auto
      then show ?thesis using Some JObj by simp
    qed (simp_all add: Some)
  qed (use 3 fs in auto)
  then show ?case by (simp only: eq)
qed simp

lemma paths_compare: "diverge fs gs \<or> (\<exists>hs. gs = fs @ hs) \<or> (\<exists>hs. fs = gs @ hs \<and> hs \<noteq> [])"
  by (induction fs gs rule: diverge.induct) auto

lemma put_keeps_leaf:
  assumes "put v fs m = Some m'" and "\<And>y. walk (JObj m) fs \<noteq> Found y"
    and "walk (JObj m) gs = Found x" and "\<And>o'. x \<noteq> JObj o'"
  shows "walk (JObj m') gs = Found x"
proof -
  have "gs \<noteq> []" using assms(3) assms(4) [of m] by auto
  consider "diverge fs gs" | hs where "gs = fs @ hs" | hs where "fs = gs @ hs" "hs \<noteq> []"
    using paths_compare [of fs gs] by blast
  then show ?thesis
  proof cases
    case 1
    with assms(1,3) show ?thesis by (simp add: walk_put_diverge)
  next
    case 2
    with assms(2,3) show ?thesis using walk_through by blast
  next
    case 3
    with assms(1,3,4) \<open>gs \<noteq> []\<close> show ?thesis using walk_leaf_below [of "JObj m" m gs x hs v] by auto
  qed
qed

text \<open>Writing a field of the metadata leaves every other path alone.\<close>

lemma walk_put_or_keep: "diverge fs gs \<Longrightarrow> walk (JObj (put_or_keep v fs m)) gs = walk (JObj m) gs"
  by (simp add: put_or_keep_def walk_put_diverge split: option.splits)

lemma walk_set_meta: "diverge [''metadata'', f] gs \<Longrightarrow> walk (JObj (set_meta f s m)) gs = walk (JObj m) gs"
proof (cases gs)
  case (Cons g hs)
  assume d: "diverge [''metadata'', f] gs"
  show ?thesis
  proof (cases "s = []")
    case True
    with Cons d show ?thesis
      by (cases hs) (auto simp: set_meta_def drop_meta_def map_of_update delete_conv' split: option.splits json.splits)
  qed (use d in \<open>simp add: set_meta_def walk_put_or_keep\<close>)
qed simp

end
