(* ===== verification/Psa.thy ===== *)
theory Psa
  imports Manifest K8s_Resources
begin

text \<open>
  Pod Security Admission: the check of manifests against the level of the namespace,
  \<^verbatim>\<open>pkg/k8s/psa.go\<close>, and the defaults that \<^verbatim>\<open>wf_apply\<close> adds beforehand
  (\<^verbatim>\<open>ensurePSACompliance\<close> of \<^verbatim>\<open>pkg/tools/deploy.go\<close>). The Go code edits the manifests in
  place; the nested reads return copies, so an edit is a new object here.
\<close>

definition PSAEnforceLabel :: string where "PSAEnforceLabel = ''pod-security.kubernetes.io/enforce''"
definition PSALevelPrivileged :: string where "PSALevelPrivileged = ''privileged''"

record PSAViolation =
  PV_ManifestKind :: string
  PV_ManifestName :: string
  PV_Field :: string
  PV_Reason :: string

record PSAValidationError =
  PE_Namespace :: string
  PE_Level :: string
  PE_Violations :: "PSAViolation list"

definition NamespacePSALevel :: "'s kube \<Rightarrow> string \<Rightarrow> 's \<Rightarrow> api_err + string" where
  "NamespacePSALevel client namespace s =
     (case ns_get client namespace s of
        Inl e \<Rightarrow> Inl e
      | Inr ns \<Rightarrow>
          (case N_Labels ns PSAEnforceLabel of
             None \<Rightarrow> Inr PSALevelPrivileged
           | Some level \<Rightarrow> if level = [] then Inr PSALevelPrivileged else Inr level))"

text \<open>Where the pod spec of a workload is; other kinds are not inspected.\<close>

definition podSpecPath :: "string \<Rightarrow> string list option" where
  "podSpecPath kind =
     (if kind = ''Deployment'' \<or> kind = ''Job'' then Some [''spec'', ''template'', ''spec'']
      else if kind = ''CronJob'' then Some [''spec'', ''jobTemplate'', ''spec'', ''template'', ''spec'']
      else None)"

definition isValidSeccompType :: "string \<Rightarrow> bool" where
  "isValidSeccompType t \<longleftrightarrow> t = ''RuntimeDefault'' \<or> t = ''Localhost''"

definition containsALL :: "string list \<Rightarrow> bool" where
  "containsALL drops = list_ex (\<lambda>d. ToLower d = ToLower ''ALL'') drops"

section \<open>Validation\<close>

definition containerName :: "uns \<Rightarrow> string \<Rightarrow> nat \<Rightarrow> obj \<Rightarrow> string" where
  "containerName u field i c =
     (let n = found_or [] (u_string u c [''name'']) in
      if n \<noteq> [] then n else field @ ''['' @ show_nat i @ '']'')"

definition check_container ::
  "uns \<Rightarrow> string \<Rightarrow> string \<Rightarrow> bool \<Rightarrow> bool \<Rightarrow> string \<Rightarrow> nat \<Rightarrow> obj \<Rightarrow> PSAViolation list" where
  "check_container u kind name podSatisfied podSeccompOK field i c =
     (let qualifier = kind @ ''/'' @ name @ '' container '' @ quote_str (containerName u field i c);
          violation = (\<lambda>f r. \<lparr>PV_ManifestKind = kind, PV_ManifestName = name, PV_Field = f, PV_Reason = qualifier @ r\<rparr>)
      in (if \<not> podSatisfied \<and> \<not> found_or False (u_bool u c [''securityContext'', ''runAsNonRoot''])
          then [violation ''securityContext.runAsNonRoot''
                  '': runAsNonRoot must be true at pod or container level (restricted PSA)''] else []) @
         (if found_or True (u_bool u c [''securityContext'', ''allowPrivilegeEscalation''])
          then [violation ''securityContext.allowPrivilegeEscalation''
                  '': allowPrivilegeEscalation must be false (restricted PSA)''] else []) @
         (if \<not> containsALL (found_or [] (u_string_slice u c [''securityContext'', ''capabilities'', ''drop'']))
          then [violation ''securityContext.capabilities.drop''
                  '': capabilities.drop must contain \"ALL\" (restricted PSA)''] else []) @
         (if \<not> podSeccompOK \<and>
             \<not> isValidSeccompType (found_or [] (u_string u c [''securityContext'', ''seccompProfile'', ''type'']))
          then [violation ''securityContext.seccompProfile.type''
                  '': seccompProfile.type must be RuntimeDefault or Localhost at pod or container level (restricted PSA)'']
          else []))"

fun check_containers ::
  "uns \<Rightarrow> string \<Rightarrow> string \<Rightarrow> bool \<Rightarrow> bool \<Rightarrow> string \<Rightarrow> nat \<Rightarrow> json list \<Rightarrow> PSAViolation list" where
  "check_containers u kind name nonRoot seccomp field i [] = []"
| "check_containers u kind name nonRoot seccomp field i (c # cs) =
     (case c of JObj m \<Rightarrow> check_container u kind name nonRoot seccomp field i m | _ \<Rightarrow> []) @
     check_containers u kind name nonRoot seccomp field (Suc i) cs"

definition validatePodSpec :: "uns \<Rightarrow> obj \<Rightarrow> string list \<Rightarrow> string \<Rightarrow> string \<Rightarrow> PSAViolation list" where
  "validatePodSpec u obj path kind name =
     (let scPath = path @ [''securityContext''];
          nonRoot = found_or False (u_bool u obj (scPath @ [''runAsNonRoot'']));
          seccomp = isValidSeccompType (found_or [] (u_string u obj (scPath @ [''seccompProfile'', ''type''])))
      in concat (map (\<lambda>field.
           case u_slice u obj (path @ [field]) of
             Found cs \<Rightarrow> check_containers u kind name nonRoot seccomp field 0 cs
           | _ \<Rightarrow> []) [''containers'', ''initContainers'']))"

definition manifest_violations :: "uns \<Rightarrow> obj \<Rightarrow> PSAViolation list" where
  "manifest_violations u m =
     (case podSpecPath (u_kind u m) of None \<Rightarrow> [] | Some path \<Rightarrow> validatePodSpec u m path (u_kind u m) (u_name u m))"

definition ValidatePSA :: "uns \<Rightarrow> string \<Rightarrow> string \<Rightarrow> obj list \<Rightarrow> PSAValidationError + unit" where
  "ValidatePSA u namespace level manifests =
     (if level = [] \<or> level = PSALevelPrivileged then Inr ()
      else let violations = concat (map (manifest_violations u) manifests) in
        if 0 < length violations
        then Inl \<lparr>PE_Namespace = namespace, PE_Level = level, PE_Violations = violations\<rparr>
        else Inr ())"

section \<open>Defaults\<close>

definition setIfAbsent :: "uns \<Rightarrow> obj \<Rightarrow> json \<Rightarrow> string list \<Rightarrow> obj" where
  "setIfAbsent u obj value vars =
     (case u_field u obj vars of
        Found _ \<Rightarrow> obj
      | _ \<Rightarrow> (case u_set u obj value vars of None \<Rightarrow> obj | Some obj' \<Rightarrow> obj'))"

definition default_context :: "uns \<Rightarrow> obj \<Rightarrow> obj" where
  "default_context u c =
     (let c1 = setIfAbsent u c (JBool False) [''securityContext'', ''allowPrivilegeEscalation''];
          c2 = setIfAbsent u c1 (JBool True) [''securityContext'', ''readOnlyRootFilesystem''];
          c3 = setIfAbsent u c2 (JBool True) [''securityContext'', ''runAsNonRoot''];
          c4 = setIfAbsent u c3 (JArr [JStr ''ALL'']) [''securityContext'', ''capabilities'', ''drop'']
      in setIfAbsent u c4 (JStr ''RuntimeDefault'') [''securityContext'', ''seccompProfile'', ''type''])"

definition is_tmp_mount :: "json \<Rightarrow> bool" where
  "is_tmp_mount vm = (case vm of JObj m \<Rightarrow> map_of m ''mountPath'' = Some (JStr ''/tmp'') | _ \<Rightarrow> False)"

definition tmp_mount :: json where
  "tmp_mount = JObj [(''name'', JStr ''tmp''), (''mountPath'', JStr ''/tmp'')]"

definition ensure_container :: "uns \<Rightarrow> obj \<Rightarrow> obj \<times> bool" where
  "ensure_container u c0 =
     (let c = default_context u c0;
          vms = found_or [] (u_slice u c [''volumeMounts'']);
          containerHasTmp = list_ex is_tmp_mount vms
      in if found_or False (u_bool u c [''securityContext'', ''readOnlyRootFilesystem'']) \<and> \<not> containerHasTmp
         then (case u_set_slice u c (vms @ [tmp_mount]) [''volumeMounts''] of None \<Rightarrow> c | Some c' \<Rightarrow> c', True)
         else (c, containerHasTmp))"

definition ensure_item :: "uns \<Rightarrow> json \<Rightarrow> json \<times> bool" where
  "ensure_item u v = (case v of JObj c \<Rightarrow> (case ensure_container u c of (c', tmp) \<Rightarrow> (JObj c', tmp)) | _ \<Rightarrow> (v, False))"

definition ensure_field :: "uns \<Rightarrow> string list \<Rightarrow> string \<Rightarrow> obj \<times> bool \<Rightarrow> obj \<times> bool" where
  "ensure_field u path field st =
     (case u_slice u (fst st) (path @ [field]) of
        Found cs \<Rightarrow>
          (case u_set_slice u (fst st) (map (\<lambda>c. fst (ensure_item u c)) cs) (path @ [field]) of
             None \<Rightarrow> fst st | Some obj \<Rightarrow> obj,
           snd st \<or> list_ex (\<lambda>c. snd (ensure_item u c)) cs)
      | _ \<Rightarrow> st)"

definition has_tmp_volume :: "json list \<Rightarrow> bool" where
  "has_tmp_volume volumes =
     list_ex (\<lambda>v. case v of JObj m \<Rightarrow> map_of m ''name'' = Some (JStr ''tmp'') | _ \<Rightarrow> False) volumes"

definition tmp_volume :: json where
  "tmp_volume = JObj [(''name'', JStr ''tmp''), (''emptyDir'', JObj [])]"

definition ensurePodSpecPSA :: "uns \<Rightarrow> obj \<Rightarrow> string list \<Rightarrow> obj" where
  "ensurePodSpecPSA u obj path =
     (let scPath = path @ [''securityContext''];
          o1 = setIfAbsent u obj (JBool True) (scPath @ [''runAsNonRoot'']);
          o2 = setIfAbsent u o1 (JStr ''RuntimeDefault'') (scPath @ [''seccompProfile'', ''type'']);
          (o3, needsTmpVolume) = ensure_field u path ''initContainers'' (ensure_field u path ''containers'' (o2, False));
          volumes = found_or [] (u_slice u o3 (path @ [''volumes'']))
      in if needsTmpVolume \<and> \<not> has_tmp_volume volumes
         then (case u_set_slice u o3 (volumes @ [tmp_volume]) (path @ [''volumes'']) of None \<Rightarrow> o3 | Some o4 \<Rightarrow> o4)
         else o3)"

definition ensure_manifest :: "uns \<Rightarrow> obj \<Rightarrow> obj" where
  "ensure_manifest u m =
     (case podSpecPath (found_or [] (u_string u m [''kind''])) of None \<Rightarrow> m | Some path \<Rightarrow> ensurePodSpecPSA u m path)"

definition ensurePSACompliance :: "uns \<Rightarrow> obj list \<Rightarrow> obj list" where
  "ensurePSACompliance u manifests = map (ensure_manifest u) manifests"

section \<open>What the validator accepts\<close>

text \<open>The restricted profile, as requirements on the fields of a pod and its containers.\<close>

definition field_is :: "obj \<Rightarrow> string list \<Rightarrow> (json \<Rightarrow> bool) \<Rightarrow> bool" where
  "field_is m fs good = (case walk (JObj m) fs of Found v \<Rightarrow> good v | _ \<Rightarrow> False)"

definition drops_all :: "json \<Rightarrow> bool" where
  "drops_all v = (case as_strs v of None \<Rightarrow> False | Some ds \<Rightarrow> containsALL ds)"

definition seccomp_ok :: "json \<Rightarrow> bool" where
  "seccomp_ok v \<longleftrightarrow> v = JStr ''RuntimeDefault'' \<or> v = JStr ''Localhost''"

definition restricted_container :: "bool \<Rightarrow> bool \<Rightarrow> obj \<Rightarrow> bool" where
  "restricted_container podNonRoot podSeccomp c \<longleftrightarrow>
     (podNonRoot \<or> field_is c [''securityContext'', ''runAsNonRoot''] ((=) (JBool True))) \<and>
     field_is c [''securityContext'', ''allowPrivilegeEscalation''] ((=) (JBool False)) \<and>
     field_is c [''securityContext'', ''capabilities'', ''drop''] drops_all \<and>
     (podSeccomp \<or> field_is c [''securityContext'', ''seccompProfile'', ''type''] seccomp_ok)"

definition pod_containers :: "obj \<Rightarrow> string list \<Rightarrow> obj list" where
  "pod_containers m path =
     concat (map (\<lambda>field. case typed as_arr (walk (JObj m) (path @ [field])) of
       Found cs \<Rightarrow> List.map_filter as_obj cs | _ \<Rightarrow> []) [''containers'', ''initContainers''])"

definition restricted_pod :: "obj \<Rightarrow> string list \<Rightarrow> bool" where
  "restricted_pod m path =
     list_all (restricted_container
       (field_is m (path @ [''securityContext'', ''runAsNonRoot'']) ((=) (JBool True)))
       (field_is m (path @ [''securityContext'', ''seccompProfile'', ''type'']) seccomp_ok)) (pod_containers m path)"

definition restricted :: "obj \<Rightarrow> bool" where
  "restricted m = (case podSpecPath (string_at m [''kind'']) of None \<Rightarrow> True | Some path \<Rightarrow> restricted_pod m path)"

lemma bool_field: "found_or False (typed as_bool r) \<longleftrightarrow> r = Found (JBool True)"
  "found_or True (typed as_bool r) \<longleftrightarrow> r \<noteq> Found (JBool False)"
  by (cases r; force split: option.splits elim: as_bool.elims)+

lemma field_is_eq: "field_is m fs ((=) v) \<longleftrightarrow> walk (JObj m) fs = Found v"
  by (auto simp: field_is_def split: found.splits)

lemma field_is_put: "put v fs m = Some m' \<Longrightarrow> diverge fs gs \<Longrightarrow> field_is m' gs good = field_is m gs good"
  by (simp only: field_is_def walk_put_diverge)

lemma seccomp_field: "isValidSeccompType (found_or [] (typed as_str (walk (JObj m) fs))) \<longleftrightarrow> field_is m fs seccomp_ok"
  by (cases "walk (JObj m) fs")
    (auto simp: field_is_def isValidSeccompType_def seccomp_ok_def split: option.splits elim: as_str.elims)

lemma drops_field: "containsALL (found_or [] (typed as_strs (walk (JObj m) fs))) \<longleftrightarrow> field_is m fs drops_all"
  by (cases "walk (JObj m) fs") (auto simp: field_is_def drops_all_def containsALL_def split: option.splits)

lemma check_container_ok:
  assumes "uns_laws u"
  shows "check_container u kind name nonRoot seccomp field i c = [] \<longleftrightarrow> restricted_container nonRoot seccomp c"
  by (simp add: check_container_def restricted_container_def uns_read [OF assms] Let_def
      bool_field seccomp_field drops_field field_is_eq del: walk.simps)

lemma check_containers_ok:
  assumes "uns_laws u"
  shows "check_containers u kind name nonRoot seccomp field i cs = [] \<longleftrightarrow>
    list_all (restricted_container nonRoot seccomp) (List.map_filter as_obj cs)"
  by (induction cs arbitrary: i) (auto simp: check_container_ok [OF assms] List.map_filter_def split: json.splits)

lemma manifest_violations_ok:
  assumes "uns_laws u"
  shows "manifest_violations u m = [] \<longleftrightarrow> restricted m"
  by (simp add: manifest_violations_def restricted_def restricted_pod_def validatePodSpec_def pod_containers_def
      uns_simps [OF assms] Let_def bool_field seccomp_field check_containers_ok [OF assms] field_is_eq
      split: option.splits found.splits)

text \<open>C22: the check of manifests against the level of the namespace passes exactly when the namespace
  enforces nothing or every workload meets the restricted profile.\<close>

theorem ValidatePSA_accepts:
  assumes "uns_laws u"
  shows "ValidatePSA u namespace level manifests = Inr () \<longleftrightarrow>
    level = [] \<or> level = PSALevelPrivileged \<or> list_all restricted manifests"
  by (auto simp: ValidatePSA_def Let_def manifest_violations_ok [OF assms] list_all_iff)

section \<open>What the defaults guarantee\<close>

text \<open>A field is open when it has an acceptable value or none, and nothing prevents it from being set.\<close>

definition open_field :: "obj \<Rightarrow> string list \<Rightarrow> (json \<Rightarrow> bool) \<Rightarrow> bool" where
  "open_field m fs good =
     (case walk (JObj m) fs of Found v \<Rightarrow> good v | Absent \<Rightarrow> put JNull fs m \<noteq> None | Bad \<Rightarrow> False)"

lemma setIfAbsent_cases:
  assumes "uns_laws u"
  obtains v where "walk (JObj m) fs = Found v" "setIfAbsent u m x fs = m"
  | "\<And>v. walk (JObj m) fs \<noteq> Found v" "put x fs m = None" "setIfAbsent u m x fs = m"
  | m' where "\<And>v. walk (JObj m) fs \<noteq> Found v" "put x fs m = Some m'" "setIfAbsent u m x fs = m'"
  by (cases "walk (JObj m) fs"; cases "put x fs m") (auto simp: setIfAbsent_def uns_simps [OF assms])

lemma setIfAbsent_sets:
  assumes "uns_laws u" and "open_field m fs good" and "good x"
  shows "field_is (setIfAbsent u m x fs) fs good"
proof (cases rule: setIfAbsent_cases [OF assms(1), of m fs x])
  case 1
  with assms(2) show ?thesis by (simp add: open_field_def field_is_def)
next
  case 2
  with assms(2) put_succeeds [of x fs m JNull] show ?thesis by (auto simp: open_field_def split: found.splits)
next
  case (3 m')
  with walk_put_same assms(3) show ?thesis by (simp add: field_is_def)
qed

lemma setIfAbsent_other:
  assumes "uns_laws u" and "diverge fs gs"
  shows "walk (JObj (setIfAbsent u m x fs)) gs = walk (JObj m) gs"
  by (cases rule: setIfAbsent_cases [OF assms(1), of m fs x]) (simp_all add: walk_put_diverge [OF _ assms(2)])

lemma setIfAbsent_field_is:
  assumes "uns_laws u" and "diverge fs gs"
  shows "field_is (setIfAbsent u m x fs) gs good = field_is m gs good"
  by (simp add: field_is_def setIfAbsent_other [OF assms])

lemma setIfAbsent_open:
  assumes "uns_laws u" and "diverge fs gs" and "open_field m gs good"
  shows "open_field (setIfAbsent u m x fs) gs good"
proof (cases rule: setIfAbsent_cases [OF assms(1), of m fs x])
  case (3 m')
  with assms(2,3) put_after [OF 3(2) assms(2), of JNull] show ?thesis
    by (auto simp: open_field_def walk_put_diverge split: found.splits)
qed (use assms(3) in simp_all)

lemma setIfAbsent_keeps:
  assumes "uns_laws u" and "walk (JObj m) gs = Found v" and "\<And>o'. v \<noteq> JObj o'"
  shows "walk (JObj (setIfAbsent u m x fs)) gs = Found v"
  by (cases rule: setIfAbsent_cases [OF assms(1), of m fs x]) (use assms(2,3) put_keeps_leaf in auto)

text \<open>A container whose author left the four restricted fields alone, or set them acceptably.\<close>

definition open_container :: "obj \<Rightarrow> bool" where
  "open_container c \<longleftrightarrow>
     open_field c [''securityContext'', ''runAsNonRoot''] ((=) (JBool True)) \<and>
     open_field c [''securityContext'', ''allowPrivilegeEscalation''] ((=) (JBool False)) \<and>
     open_field c [''securityContext'', ''capabilities'', ''drop''] drops_all \<and>
     open_field c [''securityContext'', ''seccompProfile'', ''type''] seccomp_ok"

lemma drops_all_default: "drops_all (JArr [JStr ''ALL''])"
  by (simp add: drops_all_def as_strs_def containsALL_def)

lemma default_context_restricted:
  assumes "uns_laws u" and "open_container c"
  shows "restricted_container False False (default_context u c)"
  using assms(2) unfolding open_container_def restricted_container_def default_context_def Let_def
  by (simp add: setIfAbsent_field_is [OF assms(1)] setIfAbsent_sets [OF assms(1)] setIfAbsent_open [OF assms(1)]
      drops_all_default seccomp_ok_def)

lemma ensure_container_restricted:
  assumes "uns_laws u" and "open_container c"
  shows "restricted_container False False (fst (ensure_container u c))"
proof -
  have "restricted_container False False m' = restricted_container False False m"
    if "put v [''volumeMounts''] m = Some m'" for v m m'
    by (simp add: restricted_container_def field_is_put [OF that])
  then show ?thesis
    using default_context_restricted [OF assms]
    by (auto simp: ensure_container_def Let_def uns_simps [OF assms(1)])
qed

text \<open>The containers of a pod after the edit are the edited containers.\<close>

definition containers_at :: "obj \<Rightarrow> string list \<Rightarrow> string \<Rightarrow> obj list" where
  "containers_at m path field =
     (case typed as_arr (walk (JObj m) (path @ [field])) of Found cs \<Rightarrow> List.map_filter as_obj cs | _ \<Rightarrow> [])"

lemma pod_containers_split:
  "pod_containers m path = containers_at m path ''containers'' @ containers_at m path ''initContainers''"
  by (simp add: pod_containers_def containers_at_def)

lemma diverge_suffix [simp]: "diverge (p @ fs) (p @ gs) = diverge fs gs"
  by (induction p) auto

lemma ensure_items:
  "List.map_filter as_obj (map (\<lambda>c. fst (ensure_item u c)) cs) =
     map (\<lambda>c. fst (ensure_container u c)) (List.map_filter as_obj cs)"
  by (induction cs) (auto simp: ensure_item_def List.map_filter_def split: json.splits prod.splits)

lemma typed_arr: "typed as_arr r = Found cs \<longleftrightarrow> r = Found (JArr cs)"
  by (cases r) (auto split: option.splits elim: as_arr.elims)

lemma ensure_field_run:
  assumes "uns_laws u"
  obtains cs m' where "walk (JObj (fst st)) (path @ [field]) = Found (JArr cs)"
      "put (JArr (map (\<lambda>c. fst (ensure_item u c)) cs)) (path @ [field]) (fst st) = Some m'"
      "fst (ensure_field u path field st) = m'"
  | "\<And>cs. walk (JObj (fst st)) (path @ [field]) \<noteq> Found (JArr cs)" "ensure_field u path field st = st"
proof (cases "\<exists>cs. walk (JObj (fst st)) (path @ [field]) = Found (JArr cs)")
  case True
  then obtain cs where w: "walk (JObj (fst st)) (path @ [field]) = Found (JArr cs)" by blast
  then obtain m' where "put (JArr (map (\<lambda>c. fst (ensure_item u c)) cs)) (path @ [field]) (fst st) = Some m'"
    using put_found [OF w] by fastforce
  with w that(1) show thesis by (simp add: ensure_field_def uns_simps [OF assms])
next
  case False
  then have "\<And>cs. typed as_arr (walk (JObj (fst st)) (path @ [field])) \<noteq> Found cs" by (simp add: typed_arr)
  with False that(2) show thesis
    by (cases "typed as_arr (walk (JObj (fst st)) (path @ [field]))") (auto simp: ensure_field_def uns_simps [OF assms])
qed

lemma ensure_field_at:
  assumes "uns_laws u"
  shows "containers_at (fst (ensure_field u path field st)) path field =
    map (\<lambda>c. fst (ensure_container u c)) (containers_at (fst st) path field)"
proof (cases rule: ensure_field_run [OF assms, of st path field])
  case (1 cs m')
  then show ?thesis using walk_put_same [OF 1(2)] by (simp add: containers_at_def ensure_items)
next
  case 2
  then have "\<And>cs. typed as_arr (walk (JObj (fst st)) (path @ [field])) \<noteq> Found cs" by (simp add: typed_arr)
  with 2 show ?thesis by (auto simp: containers_at_def split: found.splits)
qed

lemma ensure_field_other:
  assumes "uns_laws u" and "diverge (path @ [field]) gs"
  shows "walk (JObj (fst (ensure_field u path field st))) gs = walk (JObj (fst st)) gs"
  by (cases rule: ensure_field_run [OF assms(1), of st path field]) (simp_all add: walk_put_diverge [OF _ assms(2)])

lemma containers_at_cong:
  "walk (JObj m') (path @ [field]) = walk (JObj m) (path @ [field]) \<Longrightarrow> containers_at m' path field = containers_at m path field"
  by (simp add: containers_at_def)

text \<open>The pod-level steps before and after the containers are edited leave the containers alone.\<close>

definition pod_context :: "uns \<Rightarrow> obj \<Rightarrow> string list \<Rightarrow> obj" where
  "pod_context u m path =
     setIfAbsent u (setIfAbsent u m (JBool True) (path @ [''securityContext'', ''runAsNonRoot'']))
       (JStr ''RuntimeDefault'') (path @ [''securityContext'', ''seccompProfile'', ''type''])"

definition pod_edit :: "uns \<Rightarrow> obj \<Rightarrow> string list \<Rightarrow> obj \<times> bool" where
  "pod_edit u m path =
     ensure_field u path ''initContainers'' (ensure_field u path ''containers'' (pod_context u m path, False))"

lemma ensurePodSpecPSA_steps:
  assumes "uns_laws u"
  shows "ensurePodSpecPSA u m path = fst (pod_edit u m path) \<or>
    (\<exists>v. put v (path @ [''volumes'']) (fst (pod_edit u m path)) = Some (ensurePodSpecPSA u m path))"
  by (cases "pod_edit u m path")
    (auto simp: ensurePodSpecPSA_def pod_edit_def pod_context_def Let_def uns_simps [OF assms] split: option.splits)

lemma ensurePodSpecPSA_walk:
  assumes "uns_laws u" and "diverge (path @ [''volumes'']) gs"
  shows "walk (JObj (ensurePodSpecPSA u m path)) gs = walk (JObj (fst (pod_edit u m path))) gs"
  using ensurePodSpecPSA_steps [OF assms(1), of m path] walk_put_diverge [OF _ assms(2)] by auto

lemma pod_edit_containers:
  assumes "uns_laws u" and which: "field = ''containers'' \<or> field = ''initContainers''"
  shows "containers_at (fst (pod_edit u m path)) path field =
    map (\<lambda>c. fst (ensure_container u c)) (containers_at m path field)"
proof -
  have ctx: "containers_at (pod_context u m path) path f = containers_at m path f"
    if "f = ''containers'' \<or> f = ''initContainers''" for f
    using that unfolding pod_context_def by (auto intro!: containers_at_cong simp: setIfAbsent_other [OF assms(1)])
  let ?st = "ensure_field u path ''containers'' (pod_context u m path, False)"
  have "containers_at (fst (pod_edit u m path)) path ''containers'' = containers_at (fst ?st) path ''containers''"
    unfolding pod_edit_def by (rule containers_at_cong) (simp add: ensure_field_other [OF assms(1)])
  moreover have "containers_at (fst ?st) path ''initContainers'' = containers_at m path ''initContainers''"
    using ctx [of "''initContainers''"] containers_at_cong [of "fst ?st" path "''initContainers''" "pod_context u m path"]
    by (simp add: ensure_field_other [OF assms(1)])
  ultimately show ?thesis
    using which ctx [of field] unfolding pod_edit_def by (elim disjE) (simp_all add: ensure_field_at [OF assms(1)])
qed

lemma ensurePodSpecPSA_containers:
  assumes "uns_laws u"
  shows "pod_containers (ensurePodSpecPSA u m path) path = map (\<lambda>c. fst (ensure_container u c)) (pod_containers m path)"
proof -
  have "containers_at (ensurePodSpecPSA u m path) path field = containers_at (fst (pod_edit u m path)) path field"
    if "field \<noteq> ''volumes''" for field
    by (rule containers_at_cong) (use that in \<open>simp add: ensurePodSpecPSA_walk [OF assms]\<close>)
  then show ?thesis by (simp add: pod_containers_split pod_edit_containers [OF assms])
qed

lemma podSpecPath_spec: "podSpecPath kind = Some path \<Longrightarrow> \<exists>rest. path = ''spec'' # rest"
  by (auto simp: podSpecPath_def split: if_splits)

lemma ensure_manifest_other:
  assumes "uns_laws u" and "f \<noteq> ''spec''"
  shows "walk (JObj (ensure_manifest u m)) (f # fs) = walk (JObj m) (f # fs)"
proof (cases "podSpecPath (string_at m [''kind''])")
  case (Some path)
  then obtain rest where path: "path = ''spec'' # rest" using podSpecPath_spec by blast
  have "walk (JObj (ensurePodSpecPSA u m path)) (f # fs) = walk (JObj m) (f # fs)"
    using assms(2)
    by (simp add: ensurePodSpecPSA_walk [OF assms(1)] path pod_edit_def pod_context_def ensure_field_other [OF assms(1)]
        setIfAbsent_other [OF assms(1)] del: walk.simps)
  with Some show ?thesis by (simp add: ensure_manifest_def string_at_def uns_simps [OF assms(1)] del: walk.simps)
qed (simp add: ensure_manifest_def string_at_def uns_simps [OF assms(1)] del: walk.simps)

lemma ensure_manifest_kind:
  assumes "uns_laws u"
  shows "string_at (ensure_manifest u m) [''kind''] = string_at m [''kind'']"
  by (simp add: string_at_def ensure_manifest_other [OF assms] del: walk.simps)

lemma restricted_container_mono: "restricted_container False False c \<Longrightarrow> restricted_container a b c"
  by (simp add: restricted_container_def)

text \<open>A manifest that leaves its containers' security settings open.\<close>

definition open_manifest :: "obj \<Rightarrow> bool" where
  "open_manifest m =
     (case podSpecPath (string_at m [''kind'']) of None \<Rightarrow> True | Some path \<Rightarrow> list_all open_container (pod_containers m path))"

lemma ensure_manifest_restricted:
  assumes "uns_laws u" and "open_manifest m"
  shows "restricted (ensure_manifest u m)"
proof (cases "podSpecPath (string_at m [''kind''])")
  case None
  then show ?thesis
    using ensure_manifest_kind [OF assms(1), of m] by (simp add: restricted_def)
next
  case (Some path)
  then have "ensure_manifest u m = ensurePodSpecPSA u m path"
    by (simp add: ensure_manifest_def string_at_def uns_simps [OF assms(1)] del: walk.simps)
  moreover have "list_all (restricted_container a b) (pod_containers (ensurePodSpecPSA u m path) path)" for a b
    using assms(2) Some
    by (auto simp: ensurePodSpecPSA_containers [OF assms(1)] open_manifest_def list_all_iff
        intro!: restricted_container_mono ensure_container_restricted [OF assms(1)])
  ultimately show ?thesis
    using ensure_manifest_kind [OF assms(1), of m] Some by (simp add: restricted_def restricted_pod_def)
qed

text \<open>C11: manifests whose containers leave the restricted settings open, or set them acceptably, pass
  the check of any namespace level once the defaults have been added.\<close>

theorem ensurePSACompliance_admitted:
  assumes "uns_laws u" and "list_all open_manifest manifests"
  shows "ValidatePSA u namespace level (ensurePSACompliance u manifests) = Inr ()"
proof -
  have "list_all restricted (ensurePSACompliance u manifests)"
    using assms(2) ensure_manifest_restricted [OF assms(1)] by (simp add: ensurePSACompliance_def list_all_iff)
  then show ?thesis
    by (auto simp: ValidatePSA_def Let_def manifest_violations_ok [OF assms(1)] list_all_iff)
qed

text \<open>The defaults never override what the author of a container wrote: every scalar or list the
  container had, other than its volume mounts, is still there, and its volume mounts are only
  extended.\<close>

theorem ensure_container_preserves:
  assumes "uns_laws u" and "walk (JObj c) gs = Found v" and "as_obj v = None"
  shows "if gs = [''volumeMounts''] \<and> as_arr v \<noteq> None
    then \<exists>more. walk (JObj (fst (ensure_container u c))) gs = Found (JArr (the (as_arr v) @ more))
    else hd gs = ''volumeMounts'' \<or> walk (JObj (fst (ensure_container u c))) gs = Found v"
proof -
  let ?d = "default_context u c"
  have leaf: "\<And>o'. v \<noteq> JObj o'" using assms(3) by auto
  have d: "walk (JObj ?d) gs = Found v"
    unfolding default_context_def Let_def
    by (intro setIfAbsent_keeps [OF assms(1)] assms(2) leaf)
  have "gs \<noteq> []" using assms(2) leaf [of c] by auto
  have run: "fst (ensure_container u c) = ?d \<or>
      put (JArr (found_or [] (typed as_arr (walk (JObj ?d) [''volumeMounts''])) @ [tmp_mount])) [''volumeMounts''] ?d =
        Some (fst (ensure_container u c))"
    by (simp add: ensure_container_def Let_def uns_simps [OF assms(1)] del: walk.simps split: option.splits)
  show ?thesis
  proof (cases "gs = [''volumeMounts'']")
    case True
    with run d show ?thesis
      using walk_put_same [of _ "[''volumeMounts'']" ?d "fst (ensure_container u c)"]
      by (auto simp: typed_arr elim!: as_arr.elims intro: exI [of _ "[]"])
  next
    case False
    with \<open>gs \<noteq> []\<close> have "hd gs = ''volumeMounts'' \<or> diverge [''volumeMounts''] gs" by (cases gs) auto
    moreover have "walk (JObj (fst (ensure_container u c))) gs = Found v" if "diverge [''volumeMounts''] gs"
      using run d walk_put_diverge [OF _ that] by (elim disjE) (simp_all only:)
    ultimately show ?thesis using False by auto
  qed
qed

section \<open>Sample manifests\<close>

definition sample_container :: obj where
  "sample_container =
     [(''name'', JStr ''engine''), (''image'', JStr ''deno''),
      (''securityContext'', JObj [(''runAsUser'', JInt 1000)]),
      (''volumeMounts'', JArr [JObj [(''name'', JStr ''code''), (''mountPath'', JStr ''/app'')]])]"

definition sample_manifest :: obj where
  "sample_manifest =
     [(''apiVersion'', JStr ''apps/v1''), (''kind'', JStr ''Deployment''),
      (''metadata'', JObj [(''name'', JStr ''crawler'')]),
      (''spec'', JObj [(''template'', JObj [(''spec'', JObj [(''containers'', JArr [JObj sample_container])])])])]"

theorem ValidatePSA_accepts_witness:
  "ValidatePSA std_uns ''lab'' ''restricted'' [sample_manifest] = Inr () \<longleftrightarrow>
    ''restricted'' = ([] :: string) \<or> ''restricted'' = PSALevelPrivileged \<or> list_all restricted [sample_manifest]"
  by (rule ValidatePSA_accepts [OF std_uns_laws])

theorem ensurePSACompliance_admitted_witness:
  "ValidatePSA std_uns ''lab'' ''restricted'' (ensurePSACompliance std_uns [sample_manifest]) = Inr ()"
proof (rule ensurePSACompliance_admitted [OF std_uns_laws])
  show "list_all open_manifest [sample_manifest]" by code_simp
qed

theorem ensure_container_preserves_witness:
  "if [''volumeMounts''] = [''volumeMounts''] \<and> as_arr (JArr [JObj [(''name'', JStr ''code''), (''mountPath'', JStr ''/app'')]]) \<noteq> None
    then \<exists>more. walk (JObj (fst (ensure_container std_uns sample_container))) [''volumeMounts''] =
      Found (JArr (the (as_arr (JArr [JObj [(''name'', JStr ''code''), (''mountPath'', JStr ''/app'')]])) @ more))
    else hd [''volumeMounts''] = ''volumeMounts'' \<or>
      walk (JObj (fst (ensure_container std_uns sample_container))) [''volumeMounts''] =
        Found (JArr [JObj [(''name'', JStr ''code''), (''mountPath'', JStr ''/app'')]])"
  by (rule ensure_container_preserves [OF std_uns_laws]) (simp_all add: sample_container_def)

text \<open>A security context that is present but null is not defaulted, and the check then rejects the
  manifest.\<close>

lemma null_context_rejected:
  "ensure_container std_uns [(''securityContext'', JNull)] = ([(''securityContext'', JNull)], False)"
  by code_simp

end
