(* ===== verification/Enrich.thy ===== *)
theory Enrich
  imports Controller Manifest
begin

text \<open>
  The enrichment of workflow manifests, \<^verbatim>\<open>pkg/exoskeleton/enrich.go\<close>, \<^verbatim>\<open>injector.go\<close> and
  \<^verbatim>\<open>ProcessManifests\<close> of \<^verbatim>\<open>controller.go\<close>. The Go code edits the manifests in place, through
  nested reads that return copies and nested writes that copy; an edit is a new list of
  manifests here. Parsers that are not part of the program are arguments: the YAML library
  (\<open>yaml_lib\<close>), the parser of URLs and the resolver of host names. A Go map of credentials is an
  association list; where the code sorts, the order of the list does not matter.
\<close>

record url =
  U_Scheme :: string
  U_Host :: string
  U_Hostname :: string
  U_Port :: string

record yaml_lib =
  y_unmarshal :: "string \<Rightarrow> obj option"
  y_marshal :: "obj \<Rightarrow> string option"
  y_contract_deps :: "string \<Rightarrow> string list option"

type_synonym cred_map = "(string \<times> creds) list"

section \<open>Hosts and ports\<close>

definition defaultPortForScheme :: "string \<Rightarrow> string" where
  "defaultPortForScheme scheme =
     (if scheme = ''http'' then ''80''
      else if scheme = ''https'' then ''443''
      else if scheme = ''nats'' then ''4222''
      else if scheme = ''nats+tls'' \<or> scheme = ''tls'' then ''4222''
      else if scheme = ''postgresql'' \<or> scheme = ''postgres'' then ''5432''
      else [])"

definition parseHostPort :: "(string \<Rightarrow> url option) \<Rightarrow> string \<Rightarrow> string \<times> string" where
  "parseHostPort urlParse rawURL =
     (let fallback =
        (case LastIndex rawURL CHR '':'' of
           None \<Rightarrow> (rawURL, [])
         | Some idx \<Rightarrow> if 0 < idx then (take idx rawURL, drop (Suc idx) rawURL) else (rawURL, []))
      in case urlParse rawURL of
           None \<Rightarrow> fallback
         | Some url \<Rightarrow>
             if U_Host url = [] then fallback
             else (U_Hostname url, if U_Port url = [] then defaultPortForScheme (U_Scheme url) else U_Port url))"

definition isInClusterHost :: "string \<Rightarrow> bool" where
  "isInClusterHost host =
     (let parts = Split CHR ''.'' host in
      if length parts < 3 \<or> parts ! 2 \<noteq> ''svc'' then False
      else if length parts = 3 then True
      else if length parts > 5 then False
      else parts ! 3 = ''cluster'')"

definition exo_endpoint :: "(string \<Rightarrow> url option) \<Rightarrow> creds \<Rightarrow> string \<times> string" where
  "exo_endpoint urlParse c =
     (case c of
        PgCreds p \<Rightarrow> (PC_Host p, PC_Port p)
      | NatsCreds n \<Rightarrow> parseHostPort urlParse (NCr_URL n)
      | RfsCreds r \<Rightarrow> parseHostPort urlParse (RC_Endpoint r))"

definition collectExoHosts :: "(string \<Rightarrow> url option) \<Rightarrow> cred_map \<Rightarrow> string list" where
  "collectExoHosts urlParse creds =
     sort (List.map_filter (\<lambda>(name, c).
       case c of
         PgCreds p \<Rightarrow> Some (PC_Host p @ '':'' @ PC_Port p)
       | _ \<Rightarrow> (case exo_endpoint urlParse c of
                 (h, p) \<Rightarrow> if h \<noteq> [] \<and> p \<noteq> [] then Some (h @ '':'' @ p) else None)) creds)"

section \<open>Flags of the first container\<close>

definition toStringSlice :: "json \<Rightarrow> string list option" where
  "toStringSlice v = as_strs v"

fun allow_net_args :: "string list \<Rightarrow> string list \<Rightarrow> string list option" where
  "allow_net_args hosts [] = None"
| "allow_net_args hosts (arg # args) =
     (if \<not> HasPrefix arg ''--allow-net='' then map_option ((#) arg) (allow_net_args hosts args)
      else let existing = TrimPrefix arg ''--allow-net='' in
        if existing = [] \<or> existing = ''none'' then Some ((''--allow-net='' @ Join hosts '','') # args)
        else Some ((arg @ '','' @ Join hosts '','') # args))"

fun allow_env_args :: "string list \<Rightarrow> string list \<Rightarrow> string list option" where
  "allow_env_args vars [] = None"
| "allow_env_args vars (arg # args) =
     (if \<not> HasPrefix arg ''--allow-env='' then map_option ((#) arg) (allow_env_args vars args)
      else let existing = TrimPrefix arg ''--allow-env='';
               existingSet = (if existing = [] then [] else Split CHR '','' existing);
               toAdd = filter (\<lambda>v. v \<notin> set existingSet) vars
           in if toAdd = [] then None
              else if existing = [] then Some ((''--allow-env='' @ Join toAdd '','') # args)
              else Some ((arg @ '','' @ Join toAdd '','') # args))"

text \<open>A patch of a string list in a field of a container; \<open>None\<close> is the Go result \<^verbatim>\<open>false\<close>, with
  the container as it was.\<close>

definition patch_slice :: "(string list \<Rightarrow> string list option) \<Rightarrow> obj \<Rightarrow> string \<Rightarrow> obj option" where
  "patch_slice f container field =
     (case map_of container field of
        None \<Rightarrow> None
      | Some raw \<Rightarrow>
          (case toStringSlice raw of
             None \<Rightarrow> None
           | Some flags \<Rightarrow> map_option (\<lambda>s. AList.update field (JArr (map JStr s)) container) (f flags)))"

definition patchAllowNetInSlice :: "obj \<Rightarrow> string \<Rightarrow> string list \<Rightarrow> obj option" where
  "patchAllowNetInSlice container field hosts = patch_slice (allow_net_args hosts) container field"

definition patchAllowEnvInSlice :: "obj \<Rightarrow> string \<Rightarrow> string list \<Rightarrow> obj option" where
  "patchAllowEnvInSlice container field vars = patch_slice (allow_env_args vars) container field"

definition containersPath :: "string list" where
  "containersPath = [''spec'', ''template'', ''spec'', ''containers'']"

definition first_container :: "uns \<Rightarrow> obj \<Rightarrow> (obj \<times> json list) option" where
  "first_container u m =
     (case u_slice u m containersPath of Found (JObj c # cs) \<Rightarrow> Some (c, cs) | _ \<Rightarrow> None)"

definition keep_set :: "obj \<Rightarrow> obj option \<Rightarrow> obj" where
  "keep_set m r = (case r of None \<Rightarrow> m | Some m' \<Rightarrow> m')"

definition set_first :: "uns \<Rightarrow> obj \<Rightarrow> json list \<Rightarrow> obj \<Rightarrow> obj" where
  "set_first u m cs c = keep_set m (u_set_slice u m (JObj c # cs) containersPath)"

text \<open>\<open>args\<close> is tried first, then \<open>command\<close>.\<close>

definition patch_flags :: "(obj \<Rightarrow> string \<Rightarrow> obj option) \<Rightarrow> obj \<Rightarrow> obj option" where
  "patch_flags patch c = (case patch c ''args'' of Some c' \<Rightarrow> Some c' | None \<Rightarrow> patch c ''command'')"

fun allow_net_manifests :: "uns \<Rightarrow> string list \<Rightarrow> obj list \<Rightarrow> obj list" where
  "allow_net_manifests u hosts [] = []"
| "allow_net_manifests u hosts (m # ms) =
     (if u_kind u m \<noteq> ''Deployment'' then m # allow_net_manifests u hosts ms
      else case first_container u m of
        None \<Rightarrow> m # allow_net_manifests u hosts ms
      | Some (c, cs) \<Rightarrow>
          (case patch_flags (\<lambda>c f. patchAllowNetInSlice c f hosts) c of
             None \<Rightarrow> m # allow_net_manifests u hosts ms
           | Some c' \<Rightarrow> set_first u m cs c' # ms))"

definition patchDeploymentAllowNet :: "uns \<Rightarrow> (string \<Rightarrow> url option) \<Rightarrow> obj list \<Rightarrow> cred_map \<Rightarrow> obj list" where
  "patchDeploymentAllowNet u urlParse manifests creds =
     (let hosts = collectExoHosts urlParse creds in
      if length hosts = 0 then manifests else allow_net_manifests u hosts manifests)"

section \<open>Telemetry\<close>

definition otelVars :: "string list" where
  "otelVars = [''OTEL_DENO'', ''OTEL_EXPORTER_OTLP_ENDPOINT'', ''OTEL_EXPORTER_OTLP_PROTOCOL'',
     ''OTEL_RESOURCE_ATTRIBUTES'', ''OTEL_SERVICE_NAME'']"

definition otelCollectorHost :: string where
  "otelCollectorHost = ''otel-collector.tentacular-observability.svc.cluster.local:4318''"

text \<open>Loops that edit the first manifest with a property and stop.\<close>

fun on_first :: "(obj \<Rightarrow> bool) \<Rightarrow> (obj \<Rightarrow> obj) \<Rightarrow> obj list \<Rightarrow> obj list" where
  "on_first p f [] = []"
| "on_first p f (m # ms) = (if p m then f m # ms else m # on_first p f ms)"

definition otel_deployment :: "uns \<Rightarrow> obj \<Rightarrow> obj" where
  "otel_deployment u m =
     (case first_container u m of
        None \<Rightarrow> m
      | Some (c, cs) \<Rightarrow>
          let (c1, m1) = (case patch_flags (\<lambda>c f. patchAllowEnvInSlice c f otelVars) c of
                            None \<Rightarrow> (c, m) | Some c' \<Rightarrow> (c', set_first u m cs c'))
          in (case patch_flags (\<lambda>c f. patchAllowNetInSlice c f [otelCollectorHost]) c1 of
                None \<Rightarrow> m1 | Some c2 \<Rightarrow> set_first u m1 cs c2))"

definition patchDeploymentOTelEnv :: "uns \<Rightarrow> obj list \<Rightarrow> obj list" where
  "patchDeploymentOTelEnv u manifests = on_first (\<lambda>m. u_kind u m = ''Deployment'') (otel_deployment u) manifests"

definition workflowLabelPath :: "string list" where
  "workflowLabelPath = [''spec'', ''template'', ''metadata'', ''labels'', ''tentacular.io/workflow'']"

definition patchDeploymentWorkflowLabel :: "uns \<Rightarrow> obj list \<Rightarrow> string \<Rightarrow> obj list" where
  "patchDeploymentWorkflowLabel u manifests workflowName =
     on_first (\<lambda>m. u_kind u m = ''Deployment'')
       (\<lambda>m. if found_or [] (u_string u m workflowLabelPath) = workflowName then m
            else keep_set m (u_set u m (JStr workflowName) workflowLabelPath)) manifests"

definition is_netpol :: "uns \<Rightarrow> string \<Rightarrow> obj \<Rightarrow> bool" where
  "is_netpol u workflowName m \<longleftrightarrow> u_kind u m = ''NetworkPolicy'' \<and> u_name u m = workflowName @ ''-netpol''"

definition egressPath :: "string list" where "egressPath = [''spec'', ''egress'']"

definition is_otel_rule :: "uns \<Rightarrow> json \<Rightarrow> bool" where
  "is_otel_rule u e =
     (case e of
        JObj em \<Rightarrow>
          list_ex (\<lambda>p. case p of
              JObj pm \<Rightarrow> map_of pm ''port'' = Some (JInt 4318) \<or> map_of pm ''port'' = Some (JInt 4317)
            | _ \<Rightarrow> False) (found_or [] (u_slice u em [''ports'']))
      | _ \<Rightarrow> False)"

definition tcp_port :: "int \<Rightarrow> json" where
  "tcp_port p = JObj [(''protocol'', JStr ''TCP''), (''port'', JInt p)]"

definition namespace_selector :: "string \<Rightarrow> string \<times> json" where
  "namespace_selector ns =
     (''namespaceSelector'', JObj [(''matchLabels'', JObj [(''kubernetes.io/metadata.name'', JStr ns)])])"

definition otel_rule :: json where
  "otel_rule =
     JObj [(''to'', JArr [JObj [namespace_selector ''tentacular-observability'',
              (''podSelector'', JObj [(''matchLabels'', JObj [(''app.kubernetes.io/component'', JStr ''collector'')])])]]),
           (''ports'', JArr [tcp_port 4317, tcp_port 4318])]"

definition patchNetworkPolicyOTelEgress :: "uns \<Rightarrow> obj list \<Rightarrow> string \<Rightarrow> obj list" where
  "patchNetworkPolicyOTelEgress u manifests workflowName =
     on_first (is_netpol u workflowName)
       (\<lambda>m. let egress = found_or [] (u_slice u m egressPath) in
            if list_ex (is_otel_rule u) egress then m
            else keep_set m (u_set_slice u m (egress @ [otel_rule]) egressPath)) manifests"

section \<open>Egress to the backing services\<close>

text \<open>\<^verbatim>\<open>strconv.ParseInt(s, 10, 64)\<close>.\<close>

definition digits_val :: "string \<Rightarrow> int option" where
  "digits_val s =
     (if s \<noteq> [] \<and> list_all (\<lambda>c. 48 \<le> (of_char c :: nat) \<and> (of_char c :: nat) \<le> 57) s
      then Some (foldl (\<lambda>a c. 10 * a + int (of_char c - 48)) 0 s) else None)"

definition ParseInt64 :: "string \<Rightarrow> int option" where
  "ParseInt64 s =
     (let (neg, ds) = (case s of [] \<Rightarrow> (False, []) | c # cs \<Rightarrow>
            if c = CHR ''-'' then (True, cs) else if c = CHR ''+'' then (False, cs) else (False, s))
      in case digits_val ds of
           None \<Rightarrow> None
         | Some v \<Rightarrow> let n = (if neg then - v else v) in if - (2 ^ 63) \<le> n \<and> n < 2 ^ 63 then Some n else None)"

definition exo_endpoints :: "(string \<Rightarrow> url option) \<Rightarrow> cred_map \<Rightarrow> (string \<times> string \<times> string) list" where
  "exo_endpoints urlParse creds =
     sort_key fst (List.map_filter (\<lambda>(name, c).
       case exo_endpoint urlParse c of (h, p) \<Rightarrow> if h \<noteq> [] \<and> p \<noteq> [] then Some (name, h, p) else None) creds)"

definition ip_peer :: "string \<Rightarrow> json" where
  "ip_peer ip = JObj [(''ipBlock'', JObj [(''cidr'', JStr (if Contains ip '':'' then ip @ ''/128'' else ip @ ''/32''))])]"

definition egress_rule :: "json list \<Rightarrow> int \<Rightarrow> json" where
  "egress_rule peers port = JObj [(''to'', JArr peers), (''ports'', JArr [tcp_port port])]"

definition endpoint_rule :: "(string \<Rightarrow> string list option) \<Rightarrow> string \<times> string \<times> string \<Rightarrow> json option" where
  "endpoint_rule resolveHost ep =
     (case ep of (name, host, port) \<Rightarrow>
        case ParseInt64 port of
          None \<Rightarrow> None
        | Some portInt \<Rightarrow>
            if isInClusterHost host
            then Some (egress_rule [JObj [namespace_selector (Split CHR ''.'' host ! 1)]] portInt)
            else case resolveHost host of
              None \<Rightarrow> None
            | Some ips \<Rightarrow> if ips = [] then None else Some (egress_rule (map ip_peer ips) portInt))"

definition patchNetworkPolicyExoEgress ::
  "uns \<Rightarrow> (string \<Rightarrow> url option) \<Rightarrow> (string \<Rightarrow> string list option) \<Rightarrow> obj list \<Rightarrow> cred_map \<Rightarrow> string \<Rightarrow> obj list" where
  "patchNetworkPolicyExoEgress u urlParse resolveHost manifests creds workflowName =
     (if length creds = 0 then manifests
      else on_first (is_netpol u workflowName)
        (\<lambda>m. keep_set m (u_set_slice u m
           (found_or [] (u_slice u m egressPath) @
            List.map_filter (endpoint_rule resolveHost) (exo_endpoints urlParse creds)) egressPath)) manifests)"

section \<open>Workload identity volume\<close>

definition spireVolume :: json where
  "spireVolume = JObj [(''name'', JStr ''spiffe-workload-api''),
     (''csi'', JObj [(''driver'', JStr ''csi.spiffe.io''), (''readOnly'', JBool True)])]"

definition spireMount :: json where
  "spireMount = JObj [(''name'', JStr ''spiffe-workload-api''), (''mountPath'', JStr ''/run/spire/sockets''),
     (''readOnly'', JBool True)]"

definition volumesPath :: "string list" where
  "volumesPath = [''spec'', ''template'', ''spec'', ''volumes'']"

fun patchDeploymentSpireVolume :: "uns \<Rightarrow> obj list \<Rightarrow> obj list" where
  "patchDeploymentSpireVolume u [] = []"
| "patchDeploymentSpireVolume u (m # ms) =
     (if u_kind u m \<noteq> ''Deployment'' then m # patchDeploymentSpireVolume u ms
      else let volumes = found_or [] (u_slice u m volumesPath) in
        if list_ex (\<lambda>v. case v of JObj vm \<Rightarrow> map_of vm ''name'' = Some (JStr ''spiffe-workload-api'') | _ \<Rightarrow> False) volumes
        then m # ms
        else let m1 = keep_set m (u_set_slice u m (volumes @ [spireVolume]) volumesPath) in
          (case first_container u m1 of
             None \<Rightarrow> m1 # patchDeploymentSpireVolume u ms
           | Some (c, cs) \<Rightarrow>
               let mounts = (case map_of c ''volumeMounts'' of Some (JArr xs) \<Rightarrow> xs | _ \<Rightarrow> []) in
               set_first u m1 cs (AList.update ''volumeMounts'' (JArr (mounts @ [spireMount])) c) # ms))"

section \<open>Contract dependencies\<close>

definition workflow_yaml :: "uns \<Rightarrow> obj \<Rightarrow> string option" where
  "workflow_yaml u m =
     (if u_kind u m \<noteq> ''ConfigMap'' then None
      else case u_string_map u m [''data''] of Found data \<Rightarrow> map_of data ''workflow.yaml'' | _ \<Rightarrow> None)"

fun detectExoDeps :: "uns \<Rightarrow> yaml_lib \<Rightarrow> obj list \<Rightarrow> string list" where
  "detectExoDeps u y [] = []"
| "detectExoDeps u y (m # ms) =
     (case workflow_yaml u m of
        None \<Rightarrow> detectExoDeps u y ms
      | Some wfYAML \<Rightarrow>
          (case y_contract_deps y wfYAML of
             None \<Rightarrow> detectExoDeps u y ms
           | Some names \<Rightarrow> sort (filter (\<lambda>n. HasPrefix n ''tentacular-'') names)))"

fun updates :: "(string \<times> json) list \<Rightarrow> obj \<Rightarrow> obj" where
  "updates [] m = m"
| "updates ((k, v) # kvs) m = updates kvs (AList.update k v m)"

definition auth_entry :: "string \<Rightarrow> string \<Rightarrow> json" where
  "auth_entry kind secret = JObj [(''type'', JStr kind), (''secret'', JStr secret)]"

definition dep_fields :: "(string \<Rightarrow> url option) \<Rightarrow> string \<Rightarrow> creds \<Rightarrow> (string \<times> json) list" where
  "dep_fields urlParse depName c =
     (case c of
        PgCreds p \<Rightarrow>
          [(''host'', JStr (PC_Host p)), (''port'', JStr (PC_Port p)), (''database'', JStr (PC_Database p)),
           (''user'', JStr (PC_User p)), (''schema'', JStr (PC_Schema p)),
           (''auth'', auth_entry ''password'' (depName @ ''.password''))]
      | NatsCreds n \<Rightarrow>
          (case parseHostPort urlParse (NCr_URL n) of (host, port) \<Rightarrow>
            [(''host'', JStr host), (''port'', JStr port), (''subject'', JStr (NCr_SubjectPrefix n)),
             (''auth'', auth_entry (NCr_AuthMethod n) (depName @ ''.url''))])
      | RfsCreds r \<Rightarrow>
          (case parseHostPort urlParse (RC_Endpoint r) of (host, port) \<Rightarrow>
            [(''host'', JStr host), (''port'', JStr port), (''container'', JStr (RC_Bucket r)), (''prefix'', JStr (RC_Prefix r)),
             (''auth'', auth_entry ''access-key'' (depName @ ''.secret_key''))]))"

definition enrich_dep :: "(string \<Rightarrow> url option) \<Rightarrow> cred_map \<Rightarrow> string \<times> json \<Rightarrow> (string \<times> json) \<times> bool" where
  "enrich_dep urlParse creds dep =
     (case dep of (depName, depVal) \<Rightarrow>
        if \<not> HasPrefix depName ''tentacular-'' then (dep, False)
        else case (map_of creds depName, depVal) of
          (Some c, JObj depMap) \<Rightarrow> ((depName, JObj (updates (dep_fields urlParse depName c) depMap)), True)
        | _ \<Rightarrow> (dep, False))"

text \<open>The enriched workflow, when some dependency was filled in.\<close>

definition enrich_workflow :: "(string \<Rightarrow> url option) \<Rightarrow> cred_map \<Rightarrow> obj \<Rightarrow> obj option" where
  "enrich_workflow urlParse creds flow =
     (case map_of flow ''contract'' of
        Some (JObj contract) \<Rightarrow>
          (case map_of contract ''dependencies'' of
             Some (JObj deps) \<Rightarrow>
               if list_ex (\<lambda>d. snd (enrich_dep urlParse creds d)) deps
               then Some (AList.update ''contract'' (JObj (AList.update ''dependencies''
                      (JObj (map (\<lambda>d. fst (enrich_dep urlParse creds d)) deps)) contract)) flow)
               else None
           | _ \<Rightarrow> None)
      | _ \<Rightarrow> None)"

datatype enrich_error = Reserialize | UpdateData

fun enrichContractDeps ::
  "uns \<Rightarrow> yaml_lib \<Rightarrow> (string \<Rightarrow> url option) \<Rightarrow> obj list \<Rightarrow> cred_map \<Rightarrow> enrich_error + obj list" where
  "enrichContractDeps u y urlParse [] creds = Inr []"
| "enrichContractDeps u y urlParse (m # ms) creds =
     (case (case workflow_yaml u m of
              None \<Rightarrow> None
            | Some wfYAML \<Rightarrow> (case y_unmarshal y wfYAML of None \<Rightarrow> None | Some flow \<Rightarrow> enrich_workflow urlParse creds flow)) of
        None \<Rightarrow>
          (case enrichContractDeps u y urlParse ms creds of Inl e \<Rightarrow> Inl e | Inr ms' \<Rightarrow> Inr (m # ms'))
      | Some flow' \<Rightarrow>
          (case y_marshal y flow' of
             None \<Rightarrow> Inl Reserialize
           | Some enriched \<Rightarrow>
               let dataMap = found_or [] (u_map u m [''data'']) in
               (case u_set u m (JObj (AList.update ''workflow.yaml'' (JStr enriched) dataMap)) [''data''] of
                  None \<Rightarrow> Inl UpdateData
                | Some m' \<Rightarrow> Inr (m' # ms))))"

section \<open>Credential secrets\<close>

definition ExoskeletonLabel :: string where "ExoskeletonLabel = ''tentacular.io/exoskeleton''"
definition ReleaseLabel :: string where "ReleaseLabel = ''tentacular.io/release''"
definition ExoskeletonSecretPrefix :: string where "ExoskeletonSecretPrefix = ''tentacular-exoskeleton-''"

definition secret_fields :: "string \<Rightarrow> creds \<Rightarrow> (string \<times> json) list" where
  "secret_fields svcName c =
     (case c of
        PgCreds p \<Rightarrow>
          [(svcName @ ''.host'', JStr (PC_Host p)), (svcName @ ''.port'', JStr (PC_Port p)),
           (svcName @ ''.database'', JStr (PC_Database p)), (svcName @ ''.user'', JStr (PC_User p)),
           (svcName @ ''.password'', JStr (PC_Password p)), (svcName @ ''.schema'', JStr (PC_Schema p)),
           (svcName @ ''.protocol'', JStr (PC_Protocol p))]
      | NatsCreds n \<Rightarrow>
          [(svcName @ ''.url'', JStr (NCr_URL n))] @
          (if NCr_Token n \<noteq> [] then [(svcName @ ''.token'', JStr (NCr_Token n))] else []) @
          [(svcName @ ''.subject_prefix'', JStr (NCr_SubjectPrefix n)), (svcName @ ''.protocol'', JStr (NCr_Protocol n)),
           (svcName @ ''.auth_method'', JStr (NCr_AuthMethod n))]
      | RfsCreds r \<Rightarrow>
          [(svcName @ ''.endpoint'', JStr (RC_Endpoint r)), (svcName @ ''.access_key'', JStr (RC_AccessKey r)),
           (svcName @ ''.secret_key'', JStr (RC_SecretKey r)), (svcName @ ''.bucket'', JStr (RC_Bucket r)),
           (svcName @ ''.prefix'', JStr (RC_Prefix r)), (svcName @ ''.region'', JStr (RC_Region r)),
           (svcName @ ''.protocol'', JStr (RC_Protocol r))])"

definition BuildSecretManifest :: "string \<Rightarrow> string \<Rightarrow> cred_map \<Rightarrow> identity_error + obj" where
  "BuildSecretManifest namespace workflow creds =
     (case CompileIdentity namespace workflow of
        Inl e \<Rightarrow> Inl e
      | Inr i \<Rightarrow>
          let stringData = updates (concat (map (\<lambda>(n, c). secret_fields n c) creds) @
                [(''tentacular-identity.principal'', JStr (I_Principal i)),
                 (''tentacular-identity.namespace'', JStr namespace),
                 (''tentacular-identity.workflow'', JStr workflow)]) []
          in Inr [(''apiVersion'', JStr ''v1''), (''kind'', JStr ''Secret''),
               (''metadata'', JObj [(''name'', JStr (ExoskeletonSecretPrefix @ workflow)), (''namespace'', JStr namespace),
                  (''labels'', JObj [(ReleaseLabel, JStr workflow), (ExoskeletonLabel, JStr ''true'')])]),
               (''type'', JStr ''Opaque''), (''stringData'', JObj stringData)])"

text \<open>\<^verbatim>\<open>encoding/json\<close> on a map of strings: keys in order, ASCII text escaped as the package does,
  HTML characters included.\<close>

definition json_char :: "char \<Rightarrow> string" where
  "json_char c = (let n = (of_char c :: nat) in
     if n = 34 then [CHR 0x5C, CHR 0x22]
     else if n = 92 then [CHR 0x5C, CHR 0x5C]
     else if n = 8 then [CHR 0x5C, CHR ''b'']
     else if n = 12 then [CHR 0x5C, CHR ''f'']
     else if n = 10 then [CHR 0x5C, CHR ''n'']
     else if n = 13 then [CHR 0x5C, CHR ''r'']
     else if n = 9 then [CHR 0x5C, CHR ''t'']
     else if n < 32 \<or> n = 60 \<or> n = 62 \<or> n = 38 then CHR 0x5C # ''u00'' @ hex_byte n
     else [c])"

definition json_quote :: "string \<Rightarrow> string" where
  "json_quote s = CHR 0x22 # concat (map json_char s) @ [CHR 0x22]"

definition marshal_strs :: "strs \<Rightarrow> string" where
  "marshal_strs kvs =
     ''{'' @ Join (map (\<lambda>(k, v). json_quote k @ '':'' @ json_quote v) (sort_key fst kvs)) '','' @ ''}''"

definition cred_strs :: "creds \<Rightarrow> strs" where
  "cred_strs c =
     (case c of
        PgCreds p \<Rightarrow>
          [(''host'', PC_Host p), (''port'', PC_Port p), (''database'', PC_Database p), (''user'', PC_User p),
           (''password'', PC_Password p), (''schema'', PC_Schema p), (''protocol'', PC_Protocol p)]
      | NatsCreds n \<Rightarrow>
          [(''url'', NCr_URL n), (''subject_prefix'', NCr_SubjectPrefix n), (''protocol'', NCr_Protocol n),
           (''auth_method'', NCr_AuthMethod n)] @ (if NCr_Token n \<noteq> [] then [(''token'', NCr_Token n)] else [])
      | RfsCreds r \<Rightarrow>
          [(''endpoint'', RC_Endpoint r), (''access_key'', RC_AccessKey r), (''secret_key'', RC_SecretKey r),
           (''bucket'', RC_Bucket r), (''prefix'', RC_Prefix r), (''region'', RC_Region r), (''protocol'', RC_Protocol r)])"

definition buildExoStringData :: "string \<Rightarrow> string \<Rightarrow> cred_map \<Rightarrow> obj" where
  "buildExoStringData namespace workflow creds =
     updates (map (\<lambda>(n, c). (n, JStr (marshal_strs (cred_strs c)))) creds @
       (case CompileIdentity namespace workflow of
          Inl e \<Rightarrow> []
        | Inr i \<Rightarrow> [(''tentacular-identity'', JStr (marshal_strs
            [(''principal'', I_Principal i), (''namespace'', namespace), (''workflow'', workflow)]))])) []"

fun merge_secret :: "uns \<Rightarrow> string \<Rightarrow> obj \<Rightarrow> obj list \<Rightarrow> (unit + obj list) option" where
  "merge_secret u secretName exoData [] = None"
| "merge_secret u secretName exoData (m # ms) =
     (if u_kind u m \<noteq> ''Secret'' \<or> u_name u m \<noteq> secretName
      then map_option (map_sum id ((#) m)) (merge_secret u secretName exoData ms)
      else let sd = found_or [] (u_map u m [''stringData'']) in
        (case u_set u m (JObj (updates exoData sd)) [''stringData''] of
           None \<Rightarrow> Some (Inl ())
         | Some m' \<Rightarrow> Some (Inr (m' # ms))))"

definition mergeExoCredsIntoUserSecret ::
  "uns \<Rightarrow> obj list \<Rightarrow> string \<Rightarrow> string \<Rightarrow> cred_map \<Rightarrow> unit + obj list" where
  "mergeExoCredsIntoUserSecret u manifests namespace workflow creds =
     (let userSecretName = workflow @ ''-secrets'';
          exoData = buildExoStringData namespace workflow creds
      in case merge_secret u userSecretName exoData manifests of
           Some r \<Rightarrow> r
         | None \<Rightarrow> Inr (manifests @
             [[(''apiVersion'', JStr ''v1''), (''kind'', JStr ''Secret''),
               (''metadata'', JObj [(''name'', JStr userSecretName), (''namespace'', JStr namespace)]),
               (''type'', JStr ''Opaque''), (''stringData'', JObj exoData)]]))"

section \<open>Processing manifests\<close>

datatype 'e process_error =
    ProcIdentity identity_error
  | ProcNotEnabled string
  | ProcRegister string 'e
  | ProcEnrich enrich_error
  | ProcSecret identity_error
  | ProcMerge

definition register_dep ::
  "string \<Rightarrow> string \<Rightarrow> Identity \<Rightarrow> ('s, 'e) registrar option \<Rightarrow> ('s, 'e process_error, creds) comp" where
  "register_dep dep svc i reg =
     (case reg of
        None \<Rightarrow> failC (ProcNotEnabled dep)
      | Some r \<Rightarrow> mapErrC (ProcRegister svc) (rg_Register r i))"

fun register_deps ::
  "('s, 'e) Controller \<Rightarrow> Identity \<Rightarrow> string list \<Rightarrow> cred_map \<Rightarrow> ('s, 'e process_error, cred_map) comp" where
  "register_deps c i [] creds = retC creds"
| "register_deps c i (dep # deps) creds =
     (if dep = ''tentacular-postgres'' then
        bindC (register_dep dep ''postgres'' i (c_pg c)) (\<lambda>cr. register_deps c i deps (AList.update dep cr creds))
      else if dep = ''tentacular-nats'' then
        bindC (register_dep dep ''nats'' i (c_nats c)) (\<lambda>cr. register_deps c i deps (AList.update dep cr creds))
      else if dep = ''tentacular-rustfs'' then
        bindC (register_dep dep ''rustfs'' i (c_rustfs c)) (\<lambda>cr. register_deps c i deps (AList.update dep cr creds))
      else register_deps c i deps creds)"

definition inject_creds ::
  "uns \<Rightarrow> yaml_lib \<Rightarrow> (string \<Rightarrow> url option) \<Rightarrow> (string \<Rightarrow> string list option) \<Rightarrow> string \<Rightarrow> string \<Rightarrow>
     obj list \<Rightarrow> cred_map \<Rightarrow> 'e process_error + obj list" where
  "inject_creds u y urlParse resolveHost namespace name manifests creds =
     (if length creds = 0 then Inr manifests
      else case enrichContractDeps u y urlParse manifests creds of
        Inl e \<Rightarrow> Inl (ProcEnrich e)
      | Inr m1 \<Rightarrow>
          (case BuildSecretManifest namespace name creds of
             Inl e \<Rightarrow> Inl (ProcSecret e)
           | Inr secret \<Rightarrow>
               let m2 = patchDeploymentAllowNet u urlParse (m1 @ [secret]) creds;
                   m3 = patchNetworkPolicyExoEgress u urlParse resolveHost m2 creds name
               in (case mergeExoCredsIntoUserSecret u m3 namespace name creds of
                     Inl _ \<Rightarrow> Inl ProcMerge
                   | Inr m4 \<Rightarrow> Inr m4)))"

definition register_spire ::
  "uns \<Rightarrow> ('s, 'e) Controller \<Rightarrow> Identity \<Rightarrow> string \<Rightarrow> obj list \<Rightarrow> ('s, 'e process_error, obj list) comp" where
  "register_spire u c i namespace manifests s =
     (case c_spire c of
        None \<Rightarrow> (Inr manifests, s)
      | Some sp \<Rightarrow>
          (case sp_Register sp i namespace s of
             (Inl e, s') \<Rightarrow> (Inr manifests, s')
           | (Inr _, s') \<Rightarrow> (Inr (patchDeploymentSpireVolume u manifests), s')))"

definition ProcessManifests ::
  "uns \<Rightarrow> yaml_lib \<Rightarrow> (string \<Rightarrow> url option) \<Rightarrow> (string \<Rightarrow> string list option) \<Rightarrow> ('s, 'e) Controller \<Rightarrow>
     string \<Rightarrow> string \<Rightarrow> obj list \<Rightarrow> ('s, 'e process_error, obj list) comp" where
  "ProcessManifests u y urlParse resolveHost c namespace name manifests =
     (if \<not> Cfg_Enabled (c_cfg c) then retC manifests
      else
        let m1 = patchDeploymentOTelEnv u manifests;
            m2 = patchDeploymentWorkflowLabel u m1 name;
            m3 = patchNetworkPolicyOTelEgress u m2 name;
            deps = detectExoDeps u y m3
        in if length deps = 0 then retC m3
           else case CompileIdentity namespace name of
             Inl e \<Rightarrow> failC (ProcIdentity e)
           | Inr i \<Rightarrow>
               bindC (register_deps c i deps []) (\<lambda>creds.
               bindC (checkC (inject_creds u y urlParse resolveHost namespace name m3 creds)) (\<lambda>m4.
               register_spire u c i namespace m4)))"

section \<open>Ownership annotations\<close>

record AnnotateDeployerParams =
  AD_ExistingAnnotations :: strmap
  AD_Mode :: string
  AD_Deployer :: DeployerInfo
  AD_IsUpdate :: bool

definition ownershipKeys :: "string list" where
  "ownershipKeys = [''tentacular.io/owner'', ''tentacular.io/owner-sub'', ''tentacular.io/owner-email'',
     ''tentacular.io/owner-name'', ''tentacular.io/mode'', ''tentacular.io/created-at'']"

fun carry :: "strmap \<Rightarrow> string list \<Rightarrow> strs \<Rightarrow> strs" where
  "carry existing [] ann = ann"
| "carry existing (k # ks) ann =
     carry existing ks (if mget existing k \<noteq> [] then AList.update k (mget existing k) ann else ann)"

definition isOwnerOrBearer :: "AnnotateDeployerParams \<Rightarrow> bool" where
  "isOwnerOrBearer p \<longleftrightarrow>
     Provider (AD_Deployer p) = ''bearer-token'' \<or>
     mget (AD_ExistingAnnotations p) ''tentacular.io/owner'' = [] \<or>
     (Email (AD_Deployer p) \<noteq> [] \<and> Email (AD_Deployer p) = mget (AD_ExistingAnnotations p) ''tentacular.io/owner'')"

definition provenance :: "string \<Rightarrow> DeployerInfo \<Rightarrow> strs \<Rightarrow> strs" where
  "provenance now d ann =
     AList.update ''tentacular.io/auth-provider'' (Provider d)
      (AList.update ''tentacular.io/deployed-at'' now
      (AList.update ''tentacular.io/deployed-via'' (if AgentType d = [] then ''unknown'' else AgentType d)
      (AList.update ''tentacular.io/deployed-by'' (if Email d = [] then ''bearer-token'' else Email d) ann)))"

definition annotate_update :: "string \<Rightarrow> AnnotateDeployerParams \<Rightarrow> strs \<Rightarrow> strs" where
  "annotate_update now p ann =
     (let a1 = carry (AD_ExistingAnnotations p) ownershipKeys ann;
          a2 = (if isOwnerOrBearer p \<and> AD_Mode p \<noteq> [] then AList.update ''tentacular.io/mode'' (AD_Mode p) a1 else a1)
      in AList.update ''tentacular.io/updated-by-email'' (Email (AD_Deployer p))
          (AList.update ''tentacular.io/updated-by-sub'' (Subject (AD_Deployer p))
          (AList.update ''tentacular.io/updated-at'' now a2)))"

definition annotate_create :: "string \<Rightarrow> AnnotateDeployerParams \<Rightarrow> strs \<Rightarrow> strs" where
  "annotate_create now p ann =
     (let d = AD_Deployer p;
          a1 = AList.update ''tentacular.io/owner'' (Email d) (AList.update ''tentacular.io/created-at'' now ann);
          a2 = (if Subject d \<noteq> [] then AList.update ''tentacular.io/owner-sub'' (Subject d) a1 else a1)
      in AList.update ''tentacular.io/mode'' (AD_Mode p)
          (AList.update ''tentacular.io/owner-name'' (DisplayName d)
          (AList.update ''tentacular.io/owner-email'' (Email d) a2)))"

definition AnnotateDeployer :: "uns \<Rightarrow> string \<Rightarrow> obj list \<Rightarrow> AnnotateDeployerParams \<Rightarrow> obj list" where
  "AnnotateDeployer u now manifests p =
     map (\<lambda>m. if u_kind u m \<noteq> ''Deployment'' then m
              else let ann = provenance now (AD_Deployer p) (u_annotations u m) in
                u_set_annotations u m (if AD_IsUpdate p then annotate_update now p ann else annotate_create now p ann))
       manifests"

section \<open>Permission flags\<close>

lemma Split_append: "Split c (a @ c # b) = Split c a @ Split c b"
  by (induction a) (auto split: list.splits)

lemma HasPrefix_extend: "HasPrefix s p \<Longrightarrow> HasPrefix (s @ t) p"
  by (auto simp: HasPrefix_iff)

lemma TrimPrefix_extend: "HasPrefix s p \<Longrightarrow> TrimPrefix (s @ t) p = TrimPrefix s p @ t"
  by (auto simp: HasPrefix_iff)

definition flag_vars :: "string \<Rightarrow> string list" where
  "flag_vars arg = (let existing = TrimPrefix arg ''--allow-env='' in if existing = [] then [] else Split CHR '','' existing)"

lemma allow_env_args_result:
  assumes "allow_env_args vars args = Some args'" and "\<forall>v \<in> set vars. CHR '','' \<notin> set v \<and> v \<noteq> []"
  shows "\<exists>pre arg post arg'. args = pre @ arg # post \<and> args' = pre @ arg' # post \<and>
    (\<forall>a \<in> set pre. \<not> HasPrefix a ''--allow-env='') \<and> HasPrefix arg' ''--allow-env='' \<and>
    set (flag_vars arg') = set (flag_vars arg) \<union> set vars"
  using assms
proof (induction args arbitrary: args')
  case (Cons a args)
  show ?case
  proof (cases "HasPrefix a ''--allow-env=''")
    case False
    with Cons.prems(1) obtain r where r: "allow_env_args vars args = Some r" "args' = a # r" by auto
    from Cons.IH [OF r(1) Cons.prems(2)] obtain pre arg post arg' where h:
      "args = pre @ arg # post" "r = pre @ arg' # post" "\<forall>a \<in> set pre. \<not> HasPrefix a ''--allow-env=''"
      "HasPrefix arg' ''--allow-env=''" "set (flag_vars arg') = set (flag_vars arg) \<union> set vars"
      by blast
    then show ?thesis using False r(2)
      by (intro exI [of _ "a # pre"] exI [of _ arg] exI [of _ post] exI [of _ arg']) auto
  next
    case True
    let ?ex = "TrimPrefix a ''--allow-env=''"
    let ?add = "filter (\<lambda>v. v \<notin> set (flag_vars a)) vars"
    from True Cons.prems(1) obtain arg' where ne: "?add \<noteq> []" and res: "args' = arg' # args"
      and arg': "arg' = (if ?ex = [] then ''--allow-env='' @ Join ?add '','' else a @ '','' @ Join ?add '','')"
      by (auto simp: flag_vars_def Let_def split: if_splits)
    have split: "Split CHR '','' (Join ?add '','') = ?add"
      using Split_Join [of ?add "CHR '',''"] ne Cons.prems(2) by auto
    moreover have "Join ?add '','' \<noteq> []"
    proof
      assume "Join ?add '','' = []"
      then have "?add = [[]]" using ne Join_eq_Nil [of ?add "CHR '',''"] by simp
      then have "[] \<in> set ?add" by simp
      then show False using Cons.prems(2) by auto
    qed
    ultimately have "set (flag_vars arg') = set (flag_vars a) \<union> set vars"
    proof (cases "?ex = []")
      case True
      then have "TrimPrefix arg' ''--allow-env='' = Join ?add '',''" using arg' by (simp add: TrimPrefix_def)
      with True split \<open>Join ?add '','' \<noteq> []\<close> show ?thesis by (auto simp: flag_vars_def Let_def)
    next
      case False
      then have "TrimPrefix arg' ''--allow-env='' = ?ex @ CHR '','' # Join ?add '',''"
        using arg' TrimPrefix_extend [OF True] by simp
      with False split show ?thesis by (auto simp: flag_vars_def Let_def Split_append)
    qed
    moreover have "HasPrefix arg' ''--allow-env=''"
      unfolding arg' by (simp add: HasPrefix_extend [OF True])
    ultimately show ?thesis using res
      by (intro exI [of _ "[]"] exI [of _ a] exI [of _ args] exI [of _ arg']) simp
  qed
qed simp

lemma allow_env_args_done:
  "\<forall>a \<in> set pre. \<not> HasPrefix a ''--allow-env='' \<Longrightarrow> HasPrefix arg ''--allow-env='' \<Longrightarrow>
     set vars \<subseteq> set (flag_vars arg) \<Longrightarrow> allow_env_args vars (pre @ arg # post) = None"
proof (induction pre)
  case Nil
  then have "filter (\<lambda>v. v \<notin> set (flag_vars arg)) vars = []" by (auto simp: filter_empty_conv)
  with Nil show ?case by (simp add: flag_vars_def Let_def)
qed auto

lemma allow_env_args_idem:
  assumes "allow_env_args vars args = Some args'" and "\<forall>v \<in> set vars. CHR '','' \<notin> set v \<and> v \<noteq> []"
  shows "allow_env_args vars args' = None"
  using allow_env_args_result [OF assms] allow_env_args_done by fastforce

lemma all_some_strs: "all_some (map as_str (map JStr ss)) = Some ss"
  by (induction ss) auto

lemma patchAllowEnv_idem:
  assumes "patchAllowEnvInSlice c field vars = Some c'" and "\<forall>v \<in> set vars. CHR '','' \<notin> set v \<and> v \<noteq> []"
  shows "patchAllowEnvInSlice c' field vars = None"
proof -
  obtain args args' where "allow_env_args vars args = Some args'" "c' = AList.update field (JArr (map JStr args')) c"
    using assms(1) by (auto simp: patchAllowEnvInSlice_def patch_slice_def split: option.splits)
  then show ?thesis
    using allow_env_args_idem assms(2)
    by (simp add: patchAllowEnvInSlice_def patch_slice_def toStringSlice_def as_strs_def map_of_update all_some_strs del: map_map)
qed

section \<open>What the flag patches guarantee\<close>

text \<open>Granting the telemetry variables is idempotent: once a container's \<^verbatim>\<open>--allow-env\<close> flag has
  been patched, patching it again changes nothing.\<close>

theorem patchAllowEnv_otel_idempotent:
  assumes "patchAllowEnvInSlice c field otelVars = Some c'"
  shows "patchAllowEnvInSlice c' field otelVars = None"
  by (rule patchAllowEnv_idem [OF assms]) (simp add: otelVars_def)

text \<open>The \<^verbatim>\<open>--allow-net\<close> patch is not: every pass appends the collector's address once more, although the
  comment on \<^verbatim>\<open>patchDeploymentOTelEnv\<close> says that present hosts are not added again.\<close>

theorem patchAllowNet_not_idempotent:
  "patchAllowNetInSlice [(''args'', JArr [JStr ''--allow-net=a:1''])] ''args'' [''c:2''] =
     Some [(''args'', JArr [JStr ''--allow-net=a:1,c:2''])] \<and>
   patchAllowNetInSlice [(''args'', JArr [JStr ''--allow-net=a:1,c:2''])] ''args'' [''c:2''] =
     Some [(''args'', JArr [JStr ''--allow-net=a:1,c:2,c:2''])]"
  by code_simp

section \<open>Ownership survives updates\<close>

lemma as_strmap_of_strs [simp]: "as_strmap (of_strs ss) = Some ss"
proof -
  have "all_some (map (\<lambda>(k, x). map_option (Pair k) (as_str x)) (map (\<lambda>(k, v). (k, JStr v)) ss)) = Some ss"
    by (induction ss) auto
  then show ?thesis by (simp add: as_strmap_def of_strs_def del: map_map)
qed

lemma annotations_set:
  assumes "uns_laws u" and "walk (JObj m) [''metadata''] = Found (JObj meta)"
  shows "u_annotations u (u_set_annotations u m ss) = ss"
proof -
  have "map_of m ''metadata'' = Some (JObj meta)" using assms(2) by (auto split: option.splits)
  then obtain m' where "put (of_strs ss) [''metadata'', ''annotations''] m = Some m'" by simp
  then show ?thesis
    using walk_put_same by (fastforce simp: uns_simps [OF assms(1)] put_or_keep_def)
qed

lemma map_of_carry:
  "distinct ks \<Longrightarrow> map_of (carry existing ks ann) k =
     (if k \<in> set ks \<and> mget existing k \<noteq> [] then Some (mget existing k) else map_of ann k)"
  by (induction ks arbitrary: ann) (auto simp: map_of_update)

definition stamped :: "string \<Rightarrow> AnnotateDeployerParams \<Rightarrow> strs \<Rightarrow> strs" where
  "stamped now p ann0 =
     (let ann = provenance now (AD_Deployer p) ann0 in
      if AD_IsUpdate p then annotate_update now p ann else annotate_create now p ann)"

lemma stamped_update:
  assumes "AD_IsUpdate p" and "k \<in> set ownershipKeys" and "mget (AD_ExistingAnnotations p) k \<noteq> []"
  shows "mget (map_of (stamped now p ann)) k =
    (if k = AnnotationMode \<and> isOwnerOrBearer p \<and> AD_Mode p \<noteq> [] then AD_Mode p else mget (AD_ExistingAnnotations p) k)"
proof -
  have "distinct ownershipKeys" by (simp add: ownershipKeys_def)
  moreover have "k \<noteq> ''tentacular.io/updated-by-email'' \<and> k \<noteq> ''tentacular.io/updated-by-sub'' \<and> k \<noteq> ''tentacular.io/updated-at''"
    using assms(2) by (auto simp: ownershipKeys_def)
  ultimately show ?thesis
    using assms by (auto simp: stamped_def annotate_update_def Let_def map_of_update map_of_carry mget_def AnnotationMode_def
        split: option.splits)
qed

lemma stamped_create:
  assumes "\<not> AD_IsUpdate p"
  shows "mget (map_of (stamped now p ann)) AnnotationOwner = Email (AD_Deployer p) \<and>
    mget (map_of (stamped now p ann)) AnnotationMode = AD_Mode p"
  using assms by (simp add: stamped_def annotate_create_def Let_def map_of_update mget_def AnnotationMode_def AnnotationOwner_def)


section \<open>Egress stays closed\<close>

text \<open>A rule that names its destinations: namespaces by label or single addresses. A rule without
  destinations would open the policy to every host.\<close>

definition named_peer :: "json \<Rightarrow> bool" where
  "named_peer p =
     (case p of
        JObj [(k, v)] \<Rightarrow>
          (k = ''namespaceSelector'' \<and> (\<exists>ns. v = JObj [(''matchLabels'', JObj [(''kubernetes.io/metadata.name'', JStr ns)])])) \<or>
          (k = ''ipBlock'' \<and> (\<exists>ip. v = JObj [(''cidr'', JStr (ip @ ''/32''))] \<or> v = JObj [(''cidr'', JStr (ip @ ''/128''))]))
      | _ \<Rightarrow> False)"

definition closed_rule :: "json \<Rightarrow> bool" where
  "closed_rule r \<longleftrightarrow>
     (\<exists>peers port. r = JObj [(''to'', JArr peers), (''ports'', JArr [tcp_port port])] \<and> peers \<noteq> [] \<and> list_all named_peer peers)"

lemma endpoint_rule_closed: "endpoint_rule resolveHost ep = Some r \<Longrightarrow> closed_rule r"
  by (auto simp: endpoint_rule_def closed_rule_def egress_rule_def namespace_selector_def named_peer_def ip_peer_def
      list_all_iff split: prod.splits option.splits if_splits)

lemma on_first_index:
  "i < length ms \<Longrightarrow> on_first p f ms ! i = (if p (ms ! i) \<and> (\<forall>j < i. \<not> p (ms ! j)) then f (ms ! i) else ms ! i)"
proof (induction ms arbitrary: i)
  case (Cons m ms)
  show ?case
  proof (cases i)
    case (Suc k)
    have "(\<forall>j < Suc k. \<not> p ((m # ms) ! j)) \<longleftrightarrow> \<not> p m \<and> (\<forall>j < k. \<not> p (ms ! j))"
      using less_Suc_eq_0_disj by auto
    then show ?thesis using Cons Suc by auto
  qed simp
qed simp

lemma length_on_first [simp]: "length (on_first p f ms) = length ms"
  by (induction ms) auto

text \<open>Opening the network policy of a workflow towards its backing services never widens it beyond
  named destinations: every manifest keeps its existing egress rules in order, and each rule
  that is added has at least one destination, each a namespace or a single address.\<close>

theorem patchNetworkPolicyExoEgress_closed:
  assumes "uns_laws u" and "i < length manifests"
  shows "\<exists>added. list_all closed_rule added \<and>
    found_or [] (u_slice u (patchNetworkPolicyExoEgress u urlParse resolveHost manifests creds name ! i) egressPath) =
      found_or [] (u_slice u (manifests ! i) egressPath) @ added"
proof -
  let ?m = "manifests ! i" and ?r = "patchNetworkPolicyExoEgress u urlParse resolveHost manifests creds name ! i"
  let ?added = "List.map_filter (endpoint_rule resolveHost) (exo_endpoints urlParse creds)"
  have added: "list_all closed_rule ?added"
    using endpoint_rule_closed by (auto simp: list_all_iff map_filter_def)
  have "?r = ?m \<or> put (JArr (found_or [] (u_slice u ?m egressPath) @ ?added)) egressPath ?m = Some ?r"
    using on_first_index [OF assms(2)]
    by (simp add: patchNetworkPolicyExoEgress_def keep_set_def uns_meta(2) [OF assms(1)] split: option.splits)
  then show ?thesis
  proof
    assume "?r = ?m"
    then show ?thesis by (intro exI [of _ "[]"]) simp
  next
    assume "put (JArr (found_or [] (u_slice u ?m egressPath) @ ?added)) egressPath ?m = Some ?r"
    from walk_put_same [OF this] added show ?thesis
      by (intro exI [of _ ?added]) (simp add: uns_read(5) [OF assms(1)])
  qed
qed

section \<open>Registration\<close>

lemma register_deps_available:
  assumes "register_deps c i deps creds s = (Inr r, s')" and "dep \<in> set deps"
  shows "(dep = ''tentacular-postgres'' \<longrightarrow> PostgresAvailable c) \<and> (dep = ''tentacular-nats'' \<longrightarrow> NATSAvailable c) \<and>
    (dep = ''tentacular-rustfs'' \<longrightarrow> RustFSAvailable c)"
  using assms
proof (induction deps arbitrary: creds s)
  case (Cons d deps)
  have reg: "reg \<noteq> None" if "register_dep d' svc i reg s1 = (Inr cr, s2)" for d' svc reg s1 cr s2
    using that by (auto simp: register_dep_def split: option.splits)
  from Cons.prems(1) obtain creds2 s2 where rest: "register_deps c i deps creds2 s2 = (Inr r, s')"
    by (auto split: if_splits elim!: bindC_InrE)
  have pg: "c_pg c \<noteq> None" if "d = ''tentacular-postgres''"
    using Cons.prems(1) unfolding that register_deps.simps if_P [OF refl] by (rule bindC_InrE) (rule reg)
  have nats: "c_nats c \<noteq> None" if "d = ''tentacular-nats''"
    using Cons.prems(1) unfolding that by (simp del: not_None_eq) (erule bindC_InrE, rule reg)
  have rustfs: "c_rustfs c \<noteq> None" if "d = ''tentacular-rustfs''"
    using Cons.prems(1) unfolding that by (simp del: not_None_eq) (erule bindC_InrE, rule reg)
  from pg nats rustfs Cons.IH [OF rest] Cons.prems(2) show ?case
    by (auto simp: PostgresAvailable_def NATSAvailable_def RustFSAvailable_def)
qed simp

definition available_services :: "('s, 'e) Controller \<Rightarrow> string set" where
  "available_services c =
     {svc. (svc = ''postgres'' \<and> PostgresAvailable c) \<or> (svc = ''nats'' \<and> NATSAvailable c) \<or>
           (svc = ''rustfs'' \<and> RustFSAvailable c)}"

text \<open>Manifests that are processed successfully by an enabled exoskeleton have every backing
  service their contract asks for; a disabled exoskeleton returns the manifests unchanged and
  touches nothing.\<close>

theorem ProcessManifests_services:
  fixes c :: "('s, 'e) Controller"
  assumes "ProcessManifests u y urlParse resolveHost c namespace name manifests s = (Inr ms, s')"
  shows "if Cfg_Enabled (c_cfg c)
    then set (ExoServicesFromDeps (detectExoDeps u y (patchNetworkPolicyOTelEgress u
           (patchDeploymentWorkflowLabel u (patchDeploymentOTelEnv u manifests) name) name))) \<subseteq> available_services c
    else ms = manifests \<and> s' = s"
proof (cases "Cfg_Enabled (c_cfg c)")
  case True
  let ?m = "patchNetworkPolicyOTelEgress u (patchDeploymentWorkflowLabel u (patchDeploymentOTelEnv u manifests) name) name"
  have avail: "(dep = ''tentacular-postgres'' \<longrightarrow> PostgresAvailable c) \<and> (dep = ''tentacular-nats'' \<longrightarrow> NATSAvailable c) \<and>
      (dep = ''tentacular-rustfs'' \<longrightarrow> RustFSAvailable c)" if "dep \<in> set (detectExoDeps u y ?m)" for dep
  proof -
    have "detectExoDeps u y ?m \<noteq> []" using that by auto
    then obtain i creds s1 where "register_deps c i (detectExoDeps u y ?m) [] s = (Inr creds :: 'e process_error + _, s1)"
      using assms True by (auto simp: ProcessManifests_def Let_def split: sum.splits elim!: bindC_InrE)
    then show ?thesis using that by (rule register_deps_available)
  qed
  have "svc \<in> available_services c" if "dep \<in> set (detectExoDeps u y ?m)" "dep_service dep = Some svc" for svc dep
    using avail [OF that(1)] that(2) by (auto simp: dep_service_def available_services_def split: if_splits)
  moreover have "set (ExoServicesFromDeps (detectExoDeps u y ?m)) = {svc. \<exists>d \<in> set (detectExoDeps u y ?m). dep_service d = Some svc}"
    using collect_services_spec [of "[]" "detectExoDeps u y ?m"] by (simp add: ExoServicesFromDeps_def)
  ultimately have "set (ExoServicesFromDeps (detectExoDeps u y ?m)) \<subseteq> available_services c" by blast
  with True show ?thesis by simp
next
  case False
  with assms show ?thesis by (simp add: ProcessManifests_def)
qed

section \<open>In-cluster hosts\<close>

text \<open>The five-label form is recognised by its first four labels, so the last label need not be
  \<^verbatim>\<open>local\<close>.\<close>

lemma isInClusterHost_forms:
  assumes "CHR ''.'' \<notin> set (svc @ ns @ l)"
  shows "isInClusterHost (svc @ ''.'' @ ns @ ''.svc'')" and "isInClusterHost (svc @ ''.'' @ ns @ ''.svc.cluster'')"
    and "isInClusterHost (svc @ ''.'' @ ns @ ''.svc.cluster.'' @ l)"
  using assms by (simp_all add: isInClusterHost_def Split_append_sep Split_single)

section \<open>Sample manifests\<close>

definition flow_deployment :: obj where
  "flow_deployment =
     [(''kind'', JStr ''Deployment''),
      (''metadata'', JObj [(''name'', JStr ''crawler''), (''annotations'', JObj [(''tentacular.io/owner'', JStr ''eve@x'')])]),
      (''spec'', JObj [(''template'', JObj [(''spec'', JObj [(''containers'',
         JArr [JObj [(''args'', JArr [JStr ''--allow-env=HOME'', JStr ''--allow-net=none''])]])])])])]"

definition flow_netpol :: obj where
  "flow_netpol = [(''kind'', JStr ''NetworkPolicy''), (''metadata'', JObj [(''name'', JStr ''crawler-netpol'')])]"

definition flow_params :: AnnotateDeployerParams where
  "flow_params =
     \<lparr>AD_ExistingAnnotations = [AnnotationOwner \<mapsto> ''ann@x'', AnnotationMode \<mapsto> ''rwxr-x---''], AD_Mode = ''rwxrwxrwx'',
      AD_Deployer = sample_deployer\<lparr>Email := ''eve@x''\<rparr>, AD_IsUpdate = True\<rparr>"

definition flow_creds :: cred_map where
  "flow_creds =
     [(''tentacular-postgres'', PgCreds \<lparr>PC_Host = ''pg.data.svc'', PC_Port = ''5432'', PC_Database = ''d'', PC_User = ''u'',
         PC_Password = ''p'', PC_Schema = ''s'', PC_Protocol = ''postgresql''\<rparr>)]"

definition no_yaml :: yaml_lib where
  "no_yaml = \<lparr>y_unmarshal = (\<lambda>_. None), y_marshal = (\<lambda>_. None), y_contract_deps = (\<lambda>_. None)\<rparr>"

theorem patchAllowEnv_otel_idempotent_witness:
  "patchAllowEnvInSlice (the (patchAllowEnvInSlice [(''args'', JArr [JStr ''--allow-env=HOME''])] ''args'' otelVars))
     ''args'' otelVars = None"
proof (rule patchAllowEnv_otel_idempotent)
  show "patchAllowEnvInSlice [(''args'', JArr [JStr ''--allow-env=HOME''])] ''args'' otelVars =
      Some (the (patchAllowEnvInSlice [(''args'', JArr [JStr ''--allow-env=HOME''])] ''args'' otelVars))"
    by code_simp
qed


text \<open>In the sample, a group member with write access who sends manifests that name another owner and a
  wider mode changes neither.\<close>

lemma flow_params_not_owner:
  "let ann = mget (map_of (u_annotations std_uns (AnnotateDeployer std_uns ''t1'' [flow_deployment] flow_params ! 0))) in
   ann AnnotationOwner = ''ann@x'' \<and> ann AnnotationMode = ''rwxr-x---'' \<and> ann ''tentacular.io/updated-by-email'' = ''eve@x''"
  by code_simp

theorem patchNetworkPolicyExoEgress_closed_witness:
  "\<exists>added. list_all closed_rule added \<and>
    found_or [] (u_slice std_uns (patchNetworkPolicyExoEgress std_uns (\<lambda>_. None) (\<lambda>_. None)
        [flow_netpol] flow_creds ''crawler'' ! 0) egressPath) =
      found_or [] (u_slice std_uns ([flow_netpol] ! 0) egressPath) @ added"
  by (rule patchNetworkPolicyExoEgress_closed [OF std_uns_laws]) simp

definition flow_processed :: "(string process_error + obj list) \<times> nat" where
  "flow_processed =
     ProcessManifests std_uns no_yaml (\<lambda>_. None) (\<lambda>_. None) sample_controller ''lab'' ''crawler'' [flow_deployment, flow_netpol] 0"

lemma flow_processed_ok: "fst flow_processed = Inr (projr (fst flow_processed))"
  by code_simp

theorem ProcessManifests_services_witness:
  "if Cfg_Enabled (c_cfg sample_controller)
    then set (ExoServicesFromDeps (detectExoDeps std_uns no_yaml (patchNetworkPolicyOTelEgress std_uns
           (patchDeploymentWorkflowLabel std_uns (patchDeploymentOTelEnv std_uns [flow_deployment, flow_netpol]) ''crawler'') ''crawler''))) \<subseteq>
         available_services sample_controller
    else projr (fst flow_processed) = [flow_deployment, flow_netpol] \<and> snd flow_processed = 0"
proof (rule ProcessManifests_services)
  show "ProcessManifests std_uns no_yaml (\<lambda>_. None) (\<lambda>_. None) sample_controller ''lab'' ''crawler'' [flow_deployment, flow_netpol] 0 =
      (Inr (projr (fst flow_processed)), snd flow_processed)"
    using flow_processed_ok unfolding flow_processed_def by (metis prod.collapse)
qed

end
