(* ===== verification/Core_Api.thy ===== *)
theory Core_Api
  imports Manifest
begin

text \<open>
  The typed Kubernetes objects that the read-only tools report on, and the part of the typed client
  through which they are read: pods and their logs, events, jobs, deployments with their status.
  As in \<open>Kube_Api\<close> the client is a record of calls over an unknown world. An optional pointer is an
  \<open>option\<close>, a 32-bit counter that is summed is a \<open>32 word\<close>, and a time is a number of nanoseconds.
  The end of the theory has the two functions of Go's \<^verbatim>\<open>time\<close> package that appear in results.
\<close>

record Pod =
  P_Name :: string
  P_Phase :: string
  P_NodeName :: string
  P_Conditions :: "(string \<times> string) list"
  P_RestartCounts :: "32 word list"
  P_Containers :: "(string \<times> string) list"
  P_Created :: int

record Event =
  Ev_Type :: string
  Ev_Reason :: string
  Ev_Message :: string
  Ev_ObjectKind :: string
  Ev_ObjectName :: string
  Ev_Count :: "32 word"
  Ev_Last :: "int option"

record Job =
  J_Name :: string
  J_Conditions :: "(string \<times> string) list"
  J_Active :: int
  J_Start :: "int option"
  J_Completion :: "int option"

record CronJob =
  CJ_Name :: string
  CJ_Schedule :: string
  CJ_Suspend :: "bool option"
  CJ_Active :: nat
  CJ_LastSchedule :: "int option"

record DeploymentView =
  DV_Name :: string
  DV_Namespace :: string
  DV_Labels :: strmap
  DV_Annotations :: strmap
  DV_Images :: "string list"
  DV_Replicas :: "int option"
  DV_ReadyReplicas :: int
  DV_AvailableReplicas :: int
  DV_Created :: int

record 's core =
  pod_list :: "string \<Rightarrow> string \<Rightarrow> ('s, Pod list) kread"
  pod_get :: "string \<Rightarrow> string \<Rightarrow> ('s, Pod) kread"
  pod_logs :: "string \<Rightarrow> string \<Rightarrow> string \<Rightarrow> int \<Rightarrow> 's \<Rightarrow> api_err + (string + string)"
  event_list :: "string \<Rightarrow> string \<Rightarrow> int option \<Rightarrow> ('s, Event list) kread"
  job_list :: "string \<Rightarrow> ('s, Job list) kread"
  cronjob_list :: "string \<Rightarrow> ('s, CronJob list) kread"
  deploy_get :: "string \<Rightarrow> string \<Rightarrow> ('s, DeploymentView) kread"
  deploy_list :: "string \<Rightarrow> string \<Rightarrow> ('s, DeploymentView list) kread"
  deploy_patch :: "string \<Rightarrow> string \<Rightarrow> obj \<Rightarrow> ('s, unit) kwrite"

text \<open>The typed and the plain view of a deployment agree on what the authorization checks read.\<close>

definition views_agree :: "'s kube \<Rightarrow> 's core \<Rightarrow> bool" where
  "views_agree client core \<longleftrightarrow>
     (\<forall>ns n s. map_sum id D_Annotations (dep_get client ns n s) = map_sum id DV_Annotations (deploy_get core ns n s))"

section \<open>Durations\<close>

definition show_int :: "int \<Rightarrow> string" where
  "show_int i = (if i < 0 then CHR ''-'' # show_nat (nat (- i)) else show_nat (nat i))"

text \<open>\<^verbatim>\<open>d.Round(time.Second)\<close> rounds half away from zero; \<^verbatim>\<open>String\<close> of a whole number of seconds.\<close>

definition second :: int where "second = 1000000000"

definition round_second :: "int \<Rightarrow> int" where
  "round_second d =
     (let a = \<bar>d\<bar>; r = a mod second; b = (if 2 * r < second then a - r else a + second - r)
      in if d < 0 then - b else b)"

definition duration_string :: "int \<Rightarrow> string" where
  "duration_string d =
     (let t = nat (\<bar>d\<bar> div second); h = t div 3600; m = t mod 3600 div 60; sec = t mod 60
      in (if d < 0 then ''-'' else []) @
         (if 0 < h then show_nat h @ ''h'' else []) @
         (if 0 < h \<or> 0 < m then show_nat m @ ''m'' else []) @ show_nat sec @ ''s'')"

definition age_string :: "int \<Rightarrow> int \<Rightarrow> string" where
  "age_string now created = duration_string (round_second (now - created))"

lemma round_second_close: "second dvd round_second d \<and> 2 * \<bar>round_second d - d\<bar> \<le> second"
proof -
  let ?a = "\<bar>d\<bar>"
  let ?b = "if 2 * (?a mod second) < second then ?a - ?a mod second else ?a + second - ?a mod second"
  have pos: "0 < second" by (simp add: second_def)
  have dvd: "second dvd ?a - ?a mod second" by (simp add: minus_mod_eq_mult_div)
  then have "second dvd (?a - ?a mod second) + second" by (rule dvd_add) simp
  then have "second dvd ?a + second - ?a mod second" by (simp add: algebra_simps)
  with dvd have "second dvd ?b" by simp
  moreover have "2 * \<bar>?b - ?a\<bar> \<le> second"
    using pos_mod_bound [OF pos, of ?a] pos_mod_sign [OF pos, of ?a] by auto
  ultimately have b: "second dvd ?b" "2 * \<bar>?b - ?a\<bar> \<le> second" by blast+
  have r: "round_second d = (if d < 0 then - ?b else ?b)" by (simp add: round_second_def Let_def)
  obtain b where b': "b = ?b" by blast
  show ?thesis
    using b abs_minus_cancel [of "b + d"] unfolding r b' [symmetric] by (cases "d < 0") simp_all
qed

end
