(* ===== verification/Dynamic.thy ===== *)
theory Dynamic
  imports Manifest Mem_Kube
begin

text \<open>
  The dynamic Kubernetes client and API discovery, as \<^verbatim>\<open>pkg/tools/deploy.go\<close> uses them to apply,
  collect and remove the objects of a workflow. Both belong to \<^verbatim>\<open>client-go\<close>, so they are the
  fields of the record \<open>'s dyn\<close> over the world of the client. The locale \<open>object_store\<close> states what
  the API server documents of the calls, in terms of the table of live objects (those not
  marked for deletion); \<open>mem_dyn\<close> is an in-memory instance.
\<close>

record gvr =
  GVR_Group :: string
  GVR_Version :: string
  GVR_Resource :: string

record APIResource =
  AR_Name :: string
  AR_Kind :: string

record APIResourceList =
  RL_GroupVersion :: string
  RL_APIResources :: "APIResource list"

text \<open>\<open>dyn_resources\<close> is \<^verbatim>\<open>ServerGroupsAndResources\<close>, which may return lists and an error at once; a nil
  slice is \<open>None\<close>. \<open>dyn_parse_gv\<close> is \<^verbatim>\<open>schema.ParseGroupVersion\<close>.\<close>

record 's dyn =
  dyn_get :: "gvr \<Rightarrow> string \<Rightarrow> string \<Rightarrow> ('s, obj) kread"
  dyn_create :: "gvr \<Rightarrow> string \<Rightarrow> obj \<Rightarrow> ('s, obj) kwrite"
  dyn_update :: "gvr \<Rightarrow> string \<Rightarrow> obj \<Rightarrow> ('s, obj) kwrite"
  dyn_delete :: "gvr \<Rightarrow> string \<Rightarrow> string \<Rightarrow> ('s, unit) kwrite"
  dyn_list :: "gvr \<Rightarrow> string \<Rightarrow> string \<Rightarrow> ('s, obj list) kread"
  dyn_resources :: "'s \<Rightarrow> APIResourceList list option \<times> string option"
  dyn_parse_gv :: "string \<Rightarrow> string + string \<times> string"

datatype gvr_error =
    DiscoveryFailed string
  | BadGroupVersion string string
  | NoResource string string

fun find_kind :: "APIResource list \<Rightarrow> string \<Rightarrow> APIResource option" where
  "find_kind [] kind = None"
| "find_kind (r # rs) kind = (if AR_Kind r = kind then Some r else find_kind rs kind)"

fun find_resource ::
  "(string \<Rightarrow> string + string \<times> string) \<Rightarrow> APIResourceList list \<Rightarrow> string \<Rightarrow> string \<Rightarrow> gvr_error + gvr" where
  "find_resource parse [] apiVersion kind = Inl (NoResource apiVersion kind)"
| "find_resource parse (rl # rls) apiVersion kind =
     (if RL_GroupVersion rl \<noteq> apiVersion then find_resource parse rls apiVersion kind
      else case find_kind (RL_APIResources rl) kind of
        None \<Rightarrow> find_resource parse rls apiVersion kind
      | Some r \<Rightarrow>
          (case parse apiVersion of
             Inl err \<Rightarrow> Inl (BadGroupVersion apiVersion err)
           | Inr (g, v) \<Rightarrow> Inr \<lparr>GVR_Group = g, GVR_Version = v, GVR_Resource = AR_Name r\<rparr>))"

definition resolveGVR :: "'s dyn \<Rightarrow> string \<Rightarrow> string \<Rightarrow> 's \<Rightarrow> gvr_error + gvr" where
  "resolveGVR dyn apiVersion kind s =
     (case dyn_resources dyn s of
        (None, Some err) \<Rightarrow> Inl (DiscoveryFailed err)
      | (resourceLists, _) \<Rightarrow>
          find_resource (dyn_parse_gv dyn) (case resourceLists of None \<Rightarrow> [] | Some rls \<Rightarrow> rls) apiVersion kind)"

definition resourceKey :: "gvr \<Rightarrow> string \<Rightarrow> string" where
  "resourceKey g name = GVR_Group g @ ''/'' @ GVR_Resource g @ ''/'' @ name"

definition knownGVRs :: "gvr list" where
  "knownGVRs =
     [\<lparr>GVR_Group = ''apps'', GVR_Version = ''v1'', GVR_Resource = ''deployments''\<rparr>,
      \<lparr>GVR_Group = [], GVR_Version = ''v1'', GVR_Resource = ''services''\<rparr>,
      \<lparr>GVR_Group = [], GVR_Version = ''v1'', GVR_Resource = ''configmaps''\<rparr>,
      \<lparr>GVR_Group = [], GVR_Version = ''v1'', GVR_Resource = ''secrets''\<rparr>,
      \<lparr>GVR_Group = ''batch'', GVR_Version = ''v1'', GVR_Resource = ''jobs''\<rparr>,
      \<lparr>GVR_Group = ''batch'', GVR_Version = ''v1'', GVR_Resource = ''cronjobs''\<rparr>,
      \<lparr>GVR_Group = ''networking.k8s.io'', GVR_Version = ''v1'', GVR_Resource = ''networkpolicies''\<rparr>,
      \<lparr>GVR_Group = ''networking.k8s.io'', GVR_Version = ''v1'', GVR_Resource = ''ingresses''\<rparr>,
      \<lparr>GVR_Group = [], GVR_Version = ''v1'', GVR_Resource = ''persistentvolumeclaims''\<rparr>]"

section \<open>The object store behind the client\<close>

type_synonym okey = "gvr \<times> string \<times> string"

definition label_of :: "obj \<Rightarrow> string \<Rightarrow> string option" where
  "label_of m k =
     map_of (found_or [] (typed as_strmap (walk (JObj m) [''metadata'', ''labels'']))) k"

definition releaseLabelKey :: string where "releaseLabelKey = ''tentacular.io/release''"

definition labelSelector :: "string \<Rightarrow> string" where
  "labelSelector name = releaseLabelKey @ ''='' @ name"

lemma labelSelector_eq [simp]: "labelSelector a = labelSelector b \<longleftrightarrow> a = b"
  by (simp add: labelSelector_def)

definition name_of :: "obj \<Rightarrow> string" where
  "name_of m = string_at m [''metadata'', ''name'']"

definition same_meta :: "obj \<Rightarrow> obj \<Rightarrow> bool" where
  "same_meta a b \<longleftrightarrow>
     (\<forall>f \<in> {''labels'', ''annotations''}.
        typed as_strmap (walk (JObj a) [''metadata'', f]) = typed as_strmap (walk (JObj b) [''metadata'', f]))"

lemma same_meta_refl [simp]: "same_meta a a"
  by (simp add: same_meta_def)

text \<open>The laws: a create or update that succeeds makes an object with the labels and annotations that
  were sent live under its name and, whether it succeeds or not, touches nothing else; a deletion
  that succeeds makes the object no longer live, one that fails does not change it into another,
  and neither touches anything else; a listing by release label returns every live object of the
  release in the namespace, and of the live objects only those.\<close>

definition object_laws :: "'s dyn \<Rightarrow> ('s \<Rightarrow> okey \<Rightarrow> obj option) \<Rightarrow> bool" where
  "object_laws dyn live \<longleftrightarrow>
     (\<forall>g ns ob s r s'. dyn_create dyn g ns ob s = (r, s') \<or> dyn_update dyn g ns ob s = (r, s') \<longrightarrow>
        (\<forall>k. k \<noteq> (g, ns, name_of ob) \<longrightarrow> live s' k = live s k) \<and>
        (\<not> isl r \<longrightarrow> (\<exists>ob'. live s' (g, ns, name_of ob) = Some ob' \<and> same_meta ob' ob))) \<and>
     (\<forall>g ns n s r s'. dyn_delete dyn g ns n s = (r, s') \<longrightarrow>
        (\<forall>k. k \<noteq> (g, ns, n) \<longrightarrow> live s' k = live s k) \<and>
        (live s' (g, ns, n) = None \<or> live s' (g, ns, n) = live s (g, ns, n)) \<and>
        (\<not> isl r \<longrightarrow> live s' (g, ns, n) = None)) \<and>
     (\<forall>g ns v s items. dyn_list dyn g ns (labelSelector v) s = Inr items \<longrightarrow>
        (\<forall>n ob. live s (g, ns, n) = Some ob \<longrightarrow>
           (n \<in> name_of ` set items \<longleftrightarrow> label_of ob releaseLabelKey = Some v)))"

text \<open>A client on which no listing and no deletion fails.\<close>

definition reliable :: "'s dyn \<Rightarrow> bool" where
  "reliable dyn \<longleftrightarrow>
     (\<forall>g ns sel s. \<exists>items. dyn_list dyn g ns sel s = Inr items) \<and>
     (\<forall>g ns sel s items ob s1. dyn_list dyn g ns sel s = Inr items \<longrightarrow> ob \<in> set items \<longrightarrow>
        (\<exists>s2. dyn_delete dyn g ns (name_of ob) s1 = (Inr (), s2)))"

section \<open>An in-memory client\<close>

record world =
  w_ns :: "(string \<times> Namespace) list"
  w_objs :: "(okey \<times> obj) list"

definition mem_resources :: "APIResourceList list" where
  "mem_resources =
     [\<lparr>RL_GroupVersion = ''v1'', RL_APIResources =
        [\<lparr>AR_Name = ''services'', AR_Kind = ''Service''\<rparr>, \<lparr>AR_Name = ''configmaps'', AR_Kind = ''ConfigMap''\<rparr>,
         \<lparr>AR_Name = ''secrets'', AR_Kind = ''Secret''\<rparr>, \<lparr>AR_Name = ''namespaces'', AR_Kind = ''Namespace''\<rparr>]\<rparr>,
      \<lparr>RL_GroupVersion = ''apps/v1'', RL_APIResources = [\<lparr>AR_Name = ''deployments'', AR_Kind = ''Deployment''\<rparr>]\<rparr>]"

definition mem_live :: "world \<Rightarrow> okey \<Rightarrow> obj option" where
  "mem_live w k =
     (case map_of (w_objs w) k of
        None \<Rightarrow> None
      | Some ob \<Rightarrow> if name_of ob = snd (snd k) then Some ob else None)"

definition mem_items :: "world \<Rightarrow> gvr \<Rightarrow> string \<Rightarrow> string \<Rightarrow> obj list" where
  "mem_items w g ns sel =
     filter (\<lambda>ob. mem_live w (g, ns, name_of ob) = Some ob \<and>
        map_option labelSelector (label_of ob releaseLabelKey) = Some sel) (map snd (w_objs w))"

definition mem_dyn :: "world dyn" where
  "mem_dyn =
     \<lparr>dyn_get = (\<lambda>g ns n w. fetch (w_objs w) (g, ns, n)),
      dyn_create = (\<lambda>g ns ob. mem_put w_objs (\<lambda>x w. w\<lparr>w_objs := x\<rparr>) True (g, ns, name_of ob) ob),
      dyn_update = (\<lambda>g ns ob. mem_put w_objs (\<lambda>x w. w\<lparr>w_objs := x\<rparr>) False (g, ns, name_of ob) ob),
      dyn_delete = (\<lambda>g ns n w. (Inr (), w\<lparr>w_objs := AList.delete (g, ns, n) (w_objs w)\<rparr>)),
      dyn_list = (\<lambda>g ns sel w. Inr (mem_items w g ns sel)),
      dyn_resources = (\<lambda>w. (Some mem_resources, None)),
      dyn_parse_gv = (\<lambda>gv. if gv = ''v1'' then Inr ([], gv) else if gv = ''apps/v1'' then Inr (''apps'', ''v1'') else Inl gv)\<rparr>"

lemma mem_items_set:
  "ob \<in> set (mem_items w g ns (labelSelector v)) \<longleftrightarrow>
     mem_live w (g, ns, name_of ob) = Some ob \<and> label_of ob releaseLabelKey = Some v"
  by (force simp: mem_items_def mem_live_def split: option.splits dest: map_of_SomeD)

lemma mem_live_name: "mem_live w (g, ns, n) = Some ob \<Longrightarrow> n = name_of ob"
  by (auto simp: mem_live_def split: option.splits if_splits)

lemma mem_items_names:
  assumes "mem_live w (g, ns, n) = Some ob"
  shows "n \<in> name_of ` set (mem_items w g ns (labelSelector v)) \<longleftrightarrow> label_of ob releaseLabelKey = Some v"
proof -
  have n: "n = name_of ob" using assms by (rule mem_live_name)
  show ?thesis
  proof
    assume "n \<in> name_of ` set (mem_items w g ns (labelSelector v))"
    then obtain ob' where ob': "name_of ob' = n" "mem_live w (g, ns, name_of ob') = Some ob'"
      "label_of ob' releaseLabelKey = Some v" by (auto simp: mem_items_set)
    then show "label_of ob releaseLabelKey = Some v" using assms by simp
  qed (use assms n in \<open>auto simp: mem_items_set\<close>)
qed

lemma mem_put_stored:
  assumes "mem_put w_objs (\<lambda>x w. w\<lparr>w_objs := x\<rparr>) fresh (g, ns, name_of ob) ob s = (r, s')"
  shows "(\<forall>k. k \<noteq> (g, ns, name_of ob) \<longrightarrow> mem_live s' k = mem_live s k) \<and>
    (\<not> isl r \<longrightarrow> (\<exists>ob'. mem_live s' (g, ns, name_of ob) = Some ob' \<and> same_meta ob' ob))"
proof -
  consider "isl r" "s' = s" | "s' = s\<lparr>w_objs := AList.update (g, ns, name_of ob) ob (w_objs s)\<rparr>"
    using assms unfolding mem_put_def by (cases "map_of (w_objs s) (g, ns, name_of ob)"; cases fresh) fastforce+
  then show ?thesis
    by cases (simp_all add: mem_live_def update_conv')
qed

lemma mem_object_laws: "object_laws mem_dyn mem_live"
  unfolding object_laws_def
proof (intro conjI)
  show "\<forall>g ns ob s r s'. dyn_create mem_dyn g ns ob s = (r, s') \<or> dyn_update mem_dyn g ns ob s = (r, s') \<longrightarrow>
        (\<forall>k. k \<noteq> (g, ns, name_of ob) \<longrightarrow> mem_live s' k = mem_live s k) \<and>
        (\<not> isl r \<longrightarrow> (\<exists>ob'. mem_live s' (g, ns, name_of ob) = Some ob' \<and> same_meta ob' ob))"
    by (simp only: mem_dyn_def dyn.simps) (blast dest: mem_put_stored)
  show "\<forall>g ns n s r s'. dyn_delete mem_dyn g ns n s = (r, s') \<longrightarrow>
        (\<forall>k. k \<noteq> (g, ns, n) \<longrightarrow> mem_live s' k = mem_live s k) \<and>
        (mem_live s' (g, ns, n) = None \<or> mem_live s' (g, ns, n) = mem_live s (g, ns, n)) \<and>
        (\<not> isl r \<longrightarrow> mem_live s' (g, ns, n) = None)"
    by (simp add: mem_dyn_def mem_live_def delete_conv')
  show "\<forall>g ns v s items. dyn_list mem_dyn g ns (labelSelector v) s = Inr items \<longrightarrow>
        (\<forall>n ob. mem_live s (g, ns, n) = Some ob \<longrightarrow>
           (n \<in> name_of ` set items \<longleftrightarrow> label_of ob releaseLabelKey = Some v))"
    using mem_items_names by (simp add: mem_dyn_def)
qed

lemma mem_reliable: "reliable mem_dyn"
  by (simp add: reliable_def mem_dyn_def)

text \<open>The typed client over the same objects, as far as the deployment tools read it.\<close>

definition meta_strs :: "obj \<Rightarrow> string \<Rightarrow> strmap" where
  "meta_strs ob f = map_of (found_or [] (typed as_strmap (walk (JObj ob) [''metadata'', f])))"

definition typed_deployment :: "obj \<Rightarrow> Deployment" where
  "typed_deployment ob =
     \<lparr>D_Name = name_of ob, D_Namespace = string_at ob [''metadata'', ''namespace''], D_Labels = meta_strs ob ''labels'',
      D_Annotations = meta_strs ob ''annotations'', D_ResourceVersion = 0\<rparr>"

definition unsupported :: "'a \<Rightarrow> ('s, api_err, 'b) comp" where
  "unsupported a = failC (OtherErr ''unsupported'')"

definition world_kube :: "world kube" where
  "world_kube =
     \<lparr>ns_get = (\<lambda>n w. fetch (w_ns w) n),
      ns_list = (\<lambda>sel w. Inr (filter (\<lambda>ns. has_label sel (N_Labels ns)) (map snd (w_ns w)))),
      ns_create = unsupported, ns_update = unsupported, ns_delete = unsupported,
      dep_get = (\<lambda>ns n w. map_sum id typed_deployment (fetch (w_objs w) (hd knownGVRs, ns, n))),
      dep_list = (\<lambda>ns sel w. Inr (map typed_deployment (map snd (filter (\<lambda>((g, ns', n), ob). g = hd knownGVRs \<and> ns' = ns) (w_objs w))))),
      dep_update = (\<lambda>ns. unsupported), dep_delete = (\<lambda>ns. unsupported), netpol_create = (\<lambda>ns. unsupported),
      quota_get = (\<lambda>ns n w. Inl NotFound), quota_create = (\<lambda>ns. unsupported), quota_update = (\<lambda>ns. unsupported),
      limits_create = (\<lambda>ns. unsupported), sa_create = (\<lambda>ns. unsupported), sa_delete = (\<lambda>ns. unsupported),
      role_create = (\<lambda>ns. unsupported), rolebinding_create = (\<lambda>ns. unsupported),
      cm_get = (\<lambda>ns n w. Inl NotFound), cm_create = (\<lambda>ns. unsupported), cm_update = (\<lambda>ns. unsupported)\<rparr>"

end
