(* ===== verification/Deploy.thy ===== *)
theory Deploy
  imports Dynamic Psa Enrich
begin

text \<open>
  Applying and removing the objects of a workflow: the handlers \<^verbatim>\<open>handleWorkflowApply\<close> and
  \<^verbatim>\<open>handleWorkflowRemove\<close> of \<^verbatim>\<open>pkg/tools/deploy.go\<close> and the helpers of the \<^verbatim>\<open>wf_apply\<close> tool. The tools
  that call them, with their authorization, are in \<open>Deploy_Tools\<close>.

  The packages the tools call outside this repository are bundled in the record \<open>libs\<close>:
  unstructured objects, YAML, JSON decoding into typed slices, URL parsing and name resolution.
\<close>

record libs =
  L_uns :: uns
  L_yaml :: yaml_lib
  L_urlParse :: "string \<Rightarrow> url option"
  L_resolveHost :: "string \<Rightarrow> string list option"
  L_names :: "string \<Rightarrow> string + string list"
  L_nodes :: "string \<Rightarrow> (string \<times> string) list option"
  L_modules :: "string \<Rightarrow> (string \<times> string \<times> string) list option"

definition allowedKinds :: "string list" where
  "allowedKinds = [''Deployment'', ''Service'', ''PersistentVolumeClaim'', ''NetworkPolicy'', ''ConfigMap'', ''Secret'',
     ''Job'', ''CronJob'', ''Ingress'']"

record WorkflowApplyParams =
  WA_Namespace :: string
  WA_Name :: string
  WA_Mode :: string
  WA_Manifests :: "obj list"

record WorkflowApplyResult =
  WR_Name :: string
  WR_Namespace :: string
  WR_Created :: nat
  WR_Updated :: nat
  WR_Deleted :: nat

record WorkflowRemoveParams =
  RM_Namespace :: string
  RM_Name :: string

record WorkflowRemoveResult =
  RR_Name :: string
  RR_Namespace :: string
  RR_ExoCleanupDetails :: string
  RR_Deleted :: nat
  RR_ExoCleanedUp :: bool

datatype deploy_error =
    DE_K8s k8s_error
  | DE_PSALevel api_err
  | DE_PSA PSAValidationError
  | DE_NoKind
  | DE_Kind string
  | DE_Resolve string string gvr_error
  | DE_NoName string
  | DE_Create string string api_err
  | DE_Get string string api_err
  | DE_Update string string api_err

section \<open>Apply\<close>

text \<open>The edits of a manifest before it is sent: target namespace and release label.\<close>

definition stamp_manifest :: "uns \<Rightarrow> string \<Rightarrow> string \<Rightarrow> obj \<Rightarrow> obj" where
  "stamp_manifest u namespace release m =
     (let m1 = u_set_namespace u m namespace
      in u_set_labels u m1 (AList.update releaseLabelKey release (u_labels u m1)))"

definition send_manifest ::
  "uns \<Rightarrow> 's dyn \<Rightarrow> gvr \<Rightarrow> string \<Rightarrow> string \<Rightarrow> obj \<Rightarrow> ('s, deploy_error, bool) comp" where
  "send_manifest u dyn g namespace kind ob s =
     (let name = u_name u ob in
      case dyn_get dyn g namespace name s of
        Inl NotFound \<Rightarrow>
          bindC (mapErrC (DE_Create kind name) (dyn_create dyn g namespace ob)) (\<lambda>_. retC True) s
      | Inl e \<Rightarrow> (Inl (DE_Get kind name e), s)
      | Inr existing \<Rightarrow>
          bindC (mapErrC (DE_Update kind name)
             (dyn_update dyn g namespace (u_set_resource_version u ob (u_resource_version u existing)))) (\<lambda>_. retC False) s)"

text \<open>One round of the apply loop returns the key of the object and whether it was created.\<close>

definition apply_manifest ::
  "uns \<Rightarrow> 's dyn \<Rightarrow> string \<Rightarrow> string \<Rightarrow> obj \<Rightarrow> ('s, deploy_error, string \<times> bool) comp" where
  "apply_manifest u dyn namespace release m s =
     (let apiVersion = u_api_version u m; kind = u_kind u m in
      if apiVersion = [] \<or> kind = [] then (Inl DE_NoKind, s)
      else if kind \<notin> set allowedKinds then (Inl (DE_Kind kind), s)
      else case resolveGVR dyn apiVersion kind s of
        Inl e \<Rightarrow> (Inl (DE_Resolve apiVersion kind e), s)
      | Inr g \<Rightarrow>
          let ob = stamp_manifest u namespace release m in
          if u_name u ob = [] then (Inl (DE_NoName kind), s)
          else bindC (send_manifest u dyn g namespace kind ob) (\<lambda>new. retC (resourceKey g (u_name u ob), new)) s)"

fun apply_manifests ::
  "uns \<Rightarrow> 's dyn \<Rightarrow> string \<Rightarrow> string \<Rightarrow> obj list \<Rightarrow> string list \<times> nat \<times> nat \<Rightarrow>
     ('s, deploy_error, string list \<times> nat \<times> nat) comp" where
  "apply_manifests u dyn namespace release [] acc = retC acc"
| "apply_manifests u dyn namespace release (m # ms) (keys, created, updated) =
     bindC (apply_manifest u dyn namespace release m) (\<lambda>(key, new).
       apply_manifests u dyn namespace release ms
         (key # keys, if new then Suc created else created, if new then updated else Suc updated))"

text \<open>Garbage collection is best effort: a listing or a deletion that fails is skipped.\<close>

fun collect_items :: "uns \<Rightarrow> 's dyn \<Rightarrow> gvr \<Rightarrow> string \<Rightarrow> string list \<Rightarrow> obj list \<Rightarrow> nat \<times> 's \<Rightarrow> nat \<times> 's" where
  "collect_items u dyn g namespace keys [] (deleted, s) = (deleted, s)"
| "collect_items u dyn g namespace keys (item # items) (deleted, s) =
     (if resourceKey g (u_name u item) \<in> set keys then collect_items u dyn g namespace keys items (deleted, s)
      else case dyn_delete dyn g namespace (u_name u item) s of
        (Inl e, s') \<Rightarrow> collect_items u dyn g namespace keys items (deleted, s')
      | (Inr _, s') \<Rightarrow> collect_items u dyn g namespace keys items (Suc deleted, s'))"

fun collect_garbage ::
  "uns \<Rightarrow> 's dyn \<Rightarrow> string \<Rightarrow> string \<Rightarrow> string list \<Rightarrow> gvr list \<Rightarrow> nat \<times> 's \<Rightarrow> nat \<times> 's" where
  "collect_garbage u dyn namespace release keys [] st = st"
| "collect_garbage u dyn namespace release keys (g # gs) (deleted, s) =
     (case dyn_list dyn g namespace (labelSelector release) s of
        Inl e \<Rightarrow> collect_garbage u dyn namespace release keys gs (deleted, s)
      | Inr items \<Rightarrow>
          collect_garbage u dyn namespace release keys gs (collect_items u dyn g namespace keys items (deleted, s)))"

definition handleWorkflowApply ::
  "uns \<Rightarrow> 's kube \<Rightarrow> 's dyn \<Rightarrow> WorkflowApplyParams \<Rightarrow> ('s, deploy_error, WorkflowApplyResult) comp" where
  "handleWorkflowApply u client dyn params s =
     (let namespace = WA_Namespace params; release = WA_Name params in
      case CheckManagedNamespace client namespace s of
        Inl e \<Rightarrow> (Inl (DE_K8s e), s)
      | Inr _ \<Rightarrow>
          let manifests = ensurePSACompliance u (WA_Manifests params) in
          (case NamespacePSALevel client namespace s of
             Inl e \<Rightarrow> (Inl (DE_PSALevel e), s)
           | Inr psaLevel \<Rightarrow>
               (case ValidatePSA u namespace psaLevel manifests of
                  Inl e \<Rightarrow> (Inl (DE_PSA e), s)
                | Inr _ \<Rightarrow>
                    (case apply_manifests u dyn namespace release manifests ([], 0, 0) s of
                       (Inl e, s1) \<Rightarrow> (Inl e, s1)
                     | (Inr (keys, created, updated), s1) \<Rightarrow>
                         (case collect_garbage u dyn namespace release keys knownGVRs (0, s1) of (deleted, s2) \<Rightarrow>
                            (Inr \<lparr>WR_Name = release, WR_Namespace = namespace, WR_Created = created,
                                  WR_Updated = updated, WR_Deleted = deleted\<rparr>, s2))))))"

section \<open>Remove\<close>

fun remove_items :: "uns \<Rightarrow> 's dyn \<Rightarrow> gvr \<Rightarrow> string \<Rightarrow> obj list \<Rightarrow> nat \<times> 's \<Rightarrow> nat \<times> 's" where
  "remove_items u dyn g namespace [] (deleted, s) = (deleted, s)"
| "remove_items u dyn g namespace (item # items) (deleted, s) =
     (case dyn_delete dyn g namespace (u_name u item) s of
        (Inl e, s') \<Rightarrow> remove_items u dyn g namespace items (deleted, s')
      | (Inr _, s') \<Rightarrow> remove_items u dyn g namespace items (Suc deleted, s'))"

fun remove_release :: "uns \<Rightarrow> 's dyn \<Rightarrow> string \<Rightarrow> string \<Rightarrow> gvr list \<Rightarrow> nat \<times> 's \<Rightarrow> nat \<times> 's" where
  "remove_release u dyn namespace release [] st = st"
| "remove_release u dyn namespace release (g # gs) (deleted, s) =
     (case dyn_list dyn g namespace (labelSelector release) s of
        Inl e \<Rightarrow> remove_release u dyn namespace release gs (deleted, s)
      | Inr items \<Rightarrow> remove_release u dyn namespace release gs (remove_items u dyn g namespace items (deleted, s)))"

definition handleWorkflowRemove ::
  "uns \<Rightarrow> 's kube \<Rightarrow> 's dyn \<Rightarrow> WorkflowRemoveParams \<Rightarrow> ('s, deploy_error, WorkflowRemoveResult) comp" where
  "handleWorkflowRemove u client dyn params s =
     (case CheckManagedNamespace client (RM_Namespace params) s of
        Inl e \<Rightarrow> (Inl (DE_K8s e), s)
      | Inr _ \<Rightarrow>
          (case remove_release u dyn (RM_Namespace params) (RM_Name params) knownGVRs (0, s) of (deleted, s') \<Rightarrow>
             (Inr \<lparr>RR_Name = RM_Name params, RR_Namespace = RM_Namespace params, RR_ExoCleanupDetails = [],
                   RR_Deleted = deleted, RR_ExoCleanedUp = False\<rparr>, s')))"

section \<open>Checks and dependencies of a workflow\<close>

datatype node_error = BadNodes string | NodeUndescribed string

text \<open>The nodes listed by the first Deployment; \<open>None\<close> when there is nothing to check.\<close>

fun listed_nodes :: "libs \<Rightarrow> obj list \<Rightarrow> node_error + string list" where
  "listed_nodes L [] = Inr []"
| "listed_nodes L (m # ms) =
     (if u_kind (L_uns L) m \<noteq> ''Deployment'' then listed_nodes L ms
      else case map_of (u_annotations (L_uns L) m) ''tentacular.io/nodes'' of
        None \<Rightarrow> Inr []
      | Some nodesJSON \<Rightarrow>
          if nodesJSON = [] then Inr [] else mapErr BadNodes (L_names L nodesJSON))"

fun described_nodes :: "libs \<Rightarrow> obj list \<Rightarrow> string list" where
  "described_nodes L [] = []"
| "described_nodes L (m # ms) =
     (if u_kind (L_uns L) m \<noteq> ''ConfigMap'' then described_nodes L ms
      else if \<not> HasSuffix (u_name (L_uns L) m) ''-metadata'' then described_nodes L ms
      else case u_string_map (L_uns L) m [''data''] of
        Found data \<Rightarrow>
          (case map_of data ''node_descriptions'' of
             None \<Rightarrow> []
           | Some descJSON \<Rightarrow>
               (case L_nodes L descJSON of
                  None \<Rightarrow> []
                | Some descs \<Rightarrow> map fst (filter (\<lambda>d. snd d \<noteq> []) descs)))
      | _ \<Rightarrow> [])"

fun check_nodes :: "string list \<Rightarrow> string list \<Rightarrow> node_error + unit" where
  "check_nodes described [] = Inr ()"
| "check_nodes described (name # names) =
     (if name \<notin> set described then Inl (NodeUndescribed name) else check_nodes described names)"

definition validateNodeDescriptions :: "libs \<Rightarrow> obj list \<Rightarrow> node_error + unit" where
  "validateNodeDescriptions L manifests =
     (case listed_nodes L manifests of
        Inl e \<Rightarrow> Inl e
      | Inr nodeNames \<Rightarrow>
          if length nodeNames = 0 then Inr () else check_nodes (described_nodes L manifests) nodeNames)"

record ModuleDep =
  MD_Protocol :: string
  MD_Host :: string
  MD_Version :: string

fun module_deps :: "(string \<times> string \<times> string) list \<Rightarrow> string list \<Rightarrow> ModuleDep list" where
  "module_deps [] seen = []"
| "module_deps ((protocol, host, version) # ds) seen =
     (let key = protocol @ '':'' @ host @ ''@'' @ version in
      if protocol \<noteq> ''jsr'' \<and> protocol \<noteq> ''npm'' then module_deps ds seen
      else if key \<in> set seen then module_deps ds seen
      else \<lparr>MD_Protocol = protocol, MD_Host = host, MD_Version = version\<rparr> # module_deps ds (key # seen))"

fun extractModuleDeps :: "libs \<Rightarrow> obj list \<Rightarrow> ModuleDep list" where
  "extractModuleDeps L [] = []"
| "extractModuleDeps L (m # ms) =
     (case workflow_yaml (L_uns L) m of
        None \<Rightarrow> extractModuleDeps L ms
      | Some wfYAML \<Rightarrow>
          (case L_modules L wfYAML of
             None \<Rightarrow> extractModuleDeps L ms
           | Some deps \<Rightarrow> module_deps deps []))"

definition ensureEnclaveServicesIfNeeded ::
  "libs \<Rightarrow> 's kube \<Rightarrow> ('s, 'e) Controller \<Rightarrow> string \<Rightarrow> obj list \<Rightarrow> ('s, api_err + 'e exo_error, unit) comp" where
  "ensureEnclaveServicesIfNeeded L client exoCtrl namespace manifests s =
     (case ns_get client namespace s of
        Inl e \<Rightarrow> (Inl (Inl e), s)
      | Inr ns \<Rightarrow>
          if \<not> IsEnclave (N_Annotations ns) then (Inr (), s)
          else let contractDeps = detectExoDeps (L_uns L) (L_yaml L) manifests in
            mapErrC Inr (EnsureEnclaveServices exoCtrl namespace (ExoServicesFromDeps contractDeps)) s)"

section \<open>What a sweep over a release changes\<close>

text \<open>The live objects a sweep is after: those of a known kind in the namespace that carry the label of
  the release and were not just applied.\<close>

definition stale :: "(okey \<Rightarrow> obj option) \<Rightarrow> gvr list \<Rightarrow> string \<Rightarrow> string \<Rightarrow> string list \<Rightarrow> okey \<Rightarrow> bool" where
  "stale tab gs namespace release keys k =
     (case k of (g, ns, n) \<Rightarrow>
        g \<in> set gs \<and> ns = namespace \<and> resourceKey g n \<notin> set keys \<and>
        (case tab k of None \<Rightarrow> False | Some ob \<Rightarrow> label_of ob releaseLabelKey = Some release))"

lemma resourceKey_name [simp]: "resourceKey g n = resourceKey g n' \<longleftrightarrow> n = n'"
  by (simp add: resourceKey_def)

lemma uns_name: "uns_laws u \<Longrightarrow> u_name u = name_of"
  by (simp add: fun_eq_iff uns_simps name_of_def)

lemma object_laws_delete:
  assumes "object_laws dyn live" and "dyn_delete dyn g ns n s = (r, s')"
  shows "k \<noteq> (g, ns, n) \<Longrightarrow> live s' k = live s k"
    and "live s' k = None \<or> live s' k = live s k"
    and "\<not> isl r \<Longrightarrow> live s' (g, ns, n) = None"
proof -
  have laws: "(\<forall>k. k \<noteq> (g, ns, n) \<longrightarrow> live s' k = live s k) \<and>
      (live s' (g, ns, n) = None \<or> live s' (g, ns, n) = live s (g, ns, n)) \<and>
      (\<not> isl r \<longrightarrow> live s' (g, ns, n) = None)"
    using assms unfolding object_laws_def by blast
  then show "k \<noteq> (g, ns, n) \<Longrightarrow> live s' k = live s k" and "\<not> isl r \<Longrightarrow> live s' (g, ns, n) = None" by blast+
  show "live s' k = None \<or> live s' k = live s k" using laws by (cases "k = (g, ns, n)") blast+
qed

lemma object_laws_list:
  assumes "object_laws dyn live" and "dyn_list dyn g ns (labelSelector v) s = Inr items" and "live s (g, ns, n) = Some ob"
  shows "n \<in> name_of ` set items \<longleftrightarrow> label_of ob releaseLabelKey = Some v"
  using assms unfolding object_laws_def by blast

lemma reliable_delete:
  "reliable dyn \<Longrightarrow> dyn_list dyn g ns sel s = Inr items \<Longrightarrow> ob \<in> set items \<Longrightarrow>
     \<exists>s2. dyn_delete dyn g ns (name_of ob) s1 = (Inr (), s2)"
  unfolding reliable_def by blast

text \<open>Removal is a sweep that spares nothing.\<close>

lemma remove_items_sweep: "remove_items u dyn g namespace items st = collect_items u dyn g namespace [] items st"
  by (induction u dyn g namespace items st rule: remove_items.induct) (auto split: prod.splits sum.splits)

lemma remove_release_sweep:
  "remove_release u dyn namespace release gs st = collect_garbage u dyn namespace release [] gs st"
  by (induction u dyn namespace release gs st rule: remove_release.induct)
    (auto simp: remove_items_sweep split: sum.splits)

lemma collect_items_live:
  assumes "object_laws dyn live" and "uns_laws u"
    and "collect_items u dyn g ns keys items (d, s) = (d', s')"
  shows "(live s' k = None \<or> live s' k = live s k) \<and>
    ((\<forall>n \<in> name_of ` set items. resourceKey g n \<notin> set keys \<longrightarrow> k \<noteq> (g, ns, n)) \<longrightarrow> live s' k = live s k)"
  using assms(3)
proof (induction items arbitrary: d s)
  case (Cons item items)
  show ?case
  proof (cases "resourceKey g (name_of item) \<in> set keys")
    case True
    with Cons show ?thesis by (auto simp: uns_name [OF assms(2)])
  next
    case False
    obtain r s1 where del: "dyn_delete dyn g ns (name_of item) s = (r, s1)" by fastforce
    obtain d1 where rest: "collect_items u dyn g ns keys items (d1, s1) = (d', s')"
      using Cons.prems False del by (cases r) (auto simp: uns_name [OF assms(2)])
    show ?thesis
      using Cons.IH [OF rest] object_laws_delete(1,2) [OF assms(1) del, of k] False by auto
  qed
qed simp

lemma collect_items_deletes:
  assumes "object_laws dyn live" and "uns_laws u"
    and "\<And>item s1. item \<in> set items \<Longrightarrow> \<exists>s2. dyn_delete dyn g ns (name_of item) s1 = (Inr (), s2)"
    and "collect_items u dyn g ns keys items (d, s) = (d', s')"
    and "n \<in> name_of ` set items" and "resourceKey g n \<notin> set keys"
  shows "live s' (g, ns, n) = None"
  using assms(3-5)
proof (induction items arbitrary: d s)
  case (Cons item items)
  obtain s1 where del: "dyn_delete dyn g ns (name_of item) s = (Inr (), s1)" using Cons.prems(1) by fastforce
  show ?case
  proof (cases "resourceKey g (name_of item) \<in> set keys")
    case True
    with Cons assms(6) show ?thesis by (auto simp: uns_name [OF assms(2)])
  next
    case False
    then have rest: "collect_items u dyn g ns keys items (Suc d, s1) = (d', s')"
      using Cons.prems(2) del by (simp add: uns_name [OF assms(2)])
    show ?thesis
    proof (cases "n \<in> name_of ` set items")
      case True
      with Cons.IH [OF _ rest] Cons.prems(1) show ?thesis by auto
    next
      case False
      then have "n = name_of item" using Cons.prems(3) by simp
      then have "live s1 (g, ns, n) = None" using object_laws_delete(3) [OF assms(1) del] by simp
      then show ?thesis using collect_items_live [OF assms(1,2) rest, of "(g, ns, n)"] by auto
    qed
  qed
qed simp

lemma collect_garbage_live:
  assumes "object_laws dyn live" and "uns_laws u"
    and "collect_garbage u dyn ns release keys gs (d, s) = (d', s')"
  shows "(live s' k = None \<or> live s' k = live s k) \<and> (\<not> stale (live s) gs ns release keys k \<longrightarrow> live s' k = live s k)"
  using assms(3)
proof (induction gs arbitrary: d s)
  case (Cons g gs)
  obtain kg kns n where k: "k = (kg, kns, n)" by (cases k)
  show ?case
  proof (cases "dyn_list dyn g ns (labelSelector release) s")
    case (Inl e)
    with Cons show ?thesis by (auto simp: stale_def split: prod.splits)
  next
    case (Inr items)
    obtain d1 s1 where items: "collect_items u dyn g ns keys items (d, s) = (d1, s1)" by fastforce
    have rest: "collect_garbage u dyn ns release keys gs (d1, s1) = (d', s')"
      using Cons.prems Inr items by simp
    note item_live = collect_items_live [OF assms(1,2) items, of k]
    have kept: "live s1 k = live s k" if "\<not> stale (live s) (g # gs) ns release keys k"
    proof (cases "live s k")
      case None
      with item_live show ?thesis by auto
    next
      case (Some ob)
      have "n \<in> name_of ` set items \<longleftrightarrow> label_of ob releaseLabelKey = Some release" if "kg = g" "kns = ns"
        using object_laws_list [OF assms(1) Inr] Some k that by blast
      with item_live that Some show ?thesis by (auto simp: stale_def k)
    qed
    from Cons.IH [OF rest] item_live kept show ?thesis
      by (auto simp: stale_def k split: option.splits)
  qed
qed simp

lemma collect_garbage_sweeps:
  assumes "object_laws dyn live" and "uns_laws u" and "reliable dyn"
    and "collect_garbage u dyn ns release keys gs (d, s) = (d', s')" and "stale (live s) gs ns release keys k"
  shows "live s' k = None"
  using assms(4,5)
proof (induction gs arbitrary: d s)
  case (Cons g gs)
  obtain kg n ob where k: "k = (kg, ns, n)" "resourceKey kg n \<notin> set keys" "live s k = Some ob"
    "label_of ob releaseLabelKey = Some release" "kg \<in> set (g # gs)"
    using Cons.prems(2) by (cases k) (auto simp: stale_def split: option.splits)
  obtain items where list: "dyn_list dyn g ns (labelSelector release) s = Inr items"
    using assms(3) unfolding reliable_def by blast
  obtain d1 s1 where items: "collect_items u dyn g ns keys items (d, s) = (d1, s1)" by fastforce
  have rest: "collect_garbage u dyn ns release keys gs (d1, s1) = (d', s')"
    using Cons.prems list items by simp
  show ?case
  proof (cases "live s1 k")
    case None
    with collect_garbage_live [OF assms(1,2) rest, of k] show ?thesis by auto
  next
    case (Some ob')
    have same: "live s1 k = live s k"
      using collect_items_live [OF assms(1,2) items, of k] Some by auto
    have "kg \<noteq> g"
    proof
      assume "kg = g"
      then have "n \<in> name_of ` set items" using object_laws_list [OF assms(1) list] k by blast
      then have "live s1 k = None"
        using collect_items_deletes [OF assms(1,2) _ items _ k(2) [unfolded \<open>kg = g\<close>]] reliable_delete [OF assms(3) list]
          k(1) \<open>kg = g\<close> by simp
      with Some show False by simp
    qed
    with Cons.IH [OF rest] k same show ?thesis by (simp add: stale_def)
  qed
qed (simp add: stale_def split: prod.splits)

section \<open>What applying a manifest changes\<close>

lemma stamp_manifest_name:
  assumes "uns_laws u"
  shows "name_of (stamp_manifest u ns release m) = name_of m"
  by (simp add: stamp_manifest_def Let_def name_of_def string_at_def uns_simps [OF assms] walk_put_or_keep walk_set_meta
      del: walk.simps)

lemma label_of_put:
  assumes "walk (JObj m) [''metadata''] = Found (JObj meta)"
  shows "label_of (put_or_keep (of_strs ss) [''metadata'', ''labels''] m) = map_of ss"
proof -
  have "map_of m ''metadata'' = Some (JObj meta)" using assms by (auto split: option.splits)
  then obtain m' where put: "put (of_strs ss) [''metadata'', ''labels''] m = Some m'" by simp
  show ?thesis
    using walk_put_same [OF put] by (simp add: fun_eq_iff label_of_def put_or_keep_def put del: walk.simps put.simps)
qed

lemma named_metadata:
  assumes "name_of m \<noteq> []"
  shows "\<exists>meta. walk (JObj m) [''metadata''] = Found (JObj meta)"
proof (cases "map_of m ''metadata''")
  case (Some v)
  with assms show ?thesis by (cases v) (auto simp: name_of_def string_at_def)
qed (use assms in \<open>simp add: name_of_def string_at_def\<close>)

lemma stamp_manifest_label:
  assumes "uns_laws u" and "name_of m \<noteq> []"
  shows "label_of (stamp_manifest u ns release m) releaseLabelKey = Some release"
proof -
  have "name_of (u_set_namespace u m ns) \<noteq> []"
    using assms(2) by (simp add: name_of_def string_at_def uns_simps [OF assms(1)] walk_set_meta del: walk.simps)
  then obtain meta where "walk (JObj (u_set_namespace u m ns)) [''metadata''] = Found (JObj meta)"
    using named_metadata by blast
  note label_of_put [OF this]
  then show ?thesis
    by (simp add: stamp_manifest_def Let_def uns_meta(9) [OF assms(1)] map_of_update)
qed

lemma resource_version_meta:
  assumes "uns_laws u"
  shows "name_of (u_set_resource_version u ob rv) = name_of ob"
    and "label_of (u_set_resource_version u ob rv) = label_of ob"
  by (simp_all add: fun_eq_iff name_of_def string_at_def label_of_def uns_simps [OF assms] walk_set_meta del: walk.simps)

lemma same_meta_label: "same_meta a b \<Longrightarrow> label_of a = label_of b"
  by (simp add: same_meta_def label_of_def fun_eq_iff del: walk.simps)

lemma object_laws_put:
  assumes "object_laws dyn live" and "dyn_create dyn g ns ob s = (r, s') \<or> dyn_update dyn g ns ob s = (r, s')"
  shows "k \<noteq> (g, ns, name_of ob) \<Longrightarrow> live s' k = live s k"
    and "\<not> isl r \<Longrightarrow> \<exists>ob'. live s' (g, ns, name_of ob) = Some ob' \<and> label_of ob' = label_of ob"
proof -
  have laws: "(\<forall>k. k \<noteq> (g, ns, name_of ob) \<longrightarrow> live s' k = live s k) \<and>
      (\<not> isl r \<longrightarrow> (\<exists>ob'. live s' (g, ns, name_of ob) = Some ob' \<and> same_meta ob' ob))"
    using assms(1) [unfolded object_laws_def, THEN conjunct1, rule_format, OF assms(2)] by blast
  then show "k \<noteq> (g, ns, name_of ob) \<Longrightarrow> live s' k = live s k" by blast
  show "\<not> isl r \<Longrightarrow> \<exists>ob'. live s' (g, ns, name_of ob) = Some ob' \<and> label_of ob' = label_of ob"
    using laws same_meta_label by blast
qed

lemma send_manifest_live:
  assumes "object_laws dyn live" and "uns_laws u" and "send_manifest u dyn g ns kind ob s = (r, s')"
  shows "(k \<noteq> (g, ns, name_of ob) \<longrightarrow> live s' k = live s k) \<and>
    (\<not> isl r \<longrightarrow> (\<exists>ob'. live s' (g, ns, name_of ob) = Some ob' \<and> label_of ob' = label_of ob))"
proof -
  consider "isl r" "s' = s"
    | r1 where "dyn_create dyn g ns ob s = (r1, s')" "isl r1 = isl r"
    | r1 rv where "dyn_update dyn g ns (u_set_resource_version u ob rv) s = (r1, s')" "isl r1 = isl r"
  proof (cases "dyn_get dyn g ns (u_name u ob) s")
    case (Inl e)
    with assms(3) that(1,2) show thesis
      by (cases e) (auto simp: send_manifest_def Let_def bindC_def mapErrC_def split: sum.splits prod.splits)
  next
    case (Inr existing)
    with assms(3) that(3) show thesis
      by (auto simp: send_manifest_def Let_def bindC_def mapErrC_def split: sum.splits prod.splits)
  qed
  then show ?thesis
  proof cases
    case 2
    then show ?thesis using object_laws_put [OF assms(1) disjI1 [OF 2(1)]] by auto
  next
    case 3
    then show ?thesis
      using object_laws_put [OF assms(1) disjI2 [OF 3(1)]] by (auto simp: resource_version_meta [OF assms(2)])
  qed simp
qed

text \<open>Applying a manifest touches only objects of its name; when it succeeds one of them is live
  under the release, and its key is the one recorded.\<close>

lemma apply_manifest_live:
  assumes "object_laws dyn live" and "uns_laws u" and "apply_manifest u dyn ns release m s = (r, s')"
  shows "(\<forall>g. k \<noteq> (g, ns, name_of m)) \<longrightarrow> live s' k = live s k"
    and "r = Inr (key, new) \<Longrightarrow> \<exists>g ob. key = resourceKey g (name_of m) \<and> live s' (g, ns, name_of m) = Some ob \<and>
      label_of ob releaseLabelKey = Some release \<and> (\<forall>k. k \<noteq> (g, ns, name_of m) \<longrightarrow> live s' k = live s k)"
proof -
  let ?ob = "stamp_manifest u ns release m"
  note meta = stamp_manifest_name [OF assms(2)] uns_name [OF assms(2)]
  consider "isl r" "s' = s"
    | g r1 where "send_manifest u dyn g ns (u_kind u m) ?ob s = (r1, s')" "isl r1 = isl r" "name_of m \<noteq> []"
        "r = Inr (key, new) \<longrightarrow> key = resourceKey g (name_of m)"
    using assms(3)
    by (auto simp: apply_manifest_def Let_def bindC_def meta split: if_splits sum.splits prod.splits)
  then have "((\<forall>g. k \<noteq> (g, ns, name_of m)) \<longrightarrow> live s' k = live s k) \<and>
    (r = Inr (key, new) \<longrightarrow> (\<exists>g ob. key = resourceKey g (name_of m) \<and> live s' (g, ns, name_of m) = Some ob \<and>
      label_of ob releaseLabelKey = Some release \<and> (\<forall>k. k \<noteq> (g, ns, name_of m) \<longrightarrow> live s' k = live s k)))"
  proof cases
    case 2
    have frame: "k \<noteq> (g, ns, name_of m) \<Longrightarrow> live s' k = live s k" for k
      using send_manifest_live [OF assms(1,2) 2(1), of k] by (simp add: meta)
    have "\<exists>ob. live s' (g, ns, name_of m) = Some ob \<and> label_of ob releaseLabelKey = Some release" if "\<not> isl r"
      using send_manifest_live [OF assms(1,2) 2(1), THEN conjunct2] stamp_manifest_label [OF assms(2) 2(3), of ns release] 2(2) that
      by (auto simp: meta)
    with frame 2(4) show ?thesis by (metis sum.disc(2))
  qed auto
  then show "(\<forall>g. k \<noteq> (g, ns, name_of m)) \<longrightarrow> live s' k = live s k"
    and "r = Inr (key, new) \<Longrightarrow> \<exists>g ob. key = resourceKey g (name_of m) \<and> live s' (g, ns, name_of m) = Some ob \<and>
      label_of ob releaseLabelKey = Some release \<and> (\<forall>k. k \<noteq> (g, ns, name_of m) \<longrightarrow> live s' k = live s k)"
    by blast+
qed

definition released :: "(okey \<Rightarrow> obj option) \<Rightarrow> string \<Rightarrow> okey \<Rightarrow> bool" where
  "released tab release k \<longleftrightarrow> (\<exists>ob. tab k = Some ob \<and> label_of ob releaseLabelKey = Some release)"

lemma apply_manifest_released:
  assumes "object_laws dyn live" and "uns_laws u" and "apply_manifest u dyn ns release m s = (Inr (key, new), s')"
  shows "\<exists>g. key = resourceKey g (name_of m) \<and> released (live s') release (g, ns, name_of m)"
    and "released (live s) release k \<Longrightarrow> released (live s') release k"
  using apply_manifest_live(2) [OF assms refl] unfolding released_def by metis+

lemma apply_manifests_frame:
  assumes "object_laws dyn live" and "uns_laws u" and "apply_manifests u dyn ns release ms acc s = (r, s')"
    and "\<And>g m. m \<in> set ms \<Longrightarrow> k \<noteq> (g, ns, name_of m)"
  shows "live s' k = live s k"
  using assms(3,4)
proof (induction ms arbitrary: acc s)
  case (Cons m ms)
  obtain keys c d where acc: "acc = (keys, c, d)" by (cases acc)
  obtain r1 s1 where run: "apply_manifest u dyn ns release m s = (r1, s1)" by fastforce
  have "live s1 k = live s k" using apply_manifest_live(1) [OF assms(1,2) run] Cons.prems(2) by simp
  moreover have "live s' k = live s1 k"
    using Cons.IH Cons.prems run by (cases r1) (auto simp: acc bindC_def split: prod.splits)
  ultimately show ?case by simp
qed simp

lemma apply_manifests_released:
  assumes "object_laws dyn live" and "uns_laws u"
    and "apply_manifests u dyn ns release ms (keys, c, d) s = (Inr (keys', c', d'), s')"
  shows "c' + d' = c + d + length ms \<and> set keys \<subseteq> set keys' \<and>
    set keys' \<subseteq> set keys \<union> {resourceKey g (name_of m) |g m. m \<in> set ms} \<and>
    (\<forall>k. released (live s) release k \<longrightarrow> released (live s') release k) \<and>
    (\<forall>m \<in> set ms. \<exists>g. resourceKey g (name_of m) \<in> set keys' \<and> released (live s') release (g, ns, name_of m))"
  using assms(3)
proof (induction ms arbitrary: keys c d s)
  case (Cons m ms)
  from Cons.prems obtain key new s1 c1 d1 where run: "apply_manifest u dyn ns release m s = (Inr (key, new), s1)"
    and rest: "apply_manifests u dyn ns release ms (key # keys, c1, d1) s1 = (Inr (keys', c', d'), s')"
    and count: "c1 + d1 = Suc (c + d)"
    by (auto elim!: bindC_InrE)
  obtain g where g: "key = resourceKey g (name_of m)" "released (live s1) release (g, ns, name_of m)"
    using apply_manifest_released(1) [OF assms(1,2) run] by blast
  note keep = apply_manifest_released(2) [OF assms(1,2) run]
  have ih: "c' + d' = c1 + d1 + length ms" "set (key # keys) \<subseteq> set keys'"
    "set keys' \<subseteq> set (key # keys) \<union> {resourceKey g (name_of m) |g m. m \<in> set ms}"
    "\<And>k. released (live s1) release k \<Longrightarrow> released (live s') release k"
    "\<And>m. m \<in> set ms \<Longrightarrow> \<exists>g. resourceKey g (name_of m) \<in> set keys' \<and> released (live s') release (g, ns, name_of m)"
    using Cons.IH [OF rest] by blast+
  have "\<exists>g. resourceKey g (name_of m) \<in> set keys' \<and> released (live s') release (g, ns, name_of m)"
    using g ih(2,4) by auto
  moreover have "set keys' \<subseteq> set keys \<union> {resourceKey g (name_of x) |g x. x \<in> set (m # ms)}"
  proof
    fix x
    assume "x \<in> set keys'"
    then consider "x = key" | "x \<in> set keys" | h y where "x = resourceKey h (name_of y)" "y \<in> set ms"
      using ih(3) by auto
    then show "x \<in> set keys \<union> {resourceKey g (name_of x) |g x. x \<in> set (m # ms)}"
      using g(1) by cases auto
  qed
  ultimately show ?case using ih(1,2,4,5) keep count by auto
qed simp

lemma key_name:
  assumes "resourceKey g n = resourceKey g' n'" and "CHR ''/'' \<notin> set n" and "CHR ''/'' \<notin> set n'"
  shows "n = n'"
proof -
  have tail: "takeWhile (\<lambda>c. c \<noteq> CHR ''/'') (rev (resourceKey g n)) = rev n" if "CHR ''/'' \<notin> set n" for g n
    using that by (auto simp: resourceKey_def takeWhile_tail takeWhile_append2)
  show ?thesis using tail [OF assms(2)] tail [OF assms(3)] assms(1) by (metis rev_rev_ident)
qed

lemma handleWorkflowApply_run:
  assumes "handleWorkflowApply u client dyn params s = (r, s')" and "s' \<noteq> s \<or> \<not> isl r"
  obtains ra s1 where
    "apply_manifests u dyn (WA_Namespace params) (WA_Name params) (ensurePSACompliance u (WA_Manifests params)) ([], 0, 0) s = (ra, s1)"
    "isl ra \<Longrightarrow> isl r \<and> s' = s1"
    "\<And>keys c d. ra = Inr (keys, c, d) \<Longrightarrow>
       (\<exists>n. collect_garbage u dyn (WA_Namespace params) (WA_Name params) keys knownGVRs (0, s1) = (n, s') \<and>
          r = Inr \<lparr>WR_Name = WA_Name params, WR_Namespace = WA_Namespace params, WR_Created = c, WR_Updated = d, WR_Deleted = n\<rparr>)"
proof -
  obtain ra s1 where run:
    "apply_manifests u dyn (WA_Namespace params) (WA_Name params) (ensurePSACompliance u (WA_Manifests params)) ([], 0, 0) s = (ra, s1)"
    by fastforce
  show thesis
    using assms
    by (intro that [OF run]) (auto simp: handleWorkflowApply_def Let_def run split: sum.splits prod.splits)
qed

lemma apply_success:
  assumes "handleWorkflowApply u client dyn params s = (Inr res, s')"
  obtains keys c d s1 n where
    "apply_manifests u dyn (WA_Namespace params) (WA_Name params) (ensurePSACompliance u (WA_Manifests params)) ([], 0, 0) s =
       (Inr (keys, c, d), s1)"
    "collect_garbage u dyn (WA_Namespace params) (WA_Name params) keys knownGVRs (0, s1) = (n, s')"
    "WR_Created res = c" "WR_Updated res = d"
  using assms
  by (auto simp: handleWorkflowApply_def Let_def split: sum.splits prod.splits intro: that)

lemma ensured_names:
  "uns_laws u \<Longrightarrow> name_of ` set (ensurePSACompliance u manifests) = name_of ` set manifests"
  by (simp add: ensurePSACompliance_def image_image name_of_def string_at_def ensure_manifest_other del: walk.simps)



text \<open>C20: removing a workflow deletes objects of the release and nothing else: a live object of another
  release, another namespace or an unknown kind is untouched, and on a client whose listings and
  deletions succeed no live object of the release remains.\<close>

theorem handleWorkflowRemove_exact:
  assumes "object_laws dyn live" and "uns_laws u" and "handleWorkflowRemove u client dyn params s = (Inr res, s')"
  shows "if g \<in> set knownGVRs \<and> ns = RM_Namespace params \<and> released (live s) (RM_Name params) (g, ns, n)
    then \<not> reliable dyn \<or> live s' (g, ns, n) = None
    else live s' (g, ns, n) = live s (g, ns, n)"
proof -
  obtain d where "remove_release u dyn (RM_Namespace params) (RM_Name params) knownGVRs (0, s) = (d, s')"
    using assms(3) by (auto simp: handleWorkflowRemove_def split: sum.splits prod.splits)
  then have sweep: "collect_garbage u dyn (RM_Namespace params) (RM_Name params) [] knownGVRs (0, s) = (d, s')"
    by (simp only: remove_release_sweep)
  have "stale (live s) knownGVRs (RM_Namespace params) (RM_Name params) [] (g, ns, n) \<longleftrightarrow>
      g \<in> set knownGVRs \<and> ns = RM_Namespace params \<and> released (live s) (RM_Name params) (g, ns, n)"
    by (auto simp: stale_def released_def split: option.splits)
  then show ?thesis
    using collect_garbage_live [OF assms(1,2) sweep, of "(g, ns, n)"] collect_garbage_sweeps [OF assms(1,2) _ sweep] by auto
qed

section \<open>A small cluster\<close>

definition lab_namespace :: Namespace where
  "lab_namespace =
     \<lparr>N_Name = ''lab'', N_Labels = [ManagedByLabel \<mapsto> ManagedByValue, PSAEnforceLabel \<mapsto> ''restricted''],
      N_Annotations = Map.empty, N_Phase = ''Active'', N_ResourceVersion = 1\<rparr>"

definition labelled_object :: "string \<Rightarrow> string \<Rightarrow> string \<Rightarrow> string \<Rightarrow> obj" where
  "labelled_object apiVersion kind name release =
     [(''apiVersion'', JStr apiVersion), (''kind'', JStr kind),
      (''metadata'', JObj [(''name'', JStr name), (''labels'', JObj [(releaseLabelKey, JStr release)])])]"

definition service_gvr :: gvr where
  "service_gvr = \<lparr>GVR_Group = [], GVR_Version = ''v1'', GVR_Resource = ''services''\<rparr>"

definition lab_world :: world where
  "lab_world =
     \<lparr>w_ns = [(''lab'', lab_namespace)],
      w_objs = [((service_gvr, ''lab'', ''stale''), labelled_object ''v1'' ''Service'' ''stale'' ''wf''),
                ((service_gvr, ''lab'', ''other''), labelled_object ''v1'' ''Service'' ''other'' ''beta'')]\<rparr>"

definition lab_apply :: WorkflowApplyParams where
  "lab_apply =
     \<lparr>WA_Namespace = ''lab'', WA_Name = ''wf'', WA_Mode = [],
      WA_Manifests = [[(''apiVersion'', JStr ''v1''), (''kind'', JStr ''ConfigMap''), (''metadata'', JObj [(''name'', JStr ''wf-code'')])]]\<rparr>"

definition lab_applied :: "(deploy_error + WorkflowApplyResult) \<times> world" where
  "lab_applied = handleWorkflowApply std_uns world_kube mem_dyn lab_apply lab_world"

lemma lab_applied_ok:
  "fst lab_applied = Inr \<lparr>WR_Name = ''wf'', WR_Namespace = ''lab'', WR_Created = 1, WR_Updated = 0, WR_Deleted = 1\<rparr>"
  by code_simp

lemma lab_apply_run:
  "handleWorkflowApply std_uns world_kube mem_dyn lab_apply lab_world =
     (Inr \<lparr>WR_Name = ''wf'', WR_Namespace = ''lab'', WR_Created = 1, WR_Updated = 0, WR_Deleted = 1\<rparr>, snd lab_applied)"
  using lab_applied_ok by (simp add: lab_applied_def prod_eq_iff)


lemma lab_stale_released:
  "released (mem_live lab_world) ''wf'' (service_gvr, ''lab'', ''stale'')"
proof -
  have "mem_live lab_world (service_gvr, ''lab'', ''stale'') = Some (labelled_object ''v1'' ''Service'' ''stale'' ''wf'')"
    "label_of (labelled_object ''v1'' ''Service'' ''stale'' ''wf'') releaseLabelKey = Some ''wf''"
    by code_simp+
  then show ?thesis by (simp add: released_def)
qed

lemma lab_service_known: "service_gvr \<in> set knownGVRs"
  by code_simp


definition lab_remove :: WorkflowRemoveParams where
  "lab_remove = \<lparr>RM_Namespace = ''lab'', RM_Name = ''wf''\<rparr>"

definition lab_removed :: "(deploy_error + WorkflowRemoveResult) \<times> world" where
  "lab_removed = handleWorkflowRemove std_uns world_kube mem_dyn lab_remove lab_world"

lemma lab_removed_ok: "\<not> isl (fst lab_removed)"
  by code_simp

theorem handleWorkflowRemove_exact_witness:
  "mem_live lab_world (service_gvr, ''lab'', ''stale'') \<noteq> None \<and>
   mem_live (snd lab_removed) (service_gvr, ''lab'', ''stale'') = None"
proof -
  have "handleWorkflowRemove std_uns world_kube mem_dyn lab_remove lab_world = (Inr (projr (fst lab_removed)), snd lab_removed)"
    using lab_removed_ok by (simp add: lab_removed_def prod_eq_iff sum.expand)
  from handleWorkflowRemove_exact [OF mem_object_laws std_uns_laws this, of service_gvr "''lab''" "''stale''"]
  show ?thesis using mem_reliable lab_stale_released lab_service_known
    by (auto simp: lab_remove_def released_def)
qed

end
