(* ===== verification/Deploy_Tools.thy ===== *)
theory Deploy_Tools
  imports Deploy Scheduler Authz_Helpers Guard
begin

text \<open>
  The tools \<^verbatim>\<open>wf_apply\<close> and \<^verbatim>\<open>wf_remove\<close> of \<^verbatim>\<open>pkg/tools/deploy.go\<close>: the checks in front of the handlers
  of \<open>Deploy\<close>, the exoskeleton processing between them and the scheduler update behind them. The
  state of a call is the world of the Kubernetes clients and the registrars together with the
  scheduler, which is absent when the server runs without one. The deployer of the request
  context is an argument; the goroutine that pre-warms modules is represented by the request it
  is started with. The locale \<open>workflow_tool\<close> states what the guards of every workflow tool promise.
\<close>

datatype 'e wf_error =
    WE_Guard guard_error
  | WE_Helper helper_error
  | WE_Frozen string
  | WE_Mode string mode_error
  | WE_Denied string
  | WE_Check string api_err
  | WE_Services "api_err + 'e exo_error"
  | WE_Process "'e process_error"
  | WE_Nodes node_error
  | WE_Deploy deploy_error

definition wf_guard :: "Evaluator option \<Rightarrow> DeployerInfo option \<Rightarrow> string \<Rightarrow> string \<Rightarrow> 'e wf_error + unit" where
  "wf_guard eval deployer namespace name =
     (case CheckNamespace namespace of
        Inl e \<Rightarrow> Inl (WE_Guard e)
      | Inr _ \<Rightarrow>
          (case CheckName name of
             Inl e \<Rightarrow> Inl (WE_Guard e)
           | Inr _ \<Rightarrow> (case requireDeployer deployer eval of Inl e \<Rightarrow> Inl (WE_Helper e) | Inr _ \<Rightarrow> Inr ())))"

section \<open>Apply\<close>

definition check_frozen :: "strmap \<Rightarrow> 'e wf_error + unit" where
  "check_frozen nsAnn =
     (if IsEnclave nsAnn \<and> EI_Status (ReadEnclaveInfo nsAnn) = ''frozen''
      then Inl (WE_Frozen (EI_Enclave (ReadEnclaveInfo nsAnn))) else Inr ())"

definition apply_mode :: "Evaluator option \<Rightarrow> strmap \<Rightarrow> string \<Rightarrow> 'e wf_error + string" where
  "apply_mode eval nsAnn mode =
     (if mode \<noteq> [] then
        (case ParseMode mode of Inl e \<Rightarrow> Inl (WE_Mode mode e) | Inr m \<Rightarrow> Inr (ModeString m))
      else if IsEnclave nsAnn then Inr (ModeString DefaultEnclaveMode)
      else case eval of Some ev \<Rightarrow> Inr (ModeString (E_DefaultMode ev)) | None \<Rightarrow> Inr (ModeString DefaultMode))"

text \<open>The annotations of the existing Deployment when the call is an update, \<open>None\<close> when it creates one.\<close>

definition apply_authz ::
  "'s kube \<Rightarrow> Evaluator option \<Rightarrow> DeployerInfo option \<Rightarrow> strmap \<Rightarrow> string \<Rightarrow> string \<Rightarrow> 's \<Rightarrow> 'e wf_error + strmap option" where
  "apply_authz client eval deployer nsAnn namespace name s =
     (case dep_get client namespace name s of
        Inr existing \<Rightarrow>
          let d = checkAuthz eval deployer nsAnn (D_Annotations existing) Write in
          if \<not> Allowed d then Inl (WE_Denied (Reason d)) else Inr (Some (D_Annotations existing))
      | Inl NotFound \<Rightarrow>
          (case checkNamespaceAuthz client namespace deployer eval Write s of
             Inl e \<Rightarrow> Inl (WE_Helper e) | Inr _ \<Rightarrow> Inr None)
      | Inl e \<Rightarrow> Inl (WE_Check name e))"

definition bearer_deployer_info :: DeployerInfo where
  "bearer_deployer_info =
     \<lparr>Email = [], DisplayName = [], Subject = [], Provider = ''bearer-token'', AgentType = [], SessionID = []\<rparr>"

definition exo_manifests ::
  "libs \<Rightarrow> 's kube \<Rightarrow> ('s, 'e) Controller option \<Rightarrow> string \<Rightarrow> DeployerInfo option \<Rightarrow> string \<Rightarrow> strmap option \<Rightarrow>
     WorkflowApplyParams \<Rightarrow> ('s, 'e wf_error, obj list) comp" where
  "exo_manifests L client exoCtrl now deployer mode existing params =
     (case exoCtrl of
        None \<Rightarrow> retC (WA_Manifests params)
      | Some c \<Rightarrow>
          bindC (mapErrC WE_Services
            (ensureEnclaveServicesIfNeeded L client c (WA_Namespace params) (WA_Manifests params))) (\<lambda>_.
          bindC (mapErrC WE_Process
            (ProcessManifests (L_uns L) (L_yaml L) (L_urlParse L) (L_resolveHost L) c
               (WA_Namespace params) (WA_Name params) (WA_Manifests params))) (\<lambda>processed.
          retC (AnnotateDeployer (L_uns L) now processed
            \<lparr>AD_ExistingAnnotations = (case existing of None \<Rightarrow> Map.empty | Some ann \<Rightarrow> ann), AD_Mode = mode,
             AD_Deployer = (case deployer of None \<Rightarrow> bearer_deployer_info | Some d \<Rightarrow> d),
             AD_IsUpdate = (existing \<noteq> None)\<rparr>))))"

text \<open>The checks before anything is changed: they yield the mode and the annotations of the existing
  Deployment.\<close>

definition apply_checks ::
  "'s kube \<Rightarrow> Evaluator option \<Rightarrow> DeployerInfo option \<Rightarrow> WorkflowApplyParams \<Rightarrow> 's \<Rightarrow>
     'e wf_error + string \<times> strmap option" where
  "apply_checks client eval deployer params s =
     (case wf_guard eval deployer (WA_Namespace params) (WA_Name params) of
        Inl e \<Rightarrow> Inl e
      | Inr _ \<Rightarrow>
          (case fetchNamespaceAnnotations client (WA_Namespace params) s of
             Inl e \<Rightarrow> Inl (WE_Helper e)
           | Inr nsAnn \<Rightarrow>
               (case check_frozen nsAnn of
                  Inl e \<Rightarrow> Inl e
                | Inr _ \<Rightarrow>
                    (case apply_mode eval nsAnn (WA_Mode params) of
                       Inl e \<Rightarrow> Inl e
                     | Inr mode \<Rightarrow>
                         (case apply_authz client eval deployer nsAnn (WA_Namespace params) (WA_Name params) s of
                            Inl e \<Rightarrow> Inl e
                          | Inr existing \<Rightarrow> Inr (mode, existing))))))"

definition prewarm_request :: "libs \<Rightarrow> (string \<Rightarrow> string) \<Rightarrow> obj list \<Rightarrow> (string \<times> ModuleDep list) option" where
  "prewarm_request L getenv manifests =
     (let deps = extractModuleDeps L manifests;
          proxyNS = getenv ''TENTACULAR_PROXY_NAMESPACE''
      in if 0 < length deps then Some (if proxyNS = [] then ''tentacular-support'' else proxyNS, deps) else None)"

definition wf_apply ::
  "libs \<Rightarrow> (string \<Rightarrow> string) \<Rightarrow> 's kube \<Rightarrow> 's dyn \<Rightarrow> 'c cron_ops \<Rightarrow> ('s, 'e) Controller option \<Rightarrow> Evaluator option \<Rightarrow>
     string \<Rightarrow> DeployerInfo option \<Rightarrow> WorkflowApplyParams \<Rightarrow>
     ('s \<times> 'c Scheduler option, 'e wf_error, WorkflowApplyResult \<times> (string \<times> ModuleDep list) option) comp" where
  "wf_apply L getenv client dyn ops exoCtrl eval now deployer params st =
     (case st of (s, sched) \<Rightarrow>
        case apply_checks client eval deployer params s of
          Inl e \<Rightarrow> (Inl e, s, sched)
        | Inr (mode, existing) \<Rightarrow>
            (case exo_manifests L client exoCtrl now deployer mode existing params s of
               (Inl e, s1) \<Rightarrow> (Inl e, s1, sched)
             | (Inr manifests, s1) \<Rightarrow>
                 (case validateNodeDescriptions L manifests of
                    Inl e \<Rightarrow> (Inl (WE_Nodes e), s1, sched)
                  | Inr _ \<Rightarrow>
                      (case handleWorkflowApply (L_uns L) client dyn (params\<lparr>WA_Manifests := manifests\<rparr>) s1 of
                         (Inl e, s2) \<Rightarrow> (Inl (WE_Deploy e), s2, sched)
                       | (Inr result, s2) \<Rightarrow>
                           (Inr (result, prewarm_request L getenv manifests), s2,
                            map_option (syncCronSchedule client s2 ops (WA_Namespace params) (WA_Name params)) sched)))))"

section \<open>Remove\<close>

definition remove_checks ::
  "'s kube \<Rightarrow> Evaluator option \<Rightarrow> DeployerInfo option \<Rightarrow> WorkflowRemoveParams \<Rightarrow> 's \<Rightarrow> 'e wf_error + unit" where
  "remove_checks client eval deployer params s =
     (case wf_guard eval deployer (RM_Namespace params) (RM_Name params) of
        Inl e \<Rightarrow> Inl e
      | Inr _ \<Rightarrow>
          (case dep_get client (RM_Namespace params) (RM_Name params) s of
             Inr dep \<Rightarrow>
               (case fetchNamespaceAnnotations client (RM_Namespace params) s of
                  Inl e \<Rightarrow> Inl (WE_Helper e)
                | Inr nsAnn \<Rightarrow>
                    let d = checkAuthz eval deployer nsAnn (D_Annotations dep) Write in
                    if \<not> Allowed d then Inl (WE_Denied (Reason d)) else Inr ())
           | Inl NotFound \<Rightarrow> Inr ()
           | Inl e \<Rightarrow> Inl (WE_Check (RM_Name params) e)))"

definition exo_cleanup ::
  "('s, 'e) Controller option \<Rightarrow> WorkflowRemoveParams \<Rightarrow> WorkflowRemoveResult \<Rightarrow> 's \<Rightarrow> WorkflowRemoveResult \<times> 's" where
  "exo_cleanup exoCtrl params result s =
     (case exoCtrl of
        None \<Rightarrow> (result, s)
      | Some c \<Rightarrow>
          (case CleanupWithReport c (RM_Namespace params) (RM_Name params) s of (report, err, s') \<Rightarrow>
             (if CR_Performed report
              then result\<lparr>RR_ExoCleanedUp := True, RR_ExoCleanupDetails := Summary report\<rparr> else result, s')))"

definition wf_remove ::
  "libs \<Rightarrow> 's kube \<Rightarrow> 's dyn \<Rightarrow> 'c cron_ops \<Rightarrow> ('s, 'e) Controller option \<Rightarrow> Evaluator option \<Rightarrow>
     DeployerInfo option \<Rightarrow> WorkflowRemoveParams \<Rightarrow> ('s \<times> 'c Scheduler option, 'e wf_error, WorkflowRemoveResult) comp" where
  "wf_remove L client dyn ops exoCtrl eval deployer params st =
     (case st of (s, sched) \<Rightarrow>
        case remove_checks client eval deployer params s of
          Inl e \<Rightarrow> (Inl e, s, sched)
        | Inr _ \<Rightarrow>
            let sched1 = map_option (Deregister ops (RM_Namespace params) (RM_Name params)) sched in
            (case handleWorkflowRemove (L_uns L) client dyn params s of
               (Inl e, s1) \<Rightarrow> (Inl (WE_Deploy e), s1, sched1)
             | (Inr result, s1) \<Rightarrow>
                 (case exo_cleanup exoCtrl params result s1 of (result', s2) \<Rightarrow> (Inr result', s2, sched1))))"

section \<open>Guards of workflow tools\<close>

locale workflow_tool =
  fixes tool :: "DeployerInfo option \<Rightarrow> 'p \<Rightarrow> ('st, 'e wf_error, 'r) comp"
    and target :: "'p \<Rightarrow> string" and workflow :: "'p \<Rightarrow> string" and eval :: "Evaluator option"
  assumes guarded: "wf_guard eval deployer (target p) (workflow p) = Inl e \<Longrightarrow> tool deployer p st = (Inl e, st)"
begin

lemma bad_target_untouched:
  assumes "IsSystemNamespace (target p) \<or> target p = [] \<or> CheckName (workflow p) \<noteq> Inr ()"
  shows "\<exists>e. tool deployer p st = (Inl (WE_Guard e), st)"
proof -
  obtain e where "wf_guard eval deployer (target p) (workflow p) = (Inl (WE_Guard e) :: 'e wf_error + unit)"
    using assms CheckNamespace_ok_iff [of "target p"]
    by (cases "CheckNamespace (target p)"; cases "CheckName (workflow p)") (auto simp: wf_guard_def)
  then show ?thesis using guarded by blast
qed

lemma anonymous_untouched:
  assumes "enforcing eval"
  shows "\<exists>e. tool None p st = (Inl e, st)"
proof -
  have "requireDeployer None eval = Inl ErrNoDeployer"
    using assms requireDeployer_cases [of None eval] requireDeployer_iff [of None eval] by auto
  then obtain e where "wf_guard eval None (target p) (workflow p) = (Inl e :: 'e wf_error + unit)"
    by (cases "CheckNamespace (target p)"; cases "CheckName (workflow p)") (auto simp: wf_guard_def)
  then show ?thesis using guarded by blast
qed

end

interpretation apply_tool: workflow_tool
  "wf_apply L getenv client dyn ops exoCtrl eval now" WA_Namespace WA_Name eval
  for L getenv client dyn ops exoCtrl eval now
  by unfold_locales (simp add: wf_apply_def apply_checks_def split: prod.splits)

interpretation remove_tool: workflow_tool
  "wf_remove L client dyn ops exoCtrl eval" RM_Namespace RM_Name eval
  for L client dyn ops exoCtrl eval
  by unfold_locales (simp add: wf_remove_def remove_checks_def split: prod.splits)

section \<open>Authorization\<close>

text \<open>Write access to a workflow: to its Deployment when there is one, to its namespace otherwise.\<close>

definition may_write :: "'s kube \<Rightarrow> Evaluator option \<Rightarrow> DeployerInfo option \<Rightarrow> string \<Rightarrow> string \<Rightarrow> 's \<Rightarrow> bool" where
  "may_write client eval deployer namespace name s =
     (case dep_get client namespace name s of
        Inr d \<Rightarrow>
          (case fetchNamespaceAnnotations client namespace s of
             Inl e \<Rightarrow> False
           | Inr nsAnn \<Rightarrow> tentacle_access eval deployer nsAnn (D_Annotations d) Write)
      | Inl e \<Rightarrow>
          e = NotFound \<and>
          (eval = None \<or>
           (case ns_get client namespace s of
              Inl e \<Rightarrow> e = NotFound
            | Inr ns \<Rightarrow> enclave_access eval deployer (N_Annotations ns) Write)))"

definition frozen :: "'s kube \<Rightarrow> string \<Rightarrow> 's \<Rightarrow> bool" where
  "frozen client namespace s =
     (case ns_get client namespace s of
        Inl e \<Rightarrow> False
      | Inr ns \<Rightarrow> IsEnclave (N_Annotations ns) \<and> EI_Status (ReadEnclaveInfo (N_Annotations ns)) = ''frozen'')"

lemma wf_guard_ok:
  "wf_guard eval deployer namespace name = Inr () \<longleftrightarrow>
     namespace \<noteq> [] \<and> \<not> IsSystemNamespace namespace \<and> CheckName name = Inr () \<and> (deployer \<noteq> None \<or> \<not> enforcing eval)"
  using CheckNamespace_ok_iff [of namespace] requireDeployer_iff [of deployer eval]
  by (cases "CheckNamespace namespace"; cases "CheckName name"; cases "requireDeployer deployer eval")
    (auto simp: wf_guard_def)

lemma apply_authz_ok:
  assumes "fetchNamespaceAnnotations client namespace s = Inr nsAnn"
    and "apply_authz client eval deployer nsAnn namespace name s = Inr existing"
  shows "may_write client eval deployer namespace name s"
proof (cases "dep_get client namespace name s")
  case (Inr d)
  with assms show ?thesis
    by (auto simp: apply_authz_def may_write_def Let_def checkAuthz_def CheckTentacle_access split: if_splits)
next
  case (Inl e)
  with assms(2) have "e = NotFound" "checkNamespaceAuthz client namespace deployer eval Write s = Inr ()"
    by (cases e; auto simp: apply_authz_def split: sum.splits)+
  with Inl show ?thesis
    by (cases eval) (auto simp: may_write_def checkNamespaceAuthz_ok_iff)
qed

lemma apply_checks_ok:
  assumes "apply_checks client eval deployer params s = (Inr x :: 'e wf_error + string \<times> strmap option)"
  shows "WA_Namespace params \<noteq> [] \<and> \<not> IsSystemNamespace (WA_Namespace params) \<and> CheckName (WA_Name params) = Inr () \<and>
    (deployer \<noteq> None \<or> \<not> enforcing eval) \<and> \<not> frozen client (WA_Namespace params) s \<and>
    may_write client eval deployer (WA_Namespace params) (WA_Name params) s"
proof -
  obtain nsAnn existing where ns: "fetchNamespaceAnnotations client (WA_Namespace params) s = Inr nsAnn"
    and "wf_guard eval deployer (WA_Namespace params) (WA_Name params) = (Inr () :: 'e wf_error + unit)"
    and fr: "check_frozen nsAnn = (Inr () :: 'e wf_error + unit)"
    and az: "apply_authz client eval deployer nsAnn (WA_Namespace params) (WA_Name params) s = (Inr existing :: 'e wf_error + _)"
    using assms by (auto simp: apply_checks_def split: sum.splits)
  moreover have "\<not> frozen client (WA_Namespace params) s"
    using ns fr
    by (auto simp: frozen_def check_frozen_def fetchNamespaceAnnotations_def split: sum.splits if_splits)
  ultimately show ?thesis using apply_authz_ok [OF ns az] by (auto simp: wf_guard_ok)
qed

text \<open>C9: a call of \<^verbatim>\<open>wf_apply\<close> that changes anything, in the cluster, in a backing service or in the
  scheduler, or that reports success, targets a permitted namespace that is not a frozen enclave,
  names the workflow by a valid label, comes from an identified caller when the evaluator enforces,
  and the caller may write the workflow's Deployment, or its namespace when there is none.\<close>

theorem wf_apply_authorized:
  fixes exoCtrl :: "('s, 'e) Controller option"
  assumes "wf_apply L getenv client dyn ops exoCtrl eval now deployer params (s, sched) = (r, s', sched')"
    and "s' \<noteq> s \<or> sched' \<noteq> sched \<or> \<not> isl r"
  shows "WA_Namespace params \<noteq> [] \<and> \<not> IsSystemNamespace (WA_Namespace params) \<and> CheckName (WA_Name params) = Inr () \<and>
    (deployer \<noteq> None \<or> \<not> enforcing eval) \<and> \<not> frozen client (WA_Namespace params) s \<and>
    may_write client eval deployer (WA_Namespace params) (WA_Name params) s"
proof (cases "apply_checks client eval deployer params s :: 'e wf_error + _")
  case (Inl e)
  with assms show ?thesis by (auto simp: wf_apply_def)
next
  case (Inr x)
  then show ?thesis by (rule apply_checks_ok)
qed


section \<open>A shared enclave\<close>

definition plain_libs :: libs where
  "plain_libs =
     \<lparr>L_uns = std_uns, L_yaml = no_yaml, L_urlParse = (\<lambda>s. None), L_resolveHost = (\<lambda>h. None), L_names = (\<lambda>s. Inr []),
      L_nodes = (\<lambda>s. None), L_modules = (\<lambda>s. None)\<rparr>"

definition team_namespace :: Namespace where
  "team_namespace = lab_namespace\<lparr>N_Annotations :=
     [AnnotationEnclave \<mapsto> ''lab'', AnnotationEnclaveOwner \<mapsto> ''ann@x'', AnnotationEnclaveMembers \<mapsto> ''bob@x'',
      AnnotationEnclaveStatus \<mapsto> ''active'']\<rparr>"

definition deployment :: "string \<Rightarrow> string \<Rightarrow> strs \<Rightarrow> obj" where
  "deployment name release ann =
     [(''apiVersion'', JStr ''apps/v1''), (''kind'', JStr ''Deployment''),
      (''metadata'', JObj [(''name'', JStr name), (''labels'', JObj [(releaseLabelKey, JStr release)]),
         (''annotations'', of_strs ann)])]"

definition team_world :: world where
  "team_world =
     \<lparr>w_ns = [(''lab'', team_namespace)],
      w_objs = [((hd knownGVRs, ''lab'', ''a''),
                 deployment ''a'' ''a'' [(AnnotationOwner, ''ann@x''), (AnnotationMode, ''rwx------'')])]\<rparr>"

definition bob :: DeployerInfo where
  "bob = \<lparr>Email = ''bob@x'', DisplayName = ''Bob'', Subject = ''b1'', Provider = ''keycloak'', AgentType = [], SessionID = []\<rparr>"

definition eve :: DeployerInfo where
  "eve = \<lparr>Email = ''eve@x'', DisplayName = ''Eve'', Subject = ''e1'', Provider = ''keycloak'', AgentType = [], SessionID = []\<rparr>"

definition strict :: "Evaluator option" where "strict = Some (NewEvaluator DefaultMode)"

definition idle_controller :: "(world, string) Controller" where
  "idle_controller = NewControllerWithDeps (LoadFromEnv (\<lambda>k. [])) None None None None"

definition apply_as :: "DeployerInfo \<Rightarrow> WorkflowApplyParams \<Rightarrow> world \<Rightarrow>
    (string wf_error + WorkflowApplyResult \<times> (string \<times> ModuleDep list) option) \<times> world \<times> nat Scheduler option" where
  "apply_as d params w =
     wf_apply plain_libs (\<lambda>k. []) world_kube mem_dyn \<lparr>AddFunc = (\<lambda>sch cb c. (Inl sch, c)), Remove = (\<lambda>i c. c)\<rparr>
       (Some idle_controller) strict ''2026-01-01T00:00:00Z'' (Some d) params (w, None)"

definition takeover :: WorkflowApplyParams where
  "takeover = \<lparr>WA_Namespace = ''lab'', WA_Name = ''b'', WA_Mode = [], WA_Manifests = [deployment ''a'' ''b'' []]\<rparr>"

text \<open>Authorization looks at the Deployment with the name of the workflow only. A member who may not write
  the Deployment \<open>a\<close> of the enclave's owner can still apply a workflow \<open>b\<close> whose manifests contain \<open>a\<close>:
  the Deployment is overwritten, joins the release \<open>b\<close>, and the member becomes its owner.\<close>

lemma takeover_outcome:
  "(case apply_as bob takeover team_world of (r, w, sched) \<Rightarrow>
      (isl r, map_option (\<lambda>ob. (meta_strs ob ''annotations'' AnnotationOwner, label_of ob releaseLabelKey))
         (mem_live w (hd knownGVRs, ''lab'', ''a'')))) =
     (False, Some (Some ''bob@x'', Some ''b''))"
  by code_simp

lemma bob_may_not_write:
  "\<not> Allowed (CheckTentacle strict (Some bob) (N_Annotations team_namespace)
        [AnnotationOwner \<mapsto> ''ann@x'', AnnotationMode \<mapsto> ''rwx------''] Write)"
  by code_simp

theorem wf_apply_takes_over_deployment:
  "\<not> Allowed (CheckTentacle strict (Some bob) (N_Annotations team_namespace)
        [AnnotationOwner \<mapsto> ''ann@x'', AnnotationMode \<mapsto> ''rwx------''] Write) \<and>
   \<not> isl (fst (apply_as bob takeover team_world)) \<and>
   map_option (\<lambda>ob. (meta_strs ob ''annotations'' AnnotationOwner, label_of ob releaseLabelKey))
     (mem_live (fst (snd (apply_as bob takeover team_world))) (hd knownGVRs, ''lab'', ''a'')) =
     Some (Some ''bob@x'', Some ''b'')"
  using takeover_outcome bob_may_not_write by (simp split: prod.splits)

theorem wf_apply_authorized_witness:
  "WA_Namespace takeover \<noteq> [] \<and> \<not> IsSystemNamespace (WA_Namespace takeover) \<and> CheckName (WA_Name takeover) = Inr () \<and>
    enforcing strict \<and> \<not> frozen world_kube (WA_Namespace takeover) team_world \<and>
    may_write world_kube strict (Some bob) (WA_Namespace takeover) (WA_Name takeover) team_world"
proof -
  obtain r w sched where run: "apply_as bob takeover team_world = (r, w, sched)" by (metis prod.exhaust)
  then have "\<not> isl r" using takeover_outcome by simp
  then have "WA_Namespace takeover \<noteq> [] \<and> \<not> IsSystemNamespace (WA_Namespace takeover) \<and> CheckName (WA_Name takeover) = Inr () \<and>
    (Some bob \<noteq> None \<or> \<not> enforcing strict) \<and> \<not> frozen world_kube (WA_Namespace takeover) team_world \<and>
    may_write world_kube strict (Some bob) (WA_Namespace takeover) (WA_Name takeover) team_world"
    using run unfolding apply_as_def by (intro wf_apply_authorized) auto
  moreover have "enforcing strict" by code_simp
  ultimately show ?thesis by blast
qed

text \<open>An owner who applies a workflow again without asking for a mode loses the stored one: the default
  mode of enclaves replaces it, although an update is documented to override the mode only when
  one is given.\<close>

theorem wf_apply_resets_mode:
  "map_option (\<lambda>ob. meta_strs ob ''annotations'' AnnotationMode)
     (mem_live (fst (snd (apply_as (bob\<lparr>Email := ''ann@x''\<rparr>)
        (takeover\<lparr>WA_Name := ''a'', WA_Manifests := [deployment ''a'' ''a'' []]\<rparr>) team_world))) (hd knownGVRs, ''lab'', ''a'')) =
     Some (Some ''rwxrwx---'')"
  by code_simp

definition orphan_world :: world where
  "orphan_world = lab_world\<lparr>w_ns := [(''lab'', team_namespace)]\<rparr>"

definition remove_as ::
  "DeployerInfo \<Rightarrow> WorkflowRemoveParams \<Rightarrow> world \<Rightarrow> (string wf_error + WorkflowRemoveResult) \<times> world \<times> nat Scheduler option" where
  "remove_as d params w =
     wf_remove plain_libs world_kube mem_dyn \<lparr>AddFunc = (\<lambda>sch cb c. (Inl sch, c)), Remove = (\<lambda>i c. c)\<rparr>
       (Some idle_controller) strict (Some d) params (w, None)"

text \<open>Without a Deployment of its name a release is removed for anyone: a caller who has no access to the
  enclave deletes the Service of the release \<open>wf\<close>.\<close>

lemma orphan_removed:
  "(case remove_as eve lab_remove orphan_world of (r, w, sched) \<Rightarrow>
      (map_sum (\<lambda>e. ()) RR_Deleted r, mem_live w (service_gvr, ''lab'', ''stale'') = None)) = (Inr 1, True)"
  by code_simp

lemma orphan_before:
  "\<not> Allowed (CheckEnclave strict (Some eve) (N_Annotations team_namespace) Write)"
  "mem_live orphan_world (service_gvr, ''lab'', ''stale'') \<noteq> None"
  by code_simp+

theorem wf_remove_unchecked_without_deployment:
  "\<not> Allowed (CheckEnclave strict (Some eve) (N_Annotations team_namespace) Write) \<and>
   map_sum (\<lambda>e. ()) RR_Deleted (fst (remove_as eve lab_remove orphan_world)) = Inr 1 \<and>
   mem_live orphan_world (service_gvr, ''lab'', ''stale'') \<noteq> None \<and>
   mem_live (fst (snd (remove_as eve lab_remove orphan_world))) (service_gvr, ''lab'', ''stale'') = None"
  using orphan_removed orphan_before by (simp split: prod.splits)


end
