(* ===== verification/Workflow_Tools.thy ===== *)
theory Workflow_Tools
  imports Core_Api Deploy_Tools "HOL-Library.Multiset"
begin

text \<open>
  The tools that look at running workflows and poke them: \<^verbatim>\<open>wf_pods\<close>, \<^verbatim>\<open>wf_logs\<close>, \<^verbatim>\<open>wf_events\<close>, \<^verbatim>\<open>wf_jobs\<close> and
  \<^verbatim>\<open>wf_restart\<close> (\<^verbatim>\<open>pkg/tools/workflow.go\<close>), \<^verbatim>\<open>wf_run\<close> (\<^verbatim>\<open>pkg/tools/run.go\<close>) and \<^verbatim>\<open>wf_status\<close> (\<^verbatim>\<open>pkg/tools/deploy.go\<close>).
  The formatting of a time as RFC 3339 is the argument \<open>rfc3339\<close>, the current time the argument \<open>now\<close>. The locale
  \<open>enclave_reader\<close> states what the listing tools promise about access.
\<close>

datatype view_error =
    VE_Guard guard_error
  | VE_Helper helper_error
  | VE_K8s k8s_error
  | VE_Api string api_err
  | VE_Io string
  | VE_Denied string
  | VE_Frozen string
  | VE_Check string api_err
  | VE_Run run_error

definition resolve_guard ::
  "'s kube \<Rightarrow> Evaluator option \<Rightarrow> DeployerInfo option \<Rightarrow> string \<Rightarrow> 's \<Rightarrow> view_error + string" where
  "resolve_guard client eval deployer namespace s =
     (case requireDeployer deployer eval of
        Inl e \<Rightarrow> Inl (VE_Helper e)
      | Inr _ \<Rightarrow>
          (case resolveNamespace client namespace deployer s of
             Inl e \<Rightarrow> Inl (VE_Helper e)
           | Inr ns \<Rightarrow> (case CheckNamespace ns of Inl e \<Rightarrow> Inl (VE_Guard e) | Inr _ \<Rightarrow> Inr ns)))"

definition read_guard ::
  "'s kube \<Rightarrow> Evaluator option \<Rightarrow> DeployerInfo option \<Rightarrow> string \<Rightarrow> 's \<Rightarrow> view_error + string" where
  "read_guard client eval deployer namespace s =
     (case resolve_guard client eval deployer namespace s of
        Inl e \<Rightarrow> Inl e
      | Inr ns \<Rightarrow>
          (case checkNamespaceAuthz client ns deployer eval Read s of Inl e \<Rightarrow> Inl (VE_Helper e) | Inr _ \<Rightarrow> Inr ns))"

section \<open>Pods\<close>

record WfPodInfo =
  PI_Name :: string
  PI_Phase :: string
  PI_Age :: string
  PI_Images :: "string list"
  PI_Restarts :: "32 word"
  PI_Ready :: bool

definition pod_ready :: "Pod \<Rightarrow> bool" where
  "pod_ready pod = list_ex (\<lambda>(t, st). t = ''Ready'' \<and> st = ''True'') (P_Conditions pod)"

definition pod_info :: "int \<Rightarrow> Pod \<Rightarrow> WfPodInfo" where
  "pod_info now pod =
     \<lparr>PI_Name = P_Name pod, PI_Phase = P_Phase pod, PI_Age = age_string now (P_Created pod),
      PI_Images = map snd (P_Containers pod), PI_Restarts = sum_list (P_RestartCounts pod), PI_Ready = pod_ready pod\<rparr>"

definition handleWfPods :: "'s core \<Rightarrow> int \<Rightarrow> string \<Rightarrow> 's \<Rightarrow> view_error + WfPodInfo list" where
  "handleWfPods core now namespace s =
     (case pod_list core namespace [] s of
        Inl e \<Rightarrow> Inl (VE_Api (''list pods in namespace '' @ quote_str namespace) e)
      | Inr pods \<Rightarrow> Inr (map (pod_info now) pods))"

definition wf_pods ::
  "'s kube \<Rightarrow> 's core \<Rightarrow> Evaluator option \<Rightarrow> int \<Rightarrow> DeployerInfo option \<Rightarrow> string \<Rightarrow> 's \<Rightarrow> view_error + WfPodInfo list" where
  "wf_pods client core eval now deployer namespace s =
     (case read_guard client eval deployer namespace s of
        Inl e \<Rightarrow> Inl e | Inr ns \<Rightarrow> handleWfPods core now ns s)"

section \<open>Logs\<close>

record WfLogsParams =
  LG_Namespace :: string
  LG_Pod :: string
  LG_Container :: string
  LG_TailLines :: int

record WfLogsResult =
  LR_Pod :: string
  LR_Container :: string
  LR_Lines :: "string list"

definition tail_lines :: "int \<Rightarrow> int" where
  "tail_lines n = (let maxTailLines = 10000 in if n \<le> 0 then 100 else if n > maxTailLines then maxTailLines else n)"

definition log_lines :: "string \<Rightarrow> string list" where
  "log_lines data =
     (let ls = Split (CHR 0x0A) (TrimRight (\<lambda>c. c = CHR 0x0A) data) in if ls = [[]] then [] else ls)"

definition log_container :: "'s core \<Rightarrow> WfLogsParams \<Rightarrow> 's \<Rightarrow> string" where
  "log_container core params s =
     (if LG_Container params \<noteq> [] then LG_Container params
      else case pod_get core (LG_Namespace params) (LG_Pod params) s of
        Inr pod \<Rightarrow> (case P_Containers pod of [] \<Rightarrow> [] | c # cs \<Rightarrow> fst c)
      | Inl e \<Rightarrow> [])"

definition maxLogBytes :: nat where "maxLogBytes = 2 ^ 20"

definition handleWfLogs :: "'s core \<Rightarrow> WfLogsParams \<Rightarrow> 's \<Rightarrow> view_error + WfLogsResult" where
  "handleWfLogs core params s =
     (case pod_logs core (LG_Namespace params) (LG_Pod params) (LG_Container params) (tail_lines (LG_TailLines params)) s of
        Inl e \<Rightarrow> Inl (VE_Api (''get logs for pod '' @ quote_str (LG_Pod params)) e)
      | Inr (Inl e) \<Rightarrow> Inl (VE_Io e)
      | Inr (Inr stream) \<Rightarrow>
          Inr \<lparr>LR_Pod = LG_Pod params, LR_Container = log_container core params s,
               LR_Lines = log_lines (take maxLogBytes stream)\<rparr>)"

definition wf_logs ::
  "'s kube \<Rightarrow> 's core \<Rightarrow> Evaluator option \<Rightarrow> DeployerInfo option \<Rightarrow> WfLogsParams \<Rightarrow> 's \<Rightarrow> view_error + WfLogsResult" where
  "wf_logs client core eval deployer params s =
     (case CheckName (LG_Pod params) of
        Inl e \<Rightarrow> Inl (VE_Guard e)
      | Inr _ \<Rightarrow>
          (case read_guard client eval deployer (LG_Namespace params) s of
             Inl e \<Rightarrow> Inl e
           | Inr ns \<Rightarrow> handleWfLogs core (params\<lparr>LG_Namespace := ns\<rparr>) s))"

section \<open>Events\<close>

record WfEventInfo =
  EV_Type :: string
  EV_Reason :: string
  EV_Message :: string
  EV_Object :: string
  EV_LastSeen :: string
  EV_Count :: "32 word"

definition event_info :: "(int \<Rightarrow> string) \<Rightarrow> Event \<Rightarrow> WfEventInfo" where
  "event_info rfc3339 e =
     \<lparr>EV_Type = Ev_Type e, EV_Reason = Ev_Reason e, EV_Message = Ev_Message e,
      EV_Object = Ev_ObjectKind e @ ''/'' @ Ev_ObjectName e,
      EV_LastSeen = (case Ev_Last e of None \<Rightarrow> [] | Some t \<Rightarrow> rfc3339 t), EV_Count = Ev_Count e\<rparr>"

text \<open>The order of events last seen at the same time is left open by \<^verbatim>\<open>sort.Slice\<close>; here they keep the
  reverse of the order in which they were listed.\<close>

definition sort_recent :: "WfEventInfo list \<Rightarrow> WfEventInfo list" where
  "sort_recent events = rev (sort_key EV_LastSeen events)"

definition handleWfEvents ::
  "'s core \<Rightarrow> (int \<Rightarrow> string) \<Rightarrow> string \<Rightarrow> int \<Rightarrow> 's \<Rightarrow> view_error + WfEventInfo list" where
  "handleWfEvents core rfc3339 namespace limit0 s =
     (let limit = (if limit0 \<le> 0 then 100 else limit0) in
      case event_list core namespace [] (Some limit) s of
        Inl e \<Rightarrow> Inl (VE_Api (''list events in namespace '' @ quote_str namespace) e)
      | Inr events \<Rightarrow> Inr (sort_recent (map (event_info rfc3339) events)))"

definition wf_events ::
  "'s kube \<Rightarrow> 's core \<Rightarrow> Evaluator option \<Rightarrow> (int \<Rightarrow> string) \<Rightarrow> DeployerInfo option \<Rightarrow> string \<times> int \<Rightarrow> 's \<Rightarrow>
     view_error + WfEventInfo list" where
  "wf_events client core eval rfc3339 deployer params s =
     (case read_guard client eval deployer (fst params) s of
        Inl e \<Rightarrow> Inl e | Inr ns \<Rightarrow> handleWfEvents core rfc3339 ns (snd params) s)"

section \<open>Jobs\<close>

record WfJobInfo =
  JI_Name :: string
  JI_Status :: string
  JI_Start :: string
  JI_Completion :: string
  JI_Duration :: string

record WfCronJobInfo =
  CI_Name :: string
  CI_Schedule :: string
  CI_LastScheduled :: string
  CI_Active :: nat
  CI_Suspended :: bool

fun job_outcome :: "(string \<times> string) list \<Rightarrow> string option" where
  "job_outcome [] = None"
| "job_outcome ((t, st) # conds) =
     (if t = ''Complete'' \<and> st = ''True'' then Some ''Complete''
      else if t = ''Failed'' \<and> st = ''True'' then Some ''Failed''
      else job_outcome conds)"

definition jobStatus :: "Job \<Rightarrow> string" where
  "jobStatus job =
     (case job_outcome (J_Conditions job) of
        Some st \<Rightarrow> st
      | None \<Rightarrow> if J_Active job > 0 then ''Running'' else ''Pending'')"

definition opt_time :: "(int \<Rightarrow> string) \<Rightarrow> int option \<Rightarrow> string" where
  "opt_time rfc3339 t = (case t of None \<Rightarrow> [] | Some x \<Rightarrow> rfc3339 x)"

definition job_info :: "(int \<Rightarrow> string) \<Rightarrow> Job \<Rightarrow> WfJobInfo" where
  "job_info rfc3339 job =
     \<lparr>JI_Name = J_Name job, JI_Status = jobStatus job, JI_Start = opt_time rfc3339 (J_Start job),
      JI_Completion = opt_time rfc3339 (J_Completion job),
      JI_Duration = (case (J_Completion job, J_Start job) of
         (Some c, Some b) \<Rightarrow> duration_string (round_second (c - b)) | _ \<Rightarrow> [])\<rparr>"

definition cronjob_info :: "(int \<Rightarrow> string) \<Rightarrow> CronJob \<Rightarrow> WfCronJobInfo" where
  "cronjob_info rfc3339 cj =
     \<lparr>CI_Name = CJ_Name cj, CI_Schedule = CJ_Schedule cj, CI_LastScheduled = opt_time rfc3339 (CJ_LastSchedule cj),
      CI_Active = CJ_Active cj, CI_Suspended = (CJ_Suspend cj = Some True)\<rparr>"

definition handleWfJobs ::
  "'s core \<Rightarrow> (int \<Rightarrow> string) \<Rightarrow> string \<Rightarrow> 's \<Rightarrow> view_error + WfJobInfo list \<times> WfCronJobInfo list" where
  "handleWfJobs core rfc3339 namespace s =
     (case job_list core namespace s of
        Inl e \<Rightarrow> Inl (VE_Api (''list jobs in namespace '' @ quote_str namespace) e)
      | Inr jobs \<Rightarrow>
          (case cronjob_list core namespace s of
             Inl e \<Rightarrow> Inl (VE_Api (''list cronjobs in namespace '' @ quote_str namespace) e)
           | Inr crons \<Rightarrow> Inr (map (job_info rfc3339) jobs, map (cronjob_info rfc3339) crons)))"

definition wf_jobs ::
  "'s kube \<Rightarrow> 's core \<Rightarrow> Evaluator option \<Rightarrow> (int \<Rightarrow> string) \<Rightarrow> DeployerInfo option \<Rightarrow> string \<Rightarrow> 's \<Rightarrow>
     view_error + WfJobInfo list \<times> WfCronJobInfo list" where
  "wf_jobs client core eval rfc3339 deployer namespace s =
     (case read_guard client eval deployer namespace s of
        Inl e \<Rightarrow> Inl e | Inr ns \<Rightarrow> handleWfJobs core rfc3339 ns s)"

section \<open>Restart and run\<close>

text \<open>The check in front of \<^verbatim>\<open>wf_restart\<close> and \<^verbatim>\<open>wf_run\<close>; a missing Deployment passes it.\<close>

definition execute_check ::
  "'s kube \<Rightarrow> Evaluator option \<Rightarrow> DeployerInfo option \<Rightarrow> string \<Rightarrow> string \<Rightarrow> 's \<Rightarrow> view_error + unit" where
  "execute_check client eval deployer namespace name s =
     (case dep_get client namespace name s of
        Inr dep \<Rightarrow>
          (case fetchNamespaceAnnotations client namespace s of
             Inl e \<Rightarrow> Inl (VE_Helper e)
           | Inr nsAnn \<Rightarrow>
               if IsEnclave nsAnn \<and> EI_Status (ReadEnclaveInfo nsAnn) = ''frozen''
               then Inl (VE_Frozen (EI_Enclave (ReadEnclaveInfo nsAnn)))
               else let d = checkAuthz eval deployer nsAnn (D_Annotations dep) Execute in
                 if \<not> Allowed d then Inl (VE_Denied (Reason d)) else Inr ())
      | Inl NotFound \<Rightarrow> Inr ()
      | Inl e \<Rightarrow> Inl (VE_Check name e))"

definition restart_patch :: "string \<Rightarrow> obj" where
  "restart_patch now =
     [(''spec'', JObj [(''template'', JObj [(''metadata'', JObj [(''annotations'',
        JObj [(''tentacular.io/restartedAt'', JStr now)])])])])]"

record WfRestartParams =
  WS_Namespace :: string
  WS_Deployment :: string

record WfRestartResult =
  RS_Namespace :: string
  RS_Deployment :: string
  RS_Restarted :: bool

definition handleWfRestart ::
  "'s kube \<Rightarrow> 's core \<Rightarrow> string \<Rightarrow> WfRestartParams \<Rightarrow> ('s, view_error, WfRestartResult) comp" where
  "handleWfRestart client core now params s =
     (case CheckManagedNamespace client (WS_Namespace params) s of
        Inl e \<Rightarrow> (Inl (VE_K8s e), s)
      | Inr _ \<Rightarrow>
          (case dep_get client (WS_Namespace params) (WS_Deployment params) s of
             Inl e \<Rightarrow> (Inl (VE_Api (''get deployment '' @ quote_str (WS_Deployment params)) e), s)
           | Inr _ \<Rightarrow>
               bindC (mapErrC (VE_Api (''patch deployment '' @ quote_str (WS_Deployment params)))
                 (deploy_patch core (WS_Namespace params) (WS_Deployment params) (restart_patch now))) (\<lambda>_.
               retC \<lparr>RS_Namespace = WS_Namespace params, RS_Deployment = WS_Deployment params, RS_Restarted = True\<rparr>) s))"

definition wf_restart ::
  "'s kube \<Rightarrow> 's core \<Rightarrow> Evaluator option \<Rightarrow> string \<Rightarrow> DeployerInfo option \<Rightarrow> WfRestartParams \<Rightarrow>
     ('s, view_error, WfRestartResult) comp" where
  "wf_restart client core eval now deployer params s =
     (case CheckName (WS_Deployment params) of
        Inl e \<Rightarrow> (Inl (VE_Guard e), s)
      | Inr _ \<Rightarrow>
          (case resolve_guard client eval deployer (WS_Namespace params) s of
             Inl e \<Rightarrow> (Inl e, s)
           | Inr ns \<Rightarrow>
               (case execute_check client eval deployer ns (WS_Deployment params) s of
                  Inl e \<Rightarrow> (Inl e, s)
                | Inr _ \<Rightarrow> handleWfRestart client core now (params\<lparr>WS_Namespace := ns\<rparr>) s)))"

record WfRunParams =
  RN_Namespace :: string
  RN_Name :: string
  RN_Input :: string
  RN_TimeoutS :: int

record WfRunResult =
  RO_Output :: "obj option"
  RO_Name :: string
  RO_Namespace :: string
  RO_DurationMs :: int

definition run_timeout :: "int \<Rightarrow> int" where
  "run_timeout t = (if 0 < t \<and> t \<le> 600 then t else if t > 600 then 600 else 120)"

text \<open>\<open>decode\<close> is \<^verbatim>\<open>json.Unmarshal\<close> into a map: \<open>None\<close> when it fails, \<open>Some None\<close> for a null. The attempts of the
  retry loop after the deadline of a timeout are \<open>expired timeout\<close>, and \<open>None\<close> is a loop that never returns.\<close>

definition run_output :: "(string \<Rightarrow> obj option option) \<Rightarrow> string \<Rightarrow> obj option" where
  "run_output decode raw =
     (if 0 < length raw then
        (case decode raw of None \<Rightarrow> Some [(''raw'', JStr raw)] | Some out \<Rightarrow> out)
      else None)"

definition handleWfRun ::
  "(nat \<Rightarrow> string \<Rightarrow> string \<Rightarrow> http_result) \<Rightarrow> (int \<Rightarrow> nat \<Rightarrow> bool) \<Rightarrow> (string \<Rightarrow> obj option option) \<Rightarrow> int \<Rightarrow>
     's kube \<Rightarrow> WfRunParams \<Rightarrow> 's \<Rightarrow> (view_error + WfRunResult) option" where
  "handleWfRun http expired decode elapsed client params s =
     (case CheckManagedNamespace client (RN_Namespace params) s of
        Inl e \<Rightarrow> Some (Inl (VE_K8s e))
      | Inr _ \<Rightarrow>
          (case RunWorkflow http (expired (run_timeout (RN_TimeoutS params))) (RN_Namespace params) (RN_Name params)
                  (RN_Input params) of
             None \<Rightarrow> None
           | Some (Inl e) \<Rightarrow> Some (Inl (VE_Run e))
           | Some (Inr raw) \<Rightarrow>
               Some (Inr \<lparr>RO_Output = run_output decode raw, RO_Name = RN_Name params, RO_Namespace = RN_Namespace params,
                          RO_DurationMs = elapsed\<rparr>)))"

definition run_checks ::
  "'s kube \<Rightarrow> Evaluator option \<Rightarrow> DeployerInfo option \<Rightarrow> WfRunParams \<Rightarrow> 's \<Rightarrow> view_error + unit" where
  "run_checks client eval deployer params s =
     (case CheckNamespace (RN_Namespace params) of
        Inl e \<Rightarrow> Inl (VE_Guard e)
      | Inr _ \<Rightarrow>
          (case CheckName (RN_Name params) of
             Inl e \<Rightarrow> Inl (VE_Guard e)
           | Inr _ \<Rightarrow>
               (case requireDeployer deployer eval of
                  Inl e \<Rightarrow> Inl (VE_Helper e)
                | Inr _ \<Rightarrow> execute_check client eval deployer (RN_Namespace params) (RN_Name params) s)))"

definition wf_run ::
  "(nat \<Rightarrow> string \<Rightarrow> string \<Rightarrow> http_result) \<Rightarrow> (int \<Rightarrow> nat \<Rightarrow> bool) \<Rightarrow> (string \<Rightarrow> obj option option) \<Rightarrow> int \<Rightarrow>
     's kube \<Rightarrow> Evaluator option \<Rightarrow> DeployerInfo option \<Rightarrow> WfRunParams \<Rightarrow> 's \<Rightarrow> (view_error + WfRunResult) option" where
  "wf_run http expired decode elapsed client eval deployer params s =
     (case run_checks client eval deployer params s of
        Inl e \<Rightarrow> Some (Inl e)
      | Inr _ \<Rightarrow> handleWfRun http expired decode elapsed client params s)"

section \<open>Status\<close>

record WorkflowResourceStatus =
  ST_Kind :: string
  ST_Name :: string
  ST_Reason :: string
  ST_Ready :: bool

record WorkflowPodInfo =
  SP_Name :: string
  SP_Phase :: string
  SP_NodeName :: string
  SP_Ready :: bool

record WorkflowEventInfo =
  SE_Type :: string
  SE_Reason :: string
  SE_Message :: string
  SE_Count :: "32 word"

record WorkflowStatusResult =
  SR_Name :: string
  SR_Namespace :: string
  SR_Version :: string
  SR_Resources :: "WorkflowResourceStatus list"
  SR_Pods :: "WorkflowPodInfo list"
  SR_Events :: "WorkflowEventInfo list"
  SR_Replicas :: int
  SR_Available :: int
  SR_Ready :: bool

record WorkflowStatusParams =
  SQ_Namespace :: string
  SQ_Name :: string
  SQ_Detail :: bool

fun job_ready :: "json list \<Rightarrow> bool \<times> string" where
  "job_ready [] = (False, ''job in progress'')"
| "job_ready (c # cs) =
     (case c of
        JObj cond \<Rightarrow>
          if map_of cond ''type'' = Some (JStr ''Complete'') \<and> map_of cond ''status'' = Some (JStr ''True'') then (True, [])
          else if map_of cond ''type'' = Some (JStr ''Failed'') \<and> map_of cond ''status'' = Some (JStr ''True'')
          then (False, ''job failed'')
          else job_ready cs
      | _ \<Rightarrow> job_ready cs)"

definition resourceReadiness :: "uns \<Rightarrow> obj \<Rightarrow> string \<Rightarrow> bool \<times> string" where
  "resourceReadiness u ob resource =
     (if resource = ''deployments'' then
        let readyReplicas = found_or 0 (u_int64 u ob [''status'', ''readyReplicas'']);
            spec = u_int64 u ob [''spec'', ''replicas''];
            replicas = found_or 1 spec
        in if spec = Found 0 then (True, [])
           else if readyReplicas \<ge> replicas then (True, [])
           else (False, show_int readyReplicas @ ''/'' @ show_int replicas @ '' replicas ready'')
      else if resource = ''jobs'' then job_ready (found_or [] (u_slice u ob [''status'', ''conditions'']))
      else (True, []))"

definition replicaCount :: "int option \<Rightarrow> int" where
  "replicaCount p = (case p of None \<Rightarrow> 1 | Some n \<Rightarrow> n)"

definition status_resources :: "uns \<Rightarrow> 's dyn \<Rightarrow> string \<Rightarrow> string \<Rightarrow> 's \<Rightarrow> gvr \<Rightarrow> WorkflowResourceStatus list" where
  "status_resources u dyn namespace name s g =
     (case dyn_list dyn g namespace (labelSelector name) s of
        Inl e \<Rightarrow> []
      | Inr items \<Rightarrow>
          map (\<lambda>item. case resourceReadiness u item (GVR_Resource g) of (ready, reason) \<Rightarrow>
            \<lparr>ST_Kind = u_kind u item, ST_Name = u_name u item, ST_Reason = reason, ST_Ready = ready\<rparr>) items)"

definition status_deployment :: "'s core \<Rightarrow> string \<Rightarrow> string \<Rightarrow> 's \<Rightarrow> WorkflowStatusResult \<Rightarrow> WorkflowStatusResult" where
  "status_deployment core namespace name s r =
     (case deploy_get core namespace name s of
        Inl e \<Rightarrow> r
      | Inr deploy \<Rightarrow>
          let replicas = replicaCount (DV_Replicas deploy) in
          r\<lparr>SR_Replicas := replicas, SR_Available := DV_AvailableReplicas deploy,
            SR_Ready := (if DV_Replicas deploy \<noteq> None \<and> replicas = 0 then True
                         else DV_AvailableReplicas deploy \<ge> replicas),
            SR_Version := (case DV_Labels deploy ''app.kubernetes.io/version'' of Some v \<Rightarrow> v | None \<Rightarrow> SR_Version r)\<rparr>)"

definition status_detail :: "'s core \<Rightarrow> string \<Rightarrow> string \<Rightarrow> 's \<Rightarrow> WorkflowStatusResult \<Rightarrow> WorkflowStatusResult" where
  "status_detail core namespace name s r =
     r\<lparr>SR_Pods := (case pod_list core namespace (labelSelector name) s of
          Inl e \<Rightarrow> []
        | Inr pods \<Rightarrow> map (\<lambda>pod. \<lparr>SP_Name = P_Name pod, SP_Phase = P_Phase pod, SP_NodeName = P_NodeName pod,
            SP_Ready = pod_ready pod\<rparr>) pods),
       SR_Events := (case event_list core namespace (''involvedObject.name='' @ name) None s of
          Inl e \<Rightarrow> []
        | Inr events \<Rightarrow> map (\<lambda>e. \<lparr>SE_Type = Ev_Type e, SE_Reason = Ev_Reason e, SE_Message = Ev_Message e,
            SE_Count = Ev_Count e\<rparr>) events)\<rparr>"

definition handleWorkflowStatus ::
  "uns \<Rightarrow> 's kube \<Rightarrow> 's dyn \<Rightarrow> 's core \<Rightarrow> WorkflowStatusParams \<Rightarrow> 's \<Rightarrow> view_error + WorkflowStatusResult" where
  "handleWorkflowStatus u client dyn core params s =
     (let namespace = SQ_Namespace params; name = SQ_Name params in
      case CheckManagedNamespace client namespace s of
        Inl e \<Rightarrow> Inl (VE_K8s e)
      | Inr _ \<Rightarrow>
          let resources = concat (map (status_resources u dyn namespace name s) knownGVRs);
              r0 = \<lparr>SR_Name = name, SR_Namespace = namespace, SR_Version = [], SR_Resources = resources, SR_Pods = [],
                    SR_Events = [], SR_Replicas = 0, SR_Available = 0, SR_Ready = False\<rparr>;
              r1 = status_deployment core namespace name s r0
          in Inr (if SQ_Detail params then status_detail core namespace name s r1 else r1))"

definition status_check ::
  "'s kube \<Rightarrow> Evaluator option \<Rightarrow> DeployerInfo option \<Rightarrow> string \<Rightarrow> string \<Rightarrow> 's \<Rightarrow> view_error + unit" where
  "status_check client eval deployer namespace name s =
     (case dep_get client namespace name s of
        Inr dep \<Rightarrow>
          (case fetchNamespaceAnnotations client namespace s of
             Inl e \<Rightarrow> Inl (VE_Helper e)
           | Inr nsAnn \<Rightarrow>
               let d = checkAuthz eval deployer nsAnn (D_Annotations dep) Read in
               if \<not> Allowed d then Inl (VE_Denied (Reason d)) else Inr ())
      | Inl NotFound \<Rightarrow> Inr ()
      | Inl e \<Rightarrow> Inl (VE_Check name e))"

definition wf_status ::
  "uns \<Rightarrow> 's kube \<Rightarrow> 's dyn \<Rightarrow> 's core \<Rightarrow> Evaluator option \<Rightarrow> DeployerInfo option \<Rightarrow> WorkflowStatusParams \<Rightarrow> 's \<Rightarrow>
     view_error + WorkflowStatusResult" where
  "wf_status u client dyn core eval deployer params s =
     (case CheckNamespace (SQ_Namespace params) of
        Inl e \<Rightarrow> Inl (VE_Guard e)
      | Inr _ \<Rightarrow>
          (case CheckName (SQ_Name params) of
             Inl e \<Rightarrow> Inl (VE_Guard e)
           | Inr _ \<Rightarrow>
               (case requireDeployer deployer eval of
                  Inl e \<Rightarrow> Inl (VE_Helper e)
                | Inr _ \<Rightarrow>
                    (case status_check client eval deployer (SQ_Namespace params) (SQ_Name params) s of
                       Inl e \<Rightarrow> Inl e
                     | Inr _ \<Rightarrow> handleWorkflowStatus u client dyn core params s))))"

section \<open>Access to the views\<close>

locale enclave_reader =
  fixes client :: "'s kube" and eval :: "Evaluator option" and target :: "'p \<Rightarrow> string"
    and tool :: "DeployerInfo option \<Rightarrow> 'p \<Rightarrow> 's \<Rightarrow> view_error + 'r"
  assumes guarded: "tool deployer p s = Inr r \<Longrightarrow> \<exists>ns. read_guard client eval deployer (target p) s = Inr ns"
begin

lemma needs_read_access:
  assumes "target p \<noteq> []" and "ns_get client (target p) s = Inr ns" and "enforcing eval"
    and "\<not> enclave_access eval deployer (N_Annotations ns) Read"
  shows "isl (tool deployer p s)"
proof (rule ccontr)
  assume "\<not> isl (tool deployer p s)"
  then obtain ns' where guard: "read_guard client eval deployer (target p) s = Inr ns'"
    using guarded by (metis sum.collapse(2))
  obtain ev where ev: "eval = Some ev" using assms(3) by (auto simp: enforcing_def split: option.splits)
  have "checkNamespaceAuthz client (target p) deployer eval Read s = Inr ()"
    using guard assms(1)
    by (auto simp: read_guard_def resolve_guard_def resolveNamespace_def split: sum.splits)
  then show False
    using assms(2,4) unfolding ev checkNamespaceAuthz_ok_iff by auto
qed

lemma system_namespace_hidden:
  assumes "IsSystemNamespace (target p)"
  shows "isl (tool deployer p s)"
proof (rule ccontr)
  assume "\<not> isl (tool deployer p s)"
  then obtain ns' where guard: "read_guard client eval deployer (target p) s = Inr ns'"
    using guarded by (metis sum.collapse(2))
  have "target p \<noteq> []" using assms by (auto simp: IsSystemNamespace_def systemNamespaces_def)
  then have "CheckNamespace (target p) = Inr ()"
    using guard by (auto simp: read_guard_def resolve_guard_def resolveNamespace_def split: sum.splits)
  then show False using assms CheckNamespace_ok_iff by blast
qed

end

interpretation pods_view: enclave_reader client eval "\<lambda>ns. ns" "wf_pods client core eval now"
  for client eval core now
  by unfold_locales (auto simp: wf_pods_def split: sum.splits)

interpretation logs_view: enclave_reader client eval LG_Namespace "wf_logs client core eval"
  for client eval core
  by unfold_locales (auto simp: wf_logs_def split: sum.splits)

interpretation events_view: enclave_reader client eval fst "wf_events client core eval rfc3339"
  for client eval core rfc3339
  by unfold_locales (auto simp: wf_events_def split: sum.splits)

interpretation jobs_view: enclave_reader client eval "\<lambda>ns. ns" "wf_jobs client core eval rfc3339"
  for client eval core rfc3339
  by unfold_locales (auto simp: wf_jobs_def split: sum.splits)

text \<open>C27: under an enforcing evaluator the tools that list pods, logs, events and jobs of an existing
  enclave fail for every caller without read access to it, and they fail for everyone on a system
  namespace.\<close>

theorem enclave_views_need_read_access:
  assumes "ns \<noteq> []" and "IsSystemNamespace ns \<or>
      enforcing eval \<and> ns_get client ns s = Inr n \<and> \<not> enclave_access eval deployer (N_Annotations n) Read"
  shows "isl (wf_pods client core eval now deployer ns s) \<and>
    isl (wf_logs client core eval deployer \<lparr>LG_Namespace = ns, LG_Pod = pod, LG_Container = c, LG_TailLines = k\<rparr> s) \<and>
    isl (wf_events client core eval rfc3339 deployer (ns, limit) s) \<and> isl (wf_jobs client core eval rfc3339 deployer ns s)"
  using assms(2)
proof
  assume "IsSystemNamespace ns"
  then show ?thesis
    by (simp add: pods_view.system_namespace_hidden logs_view.system_namespace_hidden
        events_view.system_namespace_hidden jobs_view.system_namespace_hidden)
next
  assume "enforcing eval \<and> ns_get client ns s = Inr n \<and> \<not> enclave_access eval deployer (N_Annotations n) Read"
  then show ?thesis
    using assms(1)
    by (auto intro!: pods_view.needs_read_access logs_view.needs_read_access events_view.needs_read_access
        jobs_view.needs_read_access)
qed

section \<open>Execution\<close>

definition may_execute :: "'s kube \<Rightarrow> Evaluator option \<Rightarrow> DeployerInfo option \<Rightarrow> string \<Rightarrow> string \<Rightarrow> 's \<Rightarrow> bool" where
  "may_execute client eval deployer namespace name s =
     (case (dep_get client namespace name s, fetchNamespaceAnnotations client namespace s) of
        (Inr d, Inr nsAnn) \<Rightarrow>
          \<not> frozen client namespace s \<and> tentacle_access eval deployer nsAnn (D_Annotations d) Execute
      | _ \<Rightarrow> False)"

lemma execute_check_ok:
  "execute_check client eval deployer namespace name s = Inr () \<Longrightarrow>
     dep_get client namespace name s = Inl NotFound \<or> may_execute client eval deployer namespace name s"
  by (cases "dep_get client namespace name s"; cases "ns_get client namespace s")
    (auto simp: execute_check_def may_execute_def frozen_def fetchNamespaceAnnotations_def Let_def checkAuthz_def
       CheckTentacle_access split: if_splits api_err.splits)

lemma resolve_guard_ok:
  "resolve_guard client eval deployer namespace s = Inr ns \<Longrightarrow>
     ns \<noteq> [] \<and> \<not> IsSystemNamespace ns \<and> (namespace \<noteq> [] \<longrightarrow> ns = namespace) \<and> (deployer \<noteq> None \<or> \<not> enforcing eval)"
  using requireDeployer_iff [of deployer eval] CheckNamespace_ok_iff [of ns]
  by (auto simp: resolve_guard_def resolveNamespace_def split: sum.splits if_splits)

text \<open>C28: a restart that changes anything or reports success hits exactly one existing Deployment, in a
  permitted namespace that is not a frozen enclave and is managed by the server, for a caller with
  execute access to it; the only write is the restart time in the pod template's annotations.\<close>

theorem wf_restart_authorized:
  assumes "wf_restart client core eval now deployer params s = (r, s')" and "s' \<noteq> s \<or> \<not> isl r"
  shows "\<exists>ns. (WS_Namespace params = [] \<or> ns = WS_Namespace params) \<and> \<not> IsSystemNamespace ns \<and>
    CheckManagedNamespace client ns s = Inr () \<and> may_execute client eval deployer ns (WS_Deployment params) s \<and>
    s' = snd (deploy_patch core ns (WS_Deployment params) (restart_patch now) s)"
proof -
  obtain ns where ns: "resolve_guard client eval deployer (WS_Namespace params) s = Inr ns"
    and check: "execute_check client eval deployer ns (WS_Deployment params) s = Inr ()"
    and run: "handleWfRestart client core now (params\<lparr>WS_Namespace := ns\<rparr>) s = (r, s')"
    using assms by (auto simp: wf_restart_def split: sum.splits)
  have managed: "CheckManagedNamespace client ns s = Inr ()"
    and dep: "\<exists>d. dep_get client ns (WS_Deployment params) s = Inr d"
    using run assms(2) by (auto simp: handleWfRestart_def split: sum.splits)
  moreover have "s' = snd (deploy_patch core ns (WS_Deployment params) (restart_patch now) s)"
    using run managed dep by (auto simp: handleWfRestart_def bindC_def mapErrC_def split: prod.splits sum.splits)
  moreover have "may_execute client eval deployer ns (WS_Deployment params) s"
    using execute_check_ok [OF check] dep by auto
  ultimately show ?thesis using resolve_guard_ok [OF ns] by (cases "WS_Namespace params = []") auto
qed

lemma run_timeout_bounds: "1 \<le> run_timeout t \<and> run_timeout t \<le> 600"
  by (auto simp: run_timeout_def)

lemma run_workflow_some: "ex n \<Longrightarrow> \<exists>rr. RunWorkflow http ex namespace name input = Some rr"
  unfolding RunWorkflow_def Let_def using run_loop_result by blast


section \<open>What the views show\<close>

text \<open>A resource is reported as not ready with a reason, and as ready without one.\<close>

lemma job_ready_reason: "fst (job_ready cs) \<longleftrightarrow> snd (job_ready cs) = []"
  by (induction cs) (auto split: json.splits)

lemma resourceReadiness_reason: "fst (resourceReadiness u ob resource) \<longleftrightarrow> snd (resourceReadiness u ob resource) = []"
  by (simp add: resourceReadiness_def Let_def job_ready_reason)

lemma sort_recent_desc: "sorted_wrt (\<lambda>a b. EV_LastSeen a \<ge> EV_LastSeen b) (sort_recent events)"
proof -
  have "sorted_wrt (\<lambda>a b. EV_LastSeen a \<le> EV_LastSeen b) (sort_key EV_LastSeen events)"
    using sorted_sort_key [of EV_LastSeen events] by (simp add: sorted_map)
  then show ?thesis by (simp add: sort_recent_def sorted_wrt_rev)
qed

text \<open>The tools bound what they ask for and return: the events come most recent first and none is lost, at
  least one and at most ten thousand log lines are requested, and the log lines are exactly the
  lines of the first mebibyte of the stream without its trailing newlines.\<close>

theorem views_bounded:
  "(event_list core ns [] (Some (if limit \<le> 0 then 100 else limit)) s = Inr events \<longrightarrow>
      (\<exists>r. handleWfEvents core rfc3339 ns limit s = Inr r \<and> mset r = mset (map (event_info rfc3339) events) \<and>
         sorted_wrt (\<lambda>a b. EV_LastSeen a \<ge> EV_LastSeen b) r)) \<and>
   1 \<le> tail_lines k \<and> tail_lines k \<le> 10000 \<and>
   (pod_logs core ns pod c (tail_lines k) s = Inr (Inr data) \<longrightarrow>
      (\<exists>r. handleWfLogs core \<lparr>LG_Namespace = ns, LG_Pod = pod, LG_Container = c, LG_TailLines = k\<rparr> s = Inr r \<and>
         Join (LR_Lines r) [CHR 0x0A] = TrimRight (\<lambda>c. c = CHR 0x0A) (take (2 ^ 20) data) \<and>
         list_all (\<lambda>l. CHR 0x0A \<notin> set l) (LR_Lines r)))"
proof (intro conjI impI)
  assume "event_list core ns [] (Some (if limit \<le> 0 then 100 else limit)) s = Inr events"
  then show "\<exists>r. handleWfEvents core rfc3339 ns limit s = Inr r \<and> mset r = mset (map (event_info rfc3339) events) \<and>
      sorted_wrt (\<lambda>a b. EV_LastSeen a \<ge> EV_LastSeen b) r"
    by (simp add: handleWfEvents_def Let_def sort_recent_desc) (simp add: sort_recent_def)
next
  show "1 \<le> tail_lines k" "tail_lines k \<le> 10000" by (simp_all add: tail_lines_def Let_def)
next
  assume logs: "pod_logs core ns pod c (tail_lines k) s = Inr (Inr data)"
  have "Join (log_lines d) [CHR 0x0A] = TrimRight (\<lambda>c. c = CHR 0x0A) d \<and> list_all (\<lambda>l. CHR 0x0A \<notin> set l) (log_lines d)" for d
    using Join_Split [of "CHR 0x0A" "TrimRight (\<lambda>c. c = CHR 0x0A) d"] Split_no_sep
    by (auto simp: log_lines_def Let_def list_all_iff)
  then show "\<exists>r. handleWfLogs core \<lparr>LG_Namespace = ns, LG_Pod = pod, LG_Container = c, LG_TailLines = k\<rparr> s = Inr r \<and>
      Join (LR_Lines r) [CHR 0x0A] = TrimRight (\<lambda>c. c = CHR 0x0A) (take (2 ^ 20) data) \<and>
      list_all (\<lambda>l. CHR 0x0A \<notin> set l) (LR_Lines r)"
    using logs by (simp add: handleWfLogs_def maxLogBytes_def)
qed

definition quiet_core :: "world core" where
  "quiet_core =
     \<lparr>pod_list = (\<lambda>ns sel w. Inr []), pod_get = (\<lambda>ns n w. Inl NotFound),
      pod_logs = (\<lambda>ns n c k w. Inr (Inr (''one'' @ [CHR 0x0A] @ ''two'' @ [CHR 0x0A]))),
      event_list = (\<lambda>ns sel k w. Inr []), job_list = (\<lambda>ns w. Inr []), cronjob_list = (\<lambda>ns w. Inr []),
      deploy_get = (\<lambda>ns n w. Inl NotFound), deploy_list = (\<lambda>ns sel w. Inr []),
      deploy_patch = (\<lambda>ns n p w. (Inr (), w\<lparr>w_objs := []\<rparr>))\<rparr>"

theorem enclave_views_need_read_access_witness:
  "isl (wf_pods world_kube quiet_core strict 0 (Some eve) ''lab'' team_world) \<and>
    isl (wf_logs world_kube quiet_core strict (Some eve) \<lparr>LG_Namespace = ''lab'', LG_Pod = ''p'', LG_Container = [], LG_TailLines = 5\<rparr> team_world) \<and>
    isl (wf_events world_kube quiet_core strict (\<lambda>t. []) (Some eve) (''lab'', 5) team_world) \<and>
    isl (wf_jobs world_kube quiet_core strict (\<lambda>t. []) (Some eve) ''lab'' team_world)"
proof (rule enclave_views_need_read_access [where n = team_namespace])
  have "\<not> Allowed (CheckEnclave strict (Some eve) (N_Annotations team_namespace) Read)" by code_simp
  moreover have "ns_get world_kube ''lab'' team_world = Inr team_namespace"
    by (simp add: world_kube_def team_world_def fetch_def)
  moreover have "enforcing strict" by (simp add: enforcing_def strict_def NewEvaluator_def)
  ultimately show "IsSystemNamespace ''lab'' \<or> enforcing strict \<and> ns_get world_kube ''lab'' team_world = Inr team_namespace \<and>
      \<not> enclave_access strict (Some eve) (N_Annotations team_namespace) Read"
    by (simp add: CheckEnclave_access)
qed simp

definition ann_restart :: "(view_error + WfRestartResult) \<times> world" where
  "ann_restart =
     wf_restart world_kube quiet_core strict ''now'' (Some (bob\<lparr>Email := ''ann@x''\<rparr>))
       \<lparr>WS_Namespace = ''lab'', WS_Deployment = ''a''\<rparr> team_world"

theorem wf_restart_authorized_witness:
  "\<exists>ns. (''lab'' = [] \<or> ns = ''lab'') \<and> \<not> IsSystemNamespace ns \<and>
    CheckManagedNamespace world_kube ns team_world = Inr () \<and>
    may_execute world_kube strict (Some (bob\<lparr>Email := ''ann@x''\<rparr>)) ns ''a'' team_world \<and>
    snd ann_restart = snd (deploy_patch quiet_core ns ''a'' (restart_patch ''now'') team_world)"
proof -
  have "\<not> isl (fst ann_restart)" by code_simp
  then show ?thesis
    using wf_restart_authorized [of world_kube quiet_core strict "''now''" "Some (bob\<lparr>Email := ''ann@x''\<rparr>)"
        "\<lparr>WS_Namespace = ''lab'', WS_Deployment = ''a''\<rparr>" team_world "fst ann_restart" "snd ann_restart"]
    unfolding ann_restart_def by simp
qed


theorem views_bounded_witness:
  "\<exists>r. handleWfLogs quiet_core \<lparr>LG_Namespace = ''lab'', LG_Pod = ''p'', LG_Container = [], LG_TailLines = 0\<rparr> team_world = Inr r \<and>
     Join (LR_Lines r) [CHR 0x0A] = TrimRight (\<lambda>c. c = CHR 0x0A) (take (2 ^ 20) (''one'' @ [CHR 0x0A] @ ''two'' @ [CHR 0x0A])) \<and>
     list_all (\<lambda>l. CHR 0x0A \<notin> set l) (LR_Lines r)"
proof -
  have "pod_logs quiet_core ''lab'' ''p'' [] (tail_lines 0) team_world = Inr (Inr (''one'' @ [CHR 0x0A] @ ''two'' @ [CHR 0x0A]))"
    by (simp add: quiet_core_def)
  then show ?thesis
    using views_bounded [where core = quiet_core and ns = "''lab''" and pod = "''p''" and c = "[]" and k = 0 and s = team_world]
    by blast
qed

end
