(* ===== verification/Discover.thy ===== *)
theory Discover
  imports Workflow_Tools
begin

text \<open>
  Finding and describing workflows: \<^verbatim>\<open>wf_list\<close> and \<^verbatim>\<open>wf_describe\<close> (\<^verbatim>\<open>pkg/tools/discover.go\<close>). The decoders of the JSON and
  YAML values that annotations and ConfigMaps carry are the fields of the record \<open>decoders\<close>.
\<close>

record SidecarMeta =
  SC_Name :: string
  SC_Image :: string
  SC_Port :: int

record DependencyMeta =
  DM_Name :: string
  DM_Protocol :: string
  DM_Managed :: bool

record NodeMeta =
  NM_Name :: string
  NM_Description :: string

record PromptEntry =
  PE_Node :: string
  PE_Name :: string
  PE_Description :: string
  PE_Model :: string
  PE_SystemPrompt :: string
  PE_UserPromptTemplate :: string
  PE_Tools :: "(string \<times> string) list"

record TemplateEntry =
  TP_Node :: string
  TP_Name :: string
  TP_Description :: string
  TP_Format :: string
  TP_Template :: string

record GitProvenance =
  GP_Commit :: string
  GP_Branch :: string
  GP_Repo :: string
  GP_Dirty :: bool

record minimalWorkflow =
  MW_Nodes :: "string list"
  MW_Name :: string
  MW_Version :: string
  MW_Triggers :: "(string \<times> string) list"

record decoders =
  dec_strings :: "string \<Rightarrow> string list option"
  dec_edges :: "string \<Rightarrow> (string \<times> string) list option"
  dec_sidecars :: "string \<Rightarrow> SidecarMeta list option"
  dec_dependencies :: "string \<Rightarrow> DependencyMeta list option"
  dec_provenance :: "string \<Rightarrow> GitProvenance option"
  dec_prompts :: "string \<Rightarrow> (PromptEntry list \<times> TemplateEntry list) option"
  dec_nodes :: "string \<Rightarrow> NodeMeta list option"
  dec_workflow :: "string \<Rightarrow> minimalWorkflow option"

section \<open>List\<close>

record WfListParams =
  WL_Namespace :: string
  WL_Owner :: string
  WL_Tag :: string

record WfListEntry =
  LE_Name :: string
  LE_Namespace :: string
  LE_Version :: string
  LE_Description :: string
  LE_Owner :: string
  LE_Group :: string
  LE_Mode :: string
  LE_Environment :: string
  LE_DeployedBy :: string
  LE_DeployedVia :: string
  LE_Age :: string
  LE_Ready :: bool

definition VersionLabel :: string where "VersionLabel = ''app.kubernetes.io/version''"

definition isSystemNamespace :: "string \<Rightarrow> strmap \<Rightarrow> bool" where
  "isSystemNamespace ns annotations \<longleftrightarrow> IsSystemNamespace ns \<or> mget annotations ''tentacular.io/system'' = ''true''"

definition containsTag :: "string \<Rightarrow> string \<Rightarrow> bool" where
  "containsTag tagsCSV tag = list_ex (\<lambda>t. TrimSpace t = tag) (Split CHR '','' tagsCSV)"

definition deploymentToListEntry :: "int \<Rightarrow> DeploymentView \<Rightarrow> WfListEntry" where
  "deploymentToListEntry now dep =
     (let ann = DV_Annotations dep; ownerInfo = ReadOwnerInfo ann in
      \<lparr>LE_Name = DV_Name dep, LE_Namespace = DV_Namespace dep, LE_Version = mget (DV_Labels dep) VersionLabel,
       LE_Description = GetAnnotation ann ''tentacular.io/description'', LE_Owner = OI_OwnerEmail ownerInfo,
       LE_Group = OI_Group ownerInfo, LE_Mode = ModeString (OI_Mode ownerInfo),
       LE_Environment = GetAnnotation ann ''tentacular.io/environment'',
       LE_DeployedBy = GetAnnotation ann ''tentacular.io/deployed-by'',
       LE_DeployedVia = GetAnnotation ann ''tentacular.io/deployed-via'',
       LE_Age = age_string now (DV_Created dep), LE_Ready = (DV_ReadyReplicas dep \<ge> 1)\<rparr>)"

text \<open>The cache of namespace annotations; a namespace it lacks reads as one without annotations.\<close>

definition cached :: "(string \<times> strmap) list \<Rightarrow> string \<Rightarrow> strmap" where
  "cached cache ns = (case map_of cache ns of None \<Rightarrow> Map.empty | Some ann \<Rightarrow> ann)"

definition list_cache ::
  "'s kube \<Rightarrow> Evaluator option \<Rightarrow> DeployerInfo option \<Rightarrow> string \<Rightarrow> 's \<Rightarrow> view_error + (string \<times> strmap) list" where
  "list_cache client eval deployer ns s =
     (if ns \<noteq> [] then
        (case fetchNamespaceAnnotations client ns s of
           Inl e \<Rightarrow> Inl (VE_Helper e)
         | Inr nsAnn \<Rightarrow>
             let d = CheckEnclave eval deployer nsAnn Read in
             if \<not> Allowed d then Inl (VE_Denied (Reason d)) else Inr [(ns, nsAnn)])
      else case ns_list client [] s of
        Inl e \<Rightarrow> Inr []
      | Inr nss \<Rightarrow> Inr (rev (map (\<lambda>n. (N_Name n, N_Annotations n)) nss)))"

definition list_visible ::
  "Evaluator option \<Rightarrow> DeployerInfo option \<Rightarrow> string \<Rightarrow> (string \<times> strmap) list \<Rightarrow> DeploymentView \<Rightarrow> bool" where
  "list_visible eval deployer ns cache dep =
     (let nsAnn = cached cache (DV_Namespace dep) in
      if ns = [] \<and> isSystemNamespace (DV_Namespace dep) nsAnn then False
      else if ns = [] \<and> \<not> Allowed (CheckEnclave eval deployer nsAnn Read) then False
      else Allowed (checkAuthz eval deployer nsAnn (DV_Annotations dep) Read))"

definition list_matches :: "WfListParams \<Rightarrow> DeploymentView \<Rightarrow> bool" where
  "list_matches params dep \<longleftrightarrow>
     (WL_Owner params = [] \<or> OI_OwnerEmail (ReadOwnerInfo (DV_Annotations dep)) = WL_Owner params) \<and>
     (WL_Tag params = [] \<or> containsTag (GetAnnotation (DV_Annotations dep) ''tentacular.io/tags'') (WL_Tag params))"

definition handleWfList ::
  "'s kube \<Rightarrow> 's core \<Rightarrow> int \<Rightarrow> WfListParams \<Rightarrow> DeployerInfo option \<Rightarrow> Evaluator option \<Rightarrow> 's \<Rightarrow> view_error + WfListEntry list" where
  "handleWfList client core now params deployer eval s =
     (let ns = WL_Namespace params in
      case list_cache client eval deployer ns s of
        Inl e \<Rightarrow> Inl e
      | Inr cache \<Rightarrow>
          (case deploy_list core ns ''app.kubernetes.io/managed-by=tentacular'' s of
             Inl e \<Rightarrow> Inl (VE_Api (if ns = [] then ''list deployments across all namespaces''
                                 else ''list deployments in namespace '' @ quote_str ns) e)
           | Inr deps \<Rightarrow>
               Inr (map (deploymentToListEntry now)
                 (filter (\<lambda>dep. list_visible eval deployer ns cache dep \<and> list_matches params dep) deps))))"

definition wf_list ::
  "'s kube \<Rightarrow> 's core \<Rightarrow> int \<Rightarrow> Evaluator option \<Rightarrow> DeployerInfo option \<Rightarrow> WfListParams \<Rightarrow> 's \<Rightarrow> view_error + WfListEntry list" where
  "wf_list client core now eval deployer params s =
     (case (if WL_Namespace params \<noteq> [] then CheckNamespace (WL_Namespace params) else Inr ()) of
        Inl e \<Rightarrow> Inl (VE_Guard e)
      | Inr _ \<Rightarrow>
          (case requireDeployer deployer eval of
             Inl e \<Rightarrow> Inl (VE_Helper e)
           | Inr _ \<Rightarrow> handleWfList client core now params deployer eval s))"

section \<open>Describe\<close>

record WfDescribeResult =
  DR_Annotations :: strmap
  DR_GitProvenance :: "GitProvenance option"
  DR_DeployedBy :: string
  DR_Image :: string
  DR_OwnerName :: string
  DR_Group :: string
  DR_Mode :: string
  DR_Preset :: string
  DR_Namespace :: string
  DR_Environment :: string
  DR_TriggerType :: string
  DR_Name :: string
  DR_Version :: string
  DR_Owner :: string
  DR_DeployedAt :: string
  DR_EnclaveOwner :: string
  DR_Age :: string
  DR_DeployedVia :: string
  DR_ParamsSchema :: string
  DR_ContractSummary :: string
  DR_Readme :: string
  DR_MetadataRef :: string
  DR_ScaffoldName :: string
  DR_Nodes :: "string list"
  DR_NodeDescriptions :: "NodeMeta list"
  DR_Sidecars :: "SidecarMeta list"
  DR_Dependencies :: "DependencyMeta list"
  DR_Prompts :: "PromptEntry list"
  DR_Templates :: "TemplateEntry list"
  DR_Edges :: "(string \<times> string) list"
  DR_EnclaveMembers :: "string list"
  DR_Tags :: "string list"
  DR_Triggers :: "string list"
  DR_Replicas :: int
  DR_ReadyReplicas :: int
  DR_Ready :: bool

definition tentacular_annotations :: "strmap \<Rightarrow> strmap" where
  "tentacular_annotations ann k = (if HasPrefix k ''tentacular.io/'' then ann k else None)"

definition describe_base :: "int \<Rightarrow> strmap \<Rightarrow> DeploymentView \<Rightarrow> WfDescribeResult" where
  "describe_base now nsAnn dep =
     (let ann = DV_Annotations dep; ownerInfo = ReadOwnerInfo ann; enclaveInfo = ReadEnclaveInfo nsAnn;
          rawTags = GetAnnotation ann ''tentacular.io/tags''
      in \<lparr>DR_Annotations = tentacular_annotations ann, DR_GitProvenance = None,
          DR_DeployedBy = GetAnnotation ann ''tentacular.io/deployed-by'',
          DR_Image = (case DV_Images dep of [] \<Rightarrow> [] | i # is \<Rightarrow> i),
          DR_OwnerName = OI_OwnerName ownerInfo, DR_Group = OI_Group ownerInfo, DR_Mode = ModeString (OI_Mode ownerInfo),
          DR_Preset = OI_PresetName ownerInfo, DR_Namespace = DV_Namespace dep,
          DR_Environment = GetAnnotation ann ''tentacular.io/environment'', DR_TriggerType = [], DR_Name = DV_Name dep,
          DR_Version = mget (DV_Labels dep) VersionLabel, DR_Owner = OI_OwnerEmail ownerInfo,
          DR_DeployedAt = GetAnnotation ann ''tentacular.io/deployed-at'', DR_EnclaveOwner = EI_Owner enclaveInfo,
          DR_Age = age_string now (DV_Created dep), DR_DeployedVia = GetAnnotation ann ''tentacular.io/deployed-via'',
          DR_ParamsSchema = [], DR_ContractSummary = [], DR_Readme = [], DR_MetadataRef = [], DR_ScaffoldName = [],
          DR_Nodes = [], DR_NodeDescriptions = [], DR_Sidecars = [], DR_Dependencies = [], DR_Prompts = [],
          DR_Templates = [], DR_Edges = [], DR_EnclaveMembers = EI_Members enclaveInfo,
          DR_Tags = (if rawTags \<noteq> [] then Split CHR '','' rawTags else []), DR_Triggers = [],
          DR_Replicas = replicaCount (DV_Replicas dep), DR_ReadyReplicas = DV_ReadyReplicas dep,
          DR_Ready = (DV_ReadyReplicas dep \<ge> 1)\<rparr>)"

text \<open>A value that is empty or does not decode leaves the field as it was.\<close>

definition decoded :: "(string \<Rightarrow> 'a option) \<Rightarrow> string \<Rightarrow> 'a \<Rightarrow> 'a" where
  "decoded dec raw old = (if raw = [] then old else case dec raw of None \<Rightarrow> old | Some v \<Rightarrow> v)"

definition describe_annotations :: "decoders \<Rightarrow> strmap \<Rightarrow> WfDescribeResult \<Rightarrow> WfDescribeResult" where
  "describe_annotations D ann r =
     r\<lparr>DR_Nodes := decoded (dec_strings D) (mget ann ''tentacular.io/nodes'') (DR_Nodes r),
       DR_Edges := decoded (dec_edges D) (mget ann ''tentacular.io/edges'') (DR_Edges r),
       DR_Sidecars := decoded (dec_sidecars D) (mget ann ''tentacular.io/sidecars'') (DR_Sidecars r),
       DR_Dependencies := decoded (dec_dependencies D) (mget ann ''tentacular.io/dependencies'') (DR_Dependencies r),
       DR_TriggerType := decoded Some (mget ann ''tentacular.io/trigger-type'') (DR_TriggerType r),
       DR_ScaffoldName := decoded Some (mget ann ''tentacular.io/scaffold-name'') (DR_ScaffoldName r),
       DR_MetadataRef := decoded Some (mget ann ''tentacular.io/metadata-ref'') (DR_MetadataRef r),
       DR_Version := decoded Some (mget ann ''tentacular.io/version'') (DR_Version r)\<rparr>"

definition trigger_desc :: "string \<times> string \<Rightarrow> string" where
  "trigger_desc t = (if snd t \<noteq> [] then fst t @ '' '' @ snd t else fst t)"

definition describe_workflow :: "strmap \<Rightarrow> minimalWorkflow \<Rightarrow> WfDescribeResult \<Rightarrow> WfDescribeResult" where
  "describe_workflow ann flow r =
     r\<lparr>DR_Version := (if mget ann ''tentacular.io/version'' = [] \<and> MW_Version flow \<noteq> [] then MW_Version flow else DR_Version r),
       DR_Nodes := (if length (DR_Nodes r) = 0 then sort (MW_Nodes flow) else DR_Nodes r),
       DR_Triggers := (if length (DR_Triggers r) = 0 then map trigger_desc (MW_Triggers flow) else DR_Triggers r)\<rparr>"

definition describe_code ::
  "decoders \<Rightarrow> 's kube \<Rightarrow> string \<Rightarrow> string \<Rightarrow> strmap \<Rightarrow> 's \<Rightarrow> WfDescribeResult \<Rightarrow> WfDescribeResult" where
  "describe_code D client namespace name ann s r =
     (case cm_get client namespace (name @ ''-code'') s of
        Inl e \<Rightarrow> r
      | Inr cm \<Rightarrow>
          (case CM_Data cm ''workflow.yaml'' of
             None \<Rightarrow> r
           | Some yamlData \<Rightarrow>
               (case dec_workflow D yamlData of None \<Rightarrow> r | Some flow \<Rightarrow> describe_workflow ann flow r)))"

definition hasMetadataAnnotations :: "string \<Rightarrow> strmap \<Rightarrow> bool" where
  "hasMetadataAnnotations metadataRef ann \<longleftrightarrow>
     metadataRef \<noteq> [] \<or>
     list_ex (\<lambda>k. mget ann k \<noteq> []) [''tentacular.io/nodes'', ''tentacular.io/edges'', ''tentacular.io/sidecars'',
       ''tentacular.io/dependencies'', ''tentacular.io/trigger-type'', ''tentacular.io/scaffold-name'']"

definition describe_metadata :: "decoders \<Rightarrow> strmap \<Rightarrow> WfDescribeResult \<Rightarrow> WfDescribeResult" where
  "describe_metadata D data r =
     (let key = (\<lambda>k old. case data k of None \<Rightarrow> old | Some v \<Rightarrow> v)
      in r\<lparr>DR_Readme := key ''readme'' (DR_Readme r),
           DR_ContractSummary := key ''contract'' (DR_ContractSummary r),
           DR_ParamsSchema := key ''params_schema'' (DR_ParamsSchema r),
           DR_GitProvenance := (case data ''git_provenance'' of
              None \<Rightarrow> DR_GitProvenance r
            | Some v \<Rightarrow> (case dec_provenance D v of None \<Rightarrow> DR_GitProvenance r | Some p \<Rightarrow> Some p)),
           DR_Prompts := (case data ''prompts'' of
              None \<Rightarrow> DR_Prompts r
            | Some v \<Rightarrow> (case dec_prompts D v of None \<Rightarrow> DR_Prompts r | Some p \<Rightarrow> fst p)),
           DR_Templates := (case data ''prompts'' of
              None \<Rightarrow> DR_Templates r
            | Some v \<Rightarrow> (case dec_prompts D v of None \<Rightarrow> DR_Templates r | Some p \<Rightarrow> snd p)),
           DR_NodeDescriptions := (case data ''node_descriptions'' of
              None \<Rightarrow> DR_NodeDescriptions r
            | Some v \<Rightarrow> (case dec_nodes D v of None \<Rightarrow> DR_NodeDescriptions r | Some p \<Rightarrow> p))\<rparr>)"

definition describe_tier2 ::
  "decoders \<Rightarrow> 's kube \<Rightarrow> string \<Rightarrow> string \<Rightarrow> strmap \<Rightarrow> 's \<Rightarrow> WfDescribeResult \<Rightarrow> WfDescribeResult" where
  "describe_tier2 D client namespace name ann s r =
     (if \<not> hasMetadataAnnotations (DR_MetadataRef r) ann then r
      else case cm_get client namespace (if DR_MetadataRef r = [] then name @ ''-metadata'' else DR_MetadataRef r) s of
        Inl e \<Rightarrow> r
      | Inr cm \<Rightarrow> describe_metadata D (CM_Data cm) r)"

definition handleWfDescribe ::
  "decoders \<Rightarrow> 's kube \<Rightarrow> 's core \<Rightarrow> int \<Rightarrow> string \<Rightarrow> string \<Rightarrow> DeployerInfo option \<Rightarrow> Evaluator option \<Rightarrow> 's \<Rightarrow>
     view_error + WfDescribeResult" where
  "handleWfDescribe D client core now namespace name deployer eval s =
     (case deploy_get core namespace name s of
        Inl e \<Rightarrow> Inl (VE_Api (''get deployment '' @ quote_str name @ '' in namespace '' @ quote_str namespace) e)
      | Inr dep \<Rightarrow>
          (case fetchNamespaceAnnotations client namespace s of
             Inl e \<Rightarrow> Inl (VE_Helper e)
           | Inr nsAnn \<Rightarrow>
               let d = checkAuthz eval deployer nsAnn (DV_Annotations dep) Read; ann = DV_Annotations dep in
               if \<not> Allowed d then Inl (VE_Denied (Reason d))
               else Inr (describe_tier2 D client namespace name ann s
                      (describe_code D client namespace name ann s
                        (describe_annotations D ann (describe_base now nsAnn dep))))))"

definition wf_describe ::
  "decoders \<Rightarrow> 's kube \<Rightarrow> 's core \<Rightarrow> int \<Rightarrow> Evaluator option \<Rightarrow> DeployerInfo option \<Rightarrow> string \<times> string \<Rightarrow> 's \<Rightarrow>
     view_error + WfDescribeResult" where
  "wf_describe D client core now eval deployer params s =
     (case CheckName (snd params) of
        Inl e \<Rightarrow> Inl (VE_Guard e)
      | Inr _ \<Rightarrow>
          (case resolve_guard client eval deployer (fst params) s of
             Inl e \<Rightarrow> Inl e
           | Inr ns \<Rightarrow> handleWfDescribe D client core now ns (snd params) deployer eval s))"

section \<open>Who sees what\<close>

lemma list_visible_access:
  "list_visible eval deployer ns cache dep \<longleftrightarrow>
     (ns = [] \<longrightarrow> \<not> isSystemNamespace (DV_Namespace dep) (cached cache (DV_Namespace dep)) \<and>
        enclave_access eval deployer (cached cache (DV_Namespace dep)) Read) \<and>
     tentacle_access eval deployer (cached cache (DV_Namespace dep)) (DV_Annotations dep) Read"
  by (auto simp: list_visible_def Let_def checkAuthz_def CheckTentacle_access CheckEnclave_access)

text \<open>C30: \<^verbatim>\<open>wf_list\<close> across enclaves shows exactly the managed workflows that match the filters, live outside system
  namespaces, and that the caller may read, in the enclave and in the workflow; each is shown with
  the owner and mode its annotations record.\<close>

theorem wf_list_shows_readable:
  assumes "wf_list client core now eval deployer \<lparr>WL_Namespace = [], WL_Owner = owner, WL_Tag = tag\<rparr> s = Inr entries"
    and "ns_list client [] s = Inr nss"
    and "deploy_list core [] ''app.kubernetes.io/managed-by=tentacular'' s = Inr deps"
  shows "entry \<in> set entries \<longleftrightarrow>
    (\<exists>dep \<in> set deps.
       let nsAnn = cached (rev (map (\<lambda>n. (N_Name n, N_Annotations n)) nss)) (DV_Namespace dep) in
       entry = deploymentToListEntry now dep \<and>
       \<not> isSystemNamespace (DV_Namespace dep) nsAnn \<and>
       enclave_access eval deployer nsAnn Read \<and> tentacle_access eval deployer nsAnn (DV_Annotations dep) Read \<and>
       (owner = [] \<or> LE_Owner entry = owner) \<and>
       (tag = [] \<or> containsTag (GetAnnotation (DV_Annotations dep) ''tentacular.io/tags'') tag))"
proof -
  let ?cache = "rev (map (\<lambda>n. (N_Name n, N_Annotations n)) nss)"
  have "entries = map (deploymentToListEntry now)
      (filter (\<lambda>dep. list_visible eval deployer [] ?cache dep \<and>
         list_matches \<lparr>WL_Namespace = [], WL_Owner = owner, WL_Tag = tag\<rparr> dep) deps)"
    using assms by (auto simp: wf_list_def handleWfList_def list_cache_def split: sum.splits)
  moreover have "LE_Owner (deploymentToListEntry now dep) = OI_OwnerEmail (ReadOwnerInfo (DV_Annotations dep))" for dep
    by (simp add: deploymentToListEntry_def Let_def)
  ultimately show ?thesis
    by (auto simp: list_visible_access list_matches_def Let_def image_iff)
qed

text \<open>A workflow is described only to callers who may read it. The version reported is the one in the
  annotations if there is one, else the one in the workflow file, else the one in the labels, and
  only annotations of the platform's own prefix are returned.\<close>

theorem wf_describe_result:
  assumes "wf_describe D client core now eval deployer (namespace, name) s = Inr r"
  shows "\<exists>ns dep nsAnn. (namespace = [] \<or> ns = namespace) \<and> \<not> IsSystemNamespace ns \<and>
    deploy_get core ns name s = Inr dep \<and> fetchNamespaceAnnotations client ns s = Inr nsAnn \<and>
    tentacle_access eval deployer nsAnn (DV_Annotations dep) Read \<and>
    (\<forall>k. DR_Annotations r k = (if HasPrefix k ''tentacular.io/'' then DV_Annotations dep k else None)) \<and>
    DR_Version r =
      (if mget (DV_Annotations dep) ''tentacular.io/version'' \<noteq> [] then mget (DV_Annotations dep) ''tentacular.io/version''
       else case cm_get client ns (name @ ''-code'') s of
            Inl e \<Rightarrow> mget (DV_Labels dep) VersionLabel
          | Inr cm \<Rightarrow>
              (case Option.bind (CM_Data cm ''workflow.yaml'') (dec_workflow D) of
                 None \<Rightarrow> mget (DV_Labels dep) VersionLabel
               | Some flow \<Rightarrow> if MW_Version flow \<noteq> [] then MW_Version flow else mget (DV_Labels dep) VersionLabel))"
proof -
  obtain ns where ns: "resolve_guard client eval deployer namespace s = Inr ns"
    and run: "handleWfDescribe D client core now ns name deployer eval s = Inr r"
    using assms by (auto simp: wf_describe_def split: sum.splits)
  obtain dep nsAnn where dep: "deploy_get core ns name s = Inr dep"
    and ann: "fetchNamespaceAnnotations client ns s = Inr nsAnn"
    and access: "tentacle_access eval deployer nsAnn (DV_Annotations dep) Read"
    and r: "r = describe_tier2 D client ns name (DV_Annotations dep) s
              (describe_code D client ns name (DV_Annotations dep) s
                (describe_annotations D (DV_Annotations dep) (describe_base now nsAnn dep)))"
    using run by (auto simp: handleWfDescribe_def Let_def checkAuthz_def CheckTentacle_access split: sum.splits if_splits)
  have tier2: "DR_Annotations (describe_tier2 D client ns name a s x) = DR_Annotations x"
    "DR_Version (describe_tier2 D client ns name a s x) = DR_Version x" for a x
    by (simp_all add: describe_tier2_def describe_metadata_def Let_def split: sum.splits)
  have code: "DR_Annotations (describe_code D client ns name a s x) = DR_Annotations x" for a x
    by (simp add: describe_code_def describe_workflow_def split: sum.splits option.splits)
  have base: "DR_Annotations (describe_annotations D a (describe_base now nsAnn dep)) = tentacular_annotations (DV_Annotations dep)"
    "DR_Version (describe_annotations D a (describe_base now nsAnn dep)) =
       (let v = mget a ''tentacular.io/version'' in if v \<noteq> [] then v else mget (DV_Labels dep) VersionLabel)" for a
    by (simp_all add: describe_annotations_def describe_base_def decoded_def Let_def)
  have anns: "DR_Annotations r k = (if HasPrefix k ''tentacular.io/'' then DV_Annotations dep k else None)" for k
    by (simp add: r tier2 code base tentacular_annotations_def)
  have version: "DR_Version r =
      (if mget (DV_Annotations dep) ''tentacular.io/version'' \<noteq> [] then mget (DV_Annotations dep) ''tentacular.io/version''
       else case cm_get client ns (name @ ''-code'') s of
            Inl e \<Rightarrow> mget (DV_Labels dep) VersionLabel
          | Inr cm \<Rightarrow>
              (case Option.bind (CM_Data cm ''workflow.yaml'') (dec_workflow D) of
                 None \<Rightarrow> mget (DV_Labels dep) VersionLabel
               | Some flow \<Rightarrow> if MW_Version flow \<noteq> [] then MW_Version flow else mget (DV_Labels dep) VersionLabel))"
    by (simp add: r tier2 describe_code_def describe_workflow_def base Let_def split: sum.splits option.splits)
  have "namespace = [] \<or> ns = namespace" "\<not> IsSystemNamespace ns" using resolve_guard_ok [OF ns] by auto
  then show ?thesis using dep ann access anns version by blast
qed

section \<open>A described workflow\<close>

definition view_core :: "world core" where
  "view_core = quiet_core\<lparr>
     deploy_get := (\<lambda>ns n w. map_sum id (\<lambda>ob. \<lparr>DV_Name = n, DV_Namespace = ns, DV_Labels = meta_strs ob ''labels'',
        DV_Annotations = meta_strs ob ''annotations'', DV_Images = [''engine:1''], DV_Replicas = None, DV_ReadyReplicas = 1,
        DV_AvailableReplicas = 1, DV_Created = 0\<rparr>) (fetch (w_objs w) (hd knownGVRs, ns, n))),
     deploy_list := (\<lambda>ns sel w. Inr (map (\<lambda>((g, ns', n), ob). \<lparr>DV_Name = n, DV_Namespace = ns', DV_Labels = meta_strs ob ''labels'',
        DV_Annotations = meta_strs ob ''annotations'', DV_Images = [''engine:1''], DV_Replicas = None, DV_ReadyReplicas = 1,
        DV_AvailableReplicas = 1, DV_Created = 0\<rparr>) (w_objs w)))\<rparr>"

definition no_decoders :: decoders where
  "no_decoders = \<lparr>dec_strings = (\<lambda>s. None), dec_edges = (\<lambda>s. None), dec_sidecars = (\<lambda>s. None), dec_dependencies = (\<lambda>s. None),
     dec_provenance = (\<lambda>s. None), dec_prompts = (\<lambda>s. None), dec_nodes = (\<lambda>s. None), dec_workflow = (\<lambda>s. None)\<rparr>"

definition ann_view :: "DeployerInfo option" where "ann_view = Some (bob\<lparr>Email := ''ann@x''\<rparr>)"

lemma ann_lists: "\<not> isl (wf_list world_kube view_core 0 strict ann_view \<lparr>WL_Namespace = [], WL_Owner = [], WL_Tag = []\<rparr> team_world)"
  by code_simp

lemma ann_describes: "\<not> isl (wf_describe no_decoders world_kube view_core 0 strict ann_view (''lab'', ''a'') team_world)"
  by code_simp

theorem wf_list_shows_readable_witness:
  "\<exists>entries deps. wf_list world_kube view_core 0 strict ann_view \<lparr>WL_Namespace = [], WL_Owner = [], WL_Tag = []\<rparr> team_world = Inr entries \<and>
    (\<forall>entry. entry \<in> set entries \<longleftrightarrow>
      (\<exists>dep \<in> set deps.
         let nsAnn = cached (rev (map (\<lambda>n. (N_Name n, N_Annotations n)) [team_namespace])) (DV_Namespace dep) in
         entry = deploymentToListEntry 0 dep \<and>
         \<not> isSystemNamespace (DV_Namespace dep) nsAnn \<and>
         enclave_access strict ann_view nsAnn Read \<and> tentacle_access strict ann_view nsAnn (DV_Annotations dep) Read))"
proof -
  let ?p = "\<lparr>WL_Namespace = [], WL_Owner = [], WL_Tag = []\<rparr>"
  have list: "wf_list world_kube view_core 0 strict ann_view ?p team_world =
      Inr (projr (wf_list world_kube view_core 0 strict ann_view ?p team_world))"
    using ann_lists by (simp add: sum.expand)
  have nss: "ns_list world_kube [] team_world = Inr [team_namespace]"
    by (simp add: world_kube_def team_world_def has_label_def)
  obtain deps where deps: "deploy_list view_core [] ''app.kubernetes.io/managed-by=tentacular'' team_world = Inr deps"
    by (simp add: view_core_def)
  show ?thesis
    by (intro exI conjI allI, rule list, rule trans [OF wf_list_shows_readable [OF list nss deps]]) simp
qed

theorem wf_describe_result_witness:
  "\<exists>r ns dep nsAnn. wf_describe no_decoders world_kube view_core 0 strict ann_view (''lab'', ''a'') team_world = Inr r \<and>
    (''lab'' = [] \<or> ns = ''lab'') \<and> \<not> IsSystemNamespace ns \<and>
    deploy_get view_core ns ''a'' team_world = Inr dep \<and> fetchNamespaceAnnotations world_kube ns team_world = Inr nsAnn \<and>
    tentacle_access strict ann_view nsAnn (DV_Annotations dep) Read"
proof -
  have run: "wf_describe no_decoders world_kube view_core 0 strict ann_view (''lab'', ''a'') team_world =
      Inr (projr (wf_describe no_decoders world_kube view_core 0 strict ann_view (''lab'', ''a'') team_world))"
    using ann_describes by (simp add: sum.expand)
  from wf_describe_result [OF run] run show ?thesis by blast
qed

end
