(* ===== verification/Wf_Health.thy ===== *)
theory Wf_Health
  imports Workflow_Tools
begin

text \<open>
  Health of workflows as traffic lights (\<^verbatim>\<open>pkg/tools/wf_health.go\<close>). The HTTP client is the argument \<open>http\<close>: an
  error, or a status with a body that may fail to be read. \<open>decode\<close> is the JSON decoding of a health
  response into its two fields.
\<close>

definition wfHealthPort :: nat where "wfHealthPort = 8080"
definition wfHealthDefault :: int where "wfHealthDefault = 10"

type_synonym http_get = "string \<Rightarrow> string + nat \<times> (string + string)"

definition wfHealthURL :: "string \<Rightarrow> string \<Rightarrow> bool \<Rightarrow> string" where
  "wfHealthURL name namespace detail =
     ''http://'' @ name @ ''.'' @ namespace @ ''.svc.cluster.local:'' @ show_nat wfHealthPort @ ''/health'' @
     (if detail then ''?detail=1'' else [])"

definition probeURL :: "http_get \<Rightarrow> string \<Rightarrow> string + string" where
  "probeURL http url =
     (case http url of
        Inl e \<Rightarrow> Inl e
      | Inr (status, body) \<Rightarrow>
          if status < 200 \<or> status \<ge> 300 then Inl (''health endpoint returned status '' @ show_nat status)
          else case body of
            Inl e \<Rightarrow> Inl (''read health response: '' @ e)
          | Inr b \<Rightarrow> Inr (take (2 ^ 20) b))"

definition wfHealthProbe :: "http_get \<Rightarrow> string \<Rightarrow> string \<Rightarrow> bool \<Rightarrow> string + string" where
  "wfHealthProbe http name namespace detail = probeURL http (wfHealthURL name namespace detail)"

record wfHealthResponse =
  HR_LastRunFailed :: bool
  HR_InFlight :: int

definition classifyFromDetail :: "(string \<Rightarrow> wfHealthResponse option) \<Rightarrow> string \<Rightarrow> string \<times> string" where
  "classifyFromDetail decode detail =
     (case decode detail of
        None \<Rightarrow> (''green'', [])
      | Some resp \<Rightarrow>
          if HR_LastRunFailed resp then (''amber'', ''last execution failed'')
          else if HR_InFlight resp > 0 then (''amber'', ''execution in flight'')
          else (''green'', []))"

record WfHealthParams =
  HP_Namespace :: string
  HP_Name :: string
  HP_Detail :: bool

record WfHealthResult =
  HE_Name :: string
  HE_Namespace :: string
  HE_Status :: string
  HE_Reason :: string
  HE_Detail :: string
  HE_PodReady :: bool

definition not_ready_reason :: "DeploymentView \<Rightarrow> string" where
  "not_ready_reason dep = ''0/'' @ show_int (replicaCount (DV_Replicas dep)) @ '' replicas ready''"

definition handleWfHealth ::
  "http_get \<Rightarrow> (string \<Rightarrow> wfHealthResponse option) \<Rightarrow> 's kube \<Rightarrow> 's core \<Rightarrow> WfHealthParams \<Rightarrow> DeployerInfo option \<Rightarrow>
     Evaluator option \<Rightarrow> 's \<Rightarrow> view_error + WfHealthResult" where
  "handleWfHealth http decode client core params deployer eval s =
     (let namespace = HP_Namespace params; name = HP_Name params;
          result = (\<lambda>status reason detail ready. \<lparr>HE_Name = name, HE_Namespace = namespace, HE_Status = status,
             HE_Reason = reason, HE_Detail = detail, HE_PodReady = ready\<rparr>)
      in case CheckManagedNamespace client namespace s of
        Inl e \<Rightarrow> Inl (VE_K8s e)
      | Inr _ \<Rightarrow>
          (case deploy_get core namespace name s of
             Inl e \<Rightarrow> Inl (VE_Api (''get deployment '' @ quote_str name @ '' in namespace '' @ quote_str namespace) e)
           | Inr dep \<Rightarrow>
               (case fetchNamespaceAnnotations client namespace s of
                  Inl e \<Rightarrow> Inl (VE_Helper e)
                | Inr nsAnn \<Rightarrow>
                    let d = checkAuthz eval deployer nsAnn (DV_Annotations dep) Read in
                    if \<not> Allowed d then Inl (VE_Denied (Reason d))
                    else if \<not> DV_ReadyReplicas dep \<ge> 1 then Inr (result ''red'' (not_ready_reason dep) [] False)
                    else case wfHealthProbe http name namespace (HP_Detail params) of
                      Inl e \<Rightarrow> Inr (result ''red'' (''health endpoint unreachable: '' @ e) [] True)
                    | Inr detail \<Rightarrow>
                        (case classifyFromDetail decode detail of (status, reason) \<Rightarrow>
                           Inr (result status reason (if HP_Detail params then detail else []) True)))))"

definition wf_health ::
  "http_get \<Rightarrow> (string \<Rightarrow> wfHealthResponse option) \<Rightarrow> 's kube \<Rightarrow> 's core \<Rightarrow> Evaluator option \<Rightarrow> DeployerInfo option \<Rightarrow>
     WfHealthParams \<Rightarrow> 's \<Rightarrow> view_error + WfHealthResult" where
  "wf_health http decode client core eval deployer params s =
     (case resolve_guard client eval deployer (HP_Namespace params) s of
        Inl e \<Rightarrow> Inl e
      | Inr ns \<Rightarrow> handleWfHealth http decode client core (params\<lparr>HP_Namespace := ns\<rparr>) deployer eval s)"

section \<open>A whole enclave\<close>

record WfHealthNsSummary =
  HS_Green :: nat
  HS_Amber :: nat
  HS_Red :: nat

record WfHealthNsEntry =
  HN_Name :: string
  HN_Status :: string
  HN_Reason :: string

record WfHealthNsResult =
  HN_Namespace :: string
  HN_Workflows :: "WfHealthNsEntry list"
  HN_Summary :: WfHealthNsSummary
  HN_Total :: nat
  HN_Truncated :: bool

definition workflow_health ::
  "http_get \<Rightarrow> (string \<Rightarrow> wfHealthResponse option) \<Rightarrow> string \<Rightarrow> DeploymentView \<Rightarrow> WfHealthNsEntry" where
  "workflow_health http decode namespace dep =
     (case (if \<not> DV_ReadyReplicas dep \<ge> 1 then (''red'', not_ready_reason dep)
            else case wfHealthProbe http (DV_Name dep) namespace False of
              Inl e \<Rightarrow> (''red'', ''health endpoint unreachable: '' @ e)
            | Inr detail \<Rightarrow> classifyFromDetail decode detail) of
        (status, reason) \<Rightarrow> \<lparr>HN_Name = DV_Name dep, HN_Status = status, HN_Reason = reason\<rparr>)"

definition count_status :: "string \<Rightarrow> WfHealthNsSummary \<Rightarrow> WfHealthNsSummary" where
  "count_status status sm =
     (if status = ''green'' then sm\<lparr>HS_Green := Suc (HS_Green sm)\<rparr>
      else if status = ''amber'' then sm\<lparr>HS_Amber := Suc (HS_Amber sm)\<rparr>
      else if status = ''red'' then sm\<lparr>HS_Red := Suc (HS_Red sm)\<rparr>
      else sm)"

fun health_loop ::
  "http_get \<Rightarrow> (string \<Rightarrow> wfHealthResponse option) \<Rightarrow> string \<Rightarrow> DeploymentView list \<Rightarrow> WfHealthNsSummary \<Rightarrow>
     WfHealthNsEntry list \<times> WfHealthNsSummary" where
  "health_loop http decode namespace [] sm = ([], sm)"
| "health_loop http decode namespace (dep # deps) sm =
     (let e = workflow_health http decode namespace dep in
      case health_loop http decode namespace deps (count_status (HN_Status e) sm) of (es, sm') \<Rightarrow> (e # es, sm'))"

definition handleWfHealthNs ::
  "http_get \<Rightarrow> (string \<Rightarrow> wfHealthResponse option) \<Rightarrow> 's kube \<Rightarrow> 's core \<Rightarrow> string \<Rightarrow> int \<Rightarrow> DeployerInfo option \<Rightarrow>
     Evaluator option \<Rightarrow> 's \<Rightarrow> view_error + WfHealthNsResult" where
  "handleWfHealthNs http decode client core namespace limit0 deployer eval s =
     (case CheckManagedNamespace client namespace s of
        Inl e \<Rightarrow> Inl (VE_K8s e)
      | Inr _ \<Rightarrow>
          (case checkNamespaceAuthz client namespace deployer eval Read s of
             Inl e \<Rightarrow> Inl (VE_Helper e)
           | Inr _ \<Rightarrow>
               let limit = (if limit0 \<le> 0 then wfHealthDefault else limit0) in
               (case deploy_list core namespace (ManagedByLabel @ ''='' @ ManagedByValue) s of
                  Inl e \<Rightarrow> Inl (VE_Api (''list deployments in namespace '' @ quote_str namespace) e)
                | Inr deps \<Rightarrow>
                    (case fetchNamespaceAnnotations client namespace s of
                       Inl e \<Rightarrow> Inl (VE_Helper e)
                     | Inr nsAnn \<Rightarrow>
                         let visible = filter (\<lambda>dep. Allowed (checkAuthz eval deployer nsAnn (DV_Annotations dep) Read)) deps;
                             total = length visible;
                             truncated = (int total > limit);
                             items = (if truncated then take (nat limit) visible else visible)
                         in (case health_loop http decode namespace items \<lparr>HS_Green = 0, HS_Amber = 0, HS_Red = 0\<rparr> of
                               (workflows, summary) \<Rightarrow>
                                 Inr \<lparr>HN_Namespace = namespace, HN_Workflows = workflows, HN_Summary = summary,
                                      HN_Total = total, HN_Truncated = truncated\<rparr>)))))"

definition wf_health_enclave ::
  "http_get \<Rightarrow> (string \<Rightarrow> wfHealthResponse option) \<Rightarrow> 's kube \<Rightarrow> 's core \<Rightarrow> Evaluator option \<Rightarrow> DeployerInfo option \<Rightarrow>
     string \<times> int \<Rightarrow> 's \<Rightarrow> view_error + WfHealthNsResult" where
  "wf_health_enclave http decode client core eval deployer params s =
     (case resolve_guard client eval deployer (fst params) s of
        Inl e \<Rightarrow> Inl e
      | Inr ns \<Rightarrow> handleWfHealthNs http decode client core ns (snd params) deployer eval s)"

section \<open>What the lights mean\<close>

lemma classify_cases: "fst (classifyFromDetail decode detail) \<in> {''green'', ''amber''}"
  by (simp add: classifyFromDetail_def split: option.splits)

text \<open>A workflow is red exactly when no pod is ready or its health endpoint does not answer.\<close>

definition answers :: "http_get \<Rightarrow> string \<Rightarrow> DeploymentView \<Rightarrow> bool" where
  "answers http namespace dep \<longleftrightarrow>
     DV_ReadyReplicas dep \<ge> 1 \<and> \<not> isl (wfHealthProbe http (DV_Name dep) namespace False)"

lemma workflow_health_name [simp]: "HN_Name (workflow_health http decode namespace dep) = DV_Name dep"
  by (simp add: workflow_health_def split: prod.splits)

lemma workflow_health_light:
  "HN_Status (workflow_health http decode namespace dep) =
     (if \<not> DV_ReadyReplicas dep \<ge> 1 then ''red''
      else case wfHealthProbe http (DV_Name dep) namespace False of
        Inl e \<Rightarrow> ''red'' | Inr detail \<Rightarrow> fst (classifyFromDetail decode detail))"
  by (simp add: workflow_health_def split: sum.splits prod.splits)

lemma workflow_health_status:
  "HN_Status (workflow_health http decode namespace dep) \<in> {''green'', ''amber'', ''red''}"
  "HN_Status (workflow_health http decode namespace dep) = ''red'' \<longleftrightarrow> \<not> answers http namespace dep"
proof -
  have c: "fst (classifyFromDetail decode d) \<in> {''green'', ''amber'', ''red''}" "fst (classifyFromDetail decode d) \<noteq> ''red''" for d
    using classify_cases [of decode d] by auto
  show "HN_Status (workflow_health http decode namespace dep) \<in> {''green'', ''amber'', ''red''}"
    using c(1) by (simp add: workflow_health_light split: sum.splits)
  show "HN_Status (workflow_health http decode namespace dep) = ''red'' \<longleftrightarrow> \<not> answers http namespace dep"
    using c(2) by (simp add: workflow_health_light answers_def split: sum.splits)
qed

lemma health_loop_map: "fst (health_loop http decode ns deps sm) = map (workflow_health http decode ns) deps"
  by (induction deps arbitrary: sm) (simp_all add: Let_def split: prod.splits, metis fst_conv)

lemma health_loop_fst: "health_loop http decode ns deps sm = (es, sm') \<Longrightarrow> es = map (workflow_health http decode ns) deps"
  using health_loop_map [of http decode ns deps sm] by simp

definition of_status :: "string \<Rightarrow> WfHealthNsEntry list \<Rightarrow> nat" where
  "of_status status es = length (filter (\<lambda>e. HN_Status e = status) es)"

lemma health_loop_counts:
  "snd (health_loop http decode ns deps sm) =
     (let es = map (workflow_health http decode ns) deps in
      \<lparr>HS_Green = HS_Green sm + of_status ''green'' es, HS_Amber = HS_Amber sm + of_status ''amber'' es,
       HS_Red = HS_Red sm + of_status ''red'' es\<rparr>)"
proof (induction deps arbitrary: sm)
  case (Cons dep deps)
  have "snd (health_loop http decode ns (dep # deps) sm) =
      snd (health_loop http decode ns deps (count_status (HN_Status (workflow_health http decode ns dep)) sm))"
    by (simp add: Let_def split: prod.splits)
  then show ?case
    using workflow_health_status(1) [of http decode ns dep]
    by (auto simp: Cons.IH Let_def of_status_def count_status_def)
qed (simp add: of_status_def Let_def)

lemma of_status_total:
  "list_all (\<lambda>e. HN_Status e \<in> {''green'', ''amber'', ''red''}) es \<Longrightarrow>
     of_status ''green'' es + of_status ''amber'' es + of_status ''red'' es = length es"
  by (induction es) (auto simp: of_status_def)


definition sample_health :: "view_error + WfHealthNsResult" where
  "sample_health =
     wf_health_enclave (\<lambda>url. Inr (200, Inr [])) (\<lambda>d. None) world_kube quiet_core strict (Some bob) (''lab'', 0) team_world"


end
