(* ===== verification/Audit_Tools.thy ===== *)
theory Audit_Tools
  imports Guard Authz_Helpers
begin

text \<open>
  The audit tools, \<^verbatim>\<open>pkg/tools/audit.go\<close>: reports on the RBAC objects, the network policies and the pod
  security labels of an enclave. The listings they read are fields of the client record
  \<open>'s audit_api\<close>; labels of a selector are listed in the order in which Go ranges over the map.
  The lemmas say for each report when it flags what, and the last theorem that the
  objects of a freshly provisioned enclave pass.
\<close>

record LabelSelector =
  LS_MatchLabels :: "(string \<times> string) list"
  LS_MatchExpressions :: "string list"

record PolicyPeer =
  PP_PodSelector :: "LabelSelector option"
  PP_NamespaceSelector :: "LabelSelector option"
  PP_IPBlock :: "string option"

record PolicySpec =
  PS_Name :: string
  PS_PodSelector :: LabelSelector
  PS_PolicyTypes :: "string list"
  PS_Ingress :: "PolicyPeer list list"
  PS_Egress :: "PolicyPeer list list"

record 's audit_api =
  role_list :: "string \<Rightarrow> ('s, RoleObj list) kread"
  rolebinding_list :: "string \<Rightarrow> ('s, RoleBinding list) kread"
  clusterrolebinding_list :: "('s, RoleBinding list) kread"
  netpol_list :: "string \<Rightarrow> ('s, PolicySpec list) kread"

datatype audit_error =
    AE_Guard guard_error
  | AE_Helper helper_error
  | AE_K8s k8s_error
  | AE_List string string api_err

section \<open>RBAC\<close>

record AuditFinding =
  AF_Role :: string
  AF_Rule :: string
  AF_Severity :: string
  AF_Reason :: string
  AF_Remediation :: string

definition sensitiveResources :: "string list" where
  "sensitiveResources = [''secrets'', ''serviceaccounts/token'', ''pods/exec'', ''pods/attach'']"

definition escalationVerbs :: "string list" where
  "escalationVerbs = [''bind'', ''escalate'', ''impersonate'']"

definition ruleDescription :: "PolicyRule \<Rightarrow> string" where
  "ruleDescription rule =
     (let groups = Join (PR_APIGroups rule) '','';
          groups' = (if groups = [] then ''core'' else groups);
          resources = Join (PR_Resources rule) '','';
          verbs = Join (PR_Verbs rule) '',''
      in ''apiGroups=['' @ groups' @ ''] resources=['' @ resources @ ''] verbs=['' @ verbs @ '']'')"

definition wildcard_verb :: "string \<Rightarrow> string \<Rightarrow> string \<Rightarrow> AuditFinding list" where
  "wildcard_verb roleName ruleDesc verb =
     (if verb = ''*'' then
        [\<lparr>AF_Role = roleName, AF_Rule = ruleDesc, AF_Severity = ''high'',
          AF_Reason = ''wildcard verb grants all permissions'',
          AF_Remediation = ''Replace '' @ [CHR 0x27] @ ''*'' @ [CHR 0x27] @
            '' with explicit verbs (e.g. get, list, watch, create, update, delete).''\<rparr>]
      else [])"

definition escalation_verb :: "string \<Rightarrow> string \<Rightarrow> string \<Rightarrow> AuditFinding list" where
  "escalation_verb roleName ruleDesc verb =
     (if verb \<in> set escalationVerbs then
        [\<lparr>AF_Role = roleName, AF_Rule = ruleDesc, AF_Severity = ''high'',
          AF_Reason = quote_str verb @ '' verb enables privilege escalation'',
          AF_Remediation = ''Remove the '' @ quote_str verb @
            '' verb unless this role explicitly needs to grant or assume other identities.''\<rparr>]
      else [])"

definition audit_resource :: "string \<Rightarrow> string \<Rightarrow> string \<Rightarrow> AuditFinding list" where
  "audit_resource roleName ruleDesc res =
     (if res = ''*'' then
        [\<lparr>AF_Role = roleName, AF_Rule = ruleDesc, AF_Severity = ''high'',
          AF_Reason = ''wildcard resource grants access to all resource types'',
          AF_Remediation = ''Replace '' @ [CHR 0x27] @ ''*'' @ [CHR 0x27] @
            '' with the specific resources this role needs access to.''\<rparr>]
      else []) @
     (if res \<in> set sensitiveResources then
        [\<lparr>AF_Role = roleName, AF_Rule = ruleDesc, AF_Severity = ''medium'',
          AF_Reason = ''access to sensitive resource '' @ quote_str res,
          AF_Remediation = ''Restrict '' @ quote_str res @
            '' access to only the verbs required (e.g. get instead of list/watch).''\<rparr>]
      else [])"

fun auditRules :: "AuditFinding list \<Rightarrow> string \<Rightarrow> PolicyRule list \<Rightarrow> AuditFinding list" where
  "auditRules findings roleName [] = findings"
| "auditRules findings roleName (rule # rules) =
     (let ruleDesc = ruleDescription rule in
      auditRules
        (findings @ concat (map (wildcard_verb roleName ruleDesc) (PR_Verbs rule)) @
           concat (map (escalation_verb roleName ruleDesc) (PR_Verbs rule)) @
           concat (map (audit_resource roleName ruleDesc) (PR_Resources rule)))
        roleName rules)"

fun audit_roles :: "AuditFinding list \<Rightarrow> RoleObj list \<Rightarrow> AuditFinding list" where
  "audit_roles findings [] = findings"
| "audit_roles findings (role # roles) =
     audit_roles (auditRules findings (''Role/'' @ RO_Name role) (RO_Rules role)) roles"

definition audit_binding :: "RoleBinding \<Rightarrow> AuditFinding list" where
  "audit_binding rb =
     (case RB_RoleRef rb of (grp, kind, name) \<Rightarrow>
        if kind = ''ClusterRole'' then
          [\<lparr>AF_Role = ''RoleBinding/'' @ RB_Name rb, AF_Rule = ''binds ClusterRole/'' @ name, AF_Severity = ''low'',
            AF_Reason = ''RoleBinding references a ClusterRole; review cluster-level permissions'',
            AF_Remediation = ''Replace with a namespaced Role if the required permissions are namespace-scoped.''\<rparr>]
        else [])"

definition audit_subject :: "string \<Rightarrow> RoleBinding \<Rightarrow> string \<times> string \<times> string \<Rightarrow> AuditFinding list" where
  "audit_subject namespace crb subj =
     (case subj of (kind, name, ns) \<Rightarrow>
        if kind = ''ServiceAccount'' \<and> ns = namespace then
          [\<lparr>AF_Role = ''ClusterRoleBinding/'' @ RB_Name crb,
            AF_Rule = ''binds ClusterRole/'' @ snd (snd (RB_RoleRef crb)) @ '' to SA '' @ namespace @ ''/'' @ name,
            AF_Severity = ''medium'',
            AF_Reason = ''service account in namespace has cluster-wide permissions'',
            AF_Remediation = ''Replace with a namespaced RoleBinding unless cluster-wide access is required.''\<rparr>]
        else [])"

definition handleAuditRbac :: "'s audit_api \<Rightarrow> string \<Rightarrow> 's \<Rightarrow> audit_error + AuditFinding list" where
  "handleAuditRbac api namespace s =
     (case role_list api namespace s of
        Inl e \<Rightarrow> Inl (AE_List ''roles'' namespace e)
      | Inr roles \<Rightarrow>
          (case rolebinding_list api namespace s of
             Inl e \<Rightarrow> Inl (AE_List ''rolebindings'' namespace e)
           | Inr rbs \<Rightarrow>
               (case clusterrolebinding_list api s of
                  Inl e \<Rightarrow> Inl (AE_List ''cluster role bindings'' [] e)
                | Inr crbs \<Rightarrow>
                    Inr (audit_roles [] roles @ concat (map audit_binding rbs) @
                         concat (map (\<lambda>crb. concat (map (audit_subject namespace crb) (RB_Subjects crb))) crbs)))))"

section \<open>Network policies\<close>

record NetpolInfo =
  NI_Name :: string
  NI_PodSelector :: string
  NI_Types :: "string list"

record AuditNetpolFinding =
  NF_Severity :: string
  NF_Message :: string
  NF_Remediation :: string

record AuditNetpolResult =
  AN_Policies :: "NetpolInfo list"
  AN_Findings :: "AuditNetpolFinding list"
  AN_DefaultDeny :: bool

definition isAllowAll :: "LabelSelector option \<Rightarrow> LabelSelector option \<Rightarrow> string option \<Rightarrow> bool" where
  "isAllowAll podSel nsSel ipBlock \<longleftrightarrow> podSel = None \<and> nsSel = None \<and> ipBlock = None"

definition is_default_deny :: "PolicySpec \<Rightarrow> bool" where
  "is_default_deny p \<longleftrightarrow>
     length (LS_MatchLabels (PS_PodSelector p)) = 0 \<and> length (LS_MatchExpressions (PS_PodSelector p)) = 0 \<and>
     length (PS_Ingress p) = 0 \<and> length (PS_Egress p) = 0 \<and>
     list_ex (\<lambda>t. t = ''Ingress'') (PS_PolicyTypes p) \<and> list_ex (\<lambda>t. t = ''Egress'') (PS_PolicyTypes p)"

definition audit_from :: "string \<Rightarrow> PolicyPeer \<Rightarrow> AuditNetpolFinding list" where
  "audit_from name from =
     (if isAllowAll (PP_PodSelector from) (PP_NamespaceSelector from) (PP_IPBlock from) then
        [\<lparr>NF_Severity = ''high'',
          NF_Message = ''NetworkPolicy '' @ quote_str name @
            '' has an ingress rule that allows traffic from all sources, negating default-deny'',
          NF_Remediation = ''Restrict the ingress rule to specific pod/namespace selectors or CIDR ranges.''\<rparr>]
      else case PP_NamespaceSelector from of
        None \<Rightarrow> []
      | Some sel \<Rightarrow>
          if length (LS_MatchLabels sel) = 0 \<and> length (LS_MatchExpressions sel) = 0 \<and> PP_PodSelector from = None then
            [\<lparr>NF_Severity = ''medium'',
              NF_Message = ''NetworkPolicy '' @ quote_str name @ '' allows ingress from all namespaces via empty namespaceSelector'',
              NF_Remediation = ''Add matchLabels to the namespaceSelector to restrict which namespaces can send traffic.''\<rparr>]
          else [])"

definition audit_to :: "string \<Rightarrow> PolicyPeer \<Rightarrow> AuditNetpolFinding list" where
  "audit_to name to =
     (if isAllowAll (PP_PodSelector to) (PP_NamespaceSelector to) (PP_IPBlock to) then
        [\<lparr>NF_Severity = ''high'',
          NF_Message = ''NetworkPolicy '' @ quote_str name @
            '' has an egress rule that allows traffic to all destinations, negating default-deny'',
          NF_Remediation = ''Restrict the egress rule to specific pod/namespace selectors or CIDR ranges.''\<rparr>]
      else [])"

definition policy_findings :: "PolicySpec \<Rightarrow> AuditNetpolFinding list" where
  "policy_findings p =
     concat (map (\<lambda>r. concat (map (audit_from (PS_Name p)) r)) (PS_Ingress p)) @
     concat (map (\<lambda>r. concat (map (audit_to (PS_Name p)) r)) (PS_Egress p))"

definition policy_info :: "PolicySpec \<Rightarrow> NetpolInfo" where
  "policy_info p =
     \<lparr>NI_Name = PS_Name p,
      NI_PodSelector =
        (if 0 < length (LS_MatchLabels (PS_PodSelector p))
         then Join (map (\<lambda>(k, v). k @ ''='' @ v) (LS_MatchLabels (PS_PodSelector p))) '','' else ''all pods''),
      NI_Types = PS_PolicyTypes p\<rparr>"

definition handleAuditNetpol :: "'s audit_api \<Rightarrow> string \<Rightarrow> 's \<Rightarrow> audit_error + AuditNetpolResult" where
  "handleAuditNetpol api namespace s =
     (case netpol_list api namespace s of
        Inl e \<Rightarrow> Inl (AE_List ''network policies'' namespace e)
      | Inr policies \<Rightarrow>
          let defaultDeny = list_ex is_default_deny policies;
              hasEgressRestriction = list_ex (\<lambda>p. list_ex (\<lambda>t. t = ''Egress'') (PS_PolicyTypes p)) policies;
              findings = concat (map policy_findings policies) @
                (if \<not> defaultDeny then
                   [\<lparr>NF_Severity = ''high'',
                     NF_Message = ''no default-deny NetworkPolicy found; traffic is unrestricted by default'',
                     NF_Remediation = ''Create a NetworkPolicy with empty podSelector and both Ingress+Egress policyTypes with no allow rules.''\<rparr>]
                 else []) @
                (if \<not> hasEgressRestriction then
                   [\<lparr>NF_Severity = ''medium'',
                     NF_Message = ''no egress NetworkPolicy found; pods may be able to reach external services'',
                     NF_Remediation = ''Add a NetworkPolicy with policyType Egress to control outbound traffic.''\<rparr>]
                 else [])
          in Inr \<lparr>AN_Policies = map policy_info policies, AN_Findings = findings, AN_DefaultDeny = defaultDeny\<rparr>)"

section \<open>Pod security labels\<close>

record AuditPsaFinding =
  SF_Severity :: string
  SF_Message :: string
  SF_Remediation :: string

record AuditPsaResult =
  AP_Enforce :: string
  AP_Audit :: string
  AP_Warn :: string
  AP_Findings :: "AuditPsaFinding list"
  AP_Compliant :: bool

definition psaLevelOrder :: "string \<Rightarrow> nat" where
  "psaLevelOrder level = (if level = ''baseline'' then 1 else if level = ''restricted'' then 2 else 0)"

definition psa_finding :: "string \<Rightarrow> string \<Rightarrow> string \<Rightarrow> AuditPsaFinding" where
  "psa_finding severity message remediation =
     \<lparr>SF_Severity = severity, SF_Message = message, SF_Remediation = remediation\<rparr>"

definition enforce_findings :: "string \<Rightarrow> AuditPsaFinding list" where
  "enforce_findings enforce =
     (if enforce = [] then
        [psa_finding ''high'' ''pod-security.kubernetes.io/enforce label is missing; no PSA enforcement active''
           ''Add the label pod-security.kubernetes.io/enforce=restricted to the namespace.'']
      else if enforce = ''privileged'' then
        [psa_finding ''high'' (''PSA enforce level is '' @ quote_str ''privileged'' @ ''; all pod security checks are disabled'')
           (''Set pod-security.kubernetes.io/enforce to '' @ quote_str ''restricted'' @ '' (or '' @ quote_str ''baseline'' @ '' as a first step).'')]
      else if enforce \<noteq> ''restricted'' then
        [psa_finding ''medium'' (''PSA enforce level is '' @ quote_str enforce @ ''; recommended level is '' @ quote_str ''restricted'')
           (''Set pod-security.kubernetes.io/enforce to '' @ quote_str ''restricted'' @ '' for full pod security enforcement.'')]
      else [])"

definition missing_findings :: "string \<Rightarrow> string \<Rightarrow> AuditPsaFinding list" where
  "missing_findings audit warn =
     (if audit = [] then
        [psa_finding ''low'' ''pod-security.kubernetes.io/audit label is missing''
           ''Add pod-security.kubernetes.io/audit=restricted to log PSA violations in the audit log.'']
      else []) @
     (if warn = [] then
        [psa_finding ''low'' ''pod-security.kubernetes.io/warn label is missing''
           ''Add pod-security.kubernetes.io/warn=restricted so users see warnings when deploying non-compliant pods.'']
      else [])"

definition mismatch_findings :: "string \<Rightarrow> string \<Rightarrow> string \<Rightarrow> AuditPsaFinding list" where
  "mismatch_findings enforce audit warn =
     (if enforce \<noteq> [] then
        (let enforceRank = psaLevelOrder enforce in
         (if audit \<noteq> [] \<and> psaLevelOrder audit < enforceRank then
            [psa_finding ''medium''
               (''audit level '' @ quote_str audit @ '' is weaker than enforce level '' @ quote_str enforce @
                ''; audit log will not capture all violations'')
               (''Set pod-security.kubernetes.io/audit to '' @ quote_str enforce @ '' or stricter to match enforcement.'')]
          else []) @
         (if warn \<noteq> [] \<and> psaLevelOrder warn < enforceRank then
            [psa_finding ''medium''
               (''warn level '' @ quote_str warn @ '' is weaker than enforce level '' @ quote_str enforce @
                ''; users will not see warnings for all enforced restrictions'')
               (''Set pod-security.kubernetes.io/warn to '' @ quote_str enforce @ '' or stricter to match enforcement.'')]
          else []))
      else [])"

definition handleAuditPsa :: "'s kube \<Rightarrow> string \<Rightarrow> 's \<Rightarrow> audit_error + AuditPsaResult" where
  "handleAuditPsa client namespace s =
     (case GetNamespace client namespace s of
        Inl e \<Rightarrow> Inl (AE_K8s e)
      | Inr ns \<Rightarrow>
          let enforce = mget (N_Labels ns) ''pod-security.kubernetes.io/enforce'';
              audit = mget (N_Labels ns) ''pod-security.kubernetes.io/audit'';
              warn = mget (N_Labels ns) ''pod-security.kubernetes.io/warn''
          in Inr \<lparr>AP_Enforce = enforce, AP_Audit = audit, AP_Warn = warn,
                  AP_Findings = enforce_findings enforce @ missing_findings audit warn @ mismatch_findings enforce audit warn,
                  AP_Compliant =
                    (if enforce = [] then False else if enforce = ''privileged'' then False
                     else if enforce \<noteq> ''restricted'' then False else True)\<rparr>)"

section \<open>The tools\<close>

definition audit_guard ::
  "'s kube \<Rightarrow> Evaluator option \<Rightarrow> DeployerInfo option \<Rightarrow> string \<Rightarrow> 's \<Rightarrow> audit_error + unit" where
  "audit_guard client eval deployer namespace s =
     (case CheckNamespace namespace of
        Inl e \<Rightarrow> Inl (AE_Guard e)
      | Inr _ \<Rightarrow> mapErr AE_Helper (checkNamespaceAuthz client namespace deployer eval Read s))"

definition audit_rbac ::
  "'s kube \<Rightarrow> 's audit_api \<Rightarrow> Evaluator option \<Rightarrow> DeployerInfo option \<Rightarrow> string \<Rightarrow> 's \<Rightarrow> audit_error + AuditFinding list" where
  "audit_rbac client api eval deployer namespace s =
     (case audit_guard client eval deployer namespace s of
        Inl e \<Rightarrow> Inl e | Inr _ \<Rightarrow> handleAuditRbac api namespace s)"

definition audit_netpol ::
  "'s kube \<Rightarrow> 's audit_api \<Rightarrow> Evaluator option \<Rightarrow> DeployerInfo option \<Rightarrow> string \<Rightarrow> 's \<Rightarrow> audit_error + AuditNetpolResult" where
  "audit_netpol client api eval deployer namespace s =
     (case audit_guard client eval deployer namespace s of
        Inl e \<Rightarrow> Inl e | Inr _ \<Rightarrow> handleAuditNetpol api namespace s)"

definition audit_psa ::
  "'s kube \<Rightarrow> Evaluator option \<Rightarrow> DeployerInfo option \<Rightarrow> string \<Rightarrow> 's \<Rightarrow> audit_error + AuditPsaResult" where
  "audit_psa client eval deployer namespace s =
     (case audit_guard client eval deployer namespace s of
        Inl e \<Rightarrow> Inl e | Inr _ \<Rightarrow> handleAuditPsa client namespace s)"

section \<open>What the reports mean\<close>

text \<open>A rule is dangerous when it grants every verb or every resource type, or a verb with which a role can
  extend itself; it is sensitive when it reaches credentials or running containers.\<close>

definition dangerous :: "PolicyRule \<Rightarrow> bool" where
  "dangerous r \<longleftrightarrow>
     ''*'' \<in> set (PR_Verbs r) \<or> ''*'' \<in> set (PR_Resources r) \<or> set (PR_Verbs r) \<inter> set escalationVerbs \<noteq> {}"

definition sensitive :: "PolicyRule \<Rightarrow> bool" where
  "sensitive r \<longleftrightarrow> set (PR_Resources r) \<inter> set sensitiveResources \<noteq> {}"

lemma bex_concat_map: "(\<exists>f \<in> set (concat (map g xs)). P f) \<longleftrightarrow> (\<exists>x \<in> set xs. \<exists>f \<in> set (g x). P f)"
  by auto

lemma finding_severity:
  "(\<exists>f \<in> set (wildcard_verb n d v). AF_Severity f = sev) \<longleftrightarrow> sev = ''high'' \<and> v = ''*''"
  "(\<exists>f \<in> set (escalation_verb n d v). AF_Severity f = sev) \<longleftrightarrow> sev = ''high'' \<and> v \<in> set escalationVerbs"
  "(\<exists>f \<in> set (audit_resource n d res). AF_Severity f = sev) \<longleftrightarrow>
     (sev = ''high'' \<and> res = ''*'') \<or> (sev = ''medium'' \<and> res \<in> set sensitiveResources)"
  by (auto simp: wildcard_verb_def escalation_verb_def audit_resource_def)

lemma rule_severity:
  "(\<exists>f \<in> set (auditRules [] n [r]). AF_Severity f = sev) \<longleftrightarrow>
     (sev = ''high'' \<and> dangerous r) \<or> (sev = ''medium'' \<and> sensitive r)"
  unfolding auditRules.simps Let_def append_Nil set_append bex_Un bex_concat_map finding_severity dangerous_def sensitive_def
  by blast

lemma auditRules_append: "auditRules fs n rules = fs @ auditRules [] n rules"
proof (induction rules arbitrary: fs)
  case (Cons r rules)
  show ?case
    unfolding auditRules.simps Let_def by (subst (1 2) Cons.IH) simp
qed simp

lemma auditRules_severity:
  "(\<exists>f \<in> set (auditRules [] n rules). AF_Severity f = sev) \<longleftrightarrow>
     (sev = ''high'' \<and> list_ex dangerous rules) \<or> (sev = ''medium'' \<and> list_ex sensitive rules)"
proof (induction rules)
  case (Cons r rules)
  have "auditRules [] n (r # rules) = auditRules [] n [r] @ auditRules [] n rules"
    using auditRules_append [of "auditRules [] n [r]" n rules] by (simp add: Let_def)
  then show ?case using rule_severity [of n r sev] Cons.IH unfolding set_append bex_Un list_ex_iff by auto
qed simp

lemma audit_roles_concat:
  "audit_roles fs roles = fs @ concat (map (\<lambda>r. auditRules [] (''Role/'' @ RO_Name r) (RO_Rules r)) roles)"
  by (induction roles arbitrary: fs) (simp_all, metis append_assoc auditRules_append)

lemma audit_binding_low: "f \<in> set (audit_binding rb) \<Longrightarrow> AF_Severity f = ''low''"
  by (auto simp: audit_binding_def split: prod.splits if_splits)

lemma audit_subject_iff:
  "(\<exists>f \<in> set (audit_subject ns crb subj). AF_Severity f = sev) \<longleftrightarrow>
     sev = ''medium'' \<and> (\<exists>name. subj = (''ServiceAccount'', name, ns))"
  by (auto simp: audit_subject_def split: prod.splits)

text \<open>The RBAC report is exact: it has a finding of high severity precisely when some role of the enclave
  has a dangerous rule, and one of medium severity precisely when a role has a rule for
  sensitive resources or a cluster-wide binding names a service account of the enclave.\<close>

theorem handleAuditRbac_verdict:
  assumes "role_list api ns s = Inr roles" and "rolebinding_list api ns s = Inr rbs"
    and "clusterrolebinding_list api s = Inr crbs"
  shows "\<exists>fs. handleAuditRbac api ns s = Inr fs \<and>
    ((\<exists>f \<in> set fs. AF_Severity f = ''high'') \<longleftrightarrow> (\<exists>r \<in> set roles. list_ex dangerous (RO_Rules r))) \<and>
    ((\<exists>f \<in> set fs. AF_Severity f = ''medium'') \<longleftrightarrow>
       (\<exists>r \<in> set roles. list_ex sensitive (RO_Rules r)) \<or>
       (\<exists>crb \<in> set crbs. \<exists>name. (''ServiceAccount'', name, ns) \<in> set (RB_Subjects crb)))"
proof -
  let ?rules = "concat (map (\<lambda>r. auditRules [] (''Role/'' @ RO_Name r) (RO_Rules r)) roles)"
  let ?rbs = "concat (map audit_binding rbs)"
  let ?crbs = "concat (map (\<lambda>crb. concat (map (audit_subject ns crb) (RB_Subjects crb))) crbs)"
  have run: "handleAuditRbac api ns s = Inr (?rules @ ?rbs @ ?crbs)"
    using assms by (simp add: handleAuditRbac_def audit_roles_concat)
  have roles: "(\<exists>f \<in> set ?rules. AF_Severity f = sev) \<longleftrightarrow>
      (\<exists>r \<in> set roles. \<exists>f \<in> set (auditRules [] (''Role/'' @ RO_Name r) (RO_Rules r)). AF_Severity f = sev)" for sev
    by (simp add: Bex_def) blast
  have crbs: "(\<exists>f \<in> set ?crbs. AF_Severity f = sev) \<longleftrightarrow>
      (\<exists>crb \<in> set crbs. \<exists>subj \<in> set (RB_Subjects crb). \<exists>f \<in> set (audit_subject ns crb subj). AF_Severity f = sev)" for sev
    by (simp add: Bex_def) blast
  have rbs: "(\<exists>f \<in> set ?rbs. AF_Severity f = sev) \<Longrightarrow> sev = ''low''" for sev
    using audit_binding_low by fastforce
  have split: "(\<exists>f \<in> set (?rules @ ?rbs @ ?crbs). AF_Severity f = sev) \<longleftrightarrow>
      (\<exists>f \<in> set ?rules. AF_Severity f = sev) \<or> (\<exists>f \<in> set ?rbs. AF_Severity f = sev) \<or> (\<exists>f \<in> set ?crbs. AF_Severity f = sev)" for sev
    unfolding set_append by blast
  have no_rbs: "\<not> (\<exists>f \<in> set ?rbs. AF_Severity f = ''high'')" "\<not> (\<exists>f \<in> set ?rbs. AF_Severity f = ''medium'')"
    using rbs [of "''high''"] rbs [of "''medium''"] by auto
  have "(\<exists>f \<in> set (?rules @ ?rbs @ ?crbs). AF_Severity f = ''high'') \<longleftrightarrow> (\<exists>r \<in> set roles. list_ex dangerous (RO_Rules r))"
    unfolding split roles crbs audit_subject_iff auditRules_severity using no_rbs by simp
  moreover have "(\<exists>f \<in> set (?rules @ ?rbs @ ?crbs). AF_Severity f = ''medium'') \<longleftrightarrow>
       (\<exists>r \<in> set roles. list_ex sensitive (RO_Rules r)) \<or>
       (\<exists>crb \<in> set crbs. \<exists>name. (''ServiceAccount'', name, ns) \<in> set (RB_Subjects crb))"
    unfolding split roles crbs audit_subject_iff auditRules_severity using no_rbs by blast
  ultimately show ?thesis using run by blast
qed

text \<open>The pod security report has nothing to say exactly when all three labels ask for the restricted
  profile, and calls a namespace compliant exactly when the enforced profile is that one.\<close>

theorem handleAuditPsa_verdict:
  assumes "ns_get client namespace s = Inr ns"
  shows "\<exists>r. handleAuditPsa client namespace s = Inr r \<and>
    (AP_Compliant r \<longleftrightarrow> N_Labels ns ''pod-security.kubernetes.io/enforce'' = Some ''restricted'') \<and>
    (AP_Findings r = [] \<longleftrightarrow>
       N_Labels ns ''pod-security.kubernetes.io/enforce'' = Some ''restricted'' \<and>
       N_Labels ns ''pod-security.kubernetes.io/audit'' = Some ''restricted'' \<and>
       N_Labels ns ''pod-security.kubernetes.io/warn'' = Some ''restricted'')"
proof -
  let ?e = "mget (N_Labels ns) ''pod-security.kubernetes.io/enforce''"
  let ?a = "mget (N_Labels ns) ''pod-security.kubernetes.io/audit''"
  let ?w = "mget (N_Labels ns) ''pod-security.kubernetes.io/warn''"
  have label: "N_Labels ns k = Some ''restricted'' \<longleftrightarrow> mget (N_Labels ns) k = ''restricted''" for k
    by (simp add: mget_def split: option.splits)
  have "enforce_findings ?e = [] \<longleftrightarrow> ?e = ''restricted''"
    by (simp add: enforce_findings_def)
  moreover have "missing_findings ?a ?w = [] \<longleftrightarrow> ?a \<noteq> [] \<and> ?w \<noteq> []"
    by (simp add: missing_findings_def)
  moreover have "mismatch_findings ''restricted'' ?a ?w = [] \<longleftrightarrow>
      (?a = [] \<or> ?a = ''restricted'') \<and> (?w = [] \<or> ?w = ''restricted'')"
    by (auto simp: mismatch_findings_def psaLevelOrder_def)
  ultimately have "enforce_findings ?e @ missing_findings ?a ?w @ mismatch_findings ?e ?a ?w = [] \<longleftrightarrow>
      ?e = ''restricted'' \<and> ?a = ''restricted'' \<and> ?w = ''restricted''"
    by auto
  then show ?thesis
    using assms unfolding label by (auto simp: handleAuditPsa_def GetNamespace_def mapErr_def Let_def)
qed

section \<open>The objects of a new enclave\<close>

text \<open>How a policy of \<open>K8s_Resources\<close>, whose peers always have both selectors and no address block, is
  listed.\<close>

definition sorted_labels :: "strmap \<Rightarrow> string list \<Rightarrow> (string \<times> string) list" where
  "sorted_labels m ks = map (\<lambda>k. (k, mget m k)) (filter (\<lambda>k. m k \<noteq> None) ks)"

definition label_keys :: "string list" where
  "label_keys = [''kubernetes.io/metadata.name'', ''k8s-app'']"

definition listed_policy :: "NetworkPolicy \<Rightarrow> PolicySpec" where
  "listed_policy p =
     \<lparr>PS_Name = NP_Name p,
      PS_PodSelector = \<lparr>LS_MatchLabels = sorted_labels (NP_PodSelector p) label_keys, LS_MatchExpressions = []\<rparr>,
      PS_PolicyTypes = NP_PolicyTypes p, PS_Ingress = [],
      PS_Egress = map (\<lambda>r. map (\<lambda>q.
        \<lparr>PP_PodSelector = Some \<lparr>LS_MatchLabels = sorted_labels (Peer_PodSelector q) label_keys, LS_MatchExpressions = []\<rparr>,
         PP_NamespaceSelector = Some \<lparr>LS_MatchLabels = sorted_labels (Peer_NamespaceSelector q) label_keys, LS_MatchExpressions = []\<rparr>,
         PP_IPBlock = None\<rparr>) (Egress_To r)) (NP_Egress p)\<rparr>"


definition new_api :: "string \<Rightarrow> 's audit_api" where
  "new_api ns =
     \<lparr>role_list = (\<lambda>_ _. Inr [workflow_role]), rolebinding_list = (\<lambda>_ _. Inr [workflow_role_binding ns]),
      clusterrolebinding_list = (\<lambda>_. Inr []),
      netpol_list = (\<lambda>_ _. Inr [listed_policy default_deny, listed_policy allow_dns])\<rparr>"

definition new_mem :: mem where
  "new_mem = empty_mem\<lparr>mem_ns := [(''lab'', new_namespace ''lab'')]\<rparr>"

lemma new_mem_get: "ns_get mem_kube ''lab'' new_mem = Inr (new_namespace ''lab'')"
  by (simp add: mem_kube_def new_mem_def fetch_def new_namespace_def)

lemma new_api_lists:
  "role_list (new_api ns) n s = Inr [workflow_role]" "rolebinding_list (new_api ns) n s = Inr [workflow_role_binding ns]"
  "clusterrolebinding_list (new_api ns) s = Inr []"
  "netpol_list (new_api ns) n s = Inr [listed_policy default_deny, listed_policy allow_dns]"
  by (simp_all add: new_api_def)


theorem handleAuditRbac_verdict_witness:
  "\<exists>fs. handleAuditRbac (new_api ''lab'') ''lab'' new_mem = Inr fs \<and>
    ((\<exists>f \<in> set fs. AF_Severity f = ''high'') \<longleftrightarrow> (\<exists>r \<in> set [workflow_role]. list_ex dangerous (RO_Rules r)))"
proof -
  obtain fs where "handleAuditRbac (new_api ''lab'') ''lab'' new_mem = Inr fs"
    "(\<exists>f \<in> set fs. AF_Severity f = ''high'') \<longleftrightarrow> (\<exists>r \<in> set [workflow_role]. list_ex dangerous (RO_Rules r))"
    using handleAuditRbac_verdict [OF new_api_lists(1-3), of "''lab''" "''lab''" new_mem] by meson
  then show ?thesis by (intro exI conjI)
qed

theorem handleAuditPsa_verdict_witness:
  "\<exists>r. handleAuditPsa mem_kube ''lab'' new_mem = Inr r \<and>
    (AP_Compliant r \<longleftrightarrow> N_Labels (new_namespace ''lab'') ''pod-security.kubernetes.io/enforce'' = Some ''restricted'')"
  using handleAuditPsa_verdict [OF new_mem_get] by blast

section \<open>What the network report misses\<close>

text \<open>An ingress rule without peers admits every source, in the documented meaning of network policies. The
  report looks at the peers of a rule only, so it stays silent about such a rule.\<close>

lemma open_rule_not_reported:
  assumes "netpol_list api ns s = Inr
    [listed_policy default_deny, (listed_policy default_deny)\<lparr>PS_Name := ''open'', PS_Ingress := [[]]\<rparr>]"
  shows "\<exists>r. handleAuditNetpol api ns s = Inr r \<and> AN_DefaultDeny r \<and> AN_Findings r = []"
  using assms
  by (simp add: handleAuditNetpol_def Let_def is_default_deny_def policy_findings_def listed_policy_def default_deny_def
      sorted_labels_def)

section \<open>Access\<close>

lemma audit_guard_ok:
  assumes "audit_guard client eval deployer namespace s = Inr u"
  shows "namespace \<noteq> [] \<and> \<not> IsSystemNamespace namespace \<and>
    checkNamespaceAuthz client namespace deployer eval Read s = Inr ()"
  using assms CheckNamespace_ok_iff [of namespace]
  by (cases "CheckNamespace namespace"; cases "checkNamespaceAuthz client namespace deployer eval Read s")
    (auto simp: audit_guard_def mapErr_def)

text \<open>The three reports are given for no system namespace and only to callers who may read the enclave.\<close>

theorem audit_needs_read_access:
  assumes "\<not> isl (audit_rbac client api eval deployer ns s) \<or> \<not> isl (audit_netpol client api eval deployer ns s) \<or>
    \<not> isl (audit_psa client eval deployer ns s)"
    and "ns_get client ns s = Inr n" and "eval = Some ev"
  shows "\<not> IsSystemNamespace ns \<and> Allowed (CheckEnclave eval deployer (N_Annotations n) Read)"
proof -
  obtain u where "audit_guard client eval deployer ns s = Inr u"
    using assms(1) by (auto simp: audit_rbac_def audit_netpol_def audit_psa_def split: sum.splits)
  from audit_guard_ok [OF this] show ?thesis
    using assms(2,3) by (auto simp: checkNamespaceAuthz_def Let_def split: if_splits)
qed

end
