(* ===== verification/Proxy.thy ===== *)
theory Proxy
  imports Kube_Api
begin

text \<open>
  The module proxy, \<^verbatim>\<open>pkg/proxy/manifests.go\<close> and \<^verbatim>\<open>pkg/proxy/reconciler.go\<close>, and the tool that reports on
  it, \<^verbatim>\<open>pkg/tools/proxy.go\<close>. The reconciler compares the cluster with the manifests it builds and
  creates or updates what is missing. The theorems say that one pass without errors reaches the
  desired state, that further passes then change nothing, and what the status tool reports.
\<close>

section \<open>Manifests\<close>

definition DefaultNamespace :: string where "DefaultNamespace = ''tentacular-support''"
definition DefaultImage :: string where "DefaultImage = ''ghcr.io/esm-dev/esm.sh:v136''"
definition DeploymentName :: string where "DeploymentName = ''esm-sh''"
definition ServiceName :: string where "ServiceName = ''esm-sh''"
definition ContainerPort :: nat where "ContainerPort = 8080"

record Options =
  O_Namespace :: string
  O_Image :: string
  O_StorageSize :: string

definition proxy_image :: "Options \<Rightarrow> string" where
  "proxy_image opts = (if O_Image opts \<noteq> [] then O_Image opts else DefaultImage)"

definition storageType :: "Options \<Rightarrow> string" where
  "storageType opts = (if O_StorageSize opts \<noteq> [] then ''pvc'' else ''emptydir'')"

datatype VolumeSource = EmptyDir | PersistentVolumeClaim string

record Probe =
  Pr_Path :: string
  Pr_Port :: nat
  Pr_InitialDelaySeconds :: nat
  Pr_PeriodSeconds :: nat

record Container =
  Co_Name :: string
  Co_Image :: string
  Co_VolumeMounts :: "(string \<times> string) list"
  Co_Ports :: "(nat \<times> string) list"
  Co_Requests :: strmap
  Co_Limits :: strmap
  Co_ReadinessProbe :: "Probe option"

record ProxyDeployment =
  PD_Name :: string
  PD_Namespace :: string
  PD_Labels :: strmap
  PD_ResourceVersion :: nat
  PD_Replicas :: "nat option"
  PD_MatchLabels :: strmap
  PD_TemplateLabels :: strmap
  PD_Volumes :: "(string \<times> VolumeSource) list"
  PD_Containers :: "Container list"
  PD_ReadyReplicas :: int

record ProxyService =
  Sv_Name :: string
  Sv_Namespace :: string
  Sv_Labels :: strmap
  Sv_Selector :: strmap
  Sv_Ports :: "(nat \<times> string) list"

definition proxyLabels :: strmap where
  "proxyLabels =
     [''app.kubernetes.io/managed-by'' \<mapsto> ''tentacular'',
      ''app.kubernetes.io/name'' \<mapsto> ''esm-sh'',
      ''app.kubernetes.io/component'' \<mapsto> ''module-proxy'']"

definition buildStorage :: "Options \<Rightarrow> (string \<times> VolumeSource) list \<times> (string \<times> string) list" where
  "buildStorage opts =
     (if O_StorageSize opts = [] then ([(''cache'', EmptyDir)], [(''cache'', ''/app/cache'')])
      else ([(''cache'', PersistentVolumeClaim (DeploymentName @ ''-cache''))], [(''cache'', ''/app/cache'')]))"

definition BuildDeployment :: "Options \<Rightarrow> ProxyDeployment" where
  "BuildDeployment opts =
     (case buildStorage opts of (volumes, volumeMounts) \<Rightarrow>
        \<lparr>PD_Name = DeploymentName, PD_Namespace = O_Namespace opts, PD_Labels = proxyLabels, PD_ResourceVersion = 0,
         PD_Replicas = Some 1, PD_MatchLabels = proxyLabels, PD_TemplateLabels = proxyLabels,
         PD_Volumes = volumes,
         PD_Containers =
           [\<lparr>Co_Name = ''esm-sh'', Co_Image = proxy_image opts, Co_VolumeMounts = volumeMounts,
             Co_Ports = [(ContainerPort, ''TCP'')],
             Co_Requests = [''memory'' \<mapsto> ''128Mi'', ''cpu'' \<mapsto> ''100m''],
             Co_Limits = [''memory'' \<mapsto> ''512Mi'', ''cpu'' \<mapsto> ''500m''],
             Co_ReadinessProbe = Some \<lparr>Pr_Path = ''/status'', Pr_Port = ContainerPort,
               Pr_InitialDelaySeconds = 5, Pr_PeriodSeconds = 10\<rparr>\<rparr>],
         PD_ReadyReplicas = 0\<rparr>)"

definition BuildService :: "Options \<Rightarrow> ProxyService" where
  "BuildService opts =
     \<lparr>Sv_Name = ServiceName, Sv_Namespace = O_Namespace opts, Sv_Labels = proxyLabels,
      Sv_Selector = proxyLabels, Sv_Ports = [(ContainerPort, ''TCP'')]\<rparr>"

section \<open>The reconciler\<close>

record 's proxy_api =
  pd_get :: "string \<Rightarrow> string \<Rightarrow> ('s, ProxyDeployment) kread"
  pd_create :: "string \<Rightarrow> ProxyDeployment \<Rightarrow> ('s, ProxyDeployment) kwrite"
  pd_update :: "string \<Rightarrow> ProxyDeployment \<Rightarrow> ('s, ProxyDeployment) kwrite"
  sv_get :: "string \<Rightarrow> string \<Rightarrow> ('s, ProxyService) kread"
  sv_create :: "string \<Rightarrow> ProxyService \<Rightarrow> ('s, ProxyService) kwrite"

definition NewReconciler :: "Options \<Rightarrow> Options" where
  "NewReconciler opts = (if O_Namespace opts = [] then opts\<lparr>O_Namespace := DefaultNamespace\<rparr> else opts)"

definition reconcileDeployment :: "'s proxy_api \<Rightarrow> Options \<Rightarrow> ('s, api_err, unit) comp" where
  "reconcileDeployment api opts s =
     (let desired = BuildDeployment opts; ns = O_Namespace opts in
      case pd_get api ns DeploymentName s of
        Inl NotFound \<Rightarrow> bindC (pd_create api ns desired) (\<lambda>_. retC ()) s
      | Inl e \<Rightarrow> (Inl e, s)
      | Inr existing \<Rightarrow>
          if 0 < length (PD_Containers existing) \<and> Co_Image (PD_Containers existing ! 0) \<noteq> proxy_image opts
          then bindC (pd_update api ns (desired\<lparr>PD_ResourceVersion := PD_ResourceVersion existing\<rparr>)) (\<lambda>_. retC ()) s
          else (Inr (), s))"

definition reconcileService :: "'s proxy_api \<Rightarrow> Options \<Rightarrow> ('s, api_err, unit) comp" where
  "reconcileService api opts s =
     (let desired = BuildService opts; ns = O_Namespace opts in
      case sv_get api ns ServiceName s of
        Inl NotFound \<Rightarrow> bindC (sv_create api ns desired) (\<lambda>_. retC ()) s
      | Inl e \<Rightarrow> (Inl e, s)
      | Inr _ \<Rightarrow> (Inr (), s))"

text \<open>A pass logs its error and goes on; the error is kept here as the result.\<close>

definition reconcileOnce :: "'s proxy_api \<Rightarrow> Options \<Rightarrow> ('s, api_err, unit) comp" where
  "reconcileOnce api opts =
     bindC (reconcileDeployment api opts) (\<lambda>_. reconcileService api opts)"

text \<open>The background loop: one pass at the start and one for every tick before the context ends.\<close>

fun ticks :: "'s proxy_api \<Rightarrow> Options \<Rightarrow> nat \<Rightarrow> 's \<Rightarrow> 's" where
  "ticks api opts 0 s = s"
| "ticks api opts (Suc n) s = ticks api opts n (snd (reconcileOnce api opts s))"

definition Run :: "'s proxy_api \<Rightarrow> Options \<Rightarrow> nat \<Rightarrow> 's \<Rightarrow> 's" where
  "Run api opts n s = ticks api opts n (snd (reconcileOnce api opts s))"

record Status =
  St_Image :: string
  St_Storage :: string
  St_Installed :: bool
  St_Ready :: bool

definition GetStatus :: "'s proxy_api \<Rightarrow> Options \<Rightarrow> 's \<Rightarrow> Status" where
  "GetStatus api opts s =
     (case pd_get api (O_Namespace opts) DeploymentName s of
        Inl e \<Rightarrow> \<lparr>St_Image = [], St_Storage = [], St_Installed = False, St_Ready = False\<rparr>
      | Inr dep \<Rightarrow>
          \<lparr>St_Image = (if 0 < length (PD_Containers dep) then Co_Image (PD_Containers dep ! 0) else proxy_image opts),
           St_Storage = storageType opts, St_Installed = True, St_Ready = (1 \<le> PD_ReadyReplicas dep)\<rparr>)"

record ProxyStatusResult =
  Px_Namespace :: string
  Px_Image :: string
  Px_Storage :: string
  Px_Installed :: bool
  Px_Ready :: bool

definition proxy_status :: "'s proxy_api \<Rightarrow> Options \<Rightarrow> 's \<Rightarrow> ProxyStatusResult" where
  "proxy_status api opts s =
     (let st = GetStatus api opts s in
      \<lparr>Px_Namespace = O_Namespace opts, Px_Image = St_Image st, Px_Storage = St_Storage st,
       Px_Installed = St_Installed st, Px_Ready = St_Ready st\<rparr>)"

section \<open>Convergence\<close>

text \<open>What the API server is relied on for: an object that was written is there afterwards, with the images
  that were asked for, and writing a Service leaves Deployments alone.\<close>

definition proxy_laws :: "'s proxy_api \<Rightarrow> bool" where
  "proxy_laws api \<longleftrightarrow>
     (\<forall>ns d s d' s'. pd_create api ns d s = (Inr d', s') \<or> pd_update api ns d s = (Inr d', s') \<longrightarrow>
        (\<exists>d2. pd_get api ns (PD_Name d) s' = Inr d2 \<and> map Co_Image (PD_Containers d2) = map Co_Image (PD_Containers d))) \<and>
     (\<forall>ns v s v' s'. sv_create api ns v s = (Inr v', s') \<longrightarrow>
        (\<exists>v2. sv_get api ns (Sv_Name v) s' = Inr v2) \<and> (\<forall>m n. pd_get api m n s' = pd_get api m n s))"

definition settled :: "'s proxy_api \<Rightarrow> Options \<Rightarrow> 's \<Rightarrow> bool" where
  "settled api opts s \<longleftrightarrow>
     (\<exists>d. pd_get api (O_Namespace opts) DeploymentName s = Inr d \<and>
        (PD_Containers d = [] \<or> Co_Image (PD_Containers d ! 0) = proxy_image opts)) \<and>
     (\<exists>v. sv_get api (O_Namespace opts) ServiceName s = Inr v)"

lemma proxy_laws_write:
  assumes "proxy_laws api" and "pd_create api ns d s = (Inr d', s') \<or> pd_update api ns d s = (Inr d', s')"
  shows "\<exists>d2. pd_get api ns (PD_Name d) s' = Inr d2 \<and> map Co_Image (PD_Containers d2) = map Co_Image (PD_Containers d)"
  using assms(2) assms(1) [unfolded proxy_laws_def, THEN conjunct1, rule_format, of ns d s d' s'] by blast

lemma BuildDeployment_simps:
  "PD_Name (BuildDeployment opts) = DeploymentName"
  "map Co_Image (PD_Containers (BuildDeployment opts)) = [proxy_image opts]"
  by (simp_all add: BuildDeployment_def split: prod.splits)

lemma bindC_unit_ok: "bindC m (\<lambda>_. retC ()) s = (Inr u, s') \<longleftrightarrow> (\<exists>x. m s = (Inr x, s'))"
  by (auto simp: bindC_def retC_def split: prod.splits sum.splits)

lemma reconcileDeployment_ok:
  assumes "proxy_laws api" and "reconcileDeployment api opts s = (Inr u, s')"
  shows "\<exists>d. pd_get api (O_Namespace opts) DeploymentName s' = Inr d \<and>
    (PD_Containers d = [] \<or> Co_Image (PD_Containers d ! 0) = proxy_image opts)"
proof -
  let ?ns = "O_Namespace opts"
  have written: "\<exists>d2. pd_get api ?ns DeploymentName s' = Inr d2 \<and> Co_Image (PD_Containers d2 ! 0) = proxy_image opts"
    if w: "pd_create api ?ns d s = (Inr x, s') \<or> pd_update api ?ns d s = (Inr x, s')"
      and n: "PD_Name d = DeploymentName" and i: "map Co_Image (PD_Containers d) = [proxy_image opts]" for d x
  proof -
    obtain d2 where "pd_get api ?ns (PD_Name d) s' = Inr d2" "map Co_Image (PD_Containers d2) = map Co_Image (PD_Containers d)"
      using proxy_laws_write [OF assms(1) w] by blast
    then show ?thesis using n i by (cases "PD_Containers d2") auto
  qed
  show ?thesis
  proof (cases "pd_get api ?ns DeploymentName s")
    case (Inl e)
    then have "\<exists>x. pd_create api ?ns (BuildDeployment opts) s = (Inr x, s')"
      using assms(2) by (cases e) (auto simp: reconcileDeployment_def Let_def bindC_unit_ok)
    then show ?thesis using written BuildDeployment_simps by blast
  next
    case (Inr existing)
    show ?thesis
    proof (cases "0 < length (PD_Containers existing) \<and> Co_Image (PD_Containers existing ! 0) \<noteq> proxy_image opts")
      case True
      then obtain x where "pd_update api ?ns ((BuildDeployment opts)\<lparr>PD_ResourceVersion := PD_ResourceVersion existing\<rparr>) s = (Inr x, s')"
        using assms(2) Inr by (auto simp: reconcileDeployment_def Let_def bindC_unit_ok)
      then show ?thesis using written [of "(BuildDeployment opts)\<lparr>PD_ResourceVersion := PD_ResourceVersion existing\<rparr>" x]
          BuildDeployment_simps by auto
    next
      case False
      then show ?thesis
        using assms(2) Inr by (auto simp: reconcileDeployment_def Let_def)
    qed
  qed
qed

lemma reconcileService_ok:
  assumes "proxy_laws api" and "reconcileService api opts s = (Inr u, s')"
  shows "(\<exists>v. sv_get api (O_Namespace opts) ServiceName s' = Inr v) \<and> (\<forall>m n. pd_get api m n s' = pd_get api m n s)"
proof (cases "sv_get api (O_Namespace opts) ServiceName s")
  case (Inl e)
  then obtain x where "sv_create api (O_Namespace opts) (BuildService opts) s = (Inr x, s')"
    using assms(2) by (cases e) (auto simp: reconcileService_def Let_def bindC_unit_ok)
  moreover have "Sv_Name (BuildService opts) = ServiceName" by (simp add: BuildService_def)
  ultimately show ?thesis using assms(1) unfolding proxy_laws_def by metis
qed (use assms(2) in \<open>auto simp: reconcileService_def Let_def\<close>)

lemma reconcileOnce_settles:
  assumes "proxy_laws api" and "reconcileOnce api opts s = (Inr u, s')"
  shows "settled api opts s'"
proof -
  obtain s1 where d: "reconcileDeployment api opts s = (Inr (), s1)" and v: "reconcileService api opts s1 = (Inr u, s')"
    using assms(2) by (auto simp: reconcileOnce_def elim!: bindC_InrE)
  show ?thesis
    using reconcileDeployment_ok [OF assms(1) d] reconcileService_ok [OF assms(1) v] by (auto simp: settled_def)
qed

lemma reconcileOnce_settled: "settled api opts s \<Longrightarrow> reconcileOnce api opts s = (Inr (), s)"
  by (auto simp: settled_def reconcileOnce_def reconcileDeployment_def reconcileService_def bindC_def Let_def)

lemma ticks_settled: "settled api opts s \<Longrightarrow> ticks api opts n s = s"
  by (induction n) (simp_all add: reconcileOnce_settled)

text \<open>C24: a reconciliation pass without errors installs the proxy, and the loop is then at rest: for every
  number of later ticks the cluster stays as the first pass left it, the status tool reports
  the proxy as installed with the configured image, and the Service exists.\<close>

theorem reconciler_converges:
  assumes "proxy_laws api" and "reconcileOnce api opts s = (Inr u, s')"
  shows "Run api opts n s = s' \<and> Px_Installed (proxy_status api opts s') \<and>
    Px_Image (proxy_status api opts s') = proxy_image opts \<and> (\<exists>v. sv_get api (O_Namespace opts) ServiceName s' = Inr v)"
proof -
  have settled: "settled api opts s'" by (rule reconcileOnce_settles [OF assms])
  then have "Run api opts n s = s'" using assms(2) by (simp add: Run_def ticks_settled)
  moreover have "Px_Installed (proxy_status api opts s') \<and> Px_Image (proxy_status api opts s') = proxy_image opts"
    using settled by (auto simp: settled_def proxy_status_def GetStatus_def Let_def)
  ultimately show ?thesis using settled by (auto simp: settled_def)
qed

section \<open>An instance\<close>

type_synonym proxy_world = "(string \<times> string \<times> ProxyDeployment) list \<times> (string \<times> string \<times> ProxyService) list"

fun find2 :: "string \<Rightarrow> string \<Rightarrow> (string \<times> string \<times> 'a) list \<Rightarrow> 'a option" where
  "find2 ns n [] = None"
| "find2 ns n ((ns', n', x) # xs) = (if ns' = ns \<and> n' = n then Some x else find2 ns n xs)"

definition mem_proxy :: "proxy_world proxy_api" where
  "mem_proxy =
     \<lparr>pd_get = (\<lambda>ns n w. case find2 ns n (fst w) of None \<Rightarrow> Inl NotFound | Some d \<Rightarrow> Inr d),
      pd_create = (\<lambda>ns d w. case find2 ns (PD_Name d) (fst w) of
         None \<Rightarrow> (Inr d, ((ns, PD_Name d, d) # fst w, snd w)) | Some _ \<Rightarrow> (Inl AlreadyExists, w)),
      pd_update = (\<lambda>ns d w. case find2 ns (PD_Name d) (fst w) of
         None \<Rightarrow> (Inl NotFound, w) | Some _ \<Rightarrow> (Inr d, ((ns, PD_Name d, d) # fst w, snd w))),
      sv_get = (\<lambda>ns n w. case find2 ns n (snd w) of None \<Rightarrow> Inl NotFound | Some v \<Rightarrow> Inr v),
      sv_create = (\<lambda>ns v w. case find2 ns (Sv_Name v) (snd w) of
         None \<Rightarrow> (Inr v, (fst w, (ns, Sv_Name v, v) # snd w)) | Some _ \<Rightarrow> (Inl AlreadyExists, w))\<rparr>"

lemma mem_proxy_laws: "proxy_laws mem_proxy"
  by (auto simp: proxy_laws_def mem_proxy_def split: option.splits)

definition proxy_opts :: Options where
  "proxy_opts = NewReconciler \<lparr>O_Namespace = [], O_Image = ''esm:v2'', O_StorageSize = []\<rparr>"

definition old_world :: proxy_world where
  "old_world = ([(DefaultNamespace, DeploymentName, BuildDeployment (proxy_opts\<lparr>O_Image := []\<rparr>))], [])"

theorem reconciler_converges_witness:
  "\<exists>w. Run mem_proxy proxy_opts 7 old_world = w \<and> Px_Image (proxy_status mem_proxy proxy_opts old_world) = DefaultImage \<and>
     Px_Installed (proxy_status mem_proxy proxy_opts w) \<and> Px_Image (proxy_status mem_proxy proxy_opts w) = ''esm:v2''"
proof -
  obtain r w where run: "reconcileOnce mem_proxy proxy_opts old_world = (r, w)" by (metis prod.exhaust)
  have "\<not> isl (fst (reconcileOnce mem_proxy proxy_opts old_world))"
    by (simp add: reconcileOnce_def reconcileDeployment_def reconcileService_def bindC_def Let_def mem_proxy_def old_world_def
        proxy_opts_def NewReconciler_def BuildDeployment_def BuildService_def DefaultNamespace_def buildStorage_def proxy_image_def
        split: prod.splits)
  with run obtain u where "r = Inr u" by (cases r) auto
  with run have "reconcileOnce mem_proxy proxy_opts old_world = (Inr u, w)" by simp
  from reconciler_converges [OF mem_proxy_laws this, of 7] have "Run mem_proxy proxy_opts 7 old_world = w"
    "Px_Installed (proxy_status mem_proxy proxy_opts w)" "Px_Image (proxy_status mem_proxy proxy_opts w) = proxy_image proxy_opts"
    by blast+
  moreover have "proxy_image proxy_opts = ''esm:v2''" "Px_Image (proxy_status mem_proxy proxy_opts old_world) = DefaultImage"
    by code_simp+
  ultimately show ?thesis by metis
qed

text \<open>A storage size makes the Deployment mount a claim by name; no object that the reconciler writes is that
  claim, so it has to exist already.\<close>

lemma storage_needs_claim:
  "O_StorageSize opts \<noteq> [] \<Longrightarrow> PD_Volumes (BuildDeployment opts) = [(''cache'', PersistentVolumeClaim ''esm-sh-cache'')]"
  by (simp add: BuildDeployment_def buildStorage_def DeploymentName_def)

end
