(* ===== verification/Go_Url.thy ===== *)
theory Go_Url
  imports Go_Regexp
begin

text \<open>
  The part of Go's \<^verbatim>\<open>net/url\<close> package that the registrars use to build addresses: query escaping and the
  encoding of query parameters, which sorts them by name.
\<close>

text \<open>\<^verbatim>\<open>url.QueryEscape\<close>: unreserved characters pass, a space becomes a plus sign, every other byte is
  percent-encoded.\<close>

definition upper_hex :: "nat \<Rightarrow> char" where
  "upper_hex n = (if n < 10 then char_of (48 + n) else char_of (55 + n))"

definition query_char :: "char \<Rightarrow> string" where
  "query_char c =
     (if is_lower c \<or> is_upper c \<or> is_digit c \<or> c \<in> set ''-_.~'' then [c]
      else if c = CHR '' '' then ''+''
      else let n = (of_char c :: nat) in [CHR ''%'', upper_hex (n div 16), upper_hex (n mod 16)])"

definition QueryEscape :: "string \<Rightarrow> string" where
  "QueryEscape s = concat (map query_char s)"

definition Encode :: "(string \<times> string) list \<Rightarrow> string" where
  "Encode q = Join (map (\<lambda>(k, v). QueryEscape k @ ''='' @ QueryEscape v) (sort_key fst q)) ''&''"

text \<open>Escaped text never contains a character that separates the parts of an address.\<close>

definition separators :: "char set" where
  "separators = {CHR '':'', CHR ''@'', CHR ''/'', CHR ''?'', CHR ''&'', CHR ''=''}"

lemma upper_hex_class: "n < 16 \<Longrightarrow> is_digit (upper_hex n) \<or> is_upper (upper_hex n)"
  by (auto simp: upper_hex_def class_defs)

lemma class_no_separator: "is_digit c \<or> is_upper c \<or> is_lower c \<Longrightarrow> c \<notin> separators"
  by (auto simp: class_defs separators_def)

lemma query_char_no_separator:
  assumes "d \<in> set (query_char c)"
  shows "d \<notin> separators"
proof -
  have "(of_char c :: nat) div 16 < 16" using of_char_less [of c] by (simp add: less_mult_imp_div_less del: of_char_less)
  then have "upper_hex (of_char c div 16) \<notin> separators" "upper_hex (of_char c mod 16) \<notin> separators"
    using upper_hex_class [of "of_char c div 16"] upper_hex_class [of "of_char c mod 16"]
      class_no_separator by auto
  then show ?thesis
    using assms class_no_separator [of c] by (auto simp: query_char_def separators_def Let_def split: if_splits)
qed

lemma QueryEscape_no_separator: "set (QueryEscape s) \<inter> separators = {}"
  using query_char_no_separator by (auto simp: QueryEscape_def)

end
