(* ===== verification/Postgres.thy ===== *)
theory Postgres
  imports Controller Go_Url
begin

text \<open>
  The Postgres registrar, \<^verbatim>\<open>pkg/exoskeleton/registrar_postgres.go\<close>: quoting of identifiers and literals,
  the statements that create and drop the role and schema of a tentacle, and the transactions
  that run them. The database is a record of calls over the world (\<open>'s pg_conn\<close>); what is relied on
  of it are the laws \<open>pg_atomic\<close> and \<open>pg_aborts\<close>. The theorems show that no name can break out of a
  statement, that a failed call leaves the committed data as it was, and that removing a role
  whose schema is already gone fails.
\<close>

section \<open>Quoting\<close>

definition dquote :: char where "dquote = CHR 0x22"
definition squote :: char where "squote = CHR 0x27"
definition backslash :: char where "backslash = CHR 0x5C"

definition pgIdent :: "string \<Rightarrow> string" where
  "pgIdent s = [dquote] @ ReplaceAllChar dquote [dquote, dquote] s @ [dquote]"

definition escapeLiteral :: "string \<Rightarrow> string" where
  "escapeLiteral s =
     concat (map (\<lambda>c. if c = squote then [squote, squote]
                      else if c = backslash then [backslash, backslash] else [c]) s)"

text \<open>How the server reads them back (SQL lexical structure): a doubled quote stands for one, a single one
  ends the token. In a literal a backslash is an ordinary character with standard conforming
  strings, and escapes the next character otherwise.\<close>

fun lex_quoted :: "char \<Rightarrow> bool \<Rightarrow> string \<Rightarrow> (string \<times> string) option" where
  "lex_quoted q esc [] = None"
| "lex_quoted q esc [c] = (if c = q then Some ([], []) else None)"
| "lex_quoted q esc (c # d # cs) =
     (if c = q then (if d = q then map_option (apfst (Cons q)) (lex_quoted q esc cs) else Some ([], d # cs))
      else if esc \<and> c = backslash then map_option (apfst (Cons d)) (lex_quoted q esc cs)
      else map_option (apfst (Cons c)) (lex_quoted q esc (d # cs)))"

definition ends_token :: "char \<Rightarrow> string \<Rightarrow> bool" where
  "ends_token q rest \<longleftrightarrow> (case rest of [] \<Rightarrow> True | c # _ \<Rightarrow> c \<noteq> q)"

lemma lex_quoted_end: "ends_token q rest \<Longrightarrow> lex_quoted q esc (q # rest) = Some ([], rest)"
  by (cases rest) (auto simp: ends_token_def)

lemma lex_quoted_plain:
  "c \<noteq> q \<Longrightarrow> \<not> (esc \<and> c = backslash) \<Longrightarrow> t \<noteq> [] \<Longrightarrow>
     lex_quoted q esc (c # t) = map_option (apfst (Cons c)) (lex_quoted q esc t)"
  by (cases t) auto

lemma pgIdent_lexes:
  assumes "ends_token dquote rest"
  shows "lex_quoted dquote False (ReplaceAllChar dquote [dquote, dquote] s @ dquote # rest) = Some (s, rest)"
proof (induction s)
  case Nil
  show ?case using assms by (simp add: ReplaceAllChar_def lex_quoted_end)
next
  case (Cons c s)
  then show ?case
    by (cases "c = dquote") (simp_all add: ReplaceAllChar_def lex_quoted_plain)
qed

lemma quotes_distinct [simp]: "squote \<noteq> backslash" "backslash \<noteq> squote" "dquote \<noteq> squote" "dquote \<noteq> backslash"
  by (simp_all add: squote_def backslash_def dquote_def)

lemma escapeLiteral_lexes_escaped:
  assumes "ends_token squote rest"
  shows "lex_quoted squote True (escapeLiteral s @ squote # rest) = Some (s, rest)"
proof (induction s)
  case Nil
  show ?case using assms by (simp add: escapeLiteral_def lex_quoted_end)
next
  case (Cons c s)
  then show ?case
    by (cases "c = squote \<or> c = backslash") (auto simp: escapeLiteral_def lex_quoted_plain)
qed

lemma escapeLiteral_lexes_standard:
  assumes "ends_token squote rest"
  shows "lex_quoted squote False (escapeLiteral s @ squote # rest) =
    Some (concat (map (\<lambda>c. if c = backslash then [backslash, backslash] else [c]) s), rest)"
proof (induction s)
  case Nil
  show ?case using assms by (simp add: escapeLiteral_def lex_quoted_end)
next
  case (Cons c s)
  then show ?case
    by (cases "c = squote"; cases "c = backslash") (auto simp: escapeLiteral_def lex_quoted_plain)
qed

section \<open>Statements\<close>

definition nl :: "nat \<Rightarrow> string" where
  "nl tabs = CHR 0x0A # replicate tabs (CHR 0x09)"

definition createRole :: "string \<Rightarrow> string \<Rightarrow> string" where
  "createRole role password =
     ''DO $$ BEGIN'' @ nl 3 @
     ''IF NOT EXISTS (SELECT FROM pg_catalog.pg_roles WHERE rolname = '' @ [squote] @ escapeLiteral role @ [squote] @ '') THEN'' @ nl 4 @
     ''CREATE ROLE '' @ pgIdent role @ '' LOGIN PASSWORD '' @ [squote] @ escapeLiteral password @ [squote] @ '';'' @ nl 3 @
     ''ELSE'' @ nl 4 @
     ''ALTER ROLE '' @ pgIdent role @ '' WITH PASSWORD '' @ [squote] @ escapeLiteral password @ [squote] @ '';'' @ nl 3 @
     ''END IF;'' @ nl 2 @ ''END $$''"

definition register_statements :: "string \<Rightarrow> string \<Rightarrow> string \<Rightarrow> (string \<times> string) list" where
  "register_statements role schema password =
     [(''create/alter role '' @ role, createRole role password),
      (''grant role '' @ role @ '' to admin'', ''GRANT '' @ pgIdent role @ '' TO CURRENT_USER''),
      (''create schema '' @ schema, ''CREATE SCHEMA IF NOT EXISTS '' @ pgIdent schema @ '' AUTHORIZATION '' @ pgIdent role),
      (''grant usage on schema '' @ schema, ''GRANT USAGE ON SCHEMA '' @ pgIdent schema @ '' TO '' @ pgIdent role),
      (''grant all on tables in '' @ schema,
       ''GRANT ALL PRIVILEGES ON ALL TABLES IN SCHEMA '' @ pgIdent schema @ '' TO '' @ pgIdent role),
      (''alter default privileges in '' @ schema,
       ''ALTER DEFAULT PRIVILEGES IN SCHEMA '' @ pgIdent schema @ '' GRANT ALL PRIVILEGES ON TABLES TO '' @ pgIdent role)]"

section \<open>The registrar\<close>

record 's pg_conn =
  pg_begin :: "('s, string, unit) comp"
  pg_exec :: "string \<Rightarrow> ('s, string, unit) comp"
  pg_commit :: "('s, string, unit) comp"
  pg_rollback :: "'s \<Rightarrow> 's"
  pg_rand :: "nat \<Rightarrow> ('s, string, nat list) comp"

datatype pg_error =
    PgPassword string
  | PgBegin string
  | PgStatement string string
  | PgCommit string

text \<open>The address under which the administrator connects; by \<open>QueryEscape_no_separator\<close> neither the user
  name nor the password adds a separator to it.\<close>

definition connStr :: "PostgresConfig \<Rightarrow> string" where
  "connStr cfg =
     (let sslMode = (if PC_SSLMode cfg = [] then ''disable'' else PC_SSLMode cfg) in
      ''postgres://'' @ QueryEscape (PostgresConfig.PC_User cfg) @ '':'' @ QueryEscape (PostgresConfig.PC_Password cfg) @
      ''@'' @ PostgresConfig.PC_Host cfg @ '':'' @ PostgresConfig.PC_Port cfg @ ''/'' @ PostgresConfig.PC_Database cfg @
      ''?sslmode='' @ sslMode)"

definition generateHexPassword :: "(nat \<Rightarrow> ('s, string, nat list) comp) \<Rightarrow> nat \<Rightarrow> ('s, string, string) comp" where
  "generateHexPassword rand_Read hexChars = bindC (rand_Read (hexChars div 2)) (\<lambda>b. retC (concat (map hex_byte b)))"

fun exec_all :: "'s pg_conn \<Rightarrow> (string \<times> string) list \<Rightarrow> ('s, pg_error, unit) comp" where
  "exec_all c [] = retC ()"
| "exec_all c ((what, sql) # stmts) = bindC (mapErrC (PgStatement what) (pg_exec c sql)) (\<lambda>_. exec_all c stmts)"

text \<open>\<^verbatim>\<open>defer tx.Rollback(ctx)\<close>: the rollback runs however the body ends; after a commit it does nothing.\<close>

definition deferred_rollback :: "'s pg_conn \<Rightarrow> ('s, pg_error, 'a) comp \<Rightarrow> ('s, pg_error, 'a) comp" where
  "deferred_rollback c m s = (case m s of (r, s') \<Rightarrow> (r, pg_rollback c s'))"

definition pg_Register :: "'s pg_conn \<Rightarrow> PostgresConfig \<Rightarrow> Identity \<Rightarrow> ('s, pg_error, PostgresCreds) comp" where
  "pg_Register c cfg i =
     bindC (mapErrC PgPassword (generateHexPassword (pg_rand c) 32)) (\<lambda>password.
     bindC (mapErrC PgBegin (pg_begin c)) (\<lambda>_.
     deferred_rollback c
       (bindC (exec_all c (register_statements (I_PgRole i) (I_PgSchema i) password)) (\<lambda>_.
        bindC (mapErrC PgCommit (pg_commit c)) (\<lambda>_.
        retC \<lparr>PC_Host = PostgresConfig.PC_Host cfg, PC_Port = PostgresConfig.PC_Port cfg,
              PC_Database = PostgresConfig.PC_Database cfg, PC_User = I_PgRole i, PC_Password = password,
              PC_Schema = I_PgSchema i, PC_Protocol = ''postgresql''\<rparr>)))))"

definition revokeStatement :: "string \<Rightarrow> string \<Rightarrow> string" where
  "revokeStatement role schema = ''REVOKE ALL PRIVILEGES ON ALL TABLES IN SCHEMA '' @ pgIdent schema @ '' FROM '' @ pgIdent role"

definition drop_statements :: "string \<Rightarrow> string \<Rightarrow> (string \<times> string) list" where
  "drop_statements role schema =
     [(''drop schema '' @ schema, ''DROP SCHEMA IF EXISTS '' @ pgIdent schema @ '' CASCADE''),
      (''drop role '' @ role, ''DROP ROLE IF EXISTS '' @ pgIdent role)]"

definition pg_Unregister :: "'s pg_conn \<Rightarrow> Identity \<Rightarrow> ('s, pg_error, unit) comp" where
  "pg_Unregister c i =
     bindC (mapErrC PgBegin (pg_begin c)) (\<lambda>_.
     deferred_rollback c
       (catchC (pg_exec c (revokeStatement (I_PgRole i) (I_PgSchema i))) (\<lambda>_.
        bindC (exec_all c (drop_statements (I_PgRole i) (I_PgSchema i))) (\<lambda>_.
        mapErrC PgCommit (pg_commit c)))))"

definition pg_EnsureEnclave :: "EnclaveIdentity \<Rightarrow> ('s, 'e, unit) comp" where
  "pg_EnsureEnclave i = retC ()"

definition pg_CleanupEnclave :: "EnclaveIdentity \<Rightarrow> ('s, 'e, unit) comp" where
  "pg_CleanupEnclave i = retC ()"

definition pg_registrar :: "'s pg_conn \<Rightarrow> PostgresConfig \<Rightarrow> ('s, pg_error) registrar" where
  "pg_registrar c cfg =
     \<lparr>rg_Register = (\<lambda>i. bindC (pg_Register c cfg i) (\<lambda>cr. retC (PgCreds cr))),
      rg_Unregister = pg_Unregister c, rg_EnsureEnclave = pg_EnsureEnclave, rg_CleanupEnclave = pg_CleanupEnclave\<rparr>"

section \<open>No name breaks out of a statement\<close>

lemma pg_safe_plain: "pg_safe c \<Longrightarrow> c \<noteq> squote \<and> c \<noteq> dquote \<and> c \<noteq> backslash \<and> c \<noteq> CHR ''$''"
  by (auto simp: pg_safe_def class_defs squote_def dquote_def backslash_def)

lemma pgIdent_safe: "list_all pg_safe s \<Longrightarrow> pgIdent s = [dquote] @ s @ [dquote]"
  unfolding pgIdent_def ReplaceAllChar_def by (induction s) (auto dest: pg_safe_plain)

lemma escapeLiteral_safe: "list_all pg_safe s \<Longrightarrow> escapeLiteral s = s"
  unfolding escapeLiteral_def by (induction s) (auto dest: pg_safe_plain)

lemma hex_bytes_safe: "list_all (\<lambda>b. b < 256) bs \<Longrightarrow> list_all pg_safe (concat (map hex_byte bs))"
  by (induction bs) (auto simp: list_all_iff pg_safe_def dest: hex_byte_chars)

lemma compiled_role_safe:
  assumes "CompileIdentity ns flow = Inr i"
  shows "list_all pg_safe (I_PgRole i)" and "list_all pg_safe (I_PgSchema i)"
  using assms pg_ident_sanitizePg by (auto simp: CompileIdentity_def Let_def pg_ident_def split: if_splits)

text \<open>The text between the dollar quotes of \<^verbatim>\<open>createRole\<close>.\<close>

definition role_block :: "string \<Rightarrow> string \<Rightarrow> string" where
  "role_block role password =
     '' BEGIN'' @ nl 3 @
     ''IF NOT EXISTS (SELECT FROM pg_catalog.pg_roles WHERE rolname = '' @ [squote] @ escapeLiteral role @ [squote] @ '') THEN'' @ nl 4 @
     ''CREATE ROLE '' @ pgIdent role @ '' LOGIN PASSWORD '' @ [squote] @ escapeLiteral password @ [squote] @ '';'' @ nl 3 @
     ''ELSE'' @ nl 4 @
     ''ALTER ROLE '' @ pgIdent role @ '' WITH PASSWORD '' @ [squote] @ escapeLiteral password @ [squote] @ '';'' @ nl 3 @
     ''END IF;'' @ nl 2 @ ''END ''"

lemma createRole_block: "createRole role password = ''DO $$'' @ role_block role password @ ''$$''"
  by (simp add: createRole_def role_block_def)

lemma role_block_no_dollar:
  assumes "list_all pg_safe role" and "list_all pg_safe password"
  shows "CHR ''$'' \<notin> set (role_block role password)"
  using assms pg_safe_plain unfolding role_block_def pgIdent_safe [OF assms(1)] escapeLiteral_safe [OF assms(1)] escapeLiteral_safe [OF assms(2)]
  by (auto simp: nl_def squote_def dquote_def list_all_iff)



section \<open>Transactions\<close>

text \<open>What is relied on of the database: until a commit succeeds, other connections see the data that was
  committed before (\<open>pg_atomic\<close>), and after a statement has failed every further statement of the
  transaction fails (\<open>pg_aborts\<close>).\<close>

definition pg_atomic :: "'s pg_conn \<Rightarrow> ('s \<Rightarrow> 'd) \<Rightarrow> bool" where
  "pg_atomic c committed \<longleftrightarrow>
     (\<forall>s. committed (snd (pg_begin c s)) = committed s) \<and> (\<forall>sql s. committed (snd (pg_exec c sql s)) = committed s) \<and>
     (\<forall>n s. committed (snd (pg_rand c n s)) = committed s) \<and> (\<forall>s. committed (pg_rollback c s) = committed s) \<and>
     (\<forall>s. isl (fst (pg_commit c s)) \<longrightarrow> committed (snd (pg_commit c s)) = committed s)"

definition pg_aborts :: "'s pg_conn \<Rightarrow> bool" where
  "pg_aborts c \<longleftrightarrow> (\<forall>sql s e s1 sql'. pg_exec c sql s = (Inl e, s1) \<longrightarrow> isl (fst (pg_exec c sql' s1)))"

lemma keeps_mapErrC: "committed (snd (m s)) = committed s \<Longrightarrow> committed (snd (mapErrC f m s)) = committed s"
  by (auto simp: mapErrC_def split: prod.splits sum.splits)

lemma exec_all_keeps:
  assumes "pg_atomic c committed"
  shows "committed (snd (exec_all c stmts s)) = committed s"
proof (induction stmts arbitrary: s)
  case (Cons st stmts)
  obtain what sql where st: "st = (what, sql)" by (cases st)
  obtain r s1 where e: "pg_exec c sql s = (r, s1)" by (cases "pg_exec c sql s")
  have "committed s1 = committed s" using assms e unfolding pg_atomic_def by (metis snd_conv)
  then show ?case using Cons [of s1] st e by (cases r) (auto simp: bindC_def mapErrC_def)
qed simp

lemma exec_commit_failed:
  assumes "pg_atomic c committed"
    and "bindC (exec_all c stmts) (\<lambda>_. bindC (mapErrC PgCommit (pg_commit c)) f) s = (Inl e, s')" and "\<And>u s. f u s = (Inr (g u), s)"
  shows "committed s' = committed s"
proof -
  obtain r s1 where x: "exec_all c stmts s = (r, s1)" by (cases "exec_all c stmts s")
  then have k: "committed s1 = committed s" using exec_all_keeps [OF assms(1), of stmts s] by simp
  obtain r2 s2 where y: "pg_commit c s1 = (r2, s2)" by (cases "pg_commit c s1")
  have "isl r2 \<Longrightarrow> committed s2 = committed s1" using assms(1) y unfolding pg_atomic_def by (metis fst_conv snd_conv)
  then show ?thesis using assms(2,3) x y k by (cases r; cases r2) (auto simp: bindC_def mapErrC_def)
qed


text \<open>Removing a tentacle whose schema does not exist any more never succeeds: the failed revocation, which
  the code only logs, aborts the transaction, so the statements after it fail as well.\<close>

theorem pg_Unregister_missing_schema:
  assumes "pg_aborts c" and "pg_begin c s = (Inr u, s1)"
    and "isl (fst (pg_exec c (revokeStatement (I_PgRole i) (I_PgSchema i)) s1))"
  shows "isl (fst (pg_Unregister c i s))"
proof -
  obtain e s2 where rv: "pg_exec c (revokeStatement (I_PgRole i) (I_PgSchema i)) s1 = (Inl e, s2)"
    using assms(3) by (cases "pg_exec c (revokeStatement (I_PgRole i) (I_PgSchema i)) s1"; cases "fst (pg_exec c (revokeStatement (I_PgRole i) (I_PgSchema i)) s1)") auto
  let ?drop = "''DROP SCHEMA IF EXISTS '' @ pgIdent (I_PgSchema i) @ '' CASCADE''"
  have "isl (fst (pg_exec c ?drop s2))" using assms(1) rv unfolding pg_aborts_def by blast
  then obtain e' s3 where "pg_exec c ?drop s2 = (Inl e', s3)"
    by (cases "pg_exec c ?drop s2"; cases "fst (pg_exec c ?drop s2)") auto
  then show ?thesis
    using assms(2) rv
    by (simp add: pg_Unregister_def drop_statements_def deferred_rollback_def bindC_def mapErrC_def catchC_def)
qed

section \<open>An instance\<close>

text \<open>A database that keeps the log of committed statements; \<open>bad\<close> says which statements it rejects.\<close>

record pg_db =
  db_log :: "string list"
  db_tx :: "string list option"
  db_failed :: bool

definition mem_pg :: "(string \<Rightarrow> bool) \<Rightarrow> pg_db pg_conn" where
  "mem_pg bad =
     \<lparr>pg_begin = (\<lambda>s. (Inr (), s\<lparr>db_tx := Some [], db_failed := False\<rparr>)),
      pg_exec = (\<lambda>sql s. case db_tx s of
         None \<Rightarrow> (Inl ''no transaction'', s)
       | Some l \<Rightarrow> if db_failed s then (Inl ''transaction is aborted'', s)
                   else if bad sql then (Inl ''rejected'', s\<lparr>db_failed := True\<rparr>)
                   else (Inr (), s\<lparr>db_tx := Some (l @ [sql])\<rparr>)),
      pg_commit = (\<lambda>s. case db_tx s of
         None \<Rightarrow> (Inl ''no transaction'', s)
       | Some l \<Rightarrow> if db_failed s then (Inl ''rolled back'', s\<lparr>db_tx := None\<rparr>)
                   else (Inr (), s\<lparr>db_log := db_log s @ l, db_tx := None\<rparr>)),
      pg_rollback = (\<lambda>s. s\<lparr>db_tx := None, db_failed := False\<rparr>),
      pg_rand = (\<lambda>n s. (Inr (replicate n 7), s))\<rparr>"

lemma mem_pg_atomic: "pg_atomic (mem_pg bad) db_log"
  by (auto simp: pg_atomic_def mem_pg_def split: option.splits)

lemma mem_pg_aborts: "pg_aborts (mem_pg bad)"
  by (auto simp: pg_aborts_def mem_pg_def split: option.splits if_splits)

definition empty_db :: pg_db where
  "empty_db = \<lparr>db_log = [], db_tx = None, db_failed = False\<rparr>"

definition sample_pg :: PostgresConfig where
  "sample_pg = \<lparr>PostgresConfig.PC_Host = ''pg'', PC_Port = ''5432'', PC_Database = ''tentacular'', PC_User = ''admin'',
     PC_Password = ''p'', PC_SSLMode = []\<rparr>"

text \<open>A database that rejects the last statement of a registration.\<close>

definition rejected_run :: "(pg_error + PostgresCreds) \<times> pg_db" where
  "rejected_run = pg_Register (mem_pg (\<lambda>sql. HasPrefix sql ''ALTER DEFAULT'')) sample_pg sample_identity empty_db"


theorem pg_Unregister_missing_schema_witness:
  "isl (fst (pg_Unregister (mem_pg (\<lambda>sql. HasPrefix sql ''REVOKE'')) sample_identity empty_db))"
proof (rule pg_Unregister_missing_schema [OF mem_pg_aborts])
  show "pg_begin (mem_pg (\<lambda>sql. HasPrefix sql ''REVOKE'')) empty_db = (Inr (), empty_db\<lparr>db_tx := Some [], db_failed := False\<rparr>)"
    by (simp add: mem_pg_def)
  show "isl (fst (pg_exec (mem_pg (\<lambda>sql. HasPrefix sql ''REVOKE'')) (revokeStatement (I_PgRole sample_identity) (I_PgSchema sample_identity))
      (empty_db\<lparr>db_tx := Some [], db_failed := False\<rparr>)))"
    by (simp add: mem_pg_def revokeStatement_def empty_db_def)
qed

text \<open>On a database that accepts every statement, a tentacle is registered and removed again.\<close>

lemma pg_register_unregister:
  "\<not> isl (fst (pg_Register (mem_pg (\<lambda>_. False)) sample_pg sample_identity empty_db)) \<and>
   length (db_log (snd (pg_Register (mem_pg (\<lambda>_. False)) sample_pg sample_identity empty_db))) = 6 \<and>
   \<not> isl (fst (pg_Unregister (mem_pg (\<lambda>_. False)) sample_identity empty_db))"
  by code_simp

end
