(* ===== verification/Rustfs.thy ===== *)
theory Rustfs
  imports Postgres Enrich
begin

text \<open>
  The object store registrar, \<^verbatim>\<open>pkg/exoskeleton/registrar_rustfs.go\<close>: the admin client that signs requests to
  the RustFS admin interface, the policy document of a tentacle, registration and removal. The
  HTTP client, the signer and the S3 client are arguments (\<open>'s rustfs_http\<close>, \<open>'s s3_client\<close>). The theorems
  show that the policies of two tentacles never permit the same object, and what is left of the
  bucket after a removal.
\<close>

section \<open>The admin client\<close>

record rustfsAdmin =
  A_endpoint :: string
  A_accessKey :: string
  A_secretKey :: string
  A_region :: string

definition newRustFSAdmin :: "string \<Rightarrow> string \<Rightarrow> string \<Rightarrow> string \<Rightarrow> rustfsAdmin" where
  "newRustFSAdmin endpoint accessKey secretKey region =
     \<lparr>A_endpoint = TrimRight (\<lambda>c. c = CHR ''/'') endpoint, A_accessKey = accessKey, A_secretKey = secretKey, A_region = region\<rparr>"

definition adminURL :: "rustfsAdmin \<Rightarrow> string \<Rightarrow> (string \<times> string) list \<Rightarrow> string" where
  "adminURL a path query =
     (let u = A_endpoint a @ ''/rustfs/admin/v3'' @ path
      in if 0 < length query then u @ ''?'' @ Encode query else u)"

record admin_request =
  Rq_Method :: string
  Rq_URL :: string
  Rq_Body :: string
  Rq_ContentSha256 :: string
  Rq_ContentType :: string

text \<open>The HTTP side: building a request may fail, a request is signed with the keys and the region, and the
  answer is an error or a status with a body.\<close>

record 's rustfs_http =
  rq_check :: "string \<Rightarrow> string \<Rightarrow> string option"
  rq_send :: "string \<times> string \<times> string \<Rightarrow> admin_request \<Rightarrow> ('s, string, nat \<times> string) comp"
  rq_rand :: "nat \<Rightarrow> ('s, string, nat list) comp"

datatype admin_error =
    BuildRequest string
  | AdminRequest string string string
  | AdminStatus string string nat string

definition do_request ::
  "'s rustfs_http \<Rightarrow> rustfsAdmin \<Rightarrow> string \<Rightarrow> string \<Rightarrow> (string \<times> string) list \<Rightarrow> string \<Rightarrow> ('s, admin_error, nat \<times> string) comp" where
  "do_request h a meth path query body =
     (let fullURL = adminURL a path query in
      case rq_check h meth fullURL of
        Some e \<Rightarrow> failC (BuildRequest e)
      | None \<Rightarrow>
          mapErrC (AdminRequest meth path)
            (rq_send h (A_accessKey a, A_secretKey a, A_region a)
               \<lparr>Rq_Method = meth, Rq_URL = fullURL, Rq_Body = body,
                Rq_ContentSha256 = concat (map hex_byte (Sum256 body)),
                Rq_ContentType = (if 0 < length body then ''application/json'' else [])\<rparr>))"

definition doNoBody ::
  "'s rustfs_http \<Rightarrow> rustfsAdmin \<Rightarrow> string \<Rightarrow> string \<Rightarrow> (string \<times> string) list \<Rightarrow> string \<Rightarrow> ('s, admin_error, unit) comp" where
  "doNoBody h a meth path query body =
     bindC (do_request h a meth path query body) (\<lambda>(status, respBody).
       if 300 \<le> status then failC (AdminStatus meth path status respBody) else retC ())"

definition AddUser :: "'s rustfs_http \<Rightarrow> rustfsAdmin \<Rightarrow> string \<Rightarrow> string \<Rightarrow> ('s, admin_error, unit) comp" where
  "AddUser h a accessKey secretKey =
     doNoBody h a ''PUT'' ''/add-user'' [(''accessKey'', accessKey)]
       (''{'' @ json_quote ''secretKey'' @ '':'' @ json_quote secretKey @ '','' @
        json_quote ''status'' @ '':'' @ json_quote ''enabled'' @ ''}'')"

definition RemoveUser :: "'s rustfs_http \<Rightarrow> rustfsAdmin \<Rightarrow> string \<Rightarrow> ('s, admin_error, unit) comp" where
  "RemoveUser h a accessKey = doNoBody h a ''DELETE'' ''/remove-user'' [(''accessKey'', accessKey)] []"

definition AddCannedPolicy :: "'s rustfs_http \<Rightarrow> rustfsAdmin \<Rightarrow> string \<Rightarrow> string \<Rightarrow> ('s, admin_error, unit) comp" where
  "AddCannedPolicy h a name policy = doNoBody h a ''PUT'' ''/add-canned-policy'' [(''name'', name)] policy"

definition SetPolicy :: "'s rustfs_http \<Rightarrow> rustfsAdmin \<Rightarrow> string \<Rightarrow> string \<Rightarrow> ('s, admin_error, unit) comp" where
  "SetPolicy h a policyName userName =
     doNoBody h a ''PUT'' ''/set-user-or-group-policy''
       [(''policyName'', policyName), (''userOrGroup'', userName), (''isGroup'', ''false'')] []"

definition RemoveCannedPolicy :: "'s rustfs_http \<Rightarrow> rustfsAdmin \<Rightarrow> string \<Rightarrow> ('s, admin_error, unit) comp" where
  "RemoveCannedPolicy h a name = doNoBody h a ''DELETE'' ''/remove-canned-policy'' [(''name'', name)] []"

section \<open>Policies\<close>

record s3PolicyStmt =
  PS_Resource :: string
  PS_Condition :: "(string \<times> (string \<times> string) list) list"
  PS_Effect :: string
  PS_Action :: "string list"

record s3PolicyDoc =
  PD_Version :: string
  PD_Statement :: "s3PolicyStmt list"

definition buildS3Policy :: "string \<Rightarrow> string \<Rightarrow> s3PolicyDoc" where
  "buildS3Policy bucket prefix =
     \<lparr>PD_Version = ''2012-10-17'',
      PD_Statement =
        [\<lparr>PS_Resource = ''arn:aws:s3:::'' @ bucket @ ''/'' @ prefix @ ''*'', PS_Condition = [], PS_Effect = ''Allow'',
          PS_Action = [''s3:GetObject'', ''s3:PutObject'', ''s3:DeleteObject'']\<rparr>,
         \<lparr>PS_Resource = ''arn:aws:s3:::'' @ bucket, PS_Condition = [(''StringLike'', [(''s3:prefix'', prefix @ ''*'')])],
          PS_Effect = ''Allow'', PS_Action = [''s3:ListBucket'']\<rparr>]\<rparr>"

text \<open>\<^verbatim>\<open>json.Marshal\<close> of a policy: the fields of a statement in the order of the struct, an empty condition left
  out.\<close>

definition marshal_stmt :: "s3PolicyStmt \<Rightarrow> string" where
  "marshal_stmt st =
     ''{'' @ json_quote ''Resource'' @ '':'' @ json_quote (PS_Resource st) @
     (if PS_Condition st = [] then []
      else '','' @ json_quote ''Condition'' @ '':{'' @
        Join (map (\<lambda>(k, m). json_quote k @ '':'' @ marshal_strs m) (PS_Condition st)) '','' @ ''}'') @
     '','' @ json_quote ''Effect'' @ '':'' @ json_quote (PS_Effect st) @
     '','' @ json_quote ''Action'' @ '':['' @ Join (map json_quote (PS_Action st)) '','' @ '']}''"

definition marshal_policy :: "s3PolicyDoc \<Rightarrow> string" where
  "marshal_policy p =
     ''{'' @ json_quote ''Version'' @ '':'' @ json_quote (PD_Version p) @ '','' @ json_quote ''Statement'' @ '':['' @
     Join (map marshal_stmt (PD_Statement p)) '','' @ '']}''"

section \<open>The registrar\<close>

record 's s3_client =
  BucketExists :: "string \<Rightarrow> ('s, string, bool) comp"
  MakeBucket :: "string \<Rightarrow> string \<Rightarrow> ('s, string \<times> string, unit) comp"
  ListObjects :: "string \<Rightarrow> string \<Rightarrow> 's \<Rightarrow> (string + string) list"
  RemoveObject :: "string \<Rightarrow> string \<Rightarrow> ('s, string, unit) comp"

record RustFSRegistrar =
  RR_admin :: rustfsAdmin
  RR_cfg :: RustFSConfig

definition NewRustFSRegistrar :: "RustFSConfig \<Rightarrow> RustFSRegistrar" where
  "NewRustFSRegistrar cfg =
     (let endpoint = TrimPrefix (TrimPrefix (RustFSConfig.RC_Endpoint cfg) ''http://'') ''https://'';
          useSSL = HasPrefix (RustFSConfig.RC_Endpoint cfg) ''https://'';
          scheme = (if useSSL then ''https://'' else ''http://'')
      in \<lparr>RR_admin = newRustFSAdmin (scheme @ endpoint) (RustFSConfig.RC_AccessKey cfg) (RustFSConfig.RC_SecretKey cfg)
            (RustFSConfig.RC_Region cfg),
          RR_cfg = cfg\<rparr>)"

datatype rustfs_error =
    RfBucketCheck string string
  | RfBucketCreate string string
  | RfSecret string
  | RfAddUser string admin_error
  | RfAddPolicy string admin_error
  | RfSetPolicy string string admin_error
  | RfUnregister "string list"

definition ensure_bucket :: "'s s3_client \<Rightarrow> RustFSRegistrar \<Rightarrow> ('s, rustfs_error, unit) comp" where
  "ensure_bucket s3 r =
     (let bucket = RustFSConfig.RC_Bucket (RR_cfg r) in
      bindC (mapErrC (RfBucketCheck bucket) (BucketExists s3 bucket)) (\<lambda>exists.
        if \<not> exists then
          catchC (MakeBucket s3 bucket (RustFSConfig.RC_Region (RR_cfg r))) (\<lambda>res.
            case res of
              Inl (code, msg) \<Rightarrow>
                if code \<noteq> ''BucketAlreadyOwnedByYou'' \<and> code \<noteq> ''BucketAlreadyExists''
                then failC (RfBucketCreate bucket msg) else retC ()
            | Inr _ \<Rightarrow> retC ())
        else retC ()))"

definition rustfs_Register ::
  "'s rustfs_http \<Rightarrow> 's s3_client \<Rightarrow> RustFSRegistrar \<Rightarrow> Identity \<Rightarrow> ('s, rustfs_error, RustFSCreds) comp" where
  "rustfs_Register h s3 r i =
     (let cfg = RR_cfg r; bucket = RustFSConfig.RC_Bucket cfg; prefix = I_S3Prefix i;
          userName = I_S3User i; policyName = I_S3Policy i
      in bindC (ensure_bucket s3 r) (\<lambda>_.
         bindC (mapErrC RfSecret (generateHexPassword (rq_rand h) 32)) (\<lambda>secretKey.
         bindC (mapErrC (RfAddUser userName) (AddUser h (RR_admin r) userName secretKey)) (\<lambda>_.
         bindC (mapErrC (RfAddPolicy policyName)
                 (AddCannedPolicy h (RR_admin r) policyName (marshal_policy (buildS3Policy bucket prefix)))) (\<lambda>_.
         bindC (mapErrC (RfSetPolicy policyName userName) (SetPolicy h (RR_admin r) policyName userName)) (\<lambda>_.
         retC \<lparr>RC_Endpoint = RustFSConfig.RC_Endpoint cfg, RC_AccessKey = userName, RC_SecretKey = secretKey, RC_Bucket = bucket,
               RC_Prefix = prefix, RC_Region = RustFSConfig.RC_Region cfg, RC_Protocol = ''s3''\<rparr>))))))"

text \<open>The objects under the prefix are listed on a channel; an error on it ends the loop, an object that cannot
  be removed is noted.\<close>

fun remove_objects :: "'s s3_client \<Rightarrow> string \<Rightarrow> (string + string) list \<Rightarrow> 's \<Rightarrow> string list \<times> 's" where
  "remove_objects s3 bucket [] s = ([], s)"
| "remove_objects s3 bucket (Inl e # objs) s = ([''list objects: '' @ e], s)"
| "remove_objects s3 bucket (Inr key # objs) s =
     (case RemoveObject s3 bucket key s of
        (r, s1) \<Rightarrow>
          (case remove_objects s3 bucket objs s1 of (errs, s2) \<Rightarrow>
             ((case r of Inl e \<Rightarrow> [''delete object '' @ key @ '': '' @ e] | Inr _ \<Rightarrow> []) @ errs, s2)))"

definition show_admin_error :: "admin_error \<Rightarrow> string" where
  "show_admin_error e =
     (case e of
        BuildRequest m \<Rightarrow> ''build request: '' @ m
      | AdminRequest meth path m \<Rightarrow> ''admin request '' @ meth @ '' '' @ path @ '': '' @ m
      | AdminStatus meth path n body \<Rightarrow> ''admin '' @ meth @ '' '' @ path @ '': HTTP '' @ show_nat n @ '': '' @ body)"

definition rustfs_Unregister ::
  "'s rustfs_http \<Rightarrow> 's s3_client \<Rightarrow> RustFSRegistrar \<Rightarrow> Identity \<Rightarrow> ('s, rustfs_error, unit) comp" where
  "rustfs_Unregister h s3 r i s =
     (let bucket = RustFSConfig.RC_Bucket (RR_cfg r) in
      case remove_objects s3 bucket (ListObjects s3 bucket (I_S3Prefix i) s) s of (errs1, s1) \<Rightarrow>
      case RemoveUser h (RR_admin r) (I_S3User i) s1 of (r2, s2) \<Rightarrow>
      case RemoveCannedPolicy h (RR_admin r) (I_S3Policy i) s2 of (r3, s') \<Rightarrow>
        (let errs = errs1 @
           (case r2 of Inl e \<Rightarrow> [''remove user '' @ I_S3User i @ '': '' @ show_admin_error e] | Inr _ \<Rightarrow> []) @
           (case r3 of Inl e \<Rightarrow> [''remove policy '' @ I_S3Policy i @ '': '' @ show_admin_error e] | Inr _ \<Rightarrow> [])
         in (if 0 < length errs then Inl (RfUnregister errs) else Inr (), s')))"

definition rustfs_EnsureEnclave :: "EnclaveIdentity \<Rightarrow> ('s, 'e, unit) comp" where
  "rustfs_EnsureEnclave i = retC ()"

definition rustfs_CleanupEnclave :: "EnclaveIdentity \<Rightarrow> ('s, 'e, unit) comp" where
  "rustfs_CleanupEnclave i = retC ()"

definition rustfs_registrar ::
  "'s rustfs_http \<Rightarrow> 's s3_client \<Rightarrow> RustFSConfig \<Rightarrow> ('s, rustfs_error) registrar" where
  "rustfs_registrar h s3 cfg =
     (let r = NewRustFSRegistrar cfg in
      \<lparr>rg_Register = (\<lambda>i. bindC (rustfs_Register h s3 r i) (\<lambda>cr. retC (RfsCreds cr))),
       rg_Unregister = rustfs_Unregister h s3 r, rg_EnsureEnclave = rustfs_EnsureEnclave, rg_CleanupEnclave = rustfs_CleanupEnclave\<rparr>)"

section \<open>Policies isolate tentacles\<close>

text \<open>The documented meaning of a policy: a star matches any text and a question mark any character; an action
  on a resource is permitted when some allowing statement names the action, its resource
  pattern matches, and its conditions hold of the requested prefix.\<close>

fun wild_match :: "string \<Rightarrow> string \<Rightarrow> bool" where
  "wild_match [] [] = True"
| "wild_match [] (d # ds) = False"
| "wild_match (c # p) [] = (c = CHR ''*'' \<and> wild_match p [])"
| "wild_match (c # p) (d # ds) =
     (if c = CHR ''*'' then wild_match p (d # ds) \<or> wild_match (c # p) ds
      else (c = CHR ''?'' \<or> c = d) \<and> wild_match p ds)"

definition stmt_permits :: "s3PolicyStmt \<Rightarrow> string \<Rightarrow> string \<Rightarrow> string \<Rightarrow> bool" where
  "stmt_permits st action resource prefix \<longleftrightarrow>
     PS_Effect st = ''Allow'' \<and> action \<in> set (PS_Action st) \<and> wild_match (PS_Resource st) resource \<and>
     list_all (\<lambda>(_, conds). list_all (\<lambda>(_, pat). wild_match pat prefix) conds) (PS_Condition st)"

definition policy_permits :: "s3PolicyDoc \<Rightarrow> string \<Rightarrow> string \<Rightarrow> string \<Rightarrow> bool" where
  "policy_permits p action resource prefix \<longleftrightarrow> list_ex (\<lambda>st. stmt_permits st action resource prefix) (PD_Statement p)"

definition no_wild :: "string \<Rightarrow> bool" where
  "no_wild s \<longleftrightarrow> CHR ''*'' \<notin> set s \<and> CHR ''?'' \<notin> set s"

lemma wild_match_star: "wild_match ''*'' s"
  by (induction s) auto

lemma wild_match_prefix: "no_wild p \<Longrightarrow> wild_match (p @ ''*'') s \<longleftrightarrow> HasPrefix s p"
proof (induction p arbitrary: s)
  case Nil
  show ?case using wild_match_star by simp
next
  case (Cons c p)
  then show ?case by (cases s) (auto simp: no_wild_def)
qed

lemma wild_match_literal: "no_wild p \<Longrightarrow> wild_match p s \<longleftrightarrow> s = p"
proof (induction p arbitrary: s)
  case Nil
  show ?case by (cases s) auto
next
  case (Cons c p)
  then show ?case by (cases s) (auto simp: no_wild_def)
qed

lemma HasPrefix_same: "HasPrefix (p @ s) (p @ q) \<longleftrightarrow> HasPrefix s q"
  by (induction p) auto

definition object_arn :: "string \<Rightarrow> string \<Rightarrow> string" where
  "object_arn bucket key = ''arn:aws:s3:::'' @ bucket @ ''/'' @ key"

lemma policy_object_access:
  assumes "no_wild bucket" and "no_wild prefix" and "action \<in> {''s3:GetObject'', ''s3:PutObject'', ''s3:DeleteObject''}"
  shows "policy_permits (buildS3Policy bucket prefix) action (object_arn bucket key) q \<longleftrightarrow> HasPrefix key prefix"
proof -
  have nw: "no_wild (''arn:aws:s3:::'' @ bucket @ ''/'' @ prefix)" using assms(1,2) by (auto simp: no_wild_def)
  have "wild_match ((''arn:aws:s3:::'' @ bucket @ ''/'' @ prefix) @ ''*'') (object_arn bucket key) \<longleftrightarrow> HasPrefix key prefix"
    unfolding wild_match_prefix [OF nw] object_arn_def
    using HasPrefix_same [of "''arn:aws:s3:::'' @ bucket @ ''/''" key prefix] by simp
  then show ?thesis
    using assms(3) by (auto simp: policy_permits_def stmt_permits_def buildS3Policy_def)
qed

lemma policy_list_access:
  assumes "no_wild bucket" and "no_wild prefix"
  shows "policy_permits (buildS3Policy bucket prefix) ''s3:ListBucket'' (''arn:aws:s3:::'' @ bucket) q \<longleftrightarrow> HasPrefix q prefix"
  using wild_match_literal [OF assms(1)]
  by (simp add: policy_permits_def stmt_permits_def buildS3Policy_def wild_match_prefix [OF assms(2)])

lemma S3Prefix_disjoint:
  assumes "CompileIdentity ns1 wf1 = Inr i1" and "CompileIdentity ns2 wf2 = Inr i2" and "(ns1, wf1) \<noteq> (ns2, wf2)"
    and "CHR ''/'' \<notin> set (ns1 @ wf1 @ ns2 @ wf2)"
  shows "\<not> (HasPrefix key (I_S3Prefix i1) \<and> HasPrefix key (I_S3Prefix i2))"
proof
  assume "HasPrefix key (I_S3Prefix i1) \<and> HasPrefix key (I_S3Prefix i2)"
  then obtain t u where "key = I_S3Prefix i1 @ t" "key = I_S3Prefix i2 @ u" unfolding HasPrefix_iff by blast
  then have eq: "ns1 @ CHR ''/'' # ''tentacles/'' @ wf1 @ CHR ''/'' # t = ns2 @ CHR ''/'' # ''tentacles/'' @ wf2 @ CHR ''/'' # u"
    unfolding CompileIdentity_fields(4) [OF assms(1)] CompileIdentity_fields(4) [OF assms(2)] by simp
  have slash: "CHR ''/'' \<notin> set ns1" "CHR ''/'' \<notin> set ns2" "CHR ''/'' \<notin> set wf1" "CHR ''/'' \<notin> set wf2"
    using assms(4) by auto
  from append_sep_inj [OF eq slash(1,2)] have ns: "ns1 = ns2" and rest: "wf1 @ CHR ''/'' # t = wf2 @ CHR ''/'' # u"
    by simp_all
  from append_sep_inj [OF rest slash(3,4)] ns assms(3) show False by simp
qed

text \<open>C14: no object of the shared bucket can be reached by two tentacles: for different namespaces or workflow
  names without slashes and wildcards, no action on any object is permitted by the policies of
  both, while each policy permits every object action under the tentacle's own prefix.\<close>

theorem buildS3Policy_isolates:
  assumes "CompileIdentity ns1 wf1 = Inr i1" and "CompileIdentity ns2 wf2 = Inr i2" and "(ns1, wf1) \<noteq> (ns2, wf2)"
    and "CHR ''/'' \<notin> set (ns1 @ wf1 @ ns2 @ wf2)" and "no_wild (bucket @ ns1 @ wf1 @ ns2 @ wf2)"
    and "action \<in> {''s3:GetObject'', ''s3:PutObject'', ''s3:DeleteObject''}"
  shows "\<not> (policy_permits (buildS3Policy bucket (I_S3Prefix i1)) action (object_arn bucket key) q1 \<and>
            policy_permits (buildS3Policy bucket (I_S3Prefix i2)) action (object_arn bucket key) q2) \<and>
    policy_permits (buildS3Policy bucket (I_S3Prefix i1)) action (object_arn bucket (I_S3Prefix i1 @ rest)) q1"
proof -
  have b: "no_wild bucket" using assms(5) by (auto simp: no_wild_def)
  have p1: "no_wild (I_S3Prefix i1)" and p2: "no_wild (I_S3Prefix i2)"
    using assms(5) unfolding CompileIdentity_fields(4) [OF assms(1)] CompileIdentity_fields(4) [OF assms(2)]
    by (auto simp: no_wild_def)
  show ?thesis
    unfolding policy_object_access [OF b p1 assms(6)] policy_object_access [OF b p2 assms(6)]
    using S3Prefix_disjoint [OF assms(1-4), of key] by simp
qed

theorem buildS3Policy_isolates_witness:
  "\<not> (policy_permits (buildS3Policy ''data'' (I_S3Prefix sample_identity)) ''s3:GetObject'' (object_arn ''data'' ''ns/lab/tentacles/x/f'') [] \<and>
      policy_permits (buildS3Policy ''data'' (I_S3Prefix sample_identity2)) ''s3:GetObject'' (object_arn ''data'' ''ns/lab/tentacles/x/f'') []) \<and>
   policy_permits (buildS3Policy ''data'' (I_S3Prefix sample_identity)) ''s3:GetObject'' (object_arn ''data'' (I_S3Prefix sample_identity @ ''f'')) []"
  by (rule buildS3Policy_isolates [OF sample_identity_compiled sample_identity2_compiled]) (simp_all add: no_wild_def)

section \<open>Removal\<close>

text \<open>What is relied on of the object store: listing a prefix yields the keys under it or an error, removing
  an object removes that key and no other, and the admin interface leaves objects alone.\<close>

definition s3_laws :: "'s rustfs_http \<Rightarrow> 's s3_client \<Rightarrow> string \<Rightarrow> ('s \<Rightarrow> string set) \<Rightarrow> bool" where
  "s3_laws h s3 bucket keys \<longleftrightarrow>
     (\<forall>p s k. Inr k \<in> set (ListObjects s3 bucket p s) \<longrightarrow> HasPrefix k p) \<and>
     (\<forall>p s k. k \<in> keys s \<and> HasPrefix k p \<longrightarrow>
        Inr k \<in> set (ListObjects s3 bucket p s) \<or> (\<exists>e. Inl e \<in> set (ListObjects s3 bucket p s))) \<and>
     (\<forall>k s r s'. RemoveObject s3 bucket k s = (r, s') \<longrightarrow> keys s' = (if isl r then keys s else keys s - {k})) \<and>
     (\<forall>keys' req s. keys (snd (rq_send h keys' req s)) = keys s)"

lemma remove_objects_effect:
  assumes "\<And>k s r s'. RemoveObject s3 bucket k s = (r, s') \<Longrightarrow> keys s' = (if isl r then keys s else keys s - {k})"
    and "remove_objects s3 bucket objs s = (errs, s')"
  shows "keys s - {k. Inr k \<in> set objs} \<subseteq> keys s' \<and> keys s' \<subseteq> keys s \<and>
    (errs = [] \<longrightarrow> keys s' = keys s - {k. Inr k \<in> set objs} \<and> (\<forall>e. Inl e \<notin> set objs))"
  using assms(2)
proof (induction objs arbitrary: s errs)
  case (Cons ob objs)
  show ?case
  proof (cases ob)
    case (Inl e)
    then show ?thesis using Cons.prems by auto
  next
    case (Inr key)
    obtain r s1 where r: "RemoveObject s3 bucket key s = (r, s1)" by (cases "RemoveObject s3 bucket key s")
    obtain errs' s2 where rest: "remove_objects s3 bucket objs s1 = (errs', s2)" by (cases "remove_objects s3 bucket objs s1")
    have s': "s' = s2" "errs = (case r of Inl e \<Rightarrow> [''delete object '' @ key @ '': '' @ e] | Inr _ \<Rightarrow> []) @ errs'"
      using Cons.prems Inr r rest by auto
    have ih: "keys s1 - {k. Inr k \<in> set objs} \<subseteq> keys s' \<and> keys s' \<subseteq> keys s1 \<and>
        (errs' = [] \<longrightarrow> keys s' = keys s1 - {k. Inr k \<in> set objs} \<and> (\<forall>e. Inl e \<notin> set objs))"
      using Cons.IH [OF rest [folded s'(1)]] .
    have "keys s1 = (if isl r then keys s else keys s - {key})" by (rule assms(1) [OF r])
    then show ?thesis using ih s'(2) Inr by (cases r) auto
  qed
qed simp

lemma doNoBody_keeps:
  assumes "\<And>ks req s. keys (snd (rq_send h ks req s)) = keys s" and "doNoBody h a m p q b s = (r, s')"
  shows "keys s' = keys s"
proof -
  obtain r1 s1 where "do_request h a m p q b s = (r1, s1)" by (cases "do_request h a m p q b s")
  moreover have "keys (snd (do_request h a m p q b s)) = keys s"
    using assms(1) by (auto simp: do_request_def mapErrC_def Let_def split: option.splits prod.splits sum.splits) (metis snd_conv)+
  ultimately show ?thesis
    using assms(2) by (cases r1) (auto simp: doNoBody_def bindC_def split: if_splits)
qed

text \<open>Removing a tentacle touches no object outside its prefix, whatever fails on the way; when it
  reports success, every object under the prefix is gone and nothing else is.\<close>

theorem rustfs_Unregister_effect:
  assumes "s3_laws h s3 (RustFSConfig.RC_Bucket (RR_cfg r)) keys" and "rustfs_Unregister h s3 r i s = (res, s')"
  shows "{k \<in> keys s. \<not> HasPrefix k (I_S3Prefix i)} \<subseteq> keys s' \<and> keys s' \<subseteq> keys s \<and>
    (res = Inr () \<longrightarrow> keys s' = {k \<in> keys s. \<not> HasPrefix k (I_S3Prefix i)})"
proof -
  let ?b = "RustFSConfig.RC_Bucket (RR_cfg r)"
  let ?objs = "ListObjects s3 ?b (I_S3Prefix i) s"
  have rm: "\<And>k s r s'. RemoveObject s3 ?b k s = (r, s') \<Longrightarrow> keys s' = (if isl r then keys s else keys s - {k})"
    and snd: "\<And>ks req s. keys (snd (rq_send h ks req s)) = keys s"
    and under: "\<And>k. Inr k \<in> set ?objs \<Longrightarrow> HasPrefix k (I_S3Prefix i)"
    and all: "\<And>k. k \<in> keys s \<Longrightarrow> HasPrefix k (I_S3Prefix i) \<Longrightarrow> Inr k \<in> set ?objs \<or> (\<exists>e. Inl e \<in> set ?objs)"
    using assms(1) unfolding s3_laws_def by blast+
  obtain errs1 s1 where o1: "remove_objects s3 ?b ?objs s = (errs1, s1)" by (cases "remove_objects s3 ?b ?objs s")
  obtain r2 s2 where o2: "RemoveUser h (RR_admin r) (I_S3User i) s1 = (r2, s2)"
    by (cases "RemoveUser h (RR_admin r) (I_S3User i) s1")
  obtain r3 s3' where o3: "RemoveCannedPolicy h (RR_admin r) (I_S3Policy i) s2 = (r3, s3')"
    by (cases "RemoveCannedPolicy h (RR_admin r) (I_S3Policy i) s2")
  have "keys s2 = keys s1" "keys s3' = keys s2"
    using doNoBody_keeps [where keys = keys, OF snd] o2 o3 unfolding RemoveUser_def RemoveCannedPolicy_def by blast+
  moreover have "s' = s3'" "res = Inr () \<Longrightarrow> errs1 = []"
    using assms(2) o1 o2 o3 by (auto simp: rustfs_Unregister_def Let_def split: if_splits)
  ultimately have s': "keys s' = keys s1" and ok: "res = Inr () \<Longrightarrow> errs1 = []" by auto
  have eff: "keys s - {k. Inr k \<in> set ?objs} \<subseteq> keys s1 \<and> keys s1 \<subseteq> keys s \<and>
      (errs1 = [] \<longrightarrow> keys s1 = keys s - {k. Inr k \<in> set ?objs} \<and> (\<forall>e. Inl e \<notin> set ?objs))"
    by (rule remove_objects_effect [where keys = keys, OF rm o1])
  have gone: "keys s1 = {k \<in> keys s. \<not> HasPrefix k (I_S3Prefix i)}" if "errs1 = []"
  proof -
    have left: "keys s1 = keys s - {k. Inr k \<in> set ?objs}" and clean: "\<forall>e. Inl e \<notin> set ?objs"
      using eff that by simp_all
    have "Inr k \<in> set ?objs \<longleftrightarrow> HasPrefix k (I_S3Prefix i)" if "k \<in> keys s" for k
      using under [of k] all [OF that] clean by metis
    then show ?thesis unfolding left by auto
  qed
  have "{k \<in> keys s. \<not> HasPrefix k (I_S3Prefix i)} \<subseteq> keys s - {k. Inr k \<in> set ?objs}" using under by auto
  then show ?thesis unfolding s' using eff gone ok by blast
qed

section \<open>An instance\<close>

definition mem_s3 :: "string list s3_client" where
  "mem_s3 =
     \<lparr>BucketExists = (\<lambda>b s. (Inr True, s)), MakeBucket = (\<lambda>b rg s. (Inr (), s)),
      ListObjects = (\<lambda>b p s. map Inr (filter (\<lambda>k. HasPrefix k p) s)),
      RemoveObject = (\<lambda>b k s. (Inr (), filter (\<lambda>k'. k' \<noteq> k) s))\<rparr>"

definition mem_admin :: "string list rustfs_http" where
  "mem_admin =
     \<lparr>rq_check = (\<lambda>m u. None), rq_send = (\<lambda>ks rq s. (Inr (200, []), s)), rq_rand = (\<lambda>n s. (Inr (replicate n 7), s))\<rparr>"

lemma mem_s3_laws: "s3_laws mem_admin mem_s3 bucket set"
  by (auto simp: s3_laws_def mem_s3_def mem_admin_def)

definition sample_rustfs :: RustFSRegistrar where
  "sample_rustfs = NewRustFSRegistrar
     \<lparr>RustFSConfig.RC_Endpoint = ''http://rustfs:9000'', RC_AccessKey = ''k'', RC_SecretKey = ''s'', RC_Bucket = ''data'', RC_Region = ''r''\<rparr>"

theorem rustfs_Unregister_effect_witness:
  "set (snd (rustfs_Unregister mem_admin mem_s3 sample_rustfs sample_identity2 [''ns/lab/tentacles/x/f'', ''ns/lab/tentacles/y/f''])) =
     {k \<in> set [''ns/lab/tentacles/x/f'', ''ns/lab/tentacles/y/f'']. \<not> HasPrefix k (I_S3Prefix sample_identity2)}"
proof -
  let ?w = "[''ns/lab/tentacles/x/f'', ''ns/lab/tentacles/y/f'']"
  let ?run = "rustfs_Unregister mem_admin mem_s3 sample_rustfs sample_identity2 ?w"
  have "fst ?run = Inr ()"
    by (simp add: rustfs_Unregister_def RemoveUser_def RemoveCannedPolicy_def doNoBody_def do_request_def bindC_def mapErrC_def
        mem_s3_def mem_admin_def Let_def sample_identity2_def)
  then have "?run = (Inr (), snd ?run)" by (simp add: prod_eq_iff)
  from rustfs_Unregister_effect [OF mem_s3_laws this] show ?thesis by simp
qed

end
