(* ===== verification/Spire.thy ===== *)
theory Spire
  imports Controller Deploy
begin

text \<open>
  \<^verbatim>\<open>pkg/exoskeleton/registrar_spire.go\<close>: one cluster-scoped \<^verbatim>\<open>ClusterSPIFFEID\<close> per workflow, written with
  the dynamic client of theory \<open>Dynamic\<close> (a cluster-scoped call has the empty namespace). The
  registrar is the record \<open>spire_registrar\<close> the controller calls. The theorems say which pods the
  object selects, what registration and removal do to the store, and that names stay legal.
  \<open>spireName_collision\<close> shows that two workflows may share one name.
\<close>

section \<open>Names\<close>

definition k8s_char :: "char \<Rightarrow> bool" where
  "k8s_char c \<longleftrightarrow> is_lower c \<or> is_digit c \<or> c = CHR ''-''"

definition sanitizeK8sName :: "string \<Rightarrow> string" where
  "sanitizeK8sName s =
     Trim (\<lambda>c. c = CHR ''-'') (map (\<lambda>c. if k8s_char c then c else CHR ''-'') (ToLower s))"

definition spireName :: "string \<Rightarrow> string \<Rightarrow> string" where
  "spireName namespace workflow =
     (let raw = ''tentacle-'' @ sanitizeK8sName namespace @ ''-'' @ sanitizeK8sName workflow
      in if length raw > 253 then take 253 raw else raw)"

section \<open>The registrar\<close>

definition clusterSPIFFEIDGVR :: gvr where
  "clusterSPIFFEIDGVR =
     \<lparr>GVR_Group = ''spire.spiffe.io'', GVR_Version = ''v1alpha1'', GVR_Resource = ''clusterspiffeids''\<rparr>"

text \<open>\<^verbatim>\<open>NewSPIRERegistrar\<close> fixes the class name; the client stays an argument of the operations.\<close>

definition NewSPIRERegistrar :: "string \<Rightarrow> string" where
  "NewSPIRERegistrar className = (if className = [] then ''tentacular-system-spire'' else className)"

definition spiffeIDTemplate :: string where
  "spiffeIDTemplate =
     ''spiffe://{{ .TrustDomain }}/ns/{{ .PodMeta.Namespace }}/tentacles/'' @
     ''{{ index .PodMeta.Labels '' @ [CHR 0x22] @ ''tentacular.io/release'' @ [CHR 0x22] @ '' }}''"

definition clusterSPIFFEID :: "string \<Rightarrow> Identity \<Rightarrow> string \<Rightarrow> obj" where
  "clusterSPIFFEID className i namespace =
     [(''apiVersion'', JStr ''spire.spiffe.io/v1alpha1''),
      (''kind'', JStr ''ClusterSPIFFEID''),
      (''metadata'', JObj
        [(''name'', JStr (spireName namespace (I_Workflow i))),
         (''labels'', JObj
           [(''tentacular.io/release'', JStr (I_Workflow i)),
            (''tentacular.io/exoskeleton'', JStr ''true'')])]),
      (''spec'', JObj
        [(''className'', JStr className),
         (''hint'', JStr (I_Workflow i)),
         (''spiffeIDTemplate'', JStr spiffeIDTemplate),
         (''namespaceSelector'', JObj
           [(''matchLabels'', JObj [(''kubernetes.io/metadata.name'', JStr namespace)])]),
         (''podSelector'', JObj
           [(''matchLabels'', JObj [(''tentacular.io/release'', JStr (I_Workflow i))])])])]"

datatype spire_error =
    SpireGet string api_err
  | SpireUpdate string api_err
  | SpireCreate string api_err
  | SpireDelete string api_err

definition spire_Register ::
  "uns \<Rightarrow> 's dyn \<Rightarrow> string \<Rightarrow> Identity \<Rightarrow> string \<Rightarrow> ('s, spire_error, unit) comp" where
  "spire_Register u dyn className i namespace s =
     (let name = spireName namespace (I_Workflow i);
          ob = clusterSPIFFEID className i namespace
      in case dyn_get dyn clusterSPIFFEIDGVR [] name s of
           Inr existing \<Rightarrow>
             bindC (mapErrC (SpireUpdate name)
               (dyn_update dyn clusterSPIFFEIDGVR [] (u_set_resource_version u ob (u_resource_version u existing))))
               (\<lambda>_. retC ()) s
         | Inl e \<Rightarrow>
             if e \<noteq> NotFound then (Inl (SpireGet name e), s)
             else bindC (mapErrC (SpireCreate name) (dyn_create dyn clusterSPIFFEIDGVR [] ob)) (\<lambda>_. retC ()) s)"

definition spire_Unregister :: "'s dyn \<Rightarrow> Identity \<Rightarrow> string \<Rightarrow> ('s, spire_error, unit) comp" where
  "spire_Unregister dyn i namespace s =
     (let name = spireName namespace (I_Workflow i)
      in case dyn_delete dyn clusterSPIFFEIDGVR [] name s of
           (Inl e, s') \<Rightarrow> if e = NotFound then (Inr (), s') else (Inl (SpireDelete name e), s')
         | (Inr _, s') \<Rightarrow> (Inr (), s'))"

definition spire_registrar_of :: "uns \<Rightarrow> 's dyn \<Rightarrow> string \<Rightarrow> ('s, spire_error) spire_registrar" where
  "spire_registrar_of u dyn className =
     \<lparr>sp_Register = spire_Register u dyn (NewSPIRERegistrar className), sp_Unregister = spire_Unregister dyn\<rparr>"

section \<open>Names are legal\<close>

lemma lower_char_label:
  assumes "label_outer c"
  shows "k8s_char (lower_char c)" and "lower_char c \<noteq> CHR ''-''"
proof -
  show "k8s_char (lower_char c)"
    using assms by (auto simp: label_outer_def k8s_char_def class_defs lower_char_def Let_def)
  have "(of_char (lower_char c) :: nat) \<noteq> of_char CHR ''-''"
    using assms by (auto simp: lower_char_code label_outer_def class_defs)
  then show "lower_char c \<noteq> CHR ''-''" by auto
qed

lemma sanitize_chars: "list_all k8s_char (sanitizeK8sName s)"
proof -
  have "list_all k8s_char (map (\<lambda>c. if k8s_char c then c else CHR ''-'') (ToLower s))"
    by (auto simp: list_all_iff k8s_char_def)
  then show ?thesis
    unfolding sanitizeK8sName_def list_all_iff using set_Trim by blast
qed

text \<open>A label value starts and ends with an alphanumeric, so nothing is trimmed from it.\<close>

lemma sanitize_label:
  assumes "CheckName s = Inr ()"
  shows "sanitizeK8sName s = map (\<lambda>c. if k8s_char c then c else CHR ''-'') (ToLower s)"
    and "0 < length (sanitizeK8sName s)" and "length (sanitizeK8sName s) \<le> 63"
    and "last (sanitizeK8sName s) \<noteq> CHR ''-''"
proof -
  have s: "s \<noteq> []" "length s \<le> 63" "label_outer (hd s)" "label_outer (last s)"
    using assms by (auto simp: CheckName_def validLabelValue_def labelv.accepts_iff split: if_splits)
  let ?m = "map (\<lambda>c. if k8s_char c then c else CHR ''-'') (ToLower s)"
  have ends: "hd ?m \<noteq> CHR ''-''" "last ?m \<noteq> CHR ''-''"
    using s lower_char_label by (simp_all add: ToLower_def hd_map last_map)
  then show eq: "sanitizeK8sName s = ?m"
    unfolding sanitizeK8sName_def by (intro Trim_fixpoint) blast
  show "0 < length (sanitizeK8sName s)" "length (sanitizeK8sName s) \<le> 63" "last (sanitizeK8sName s) \<noteq> CHR ''-''"
    using s ends by (simp_all add: eq)
qed

text \<open>For a namespace and a workflow whose names are label values, the resource name is at most
  136 bytes, so it is never cut, and it is a legal Kubernetes name: lower-case letters, digits
  and hyphens, with a letter first and no hyphen last.\<close>

theorem spireName_legal:
  assumes "CheckName namespace = Inr ()" and "CheckName workflow = Inr ()"
  shows "spireName namespace workflow = ''tentacle-'' @ sanitizeK8sName namespace @ ''-'' @ sanitizeK8sName workflow \<and>
    length (spireName namespace workflow) \<le> 136 \<and>
    list_all k8s_char (spireName namespace workflow) \<and>
    hd (spireName namespace workflow) = CHR ''t'' \<and> last (spireName namespace workflow) \<noteq> CHR ''-''"
proof -
  note a = sanitize_label [OF assms(1)] and b = sanitize_label [OF assms(2)]
  have eq: "spireName namespace workflow = ''tentacle-'' @ sanitizeK8sName namespace @ ''-'' @ sanitizeK8sName workflow"
    using a(3) b(3) by (simp add: spireName_def Let_def)
  have "list_all k8s_char (spireName namespace workflow)"
    unfolding eq using sanitize_chars by (simp add: k8s_char_def class_defs)
  then show ?thesis
    using a(3) b(2-4) unfolding eq by simp
qed

theorem spireName_legal_witness:
  "last (spireName ''lab'' ''Report.v2'') \<noteq> CHR ''-'' \<and> spireName ''lab'' ''Report.v2'' = ''tentacle-lab-report-v2''"
proof -
  have "CheckName ''lab'' = Inr ()" "CheckName ''Report.v2'' = Inr ()" by code_simp+
  note legal = spireName_legal [OF this]
  have "spireName ''lab'' ''Report.v2'' = ''tentacle-lab-report-v2''" by code_simp
  with legal show ?thesis by blast
qed

section \<open>Effect on the cluster\<close>

text \<open>The pods a \<^verbatim>\<open>ClusterSPIFFEID\<close> gives an identity to: those of the namespaces, and with the labels,
  its two selectors ask for. A namespace carries its own name as the label
  \<^verbatim>\<open>kubernetes.io/metadata.name\<close>.\<close>

definition selects :: "obj \<Rightarrow> strmap \<Rightarrow> strmap \<Rightarrow> bool" where
  "selects ob ns_labels pod_labels \<longleftrightarrow>
     (\<forall>(k, v) \<in> set (found_or [] (typed as_strmap (walk (JObj ob) [''spec'', ''namespaceSelector'', ''matchLabels'']))).
        ns_labels k = Some v) \<and>
     (\<forall>(k, v) \<in> set (found_or [] (typed as_strmap (walk (JObj ob) [''spec'', ''podSelector'', ''matchLabels'']))).
        pod_labels k = Some v)"

lemma clusterSPIFFEID_meta:
  "name_of (clusterSPIFFEID cls i ns) = spireName ns (I_Workflow i)"
  "label_of (clusterSPIFFEID cls i ns) releaseLabelKey = Some (I_Workflow i)"
  by (simp_all add: clusterSPIFFEID_def name_of_def string_at_def label_of_def releaseLabelKey_def as_strmap_def)

lemma clusterSPIFFEID_selects:
  "selects (clusterSPIFFEID cls i ns) nl pl \<longleftrightarrow>
     nl ''kubernetes.io/metadata.name'' = Some ns \<and> pl ''tentacular.io/release'' = Some (I_Workflow i)"
  by (simp add: selects_def clusterSPIFFEID_def as_strmap_def)

lemma spire_Register_live:
  assumes "object_laws dyn live" and "uns_laws u" and "spire_Register u dyn cls i ns s = (r, s')"
  defines "key \<equiv> (clusterSPIFFEIDGVR, [], spireName ns (I_Workflow i))"
  shows "(k \<noteq> key \<longrightarrow> live s' k = live s k) \<and>
    (\<not> isl r \<longrightarrow> (\<exists>ob. live s' key = Some ob \<and> label_of ob releaseLabelKey = Some (I_Workflow i)))"
proof -
  let ?ob = "clusterSPIFFEID cls i ns"
  consider "isl r" "s' = s"
    | r1 where "dyn_create dyn clusterSPIFFEIDGVR [] ?ob s = (r1, s')" "isl r1 = isl r"
    | r1 rv where "dyn_update dyn clusterSPIFFEIDGVR [] (u_set_resource_version u ?ob rv) s = (r1, s')" "isl r1 = isl r"
    using assms(3)
    by (auto simp: spire_Register_def Let_def bindC_def mapErrC_def split: sum.splits prod.splits if_splits)
  then show ?thesis
  proof cases
    case 2
    then show ?thesis
      using object_laws_put [OF assms(1) disjI1 [OF 2(1)]] by (auto simp: key_def clusterSPIFFEID_meta)
  next
    case 3
    then show ?thesis
      using object_laws_put [OF assms(1) disjI2 [OF 3(1)]]
      by (auto simp: key_def clusterSPIFFEID_meta resource_version_meta [OF assms(2)])
  qed simp
qed

text \<open>Registering a workflow that succeeds leaves a live \<^verbatim>\<open>ClusterSPIFFEID\<close> labelled with the
  workflow; the object sent selects exactly the pods of the workflow in its namespace; removing it
  afterwards, when that succeeds without the object having vanished, leaves no object of that
  name; and neither call touches any other object.\<close>

theorem spire_lifecycle:
  assumes "object_laws dyn live" and "uns_laws u"
    and "spire_Register u dyn cls i ns s = (r, s1)" and "spire_Unregister dyn i ns s1 = (r2, s2)"
  defines "key \<equiv> (clusterSPIFFEIDGVR, [], spireName ns (I_Workflow i))"
  shows "(\<not> isl r \<longrightarrow> (\<exists>ob. live s1 key = Some ob \<and> label_of ob releaseLabelKey = Some (I_Workflow i))) \<and>
    (\<forall>nl pl. selects (clusterSPIFFEID cls i ns) nl pl \<longleftrightarrow>
       nl ''kubernetes.io/metadata.name'' = Some ns \<and> pl ''tentacular.io/release'' = Some (I_Workflow i)) \<and>
    (\<not> isl r2 \<longrightarrow> live s2 key = None \<or> fst (dyn_delete dyn clusterSPIFFEIDGVR [] (spireName ns (I_Workflow i)) s1) = Inl NotFound) \<and>
    (\<forall>k. k \<noteq> key \<longrightarrow> live s1 k = live s k \<and> live s2 k = live s k)"
proof -
  note reg = spire_Register_live [OF assms(1-3)]
  obtain d where d: "dyn_delete dyn clusterSPIFFEIDGVR [] (spireName ns (I_Workflow i)) s1 = (d, s2)"
    using assms(4) by (auto simp: spire_Unregister_def Let_def split: prod.splits sum.splits if_splits)
  note del = object_laws_delete [OF assms(1) d]
  have "\<not> isl r2 \<Longrightarrow> \<not> isl d \<or> d = Inl NotFound"
    using assms(4) d by (auto simp: spire_Unregister_def split: sum.splits if_splits)
  then show ?thesis
    using reg del d by (auto simp: key_def clusterSPIFFEID_selects)
qed

definition spire_identity :: "string \<Rightarrow> string \<Rightarrow> Identity" where
  "spire_identity ns w =
     \<lparr>I_Namespace = ns, I_Workflow = w, I_Principal = [], I_PgRole = [], I_PgSchema = [], I_NATSUser = [],
      I_NATSPrefix = [], I_S3Prefix = [], I_S3User = [], I_S3Policy = []\<rparr>"

definition no_objects :: world where "no_objects = \<lparr>w_ns = [], w_objs = []\<rparr>"

definition spire_run :: "(spire_error + unit) \<times> world" where
  "spire_run = spire_Register std_uns mem_dyn ''spire'' (spire_identity ''lab'' ''etl'') ''lab'' no_objects"

theorem spire_lifecycle_witness:
  "\<exists>ob. mem_live (snd spire_run) (clusterSPIFFEIDGVR, [], ''tentacle-lab-etl'') = Some ob \<and>
     label_of ob releaseLabelKey = Some ''etl''"
proof -
  have run: "spire_Register std_uns mem_dyn ''spire'' (spire_identity ''lab'' ''etl'') ''lab'' no_objects = (fst spire_run, snd spire_run)"
    by (simp add: spire_run_def)
  have ok: "\<not> isl (fst spire_run)" by code_simp
  have name: "spireName ''lab'' (I_Workflow (spire_identity ''lab'' ''etl'')) = ''tentacle-lab-etl''" by code_simp
  obtain r2 s2 where un: "spire_Unregister mem_dyn (spire_identity ''lab'' ''etl'') ''lab'' (snd spire_run) = (r2, s2)"
    by (metis prod.exhaust)
  show ?thesis
    using spire_lifecycle [OF mem_object_laws std_uns_laws run un] ok unfolding name by (simp add: spire_identity_def)
qed

text \<open>The name joins namespace and workflow with the hyphen that both may contain, and folds dots,
  underscores and capitals, so that different workflows get one name: the second registration
  replaces the object of the first, whose pods are then selected by no object.\<close>

lemma spireName_collision:
  defines "first \<equiv> spire_identity ''a-b'' ''c''" and "second \<equiv> spire_identity ''a'' ''b-c''"
  defines "s1 \<equiv> snd (spire_Register std_uns mem_dyn ''spire'' first ''a-b'' no_objects)"
  defines "s2 \<equiv> snd (spire_Register std_uns mem_dyn ''spire'' second ''a'' s1)"
  shows "spireName ''a-b'' ''c'' = spireName ''a'' ''b-c''" and "spireName ''lab'' ''x.y'' = spireName ''lab'' ''x-y''"
    and "map (\<lambda>(k, ob). label_of ob releaseLabelKey) (w_objs s1) = [Some ''c'']"
    and "map (\<lambda>(k, ob). label_of ob releaseLabelKey) (w_objs s2) = [Some ''b-c'']"
  unfolding assms by code_simp+

end
