(* ===== verification/Startup.thy ===== *)
theory Startup
  imports Rustfs Spire Proxy Authz_Evaluator
begin

text \<open>
  The start of the process: \<^verbatim>\<open>NewController\<close> of \<^verbatim>\<open>pkg/exoskeleton/controller.go\<close>, which wires the registrars of
  theories \<open>Postgres\<close>, \<open>Nats_Authz\<close>, \<open>Rustfs\<close> and \<open>Spire\<close> into the controller, and the configuration part of
  \<^verbatim>\<open>main\<close> in \<^verbatim>\<open>cmd/tentacular-mcp/main.go\<close> up to the running server, with every early exit as an error
  value. What the drivers do when they connect is the record \<open>backends\<close>; the environment and the
  token file are functions. Logging is left out; the listener and the signal appear as what they return.
\<close>

section \<open>The controller\<close>

datatype service_error =
    PgE pg_error
  | NatsE nats_error
  | RfsE rustfs_error
  | SpireE spire_error

datatype init_error =
    InitPostgresConnect string
  | InitPostgresPing string
  | InitNats nats_error
  | InitRustfs string

text \<open>\<open>be_minio\<close> is \<^verbatim>\<open>minio.New\<close> with the endpoint without its scheme and whether TLS is used;
  \<open>be_resources\<close> tells whether discovery knows a group version.\<close>

record 's backends =
  be_pool :: "string \<Rightarrow> string + 's pg_conn"
  be_ping :: "'s pg_conn \<Rightarrow> string + unit"
  be_nats :: "string \<Rightarrow> string \<Rightarrow> string + unit"
  be_minio :: "string \<Rightarrow> bool \<Rightarrow> RustFSConfig \<Rightarrow> string + 's s3_client"
  be_http :: "'s rustfs_http"
  be_resources :: "string \<Rightarrow> bool"

definition lift_registrar :: "('e \<Rightarrow> 'f) \<Rightarrow> ('s, 'e) registrar \<Rightarrow> ('s, 'f) registrar" where
  "lift_registrar f r =
     \<lparr>rg_Register = (\<lambda>i. mapErrC f (rg_Register r i)), rg_Unregister = (\<lambda>i. mapErrC f (rg_Unregister r i)),
      rg_EnsureEnclave = (\<lambda>i. mapErrC f (rg_EnsureEnclave r i)), rg_CleanupEnclave = (\<lambda>i. mapErrC f (rg_CleanupEnclave r i))\<rparr>"

definition lift_spire :: "('e \<Rightarrow> 'f) \<Rightarrow> ('s, 'e) spire_registrar \<Rightarrow> ('s, 'f) spire_registrar" where
  "lift_spire f r =
     \<lparr>sp_Register = (\<lambda>i ns. mapErrC f (sp_Register r i ns)), sp_Unregister = (\<lambda>i ns. mapErrC f (sp_Unregister r i ns))\<rparr>"

definition NewPostgresRegistrar :: "'s backends \<Rightarrow> PostgresConfig \<Rightarrow> init_error + ('s, pg_error) registrar" where
  "NewPostgresRegistrar be cfg =
     (case be_pool be (connStr cfg) of
        Inl e \<Rightarrow> Inl (InitPostgresConnect e)
      | Inr pool \<Rightarrow>
          (case be_ping be pool of
             Inl e \<Rightarrow> Inl (InitPostgresPing e)
           | Inr _ \<Rightarrow> Inr (pg_registrar pool cfg)))"

definition open_rustfs :: "'s backends \<Rightarrow> RustFSConfig \<Rightarrow> init_error + ('s, rustfs_error) registrar" where
  "open_rustfs be cfg =
     (case be_minio be (TrimPrefix (TrimPrefix (RustFSConfig.RC_Endpoint cfg) ''http://'') ''https://'')
             (HasPrefix (RustFSConfig.RC_Endpoint cfg) ''https://'') cfg of
        Inl e \<Rightarrow> Inl (InitRustfs e)
      | Inr s3 \<Rightarrow> Inr (rustfs_registrar (be_http be) s3 cfg))"

definition crdGVR :: gvr where
  "crdGVR = \<lparr>GVR_Group = ''apiextensions.k8s.io'', GVR_Version = ''v1'', GVR_Resource = ''customresourcedefinitions''\<rparr>"

definition checkClusterSPIFFEIDCRD :: "'s backends \<Rightarrow> 's dyn \<Rightarrow> 's \<Rightarrow> bool" where
  "checkClusterSPIFFEIDCRD be dyn s =
     (if \<not> be_resources be ''spire.spiffe.io/v1alpha1''
      then \<not> isl (dyn_get dyn crdGVR [] ''clusterspiffeids.spire.spiffe.io'' s)
      else True)"

definition when_enabled :: "bool \<Rightarrow> 'e + 'a \<Rightarrow> 'e + 'a option" where
  "when_enabled b r = (if b then (case r of Inl e \<Rightarrow> Inl e | Inr a \<Rightarrow> Inr (Some a)) else Inr None)"

definition open_spire :: "'s backends \<Rightarrow> uns \<Rightarrow> 's dyn option \<Rightarrow> Config \<Rightarrow> 's \<Rightarrow> ('s, spire_error) spire_registrar option" where
  "open_spire be u dyn cfg s =
     (if SPIREEnabled cfg then
        (case dyn of
           None \<Rightarrow> None
         | Some d \<Rightarrow>
             if checkClusterSPIFFEIDCRD be d s
             then Some (spire_registrar_of u d (SC_ClassName (Cfg_SPIRE cfg))) else None)
      else None)"

definition NewController ::
  "'s backends \<Rightarrow> uns \<Rightarrow> 's kube \<Rightarrow> 's dyn option \<Rightarrow> Config \<Rightarrow> 's \<Rightarrow> init_error + ('s, service_error) Controller" where
  "NewController be u client dyn cfg s =
     (if \<not> Cfg_Enabled cfg then Inr (NewControllerWithDeps cfg None None None None)
      else
        case when_enabled (PostgresEnabled cfg) (NewPostgresRegistrar be (Cfg_Postgres cfg)) of
          Inl e \<Rightarrow> Inl e
        | Inr pg \<Rightarrow>
            (case when_enabled (NATSEnabled cfg) (mapErr InitNats (NewNATSRegistrar (be_nats be) (Cfg_NATS cfg) True)) of
               Inl e \<Rightarrow> Inl e
             | Inr nats \<Rightarrow>
                 (case when_enabled (RustFSEnabled cfg) (open_rustfs be (Cfg_RustFS cfg)) of
                    Inl e \<Rightarrow> Inl e
                  | Inr rustfs \<Rightarrow>
                      Inr (NewControllerWithDeps cfg
                        (map_option (lift_registrar PgE) pg)
                        (map_option (\<lambda>c. lift_registrar NatsE (nats_registrar client c)) nats)
                        (map_option (lift_registrar RfsE) rustfs)
                        (map_option (lift_spire SpireE) (open_spire be u dyn cfg s))))))"

section \<open>The Kubernetes client\<close>

text \<open>The packages that build a client: the configuration of the pod (here its address), and the two clients for a
  configuration. The HTTP client is its timeout in seconds.\<close>

definition k8s_Timeout :: int where "k8s_Timeout = 30"

record 's cluster_lib =
  lib_InClusterConfig :: "string + string"
  lib_clientset :: "string \<Rightarrow> string + 's kube"
  lib_dynamic :: "string \<Rightarrow> string + 's dyn"

record 's Client =
  KC_Clientset :: "'s kube"
  KC_Dynamic :: "'s dyn option"
  KC_Config :: string
  KC_HTTP :: int

datatype client_error =
    LoadInCluster string
  | CreateClientset string
  | CreateDynamic string

definition NewInClusterClient :: "'s cluster_lib \<Rightarrow> client_error + 's Client" where
  "NewInClusterClient lib =
     (case lib_InClusterConfig lib of
        Inl e \<Rightarrow> Inl (LoadInCluster e)
      | Inr config \<Rightarrow>
          (case lib_clientset lib config of
             Inl e \<Rightarrow> Inl (CreateClientset e)
           | Inr clientset \<Rightarrow>
               (case lib_dynamic lib config of
                  Inl e \<Rightarrow> Inl (CreateDynamic e)
                | Inr dyn \<Rightarrow>
                    Inr \<lparr>KC_Clientset = clientset, KC_Dynamic = Some dyn, KC_Config = config, KC_HTTP = k8s_Timeout\<rparr>)))"

definition NewClientFromConfig :: "'s kube \<Rightarrow> 's dyn option \<Rightarrow> string \<Rightarrow> int option \<Rightarrow> 's Client" where
  "NewClientFromConfig clientset dyn config httpClient =
     \<lparr>KC_Clientset = clientset, KC_Dynamic = dyn, KC_Config = config,
      KC_HTTP = (case httpClient of None \<Rightarrow> k8s_Timeout | Some t \<Rightarrow> t)\<rparr>"

section \<open>From the environment to the server\<close>

record ResourceMetadataConfig =
  RMD_Resource :: string
  RMD_ResourceName :: string
  RMD_AuthorizationServers :: "string list"
  RMD_ScopesSupported :: "string list"
  RMD_BearerMethodsSupported :: "string list"

text \<open>The parts of a parsed URL that the configuration looks at.\<close>

record ext_url =
  EU_Scheme :: string
  EU_Host :: string
  EU_HasUser :: bool
  EU_RawQuery :: string
  EU_Fragment :: string

datatype startup_error =
    SE_Token token_error
  | SE_Client client_error
  | SE_Config string
  | SE_Controller init_error
  | SE_OIDC oidc_error
  | SE_ExternalURL string

definition resource_meta :: "(string \<Rightarrow> ext_url option) \<Rightarrow> env \<Rightarrow> Config \<Rightarrow> startup_error + ResourceMetadataConfig option" where
  "resource_meta parse getenv cfg =
     (let extURL = getenv ''TENTACULAR_EXTERNAL_URL'' in
      if \<not> ConfigAuthEnabled cfg \<or> extURL = [] then Inr None
      else case parse extURL of
        None \<Rightarrow> Inl (SE_ExternalURL ''TENTACULAR_EXTERNAL_URL is not a valid URL'')
      | Some u \<Rightarrow>
          if EU_Scheme u \<noteq> ''https'' \<and> EU_Scheme u \<noteq> ''http''
          then Inl (SE_ExternalURL ''TENTACULAR_EXTERNAL_URL must have scheme https (or http)'')
          else if EU_Host u = [] then Inl (SE_ExternalURL ''TENTACULAR_EXTERNAL_URL must include a host'')
          else if EU_HasUser u \<or> EU_RawQuery u \<noteq> [] \<or> EU_Fragment u \<noteq> []
          then Inl (SE_ExternalURL ''TENTACULAR_EXTERNAL_URL must not contain userinfo, query, or fragment'')
          else Inr (Some
            \<lparr>RMD_Resource = extURL @ ''/mcp'', RMD_ResourceName = ''Tentacular MCP Server'',
             RMD_AuthorizationServers = [IssuerURL (Cfg_Auth cfg)],
             RMD_ScopesSupported = [''openid'', ''email'', ''profile''], RMD_BearerMethodsSupported = [''header'']\<rparr>))"

definition proxy_options :: "env \<Rightarrow> Options" where
  "proxy_options getenv =
     \<lparr>O_Namespace = (if getenv ''PROXY_NAMESPACE'' = [] then ''tentacular-support'' else getenv ''PROXY_NAMESPACE''),
      O_Image = getenv ''PROXY_IMAGE'', O_StorageSize = getenv ''PROXY_STORAGE_SIZE''\<rparr>"

definition evaluator_of :: "env \<Rightarrow> Evaluator" where
  "evaluator_of getenv =
     (let eval = NewEvaluator DefaultMode
      in if getenv ''TENTACULAR_AUTHZ_ENABLED'' = ''false'' then eval\<lparr>E_Enabled := False\<rparr> else eval)"

record 's Server =
  SV_token :: string
  SV_reconciler :: Options
  SV_exoCtrl :: "('s, service_error) Controller"
  SV_eval :: Evaluator
  SV_oidcValidator :: "OIDCValidator option"
  SV_resourceMeta :: "ResourceMetadataConfig option"

record 's process =
  PR_server :: "'s Server"
  PR_addr :: string
  PR_reconcile :: bool

definition main ::
  "'s backends \<Rightarrow> uns \<Rightarrow> (string \<Rightarrow> string + string) \<Rightarrow> 's cluster_lib \<Rightarrow> (string \<Rightarrow> string + verifier) \<Rightarrow>
     (string \<Rightarrow> ext_url option) \<Rightarrow> env \<Rightarrow> 's \<Rightarrow> startup_error + 's process" where
  "main be u readFile lib newProvider parse getenv s =
     (let tokenPath = (if getenv ''TOKEN_PATH'' = [] then ''/etc/tentacular-mcp/token'' else getenv ''TOKEN_PATH'');
          cfg = LoadFromEnv getenv
      in case LoadToken readFile tokenPath of
           Inl e \<Rightarrow> Inl (SE_Token e)
         | Inr token \<Rightarrow>
      (case NewInClusterClient lib of
           Inl e \<Rightarrow> Inl (SE_Client e)
         | Inr client \<Rightarrow>
      (case Validate cfg of
           Inl e \<Rightarrow> Inl (SE_Config e)
         | Inr _ \<Rightarrow>
      (case NewController be u (KC_Clientset client) (KC_Dynamic client) cfg s of
           Inl e \<Rightarrow> Inl (SE_Controller e)
         | Inr ctrl \<Rightarrow>
      (case when_enabled (ConfigAuthEnabled cfg) (mapErr SE_OIDC (NewOIDCValidator newProvider (Cfg_Auth cfg))) of
           Inl e \<Rightarrow> Inl e
         | Inr validator \<Rightarrow>
      (case resource_meta parse getenv cfg of
           Inl e \<Rightarrow> Inl e
         | Inr meta \<Rightarrow>
           Inr \<lparr>PR_server =
                  \<lparr>SV_token = token, SV_reconciler = NewReconciler (proxy_options getenv), SV_exoCtrl = ctrl,
                   SV_eval = evaluator_of getenv, SV_oidcValidator = validator, SV_resourceMeta = meta\<rparr>,
                PR_addr = (if getenv ''LISTEN_ADDR'' = [] then '':8080'' else getenv ''LISTEN_ADDR''),
                PR_reconcile = (getenv ''TENTACULAR_PROXY_RECONCILER_DISABLED'' \<noteq> ''true'')\<rparr>))))))"

text \<open>The rest of \<^verbatim>\<open>main\<close>, as the order in which it starts and stops the parts: \<open>listen\<close> is an error that ends
  \<^verbatim>\<open>ListenAndServe\<close> before a signal arrives, \<open>shutdown\<close> an error of \<^verbatim>\<open>Shutdown\<close>, which waits at most 15 seconds for the
  requests in flight.\<close>

datatype lifecycle =
    StartReconciler
  | StartScheduler
  | ScanSchedules
  | ListenAndServe string
  | StopScheduler
  | ShutdownWithin nat
  | Exit nat

definition run_process :: "'s process \<Rightarrow> string option \<Rightarrow> string option \<Rightarrow> lifecycle list" where
  "run_process p listen shutdown =
     (if PR_reconcile p then [StartReconciler] else []) @
     [StartScheduler, ScanSchedules, ListenAndServe (PR_addr p)] @
     (case listen of
        Some e \<Rightarrow> [Exit 1]
      | None \<Rightarrow> [StopScheduler, ShutdownWithin 15] @ (case shutdown of Some e \<Rightarrow> [Exit 1] | None \<Rightarrow> []))"

text \<open>No cron job fires while the server drains its requests, and a process that stops after a signal without an error does not exit
  with a failure.\<close>

lemma run_process_stops:
  "(\<exists>before after. run_process p listen shutdown = before @ after \<and> StopScheduler \<notin> set before \<and>
      (after = [Exit 1] \<or> after = [StopScheduler, ShutdownWithin 15, Exit 1] \<or> after = [StopScheduler, ShutdownWithin 15])) \<and>
   (Exit 1 \<in> set (run_process p listen shutdown) \<longleftrightarrow> listen \<noteq> None \<or> shutdown \<noteq> None)"
proof -
  let ?before = "(if PR_reconcile p then [StartReconciler] else []) @ [StartScheduler, ScanSchedules, ListenAndServe (PR_addr p)]"
  show ?thesis
    by (rule conjI, rule exI [of _ ?before], cases listen; cases shutdown) (auto simp: run_process_def split: option.splits)
qed

section \<open>What a started process guarantees\<close>

lemma when_enabled_ok: "when_enabled b r = Inr x \<longleftrightarrow> (if b then \<exists>a. r = Inr a \<and> x = Some a else x = None)"
  by (auto simp: when_enabled_def split: sum.splits)

text \<open>A controller that was initialised serves exactly the services its configuration enables: those of
  Postgres, NATS and RustFS, each of which answered when it was opened, and SPIRE when the custom
  resource is installed; a disabled exoskeleton serves none.\<close>

theorem NewController_available:
  assumes "NewController be u client dyn cfg s = Inr c"
  shows "c_cfg c = cfg \<and> (PostgresAvailable c \<longleftrightarrow> PostgresEnabled cfg) \<and> (NATSAvailable c \<longleftrightarrow> NATSEnabled cfg) \<and>
    (RustFSAvailable c \<longleftrightarrow> RustFSEnabled cfg) \<and>
    (SPIREAvailable c \<longleftrightarrow> SPIREEnabled cfg \<and> (\<exists>d. dyn = Some d \<and> checkClusterSPIFFEIDCRD be d s)) \<and>
    (PostgresEnabled cfg \<longrightarrow> (\<exists>pool. be_pool be (connStr (Cfg_Postgres cfg)) = Inr pool \<and> be_ping be pool = Inr ()))"
proof (cases "Cfg_Enabled cfg")
  case False
  with assms show ?thesis
    by (auto simp: NewController_def NewControllerWithDeps_def PostgresAvailable_def NATSAvailable_def RustFSAvailable_def
        SPIREAvailable_def PostgresEnabled_def NATSEnabled_def RustFSEnabled_def SPIREEnabled_def)
next
  case True
  with assms obtain pg nats rustfs where
    pg: "when_enabled (PostgresEnabled cfg) (NewPostgresRegistrar be (Cfg_Postgres cfg)) = Inr pg"
    and nats: "when_enabled (NATSEnabled cfg) (mapErr InitNats (NewNATSRegistrar (be_nats be) (Cfg_NATS cfg) True)) = Inr nats"
    and rustfs: "when_enabled (RustFSEnabled cfg) (open_rustfs be (Cfg_RustFS cfg)) = Inr rustfs"
    and c: "c = NewControllerWithDeps cfg (map_option (lift_registrar PgE) pg)
      (map_option (\<lambda>c. lift_registrar NatsE (nats_registrar client c)) nats) (map_option (lift_registrar RfsE) rustfs)
      (map_option (lift_spire SpireE) (open_spire be u dyn cfg s))"
    by (auto simp: NewController_def ok_simps)
  have spire: "open_spire be u dyn cfg s \<noteq> None \<longleftrightarrow> SPIREEnabled cfg \<and> (\<exists>d. dyn = Some d \<and> checkClusterSPIFFEIDCRD be d s)"
    by (simp add: open_spire_def split: option.splits)
  have ping: "\<exists>pool. be_pool be (connStr (Cfg_Postgres cfg)) = Inr pool \<and> be_ping be pool = Inr ()" if "PostgresEnabled cfg"
    using pg that by (auto simp: when_enabled_ok NewPostgresRegistrar_def split: sum.splits)
  have "(pg \<noteq> None) = PostgresEnabled cfg" "(nats \<noteq> None) = NATSEnabled cfg" "(rustfs \<noteq> None) = RustFSEnabled cfg"
    using pg nats rustfs by (auto simp: when_enabled_ok split: if_splits)
  then show ?thesis
    using spire ping unfolding c
    by (simp add: NewControllerWithDeps_def PostgresAvailable_def NATSAvailable_def RustFSAvailable_def SPIREAvailable_def)
qed

text \<open>C23: a process that starts serving has a token that is not blank, a configuration that passed
  validation and a controller for it; it validates OIDC tokens exactly when authentication is
  configured, against the configured client; it advertises resource metadata only then, for an
  http or https address without credentials; and it enforces permissions unless the variable that disables
  them is literally \<^verbatim>\<open>false\<close>.\<close>

theorem main_fails_closed:
  assumes "main be u readFile lib newProvider parse getenv s = Inr p"
  defines "cfg \<equiv> LoadFromEnv getenv" and "srv \<equiv> PR_server p"
  shows "SV_token srv \<noteq> [] \<and> TrimSpace (SV_token srv) = SV_token srv \<and> Validate cfg = Inr () \<and> c_cfg (SV_exoCtrl srv) = cfg \<and>
    (SV_oidcValidator srv \<noteq> None \<longleftrightarrow> ConfigAuthEnabled cfg) \<and>
    (\<forall>v. SV_oidcValidator srv = Some v \<longrightarrow> V_clientID v = ClientID (Cfg_Auth cfg)) \<and>
    (\<forall>m. SV_resourceMeta srv = Some m \<longrightarrow> ConfigAuthEnabled cfg \<and>
       RMD_AuthorizationServers m = [IssuerURL (Cfg_Auth cfg)] \<and>
       (\<exists>x. parse (getenv ''TENTACULAR_EXTERNAL_URL'') = Some x \<and> EU_Scheme x \<in> {''http'', ''https''} \<and> EU_Host x \<noteq> [] \<and> \<not> EU_HasUser x)) \<and>
    (enforcing (Some (SV_eval srv)) \<longleftrightarrow> getenv ''TENTACULAR_AUTHZ_ENABLED'' \<noteq> ''false'')"
proof -
  from assms(1) obtain token client dyn ctrl validator meta where
    t: "LoadToken readFile (if getenv ''TOKEN_PATH'' = [] then ''/etc/tentacular-mcp/token'' else getenv ''TOKEN_PATH'') = Inr token"
    and v: "Validate cfg = Inr ()" and c: "NewController be u client dyn cfg s = Inr ctrl"
    and o: "when_enabled (ConfigAuthEnabled cfg) (mapErr SE_OIDC (NewOIDCValidator newProvider (Cfg_Auth cfg))) = Inr validator"
    and m: "resource_meta parse getenv cfg = Inr meta"
    and srv: "srv = \<lparr>SV_token = token, SV_reconciler = NewReconciler (proxy_options getenv), SV_exoCtrl = ctrl,
       SV_eval = evaluator_of getenv, SV_oidcValidator = validator, SV_resourceMeta = meta\<rparr>"
    unfolding main_def Let_def cfg_def srv_def by (auto simp: ok_simps split: sum.splits prod.splits)
  have "token \<noteq> [] \<and> TrimSpace token = token"
    using t by (auto simp: LoadToken_def Let_def split: sum.splits if_splits)
  moreover have "c_cfg ctrl = cfg"
    using c by (auto simp: NewController_def NewControllerWithDeps_def Let_def split: if_splits sum.splits)
  moreover have "validator \<noteq> None \<longleftrightarrow> ConfigAuthEnabled cfg"
    using o by (auto simp: when_enabled_ok split: if_splits)
  moreover have "V_clientID w = ClientID (Cfg_Auth cfg)" if "validator = Some w" for w
    using o that by (auto simp: when_enabled_ok NewOIDCValidator_def split: if_splits sum.splits)
  moreover have "ConfigAuthEnabled cfg \<and> RMD_AuthorizationServers r = [IssuerURL (Cfg_Auth cfg)] \<and>
      (\<exists>x. parse (getenv ''TENTACULAR_EXTERNAL_URL'') = Some x \<and> EU_Scheme x \<in> {''http'', ''https''} \<and> EU_Host x \<noteq> [] \<and> \<not> EU_HasUser x)"
    if "meta = Some r" for r
    using m that by (auto simp: resource_meta_def Let_def split: if_splits option.splits)
  moreover have "enforcing (Some (evaluator_of getenv)) \<longleftrightarrow> getenv ''TENTACULAR_AUTHZ_ENABLED'' \<noteq> ''false''"
    by (simp add: evaluator_of_def NewEvaluator_def enforcing_def Let_def)
  ultimately show ?thesis
    using v by (simp add: srv)
qed

section \<open>Instances\<close>

definition quiet_backends :: "world backends" where
  "quiet_backends =
     \<lparr>be_pool = (\<lambda>_. Inl ''down''), be_ping = (\<lambda>_. Inl ''down''), be_nats = (\<lambda>_ _. Inr ()), be_minio = (\<lambda>_ _ _. Inl ''down''),
      be_http = \<lparr>rq_check = (\<lambda>_ _. None), rq_send = (\<lambda>_ _ s. (Inl ''down'', s)), rq_rand = (\<lambda>_ s. (Inl ''down'', s))\<rparr>,
      be_resources = (\<lambda>_. True)\<rparr>"

definition nats_env :: env where
  "nats_env k =
     (if k = ''TENTACULAR_EXOSKELETON_ENABLED'' then ''true'' else if k = ''TENTACULAR_NATS_URL'' then ''nats://n:4222''
      else if k = ''TENTACULAR_NATS_TOKEN'' then ''t'' else if k = ''TENTACULAR_EXOSKELETON_SPIRE_ENABLED'' then ''true'' else [])"

definition nats_ctrl :: "init_error + (world, service_error) Controller" where
  "nats_ctrl = NewController quiet_backends std_uns world_kube (Some mem_dyn) (LoadFromEnv nats_env) no_objects"

definition lab_lib :: "world cluster_lib" where
  "lab_lib =
     \<lparr>lib_InClusterConfig = Inr ''https://10.0.0.1'', lib_clientset = (\<lambda>_. Inr world_kube), lib_dynamic = (\<lambda>_. Inr mem_dyn)\<rparr>"

definition nats_main :: "startup_error + world process" where
  "nats_main =
     main quiet_backends std_uns (\<lambda>_. Inr '' secret '') lab_lib (\<lambda>_. Inl ''none'') (\<lambda>_. None) nats_env no_objects"

theorem NewController_available_witness:
  "\<exists>c. nats_ctrl = Inr c \<and> NATSAvailable c \<and> \<not> PostgresAvailable c"
proof -
  have "\<not> isl nats_ctrl" by code_simp
  then obtain c where c: "nats_ctrl = Inr c" using sum.collapse(2) [of nats_ctrl] by metis
  have "NATSEnabled (LoadFromEnv nats_env)" "\<not> PostgresEnabled (LoadFromEnv nats_env)" by code_simp+
  then show ?thesis using NewController_available [OF c [unfolded nats_ctrl_def]] c by blast
qed

theorem main_fails_closed_witness:
  "\<exists>p. nats_main = Inr p \<and> SV_token (PR_server p) \<noteq> [] \<and> enforcing (Some (SV_eval (PR_server p)))"
proof -
  have "\<not> isl nats_main" by code_simp
  then obtain p where p: "nats_main = Inr p" using sum.collapse(2) [of nats_main] by metis
  have "nats_env ''TENTACULAR_AUTHZ_ENABLED'' \<noteq> ''false''" by code_simp
  then show ?thesis using main_fails_closed [OF p [unfolded nats_main_def]] p by blast
qed

end
