(* ===== verification/Server.thy ===== *)
theory Server
  imports Startup Enclave_Sync Deploy_Tools Workflow_Tools
begin

text \<open>
  \<^verbatim>\<open>pkg/server/server.go\<close> and \<^verbatim>\<open>pkg/tools/register.go\<close>: the HTTP handler with its routes behind the
  authentication middleware, and the tools behind the route \<^verbatim>\<open>/mcp\<close>. The protocol library that decodes
  a tool call is not part of the program; here a request to \<^verbatim>\<open>/mcp\<close> comes with the call it contains, as a value of
  the datatype \<open>call\<close>. The world is the cluster with the backing services and the table of the
  scheduler; a session is a sequence of requests in the order in which the server handles them.
  The theorems span the components: what does not pass authentication or the guards of the tools
  can be erased from any session without changing its outcome.
\<close>

section \<open>The HTTP handler\<close>

definition wellKnownPath :: string where "wellKnownPath = ''/.well-known/oauth-protected-resource''"

text \<open>\<open>urlBase url\<close> is what \<^verbatim>\<open>url.Parse\<close> and \<^verbatim>\<open>String\<close> leave of a URL without its path, query and fragment; \<open>None\<close>
  is a parse error.\<close>

definition deriveWellKnownURL :: "(string \<Rightarrow> string option) \<Rightarrow> string \<Rightarrow> string" where
  "deriveWellKnownURL urlBase resourceURL =
     (case urlBase resourceURL of None \<Rightarrow> resourceURL @ wellKnownPath | Some base \<Rightarrow> base @ wellKnownPath)"

definition json_strings :: "string list \<Rightarrow> string" where
  "json_strings xs = ''['' @ Join (map quote_str xs) '','' @ '']''"

definition omit_empty :: "string \<Rightarrow> string list \<Rightarrow> string list" where
  "omit_empty name xs = (if xs = [] then [] else [quote_str name @ '':'' @ json_strings xs])"

definition encode_metadata :: "ResourceMetadataConfig \<Rightarrow> string" where
  "encode_metadata m =
     ''{'' @
     Join ([quote_str ''resource'' @ '':'' @ quote_str (RMD_Resource m)] @
       (if RMD_ResourceName m = [] then [] else [quote_str ''resource_name'' @ '':'' @ quote_str (RMD_ResourceName m)]) @
       [quote_str ''authorization_servers'' @ '':'' @ json_strings (RMD_AuthorizationServers m)] @
       omit_empty ''scopes_supported'' (RMD_ScopesSupported m) @
       omit_empty ''bearer_methods_supported'' (RMD_BearerMethodsSupported m)) '','' @
     ''}'' @ [CHR 0x0A]"

definition ok_response :: "string \<Rightarrow> response" where
  "ok_response body = \<lparr>W_Status = 200, W_WWWAuthenticate = None, W_Body = body\<rparr>"

definition resourceMetadataHandler :: "ResourceMetadataConfig \<Rightarrow> handler" where
  "resourceMetadataHandler m r =
     (if R_Method r \<noteq> ''GET''
      then \<lparr>W_Status = 405, W_WWWAuthenticate = None, W_Body = ''method not allowed'' @ [CHR 0x0A]\<rparr>
      else ok_response (encode_metadata m))"

definition healthHandler :: handler where
  "healthHandler r = ok_response (''{'' @ quote_str ''status'' @ '':'' @ quote_str ''ok'' @ ''}'' @ [CHR 0x0A])"

text \<open>\<open>mcp\<close> is the handler of the protocol library and \<open>other\<close> what \<^verbatim>\<open>http.ServeMux\<close> answers where no pattern matches.\<close>

definition mux :: "'s Server \<Rightarrow> handler \<Rightarrow> handler \<Rightarrow> handler" where
  "mux srv mcp other r =
     (if R_Path r = ''/mcp'' then mcp r
      else if R_Path r = ''/healthz'' then healthHandler r
      else case SV_resourceMeta srv of
        None \<Rightarrow> other r
      | Some m \<Rightarrow> if R_Path r = wellKnownPath then resourceMetadataHandler m r else other r)"

definition resourceMetadataURL :: "(string \<Rightarrow> string option) \<Rightarrow> 's Server \<Rightarrow> string" where
  "resourceMetadataURL urlBase srv =
     (case SV_resourceMeta srv of None \<Rightarrow> [] | Some m \<Rightarrow> deriveWellKnownURL urlBase (RMD_Resource m))"

definition Handler :: "(string \<Rightarrow> string option) \<Rightarrow> 's Server \<Rightarrow> handler \<Rightarrow> handler \<Rightarrow> handler" where
  "Handler urlBase srv mcp other =
     DualAuthMiddleware (SV_token srv) (SV_oidcValidator srv) (resourceMetadataURL urlBase srv) (mux srv mcp other)"

section \<open>Tool calls\<close>

text \<open>The calls that may change the world. Every other tool that \<^verbatim>\<open>RegisterAll\<close> registers returns a
  value of the world it is given (its model has no world in its result); such a call is \<open>Inspect\<close> with
  the name of the tool.\<close>

datatype call =
    EnclaveProvision EnclaveProvisionParams
  | EnclaveSync EnclaveSyncParams
  | EnclaveDeprovision string
  | WfApply WorkflowApplyParams
  | WfRemove WorkflowRemoveParams
  | WfRestart WfRestartParams
  | Inspect string

record ('s, 'c) runtime =
  rt_libs :: libs
  rt_getenv :: env
  rt_kube :: "'s kube"
  rt_dyn :: "'s dyn"
  rt_core :: "'s core"
  rt_ops :: "'c cron_ops"
  rt_clock :: "'s \<Rightarrow> string"
  rt_maxMembers :: nat
  rt_maxEnclaves :: nat

type_synonym ('s, 'c) host = "'s \<times> 'c Scheduler option"

definition on_cluster :: "('s, 'e, 'a) comp \<Rightarrow> ('s, 'c) host \<Rightarrow> ('s, 'c) host" where
  "on_cluster m st = (case st of (s, sched) \<Rightarrow> (snd (m s), sched))"

definition serve :: "('s, 'c) runtime \<Rightarrow> 's Server \<Rightarrow> DeployerInfo option \<Rightarrow> call \<Rightarrow> ('s, 'c) host \<Rightarrow> ('s, 'c) host" where
  "serve rt srv deployer c st =
     (let eval = Some (SV_eval srv); exo = Some (SV_exoCtrl srv); now = rt_clock rt (fst st) in
      case c of
        EnclaveProvision p \<Rightarrow>
          on_cluster (enclave_provision (rt_maxMembers rt) (rt_maxEnclaves rt) (rt_kube rt) exo eval now deployer p) st
      | EnclaveSync p \<Rightarrow>
          on_cluster (enclave_sync (rt_maxMembers rt) (rt_kube rt) (rt_clock rt) eval deployer p ::
            ('s, service_error tool_error, EnclaveSyncResult) comp) st
      | EnclaveDeprovision name \<Rightarrow> on_cluster (enclave_deprovision (rt_kube rt) exo eval deployer name) st
      | WfApply p \<Rightarrow>
          snd (wf_apply (rt_libs rt) (rt_getenv rt) (rt_kube rt) (rt_dyn rt) (rt_ops rt) exo eval now deployer p st)
      | WfRemove p \<Rightarrow> snd (wf_remove (rt_libs rt) (rt_kube rt) (rt_dyn rt) (rt_ops rt) exo eval deployer p st)
      | WfRestart p \<Rightarrow> on_cluster (wf_restart (rt_kube rt) (rt_core rt) eval now deployer p) st
      | Inspect tool \<Rightarrow> st)"

fun serve_all ::
  "('s, 'c) runtime \<Rightarrow> 's Server \<Rightarrow> (DeployerInfo option \<times> call) list \<Rightarrow> ('s, 'c) host \<Rightarrow> ('s, 'c) host" where
  "serve_all rt srv [] st = st"
| "serve_all rt srv ((deployer, c) # calls) st = serve_all rt srv calls (serve rt srv deployer c st)"

text \<open>A request for a tool: the handler is reached on the route \<^verbatim>\<open>/mcp\<close> with the identity that the middleware puts
  into the context.\<close>

definition identified :: "'s Server \<Rightarrow> request \<Rightarrow> DeployerInfo option option" where
  "identified srv r =
     (if R_Path r = ''/mcp'' \<and> HasPrefix (R_Authorization r) ''Bearer ''
      then (case admit (SV_token srv) (SV_oidcValidator srv) (TrimPrefix (R_Authorization r) ''Bearer '') of
              None \<Rightarrow> None
            | Some None \<Rightarrow> Some (R_Deployer r)
            | Some (Some d) \<Rightarrow> Some (Some d))
      else None)"

fun session :: "('s, 'c) runtime \<Rightarrow> 's Server \<Rightarrow> (request \<times> call) list \<Rightarrow> ('s, 'c) host \<Rightarrow> ('s, 'c) host" where
  "session rt srv [] st = st"
| "session rt srv ((r, c) # rs) st =
     session rt srv rs (case identified srv r of None \<Rightarrow> st | Some deployer \<Rightarrow> serve rt srv deployer c st)"

section \<open>Cron triggers and platform URLs\<close>

text \<open>What a job of the scheduler does when it fires, and what it logs. The retry loop and its deadline are
  those of \<^verbatim>\<open>wf_run\<close>; no guard and no authorization stands before it.\<close>

datatype trigger_log = TriggerFailed run_error | TriggerCompleted "bool option"

definition trigger ::
  "(nat \<Rightarrow> string \<Rightarrow> string \<Rightarrow> http_result) \<Rightarrow> (int \<Rightarrow> nat \<Rightarrow> bool) \<Rightarrow> (string \<Rightarrow> obj option option) \<Rightarrow>
     string \<Rightarrow> string \<Rightarrow> trigger_log option" where
  "trigger http expired decode namespace name =
     (case RunWorkflow http (expired 120) namespace name [] of
        None \<Rightarrow> None
      | Some (Inl e) \<Rightarrow> Some (TriggerFailed e)
      | Some (Inr output) \<Rightarrow>
          Some (TriggerCompleted
            (case decode output of
               Some (Some result) \<Rightarrow> Option.bind (map_of result ''success'') as_bool
             | _ \<Rightarrow> None)))"

record PlatformConfigResult =
  PF_ChromaURL :: string
  PF_DocsURL :: string

definition platform_config :: "env \<Rightarrow> PlatformConfigResult" where
  "platform_config getenv = \<lparr>PF_ChromaURL = getenv ''TENTACULAR_CHROMA_URL'', PF_DocsURL = getenv ''TENTACULAR_DOCS_URL''\<rparr>"

lemma trigger_returns:
  assumes "expired 120 n"
  shows "\<exists>log. trigger http expired decode namespace name = Some log"
  using run_workflow_some [of "expired 120" n http namespace name "[]"] assms
  by (auto simp: trigger_def split: sum.splits)

text \<open>A cron run of a workflow is the run that a caller with the default timeout and no input gets, minus the guards.\<close>

lemma trigger_is_run:
  assumes "CheckManagedNamespace client ns s = Inr ()"
  shows "(case handleWfRun http expired decode elapsed client
            \<lparr>RN_Namespace = ns, RN_Name = n, RN_Input = [], RN_TimeoutS = 0\<rparr> s of
            None \<Rightarrow> None | Some r \<Rightarrow> Some (isl r)) =
     map_option (\<lambda>log. \<exists>e. log = TriggerFailed e) (trigger http expired decode ns n)"
  using assms by (auto simp: handleWfRun_def trigger_def run_timeout_def split: option.splits sum.splits)

text \<open>The HTTP client of \<^verbatim>\<open>NewInClusterClient\<close> gives a request 30 seconds, the reading of its body included;
  \<open>client_do\<close> is what such a client returns for an answer that is complete after \<open>t\<close> seconds. It bounds every
  run of a workflow, whatever timeout the caller asks for: the failure is not a dial failure, so it is not
  retried either.\<close>

definition client_do :: "int \<Rightarrow> http_result \<Rightarrow> http_result" where
  "client_do t answer =
     (if k8s_Timeout < t then DoErr ''context deadline exceeded (Client.Timeout exceeded while awaiting headers)'' False
      else answer)"

lemma slow_run_fails:
  assumes "30 < t" and "CheckManagedNamespace client (RN_Namespace params) s = Inr ()"
  shows "\<exists>e. handleWfRun (\<lambda>n url payload. client_do t (Resp 200 (Inr body))) expired decode elapsed client params s =
    Some (Inl (VE_Run (RunTransport e)))"
  using assms
  by (auto simp: handleWfRun_def RunWorkflow_def Let_def client_do_def k8s_Timeout_def run_loop.simps tryRunOnce_def)

section \<open>The gate\<close>

lemma wellKnown_bypass: "bypassAuth path \<Longrightarrow> path \<noteq> ''/mcp''"
  by (auto simp: bypassAuth_def)

definition refusal :: "request \<Rightarrow> string" where
  "refusal r =
     (if HasPrefix (R_Authorization r) ''Bearer '' then ''invalid token''
      else if R_Authorization r = [] then ''missing authorization header''
      else ''invalid authorization header format'')"

lemma middleware_gate:
  "\<not> bypassAuth (R_Path r) \<Longrightarrow>
     DualAuthMiddleware token validator url next r =
       (if HasPrefix (R_Authorization r) ''Bearer ''
        then (case admit token validator (TrimPrefix (R_Authorization r) ''Bearer '') of
                None \<Rightarrow> writeUnauthorized url (refusal r)
              | Some None \<Rightarrow> next r
              | Some (Some d) \<Rightarrow> next (r\<lparr>R_Deployer := Some d\<rparr>))
        else writeUnauthorized url (refusal r))"
  by (cases validator; cases "R_Authorization r = []")
    (auto simp: DualAuthMiddleware_def Middleware_def admit_def bearer_fallback_def refusal_def Let_def split: sum.splits)

text \<open>C12: the tools are behind the gate: a request to \<^verbatim>\<open>/mcp\<close> reaches the protocol handler exactly when it carries
  an admitted credential, and then with the identity of that credential; otherwise it is answered with a
  401 that names the metadata document and the reason. For every other path the answer does not depend on
  the protocol handler at all.\<close>

theorem Handler_gate:
  "Handler urlBase srv mcp other r =
     (if R_Path r = ''/mcp''
      then (case identified srv r of
              None \<Rightarrow> writeUnauthorized (resourceMetadataURL urlBase srv) (refusal r)
            | Some deployer \<Rightarrow> mcp (r\<lparr>R_Deployer := deployer\<rparr>))
      else Handler urlBase srv mcp' other r)"
proof (cases "bypassAuth (R_Path r)")
  case True
  then have "R_Path r \<noteq> ''/mcp''" by (rule wellKnown_bypass)
  with True show ?thesis
    by (cases "SV_oidcValidator srv") (simp_all add: Handler_def DualAuthMiddleware_def Middleware_def mux_def)
next
  case False
  show ?thesis
    using middleware_gate [OF False]
    by (auto simp: Handler_def mux_def identified_def split: option.splits)
qed

section \<open>Erasing calls that are turned away\<close>

fun target_ok :: "call \<Rightarrow> bool" where
  "target_ok (EnclaveProvision p) = (CheckNamespace (PP_Name p) = Inr ())"
| "target_ok (EnclaveSync p) = (CheckNamespace (EnclaveSyncParams.SP_Name p) = Inr ())"
| "target_ok (EnclaveDeprovision name) = (CheckNamespace name = Inr ())"
| "target_ok (WfApply p) = (CheckNamespace (WA_Namespace p) = Inr () \<and> CheckName (WA_Name p) = Inr ())"
| "target_ok (WfRemove p) = (CheckNamespace (RM_Namespace p) = Inr () \<and> CheckName (RM_Name p) = Inr ())"
| "target_ok (WfRestart p) = ((WS_Namespace p = [] \<or> CheckNamespace (WS_Namespace p) = Inr ()) \<and> CheckName (WS_Deployment p) = Inr ())"
| "target_ok (Inspect tool) = False"

definition admissible :: "Evaluator \<Rightarrow> DeployerInfo option \<times> call \<Rightarrow> bool" where
  "admissible ev dc \<longleftrightarrow> (fst dc \<noteq> None \<or> \<not> E_Enabled ev) \<and> target_ok (snd dc)"

definition rejected :: "('st, 'e, 'a) comp \<Rightarrow> 'st \<Rightarrow> bool" where
  "rejected m st \<longleftrightarrow> (\<exists>e. m st = (Inl e, st))"

lemma snd_rejected: "rejected m st \<Longrightarrow> snd (m st) = st"
  by (auto simp: rejected_def)

lemma on_cluster_rejected: "rejected m s \<Longrightarrow> on_cluster m (s, sched) = (s, sched)"
  by (auto simp: rejected_def on_cluster_def)

lemma bad_namespace: "CheckNamespace n \<noteq> Inr () \<Longrightarrow> IsSystemNamespace n \<or> n = []"
  using CheckNamespace_ok_iff by blast

context guarded_tool
begin

lemma rejects:
  assumes "CheckNamespace (target p) \<noteq> Inr () \<or> deployer = None \<and> enforcing eval"
  shows "rejected (tool deployer p) s"
  using assms system_namespace_untouched [OF bad_namespace, of p deployer s] anonymous_untouched [of p s]
  unfolding rejected_def by blast

end

context workflow_tool
begin

lemma rejects:
  assumes "\<not> (CheckNamespace (target p) = Inr () \<and> CheckName (workflow p) = Inr ()) \<or> deployer = None \<and> enforcing eval"
  shows "rejected (tool deployer p) st"
  using assms bad_target_untouched [of p deployer st] bad_namespace [of "target p"] anonymous_untouched [of p st]
  unfolding rejected_def by blast

end

lemma restart_rejects:
  assumes "\<not> target_ok (WfRestart p) \<or> deployer = None \<and> enforcing eval"
  shows "rejected (wf_restart client core eval now deployer p) s"
proof (cases "CheckName (WS_Deployment p)")
  case (Inr u)
  have "\<exists>e. resolve_guard client eval deployer (WS_Namespace p) s = Inl e"
  proof (cases "resolve_guard client eval deployer (WS_Namespace p) s")
    case ok: (Inr ns)
    then show ?thesis using resolve_guard_ok [OF ok] assms Inr CheckNamespace_ok_iff [of ns] by auto
  qed simp
  with Inr show ?thesis by (auto simp: wf_restart_def rejected_def)
qed (simp add: wf_restart_def rejected_def)

lemmas rejects =
  on_cluster_rejected [OF provision_tool.rejects] on_cluster_rejected [OF sync_tool.rejects]
  on_cluster_rejected [OF deprovision_tool.rejects] on_cluster_rejected [OF restart_rejects]
  snd_rejected [OF apply_tool.rejects] snd_rejected [OF remove_tool.rejects]

lemma serve_inadmissible:
  assumes "\<not> admissible (SV_eval srv) (deployer, c)"
  shows "serve rt srv deployer c st = st"
proof (cases st)
  case (Pair s sched)
  from assms have "\<not> target_ok c \<or> deployer = None \<and> enforcing (Some (SV_eval srv))"
    by (auto simp: admissible_def enforcing_def)
  then show ?thesis unfolding Pair
    by (cases c) (simp_all add: serve_def Let_def rejects del: target_ok.simps(6))
qed

text \<open>The calls of a session that reach a tool.\<close>

definition calls :: "'s Server \<Rightarrow> (request \<times> call) list \<Rightarrow> (DeployerInfo option \<times> call) list" where
  "calls srv rs = List.map_filter (\<lambda>(r, c). map_option (\<lambda>d. (d, c)) (identified srv r)) rs"

lemma session_admissible: "session rt srv rs st = serve_all rt srv (filter (admissible (SV_eval srv)) (calls srv rs)) st"
proof (induction rs arbitrary: st)
  case Nil
  then show ?case by (simp add: calls_def)
next
  case (Cons rc rs)
  obtain r c where rc: "rc = (r, c)" by (cases rc)
  show ?case
  proof (cases "identified srv r")
    case None
    then show ?thesis using Cons by (simp add: rc calls_def)
  next
    case (Some d)
    then show ?thesis using Cons serve_inadmissible [of srv d c rt st]
      by (auto simp: rc calls_def)
  qed
qed

text \<open>C5: the outcome of a session is the outcome of its admissible calls alone: the requests that go to other
  paths, carry no admitted credential, come without identity under an enforcing evaluator or name a
  protected namespace or an illegal workflow can be erased from the sequence, whatever the requests
  between them did.\<close>

theorem session_erase:
  "session rt srv rs st = serve_all rt srv (filter (admissible (SV_eval srv)) (calls srv rs)) st"
  by (rule session_admissible)

lemma session_changed:
  assumes "session rt srv rs st \<noteq> st"
  shows "\<exists>r c deployer. (r, c) \<in> set rs \<and> identified srv r = Some deployer \<and> admissible (SV_eval srv) (deployer, c)"
proof -
  have "filter (admissible (SV_eval srv)) (calls srv rs) \<noteq> []"
    using assms session_admissible [of rt srv rs st] by auto
  then obtain dc where "dc \<in> set (calls srv rs)" "admissible (SV_eval srv) dc" by (auto simp: filter_empty_conv)
  then show ?thesis by (auto simp: calls_def List.map_filter_def split: option.splits) blast
qed

end
