(* ===== verification/Prewarm.thy ===== *)
theory Prewarm
  imports Deploy "HOL-Library.Multiset"
begin

text \<open>
  \<^verbatim>\<open>pkg/k8s/prewarm.go\<close>: the module proxy is warmed up by one goroutine per dependency, at most
  \<open>prewarmConcurrency\<close> of them sending a request at a time. The concurrent program is a labelled
  transition system: the state holds the program counter of each goroutine, the semaphore
  channel, the wait group, the mutex and the shared error slice, and \<open>prewarm_next\<close> performs one
  atomic action of one thread if that action is enabled (a channel send is enabled while the
  buffer has room, a lock while nobody holds it, \<^verbatim>\<open>wg.Wait\<close> while the counter is zero).
  \<open>reachable\<close> closes the initial state under all interleavings. Whether a URL makes a request and
  how the HTTP client answers are not determined: the first is a parameter, the second is part
  of the label. The theorems: never more than three requests in flight, no deadlock, a bound on
  the length of every execution, and no error lost.
\<close>

definition prewarmConcurrency :: nat where "prewarmConcurrency = 3"

definition buildModuleURL :: "string \<Rightarrow> ModuleDep \<Rightarrow> string" where
  "buildModuleURL proxyNamespace dep =
     ''http://esm-sh.'' @ proxyNamespace @ ''.svc.cluster.local:8080'' @
     (if MD_Protocol dep = ''jsr'' then ''/jsr/'' @ MD_Host dep else ''/'' @ MD_Host dep) @
     (if MD_Version dep \<noteq> [] then ''@'' @ MD_Version dep else [])"

section \<open>The goroutines\<close>

text \<open>The program counter of a goroutine: before the semaphore, holding it before the request is
  built, waiting for the response, with an error before and inside the critical section, and, with
  the error it recorded if any, before the release of the semaphore, before \<^verbatim>\<open>wg.Done\<close> and after it.\<close>

datatype phase =
    Start
  | Holding
  | Requesting string
  | Failed string
  | Locked string
  | Leaving "string option"
  | Exiting "string option"
  | Done "string option"

record prewarm_state =
  pw_workers :: "phase list"
  pw_sem :: nat
  pw_wg :: nat
  pw_mu :: "nat option"
  pw_errs :: "string list"
  pw_returned :: bool

datatype move =
    Spawn
  | Acquire nat
  | Build nat
  | Respond nat "string option"
  | Lock nat
  | Append nat
  | ReleaseSlot nat
  | WgDone nat
  | Wait

definition prewarm_init :: prewarm_state where
  "prewarm_init = \<lparr>pw_workers = [], pw_sem = 0, pw_wg = 0, pw_mu = None, pw_errs = [], pw_returned = False\<rparr>"

definition dep_error :: "ModuleDep \<Rightarrow> string \<Rightarrow> string" where
  "dep_error dep err = MD_Protocol dep @ ''/'' @ MD_Host dep @ '': '' @ err"

definition goto :: "nat \<Rightarrow> phase \<Rightarrow> prewarm_state \<Rightarrow> prewarm_state" where
  "goto i p s = s\<lparr>pw_workers := (pw_workers s)[i := p]\<rparr>"

definition worker :: "prewarm_state \<Rightarrow> nat \<Rightarrow> phase option" where
  "worker s i = (if i < length (pw_workers s) then Some (pw_workers s ! i) else None)"

text \<open>\<open>bad_url url\<close> is the error of \<^verbatim>\<open>http.NewRequestWithContext\<close>, if it returns one.\<close>

fun prewarm_next ::
  "(string \<Rightarrow> string option) \<Rightarrow> string \<Rightarrow> ModuleDep list \<Rightarrow> move \<Rightarrow> prewarm_state \<Rightarrow> prewarm_state option" where
  "prewarm_next bad_url ns deps Spawn s =
     (if length (pw_workers s) < length deps
      then Some (s\<lparr>pw_workers := pw_workers s @ [Start], pw_wg := pw_wg s + 1\<rparr>) else None)"
| "prewarm_next bad_url ns deps (Acquire i) s =
     (case worker s i of
        Some Start \<Rightarrow>
          if pw_sem s < prewarmConcurrency then Some ((goto i Holding s)\<lparr>pw_sem := pw_sem s + 1\<rparr>) else None
      | _ \<Rightarrow> None)"
| "prewarm_next bad_url ns deps (Build i) s =
     (case worker s i of
        Some Holding \<Rightarrow>
          (let url = buildModuleURL ns (deps ! i)
           in Some (goto i (case bad_url url of None \<Rightarrow> Requesting url | Some err \<Rightarrow> Failed (dep_error (deps ! i) err)) s))
      | _ \<Rightarrow> None)"
| "prewarm_next bad_url ns deps (Respond i err) s =
     (case worker s i of
        Some (Requesting url) \<Rightarrow>
          Some (goto i (case err of None \<Rightarrow> Leaving None | Some e \<Rightarrow> Failed (dep_error (deps ! i) e)) s)
      | _ \<Rightarrow> None)"
| "prewarm_next bad_url ns deps (Lock i) s =
     (case worker s i of
        Some (Failed err) \<Rightarrow> if pw_mu s = None then Some ((goto i (Locked err) s)\<lparr>pw_mu := Some i\<rparr>) else None
      | _ \<Rightarrow> None)"
| "prewarm_next bad_url ns deps (Append i) s =
     (case worker s i of
        Some (Locked err) \<Rightarrow>
          Some ((goto i (Leaving (Some err)) s)\<lparr>pw_errs := pw_errs s @ [err], pw_mu := None\<rparr>)
      | _ \<Rightarrow> None)"
| "prewarm_next bad_url ns deps (ReleaseSlot i) s =
     (case worker s i of
        Some (Leaving r) \<Rightarrow> if 0 < pw_sem s then Some ((goto i (Exiting r) s)\<lparr>pw_sem := pw_sem s - 1\<rparr>) else None
      | _ \<Rightarrow> None)"
| "prewarm_next bad_url ns deps (WgDone i) s =
     (case worker s i of
        Some (Exiting r) \<Rightarrow> Some ((goto i (Done r) s)\<lparr>pw_wg := pw_wg s - 1\<rparr>)
      | _ \<Rightarrow> None)"
| "prewarm_next bad_url ns deps Wait s =
     (if length (pw_workers s) = length deps \<and> pw_wg s = 0 \<and> \<not> pw_returned s
      then Some (s\<lparr>pw_returned := True\<rparr>) else None)"

inductive reachable :: "(string \<Rightarrow> string option) \<Rightarrow> string \<Rightarrow> ModuleDep list \<Rightarrow> nat \<Rightarrow> prewarm_state \<Rightarrow> bool"
  for bad_url ns deps where
  reachable_init: "reachable bad_url ns deps 0 prewarm_init"
| reachable_step: "reachable bad_url ns deps n s \<Longrightarrow> prewarm_next bad_url ns deps m s = Some s' \<Longrightarrow>
    reachable bad_url ns deps (Suc n) s'"

inductive_cases reachableE: "reachable bad_url ns deps n s"

text \<open>A schedule as a list of moves.\<close>

fun prewarm_run ::
  "(string \<Rightarrow> string option) \<Rightarrow> string \<Rightarrow> ModuleDep list \<Rightarrow> move list \<Rightarrow> prewarm_state \<Rightarrow> prewarm_state option" where
  "prewarm_run bad_url ns deps [] s = Some s"
| "prewarm_run bad_url ns deps (m # ms) s =
     (case prewarm_next bad_url ns deps m s of None \<Rightarrow> None | Some s' \<Rightarrow> prewarm_run bad_url ns deps ms s')"

lemma prewarm_run_reachable:
  "reachable bad_url ns deps n s \<Longrightarrow> prewarm_run bad_url ns deps ms s = Some s' \<Longrightarrow>
     reachable bad_url ns deps (n + length ms) s'"
proof (induction ms arbitrary: n s)
  case (Cons m ms)
  then show ?case
    using reachable_step by (fastforce split: option.splits)
qed simp

section \<open>Counting goroutines\<close>

fun holds :: "phase \<Rightarrow> bool" where
  "holds Start = False"
| "holds (Exiting r) = False"
| "holds (Done r) = False"
| "holds p = True"

fun alive :: "phase \<Rightarrow> bool" where
  "alive (Done r) = False"
| "alive p = True"

fun in_flight :: "phase \<Rightarrow> bool" where
  "in_flight (Requesting url) = True"
| "in_flight p = False"

fun recorded :: "phase \<Rightarrow> string list" where
  "recorded (Leaving r) = (case r of None \<Rightarrow> [] | Some e \<Rightarrow> [e])"
| "recorded (Exiting r) = (case r of None \<Rightarrow> [] | Some e \<Rightarrow> [e])"
| "recorded (Done r) = (case r of None \<Rightarrow> [] | Some e \<Rightarrow> [e])"
| "recorded p = []"

fun weight :: "phase \<Rightarrow> nat" where
  "weight Start = 7"
| "weight Holding = 6"
| "weight (Requesting url) = 5"
| "weight (Failed e) = 4"
| "weight (Locked e) = 3"
| "weight (Leaving r) = 2"
| "weight (Exiting r) = 1"
| "weight (Done r) = 0"

definition count_of :: "(phase \<Rightarrow> bool) \<Rightarrow> phase list \<Rightarrow> nat" where
  "count_of P ps = length (filter P ps)"

lemma count_of_update:
  assumes "i < length ps"
  shows "count_of P (ps[i := p]) + of_bool (P (ps ! i)) = count_of P ps + of_bool (P p)"
proof -
  have "count_of P ps = count_of P (take i ps @ ps ! i # drop (Suc i) ps)"
    using id_take_nth_drop [OF assms] by simp
  then show ?thesis
    by (simp add: count_of_def upd_conv_take_nth_drop [OF assms])
qed

lemma count_of_snoc [simp]: "count_of P (ps @ [p]) = count_of P ps + of_bool (P p)"
  by (simp add: count_of_def)

lemma count_of_pos: "0 < count_of P ps \<longleftrightarrow> (\<exists>i < length ps. P (ps ! i))"
  by (simp add: count_of_def filter_empty_conv Bex_def in_set_conv_nth) blast

lemma weight_update:
  assumes "i < length ps"
  shows "sum_list (map weight (ps[i := p])) + weight (ps ! i) = sum_list (map weight ps) + weight p"
proof -
  have "sum_list (map weight ps) = sum_list (map weight (take i ps @ ps ! i # drop (Suc i) ps))"
    using id_take_nth_drop [OF assms] by simp
  then show ?thesis
    by (simp add: upd_conv_take_nth_drop [OF assms])
qed

lemma recorded_update:
  assumes "i < length ps"
  shows "mset (concat (map recorded (ps[i := p]))) + mset (recorded (ps ! i)) =
    mset (concat (map recorded ps)) + mset (recorded p)"
proof -
  have "mset (concat (map recorded ps)) = mset (concat (map recorded (take i ps @ ps ! i # drop (Suc i) ps)))"
    using id_take_nth_drop [OF assms] by simp
  then show ?thesis
    by (simp add: upd_conv_take_nth_drop [OF assms])
qed

section \<open>What one move does\<close>

text \<open>Every move is a spawn, the return, or the advance of one goroutine from one program counter to
  another with a change of one shared variable.\<close>

datatype effect = Nothing | TakeSlot | GiveSlot | TakeLock | Record string | Depart

inductive advance :: "phase \<Rightarrow> effect \<Rightarrow> phase \<Rightarrow> bool" where
  "advance Start TakeSlot Holding"
| "advance Holding Nothing (Requesting url)"
| "advance Holding Nothing (Failed e)"
| "advance (Requesting url) Nothing (Leaving None)"
| "advance (Requesting url) Nothing (Failed e)"
| "advance (Failed e) TakeLock (Locked e)"
| "advance (Locked e) (Record e) (Leaving (Some e))"
| "advance (Leaving r) GiveSlot (Exiting r)"
| "advance (Exiting r) Depart (Done r)"

inductive_simps advance_from:
  "advance Start eff q" "advance Holding eff q" "advance (Requesting url) eff q" "advance (Failed e) eff q"
  "advance (Locked e) eff q" "advance (Leaving r) eff q" "advance (Exiting r) eff q" "advance (Done r) eff q"

fun affect :: "nat \<Rightarrow> effect \<Rightarrow> prewarm_state \<Rightarrow> prewarm_state" where
  "affect i Nothing s = s"
| "affect i TakeSlot s = s\<lparr>pw_sem := pw_sem s + 1\<rparr>"
| "affect i GiveSlot s = s\<lparr>pw_sem := pw_sem s - 1\<rparr>"
| "affect i TakeLock s = s\<lparr>pw_mu := Some i\<rparr>"
| "affect i (Record e) s = s\<lparr>pw_errs := pw_errs s @ [e], pw_mu := None\<rparr>"
| "affect i Depart s = s\<lparr>pw_wg := pw_wg s - 1\<rparr>"

lemma prewarm_next_cases:
  assumes "prewarm_next bad_url ns deps m s = Some s'"
  obtains (spawn) "length (pw_workers s) < length deps"
      "s' = s\<lparr>pw_workers := pw_workers s @ [Start], pw_wg := pw_wg s + 1\<rparr>"
  | (wait) "length (pw_workers s) = length deps" "pw_wg s = 0" "\<not> pw_returned s" "s' = s\<lparr>pw_returned := True\<rparr>"
  | (worker) i eff p where "i < length (pw_workers s)" "advance (pw_workers s ! i) eff p"
      "s' = affect i eff (goto i p s)" "eff = TakeSlot \<Longrightarrow> pw_sem s < prewarmConcurrency"
      "eff = TakeLock \<Longrightarrow> pw_mu s = None"
proof (cases m)
  case Spawn
  then show thesis using assms spawn by (auto split: if_splits)
next
  case Wait
  then show thesis using assms wait by (auto split: if_splits)
next
  case (Acquire i)
  then show thesis using assms worker [of i TakeSlot Holding]
    by (auto simp: worker_def goto_def advance_from split: phase.splits if_splits)
next
  case (Build i)
  let ?url = "buildModuleURL ns (deps ! i)"
  let ?p = "case bad_url ?url of None \<Rightarrow> Requesting ?url | Some err \<Rightarrow> Failed (dep_error (deps ! i) err)"
  from Build show thesis using assms worker [of i Nothing ?p]
    by (auto simp: worker_def goto_def advance_from Let_def split: phase.splits if_splits option.splits)
next
  case (Respond i err)
  let ?p = "case err of None \<Rightarrow> Leaving None | Some e \<Rightarrow> Failed (dep_error (deps ! i) e)"
  from Respond show thesis using assms worker [of i Nothing ?p]
    by (auto simp: worker_def goto_def advance_from split: phase.splits if_splits option.splits)
next
  case (Lock i)
  then show thesis using assms worker [of i TakeLock]
    by (auto simp: worker_def goto_def advance_from split: phase.splits if_splits)
next
  case (Append i)
  then show thesis using assms worker [of i "Record e" for e]
    by (auto simp: worker_def goto_def advance_from split: phase.splits if_splits)
next
  case (ReleaseSlot i)
  then show thesis using assms worker [of i GiveSlot]
    by (auto simp: worker_def goto_def advance_from split: phase.splits if_splits)
next
  case (WgDone i)
  then show thesis using assms worker [of i Depart]
    by (auto simp: worker_def goto_def advance_from split: phase.splits if_splits)
qed

section \<open>The invariant\<close>

definition prewarm_inv :: "ModuleDep list \<Rightarrow> prewarm_state \<Rightarrow> bool" where
  "prewarm_inv deps s \<longleftrightarrow>
     length (pw_workers s) \<le> length deps \<and>
     pw_sem s = count_of holds (pw_workers s) \<and> pw_sem s \<le> prewarmConcurrency \<and>
     pw_wg s = count_of alive (pw_workers s) \<and>
     (\<forall>i. pw_mu s = Some i \<longleftrightarrow> i < length (pw_workers s) \<and> (\<exists>e. pw_workers s ! i = Locked e)) \<and>
     mset (pw_errs s) = mset (concat (map recorded (pw_workers s))) \<and>
     (pw_returned s \<longrightarrow> length (pw_workers s) = length deps \<and> pw_wg s = 0)"

lemma affect_workers [simp]:
  "pw_workers (affect i eff s) = pw_workers s" "pw_returned (affect i eff s) = pw_returned s"
  by (cases eff; simp)+

lemma goto_workers [simp]:
  "pw_workers (goto i p s) = (pw_workers s)[i := p]" "pw_returned (goto i p s) = pw_returned s"
  by (simp_all add: goto_def)

lemma prewarm_inv_worker:
  assumes inv: "prewarm_inv deps s" and i: "i < length (pw_workers s)" and adv: "advance (pw_workers s ! i) eff p"
    and slot: "eff = TakeSlot \<Longrightarrow> pw_sem s < prewarmConcurrency" and lock: "eff = TakeLock \<Longrightarrow> pw_mu s = None"
  shows "prewarm_inv deps (affect i eff (goto i p s))"
proof -
  let ?ws = "(pw_workers s)[i := p]" and ?s' = "affect i eff (goto i p s)"
  have I: "pw_sem s = count_of holds (pw_workers s)" "pw_sem s \<le> prewarmConcurrency"
    "pw_wg s = count_of alive (pw_workers s)" "mset (pw_errs s) = mset (concat (map recorded (pw_workers s)))"
    "\<And>j. pw_mu s = Some j \<longleftrightarrow> j < length (pw_workers s) \<and> (\<exists>e. pw_workers s ! j = Locked e)"
    "pw_returned s \<Longrightarrow> pw_wg s = 0" "length (pw_workers s) \<le> length deps"
    using inv by (simp_all add: prewarm_inv_def)
  have "alive (pw_workers s ! i)" using adv by cases simp_all
  then have "0 < count_of alive (pw_workers s)" using i by (auto simp: count_of_pos)
  then have "\<not> pw_returned s" using I(3,6) by fastforce
  moreover have "pw_sem ?s' = count_of holds ?ws"
    using adv I(1) count_of_update [OF i, of holds p] by cases (simp_all add: goto_def)
  moreover have "pw_sem ?s' \<le> prewarmConcurrency"
    using adv I(2) slot by cases (simp_all add: goto_def)
  moreover have "pw_wg ?s' = count_of alive ?ws"
    using adv I(3) count_of_update [OF i, of alive p] by cases (simp_all add: goto_def)
  moreover have "mset (pw_errs ?s') = mset (concat (map recorded ?ws))"
    using adv I(4) recorded_update [OF i, of p] by cases (simp_all add: goto_def)
  moreover have "pw_mu ?s' = Some j \<longleftrightarrow> j < length ?ws \<and> (\<exists>e. ?ws ! j = Locked e)" for j
    using adv I(5) [of j] I(5) [of i] i lock by cases (auto simp: goto_def nth_list_update)
  ultimately show ?thesis
    using I(7) by (simp add: prewarm_inv_def)
qed

lemma prewarm_inv_next:
  assumes "prewarm_inv deps s" and "prewarm_next bad_url ns deps m s = Some s'"
  shows "prewarm_inv deps s'"
  using assms(2)
proof (cases rule: prewarm_next_cases)
  case spawn
  with assms(1) show ?thesis by (auto simp: prewarm_inv_def nth_append)
next
  case wait
  with assms(1) show ?thesis by (simp add: prewarm_inv_def)
next
  case (worker i eff p)
  with assms(1) show ?thesis using prewarm_inv_worker by blast
qed

lemma reachable_inv: "reachable bad_url ns deps n s \<Longrightarrow> prewarm_inv deps s"
proof (induction rule: reachable.induct)
  case reachable_init
  show ?case by (simp add: prewarm_inv_def prewarm_init_def count_of_def)
next
  case reachable_step
  then show ?case using prewarm_inv_next by blast
qed

section \<open>Every move makes progress, and some move is possible\<close>

definition remaining :: "ModuleDep list \<Rightarrow> prewarm_state \<Rightarrow> nat" where
  "remaining deps s =
     8 * (length deps - length (pw_workers s)) + sum_list (map weight (pw_workers s)) + of_bool (\<not> pw_returned s)"

lemma advance_weight: "advance q eff p \<Longrightarrow> weight p < weight q"
  by (induction rule: advance.induct) simp_all

lemma prewarm_next_remaining:
  assumes "prewarm_next bad_url ns deps m s = Some s'"
  shows "remaining deps s' < remaining deps s"
  using assms
proof (cases rule: prewarm_next_cases)
  case (worker i eff p)
  then show ?thesis
    using weight_update [OF worker(1), of p] advance_weight [OF worker(2)] by (simp add: remaining_def goto_def)
qed (simp_all add: remaining_def)

lemma reachable_length: "reachable bad_url ns deps n s \<Longrightarrow> n + remaining deps s \<le> 8 * length deps + 1"
proof (induction rule: reachable.induct)
  case reachable_init
  show ?case by (simp add: remaining_def prewarm_init_def)
next
  case (reachable_step n s m s')
  then show ?case using prewarm_next_remaining [OF reachable_step(2)] by simp
qed

lemma holder_moves:
  assumes "prewarm_inv deps s" and "i < length (pw_workers s)" and "holds (pw_workers s ! i)"
  shows "\<exists>m s'. prewarm_next bad_url ns deps m s = Some s'"
proof (cases "pw_workers s ! i")
  case Holding
  then have "prewarm_next bad_url ns deps (Build i) s \<noteq> None" using assms(2) by (simp add: worker_def Let_def)
  then show ?thesis by blast
next
  case (Requesting url)
  then have "prewarm_next bad_url ns deps (Respond i None) s \<noteq> None" using assms(2) by (simp add: worker_def)
  then show ?thesis by blast
next
  case (Failed e)
  show ?thesis
  proof (cases "pw_mu s")
    case None
    then have "prewarm_next bad_url ns deps (Lock i) s \<noteq> None" using assms(2) Failed by (simp add: worker_def)
    then show ?thesis by blast
  next
    case (Some j)
    with assms(1) obtain e' where "j < length (pw_workers s)" "pw_workers s ! j = Locked e'"
      by (auto simp: prewarm_inv_def)
    then have "prewarm_next bad_url ns deps (Append j) s \<noteq> None" by (simp add: worker_def)
    then show ?thesis by blast
  qed
next
  case (Locked e)
  then have "prewarm_next bad_url ns deps (Append i) s \<noteq> None" using assms(2) by (simp add: worker_def)
  then show ?thesis by blast
next
  case (Leaving r)
  have "0 < pw_sem s" using assms by (auto simp: prewarm_inv_def count_of_pos)
  then have "prewarm_next bad_url ns deps (ReleaseSlot i) s \<noteq> None" using assms(2) Leaving by (simp add: worker_def)
  then show ?thesis by blast
qed (use assms(3) in simp_all)

lemma alive_moves:
  assumes "prewarm_inv deps s" and "i < length (pw_workers s)" and "alive (pw_workers s ! i)"
  shows "\<exists>m s'. prewarm_next bad_url ns deps m s = Some s'"
proof (cases "holds (pw_workers s ! i)")
  case True
  with assms show ?thesis using holder_moves by blast
next
  case False
  then consider "pw_workers s ! i = Start" | r where "pw_workers s ! i = Exiting r"
    using assms(3) by (cases "pw_workers s ! i") simp_all
  then show ?thesis
  proof cases
    case 1
    show ?thesis
    proof (cases "pw_sem s < prewarmConcurrency")
      case True
      with 1 assms(2) have "prewarm_next bad_url ns deps (Acquire i) s \<noteq> None" by (simp add: worker_def)
      then show ?thesis by blast
    next
      case False
      then have "0 < pw_sem s" by (simp add: prewarmConcurrency_def)
      then have "0 < count_of holds (pw_workers s)" using assms(1) by (simp add: prewarm_inv_def)
      then obtain j where "j < length (pw_workers s)" "holds (pw_workers s ! j)" by (auto simp: count_of_pos)
      with assms(1) show ?thesis using holder_moves by blast
    qed
  next
    case 2
    with assms(2) have "prewarm_next bad_url ns deps (WgDone i) s \<noteq> None" by (simp add: worker_def)
    then show ?thesis by blast
  qed
qed

lemma not_returned_moves:
  assumes "prewarm_inv deps s" and "\<not> pw_returned s"
  shows "\<exists>m s'. prewarm_next bad_url ns deps m s = Some s'"
proof (cases "length (pw_workers s) < length deps")
  case True
  then have "prewarm_next bad_url ns deps Spawn s \<noteq> None" by simp
  then show ?thesis by blast
next
  case False
  show ?thesis
  proof (cases "pw_wg s = 0")
    case True
    with False assms have "prewarm_next bad_url ns deps Wait s \<noteq> None" by (simp add: prewarm_inv_def)
    then show ?thesis by blast
  next
    case False
    then have "0 < count_of alive (pw_workers s)" using assms(1) by (simp add: prewarm_inv_def)
    then obtain i where "i < length (pw_workers s)" "alive (pw_workers s ! i)" by (auto simp: count_of_pos)
    with assms(1) show ?thesis using alive_moves by blast
  qed
qed

lemma in_flight_holds: "count_of in_flight ps \<le> count_of holds ps"
proof -
  have "in_flight p \<Longrightarrow> holds p" for p by (cases p) simp_all
  then show ?thesis unfolding count_of_def by (induction ps) auto
qed

lemma count_of_unique:
  assumes "\<And>i j. i < length ps \<Longrightarrow> j < length ps \<Longrightarrow> P (ps ! i) \<Longrightarrow> P (ps ! j) \<Longrightarrow> i = j"
  shows "count_of P ps \<le> 1"
  using assms
proof (induction ps)
  case (Cons p ps)
  have "count_of P ps \<le> 1"
    using Cons.IH Cons.prems [of "Suc i" "Suc j" for i j] by auto
  moreover have "P p \<Longrightarrow> count_of P ps = 0"
    using Cons.prems [of 0 "Suc j" for j] count_of_pos [of P ps] by auto
  ultimately show ?case by (auto simp: count_of_def)
qed (simp add: count_of_def)

lemma all_done:
  assumes "count_of alive ps = 0"
  shows "\<exists>rs. ps = map Done rs \<and> concat (map recorded ps) = concat (map (case_option [] (\<lambda>e. [e])) rs)"
  using assms
proof (induction ps)
  case (Cons p ps)
  then obtain rs where rs: "ps = map Done rs" "concat (map recorded ps) = concat (map (case_option [] (\<lambda>e. [e])) rs)"
    by (auto simp: count_of_def split: if_splits)
  from Cons.prems obtain r where "p = Done r" by (cases p) (simp_all add: count_of_def)
  with rs have "p # ps = map Done (r # rs) \<and> concat (map recorded (p # ps)) = concat (map (case_option [] (\<lambda>e. [e])) (r # rs))"
    by (cases r) simp_all
  then show ?case by (rule exI [of _ "r # rs"])
qed simp

text \<open>C8: in every state that any interleaving reaches, at most three requests are in flight and the
  mutex protects the error slice; as long as the call has not returned some thread can move, and no
  execution is longer than eight moves per dependency and one, so the call returns under every
  schedule; and when it returns every goroutine is done, one per dependency, and the slice holds
  exactly the errors the goroutines met.\<close>

theorem prewarm_terminates:
  assumes "reachable bad_url ns deps n s"
  shows "count_of in_flight (pw_workers s) \<le> 3 \<and>
    count_of (\<lambda>p. \<exists>e. p = Locked e) (pw_workers s) \<le> 1 \<and>
    n \<le> 8 * length deps + 1 \<and>
    (\<not> pw_returned s \<longrightarrow> (\<exists>m s'. prewarm_next bad_url ns deps m s = Some s')) \<and>
    (pw_returned s \<longrightarrow>
       (\<exists>rs. pw_workers s = map Done rs \<and> length rs = length deps \<and>
             mset (pw_errs s) = mset (concat (map (case_option [] (\<lambda>e. [e])) rs))))"
proof -
  note inv = reachable_inv [OF assms]
  then have sem: "count_of holds (pw_workers s) \<le> 3" by (simp add: prewarm_inv_def prewarmConcurrency_def)
  have flight: "count_of in_flight (pw_workers s) \<le> 3"
    using in_flight_holds sem by (rule order_trans)
  have "\<And>i j. i < length (pw_workers s) \<Longrightarrow> j < length (pw_workers s) \<Longrightarrow>
      \<exists>e. pw_workers s ! i = Locked e \<Longrightarrow> \<exists>e. pw_workers s ! j = Locked e \<Longrightarrow> i = j"
    using inv unfolding prewarm_inv_def by (metis option.inject)
  then have locks: "count_of (\<lambda>p. \<exists>e. p = Locked e) (pw_workers s) \<le> 1"
    by (rule count_of_unique)
  have ended: "count_of alive (pw_workers s) = 0 \<and> length (pw_workers s) = length deps" if "pw_returned s"
    using inv that by (simp add: prewarm_inv_def)
  have errs: "mset (pw_errs s) = mset (concat (map recorded (pw_workers s)))" using inv by (simp add: prewarm_inv_def)
  have "pw_returned s \<Longrightarrow> \<exists>rs. pw_workers s = map Done rs \<and> length rs = length deps \<and>
             mset (pw_errs s) = mset (concat (map (case_option [] (\<lambda>e. [e])) rs))"
    using ended errs all_done [of "pw_workers s"] by (metis length_map)
  then show ?thesis
    using flight locks reachable_length [OF assms] not_returned_moves [OF inv] by auto
qed

text \<open>Four dependencies, one of which cannot be requested and one of which fails: three requests are
  in flight at once and the fourth goroutine waits for a slot.\<close>

definition four_deps :: "ModuleDep list" where
  "four_deps =
     [\<lparr>MD_Protocol = ''jsr'', MD_Host = ''@db/postgres'', MD_Version = ''0.19.5''\<rparr>,
      \<lparr>MD_Protocol = ''npm'', MD_Host = ''lodash'', MD_Version = []\<rparr>,
      \<lparr>MD_Protocol = ''npm'', MD_Host = ''zod'', MD_Version = ''3''\<rparr>,
      \<lparr>MD_Protocol = ''npm'', MD_Host = ''x'', MD_Version = ''1''\<rparr>]"

definition only_x :: "string \<Rightarrow> string option" where
  "only_x url = (if HasSuffix url ''/x@1'' then Some ''bad'' else None)"

definition four_moves :: "move list" where
  "four_moves =
     [Spawn, Spawn, Acquire 0, Build 0, Spawn, Acquire 1, Acquire 2, Build 2, Build 1, Spawn,
      Respond 1 (Some ''timeout''), Lock 1, Append 1, ReleaseSlot 1, Acquire 3, Build 3, Lock 3, WgDone 1, Append 3,
      Respond 0 None, ReleaseSlot 3, ReleaseSlot 0, WgDone 3, WgDone 0, Respond 2 None, ReleaseSlot 2, WgDone 2, Wait]"

definition four_end :: prewarm_state where
  "four_end = the (prewarm_run only_x ''support'' four_deps four_moves prewarm_init)"

theorem prewarm_terminates_witness:
  "(\<exists>rs. pw_workers four_end = map Done rs \<and> length rs = 4 \<and>
      mset (pw_errs four_end) = mset (concat (map (case_option [] (\<lambda>e. [e])) rs))) \<and>
   pw_errs four_end = [''npm/lodash: timeout'', ''npm/x: bad''] \<and>
   (\<exists>m s'. prewarm_next only_x ''support'' four_deps m prewarm_init = Some s')"
proof -
  have "prewarm_run only_x ''support'' four_deps four_moves prewarm_init \<noteq> None" by code_simp
  then have run: "prewarm_run only_x ''support'' four_deps four_moves prewarm_init = Some four_end"
    by (simp add: four_end_def)
  have ret: "pw_returned four_end" by code_simp
  have errs: "pw_errs four_end = [''npm/lodash: timeout'', ''npm/x: bad'']" by code_simp
  have four: "length four_deps = 4" by code_simp
  have init: "\<not> pw_returned prewarm_init" by code_simp
  note last = prewarm_terminates [OF prewarm_run_reachable [OF reachable_init run]]
  show ?thesis
  proof (intro conjI)
    show "\<exists>rs. pw_workers four_end = map Done rs \<and> length rs = 4 \<and>
        mset (pw_errs four_end) = mset (concat (map (case_option [] (\<lambda>e. [e])) rs))"
      using last ret unfolding four by blast
    show "\<exists>m s'. prewarm_next only_x ''support'' four_deps m prewarm_init = Some s'"
      using prewarm_terminates [OF reachable_init [of only_x "''support''" four_deps]] init by blast
  qed (rule errs)
qed

end
