(* ===== verification/Cluster_Api.thy ===== *)
theory Cluster_Api
  imports Guard Authz_Helpers Complex_Main
begin

text \<open>
  What the cluster-wide tools (preflight, profile, resource health) read of a cluster, as the
  record \<open>cluster_api\<close> of calls over an unknown world; \<^verbatim>\<open>client-go\<close> and the API server are not part of
  the program. Resource quantities belong to \<^verbatim>\<open>k8s.io/apimachinery/pkg/api/resource\<close>: they are values
  of a type parameter \<open>'q\<close> with the operations of the record \<open>quantity_ops\<close>. The error text that
  messages contain is the function \<open>ca_error\<close>.

  The tools of this group that look at one enclave share the guard \<open>ops_guard\<close>.
\<close>

section \<open>Objects\<close>

record 'q ClusterNode =
  Nd_Name :: string
  Nd_Labels :: strmap
  Nd_Conditions :: "(string \<times> string) list"
  Nd_Capacity :: "string \<rightharpoonup> 'q"
  Nd_Allocatable :: "string \<rightharpoonup> 'q"
  Nd_Taints :: "(string \<times> string \<times> string) list"
  Nd_OS :: string
  Nd_Arch :: string
  Nd_Kubelet :: string
  Nd_Kernel :: string
  Nd_Runtime :: string

record 'q ClusterPod =
  CP_Name :: string
  CP_Labels :: strmap
  CP_Requests :: "(string \<rightharpoonup> 'q) list"

record RuntimeClass =
  RTC_Name :: string
  RTC_Handler :: string

record StorageClass =
  STC_Name :: string
  STC_Provisioner :: string
  STC_Annotations :: strmap
  STC_ReclaimPolicy :: "string option"
  STC_AllowVolumeExpansion :: "bool option"

record 'q QuotaView =
  QV_SpecHard :: "string \<rightharpoonup> 'q"
  QV_StatusHard :: "string \<rightharpoonup> 'q"
  QV_StatusUsed :: "string \<rightharpoonup> 'q"

record 'q LimitItem =
  LI_Type :: string
  LI_Default :: "string \<rightharpoonup> 'q"
  LI_DefaultRequest :: "string \<rightharpoonup> 'q"

record 'q quantity_ops =
  q_String :: "'q \<Rightarrow> string"
  q_MilliValue :: "'q \<Rightarrow> int"
  q_Value :: "'q \<Rightarrow> int"
  q_AsInt64 :: "'q \<Rightarrow> int \<times> bool"
  q_IsZero :: "'q \<Rightarrow> bool"
  q_Add :: "'q \<Rightarrow> 'q \<Rightarrow> 'q"
  q_NewDecimalSI :: 'q
  q_NewBinarySI :: 'q
  q_Zero :: 'q

text \<open>\<open>ca_crds\<close> is \<open>None\<close> for a client without a dynamic part. The two string arguments of \<open>ca_pods\<close>
  after the namespace are the label and the field selector.\<close>

record ('s, 'q) cluster_api =
  ca_version :: "('s, string) kread"
  ca_nodes :: "('s, 'q ClusterNode list) kread"
  ca_runtime_classes :: "('s, RuntimeClass list) kread"
  ca_pods :: "string \<Rightarrow> string \<Rightarrow> string \<Rightarrow> ('s, 'q ClusterPod list) kread"
  ca_netpols :: "string \<Rightarrow> ('s, string list) kread"
  ca_storage_classes :: "('s, StorageClass list) kread"
  ca_csi_drivers :: "('s, string list) kread"
  ca_crds :: "('s, string list) kread option"
  ca_quotas :: "string \<Rightarrow> ('s, 'q QuotaView list) kread"
  ca_limits :: "string \<Rightarrow> ('s, 'q LimitItem list list) kread"
  ca_service :: "string \<Rightarrow> string \<Rightarrow> ('s, string) kread"
  ca_services :: "string \<Rightarrow> ('s, string list) kread"
  ca_access_review :: "string \<Rightarrow> string \<Rightarrow> string \<Rightarrow> string \<Rightarrow> ('s, bool) kread"
  ca_error :: "api_err \<Rightarrow> string"

section \<open>The guard of the tools that look at one enclave\<close>

datatype ops_error =
    OE_Guard guard_error
  | OE_Helper helper_error
  | OE_Read string api_err

definition ops_guard ::
  "'s kube \<Rightarrow> Evaluator option \<Rightarrow> DeployerInfo option \<Rightarrow> string \<Rightarrow> 's \<Rightarrow> ops_error + unit" where
  "ops_guard client eval deployer namespace s =
     (case CheckNamespace namespace of
        Inl e \<Rightarrow> Inl (OE_Guard e)
      | Inr _ \<Rightarrow> mapErr OE_Helper (checkNamespaceAuthz client namespace deployer eval Read s))"

lemma ops_guard_ok:
  "ops_guard client eval deployer namespace s = Inr u \<longleftrightarrow>
     namespace \<noteq> [] \<and> \<not> IsSystemNamespace namespace \<and>
     checkNamespaceAuthz client namespace deployer eval Read s = Inr ()"
  using CheckNamespace_ok_iff [of namespace]
  by (cases "CheckNamespace namespace"; cases "checkNamespaceAuthz client namespace deployer eval Read s")
    (auto simp: ops_guard_def mapErr_def)

end
