(* ===== verification/Preflight.thy ===== *)
theory Preflight
  imports Cluster_Api Mem_Kube
begin

text \<open>
  \<^verbatim>\<open>pkg/k8s/preflight.go\<close> and the tool \<^verbatim>\<open>enclave_preflight\<close> of \<^verbatim>\<open>pkg/tools/clusterops.go\<close>: nine checks of
  what deploying into an enclave needs. The theorem says what the verdict of the tool means.
\<close>

record CheckResult =
  CK_Name :: string
  CK_Warning :: string
  CK_Remediation :: string
  CK_Passed :: bool

definition passed_check :: "string \<Rightarrow> CheckResult" where
  "passed_check name = \<lparr>CK_Name = name, CK_Warning = [], CK_Remediation = [], CK_Passed = True\<rparr>"

definition checkAPIReachability :: "('s, 'q) cluster_api \<Rightarrow> 's \<Rightarrow> CheckResult" where
  "checkAPIReachability api s =
     (case ca_version api s of
        Inl err \<Rightarrow>
          \<lparr>CK_Name = ''api-reachability'',
           CK_Warning = ''cannot reach API server: '' @ ca_error api err,
           CK_Remediation = ''Verify the cluster is running and the kubeconfig is correct.'',
           CK_Passed = False\<rparr>
      | Inr _ \<Rightarrow> passed_check ''api-reachability'')"

definition checkNamespaceExists :: "'s kube \<Rightarrow> ('s, 'q) cluster_api \<Rightarrow> string \<Rightarrow> 's \<Rightarrow> CheckResult" where
  "checkNamespaceExists client api namespace s =
     (case ns_get client namespace s of
        Inl err \<Rightarrow>
          \<lparr>CK_Name = ''namespace-exists'',
           CK_Warning = ''namespace '' @ quote_str namespace @ '' not found: '' @ ca_error api err,
           CK_Remediation = ''Create the namespace with: kubectl create namespace '' @ namespace,
           CK_Passed = False\<rparr>
      | Inr _ \<Rightarrow> passed_check ''namespace-exists'')"

text \<open>Name, group, resource and verb of the access reviews.\<close>

definition rbac_checks :: "(string \<times> string \<times> string \<times> string) list" where
  "rbac_checks =
     [(''rbac-create-deployments'', ''apps'', ''deployments'', ''create''),
      (''rbac-create-services'', [], ''services'', ''create''),
      (''rbac-create-configmaps'', [], ''configmaps'', ''create''),
      (''rbac-create-secrets'', [], ''secrets'', ''create''),
      (''rbac-create-cronjobs'', ''batch'', ''cronjobs'', ''create''),
      (''rbac-list-jobs'', ''batch'', ''jobs'', ''list'')]"

definition rbac_check ::
  "('s, 'q) cluster_api \<Rightarrow> string \<Rightarrow> 's \<Rightarrow> string \<times> string \<times> string \<times> string \<Rightarrow> CheckResult" where
  "rbac_check api namespace s c =
     (case c of (name, grp, resource, verb) \<Rightarrow>
        (case ca_access_review api namespace verb grp resource s of
           Inl err \<Rightarrow>
             \<lparr>CK_Name = name,
              CK_Warning = ''failed to check RBAC for '' @ grp @ ''/'' @ resource @ '': '' @ ca_error api err,
              CK_Remediation = ''Ensure the service account has the tentacular-workflow role bound.'',
              CK_Passed = False\<rparr>
         | Inr allowed \<Rightarrow>
             if \<not> allowed then
               \<lparr>CK_Name = name,
                CK_Warning = ''not allowed to '' @ verb @ '' '' @ grp @ ''/'' @ resource @ '' in namespace '' @ namespace,
                CK_Remediation = ''Bind the tentacular-workflow role to the service account.'',
                CK_Passed = False\<rparr>
             else passed_check name))"

definition checkRBAC :: "('s, 'q) cluster_api \<Rightarrow> string \<Rightarrow> 's \<Rightarrow> CheckResult list" where
  "checkRBAC api namespace s = map (rbac_check api namespace s) rbac_checks"

definition checkGVisor :: "('s, 'q) cluster_api \<Rightarrow> 's \<Rightarrow> CheckResult" where
  "checkGVisor api s =
     (case ca_runtime_classes api s of
        Inl err \<Rightarrow>
          (passed_check ''gvisor-runtime'')\<lparr>CK_Warning := ''Could not list RuntimeClasses; gVisor check skipped.''\<rparr>
      | Inr rcs \<Rightarrow>
          if list_ex (\<lambda>rc. RTC_Handler rc = ''gvisor'' \<or> RTC_Handler rc = ''runsc'') rcs
          then passed_check ''gvisor-runtime''
          else (passed_check ''gvisor-runtime'')
            \<lparr>CK_Warning := ''gVisor RuntimeClass not found. Workloads will run without sandbox isolation.'',
             CK_Remediation := ''Install gVisor and create a RuntimeClass with handler '' @ [CHR 0x27] @ ''runsc'' @ [CHR 0x27] @
               '' for enhanced isolation.''\<rparr>)"

definition RunPreflightChecks :: "'s kube \<Rightarrow> ('s, 'q) cluster_api \<Rightarrow> string \<Rightarrow> 's \<Rightarrow> CheckResult list" where
  "RunPreflightChecks client api namespace s =
     [checkAPIReachability api s, checkNamespaceExists client api namespace s] @
     checkRBAC api namespace s @ [checkGVisor api s]"

record ClusterPreflightResult =
  PF_Checks :: "CheckResult list"
  PF_AllPass :: bool

fun all_pass :: "CheckResult list \<Rightarrow> bool" where
  "all_pass [] = True"
| "all_pass (c # cs) = (if \<not> CK_Passed c then False else all_pass cs)"

definition handleClusterPreflight :: "'s kube \<Rightarrow> ('s, 'q) cluster_api \<Rightarrow> string \<Rightarrow> 's \<Rightarrow> ClusterPreflightResult" where
  "handleClusterPreflight client api namespace s =
     (let checks = RunPreflightChecks client api namespace s
      in \<lparr>PF_Checks = checks, PF_AllPass = all_pass checks\<rparr>)"

definition enclave_preflight ::
  "'s kube \<Rightarrow> ('s, 'q) cluster_api \<Rightarrow> Evaluator option \<Rightarrow> DeployerInfo option \<Rightarrow> string \<Rightarrow> 's \<Rightarrow>
     ops_error + ClusterPreflightResult" where
  "enclave_preflight client api eval deployer namespace s =
     (case ops_guard client eval deployer namespace s of
        Inl e \<Rightarrow> Inl e
      | Inr _ \<Rightarrow> Inr (handleClusterPreflight client api namespace s))"

section \<open>What the verdict means\<close>

lemma all_pass_iff: "all_pass cs \<longleftrightarrow> list_all CK_Passed cs"
  by (induction cs) auto

lemma rbac_check_passed:
  "CK_Passed (rbac_check api ns s (name, grp, resource, verb)) \<longleftrightarrow> ca_access_review api ns verb grp resource s = Inr True"
  by (auto simp: rbac_check_def passed_check_def split: sum.splits)

lemma checkGVisor_passed: "CK_Passed (checkGVisor api s)"
  by (simp add: checkGVisor_def passed_check_def split: sum.splits)

lemma preflight_passed:
  "PF_AllPass (handleClusterPreflight client api ns s) \<longleftrightarrow>
     \<not> isl (ca_version api s) \<and> \<not> isl (ns_get client ns s) \<and>
     list_all (\<lambda>(name, grp, resource, verb). ca_access_review api ns verb grp resource s = Inr True) rbac_checks"
proof -
  have "CK_Passed (checkAPIReachability api s) \<longleftrightarrow> \<not> isl (ca_version api s)"
    "CK_Passed (checkNamespaceExists client api ns s) \<longleftrightarrow> \<not> isl (ns_get client ns s)"
    by (simp_all add: checkAPIReachability_def checkNamespaceExists_def passed_check_def split: sum.splits)
  then show ?thesis
    by (simp add: handleClusterPreflight_def Let_def all_pass_iff RunPreflightChecks_def checkRBAC_def checkGVisor_passed
        list_all_iff split_beta rbac_check_passed [of _ _ _ "fst c" "fst (snd c)" "fst (snd (snd c))" "snd (snd (snd c))" for c, simplified])
qed

text \<open>The preflight tool answers only for enclaves outside the system namespaces that the caller
  may read; it reports nine named checks, and its verdict is positive exactly when the API server
  answers, the namespace exists and the server's account may create the five kinds of objects a
  deployment needs and list jobs; a missing sandbox only adds a warning.\<close>

theorem enclave_preflight_verdict:
  assumes "enclave_preflight client api (Some ev) deployer ns s = Inr r"
  shows "\<not> IsSystemNamespace ns \<and>
    (\<forall>n. ns_get client ns s = Inr n \<longrightarrow> enclave_access (Some ev) deployer (N_Annotations n) Read) \<and>
    map CK_Name (PF_Checks r) = [''api-reachability'', ''namespace-exists''] @ map fst rbac_checks @ [''gvisor-runtime''] \<and>
    (PF_AllPass r \<longleftrightarrow>
       (\<exists>v. ca_version api s = Inr v) \<and> (\<exists>n. ns_get client ns s = Inr n) \<and>
       ca_access_review api ns ''create'' ''apps'' ''deployments'' s = Inr True \<and>
       (\<forall>k \<in> {''services'', ''configmaps'', ''secrets''}. ca_access_review api ns ''create'' [] k s = Inr True) \<and>
       ca_access_review api ns ''create'' ''batch'' ''cronjobs'' s = Inr True \<and>
       ca_access_review api ns ''list'' ''batch'' ''jobs'' s = Inr True)"
proof -
  from assms have g: "ops_guard client (Some ev) deployer ns s = Inr ()"
    and r: "r = handleClusterPreflight client api ns s"
    by (auto simp: enclave_preflight_def split: sum.splits)
  have names: "CK_Name (checkAPIReachability api s) = ''api-reachability''"
    "CK_Name (checkNamespaceExists client api ns s) = ''namespace-exists''"
    "CK_Name (checkGVisor api s) = ''gvisor-runtime''" "\<And>c. CK_Name (rbac_check api ns s c) = fst c"
    by (simp_all add: checkAPIReachability_def checkNamespaceExists_def checkGVisor_def rbac_check_def passed_check_def
        split: sum.splits prod.splits)
  have "map CK_Name (PF_Checks r) = [''api-reachability'', ''namespace-exists''] @ map fst rbac_checks @ [''gvisor-runtime'']"
    by (simp add: r handleClusterPreflight_def Let_def RunPreflightChecks_def checkRBAC_def names)
  moreover have "(\<exists>v. ca_version api s = Inr v) \<longleftrightarrow> \<not> isl (ca_version api s)"
    "(\<exists>n. ns_get client ns s = Inr n) \<longleftrightarrow> \<not> isl (ns_get client ns s)"
    by (cases "ca_version api s"; simp) (cases "ns_get client ns s"; simp)
  ultimately show ?thesis
    using g preflight_passed [of client api ns s]
    by (auto simp: r ops_guard_ok checkNamespaceAuthz_ok_iff rbac_checks_def)
qed

text \<open>A cluster without nodes whose API server lets the account do everything.\<close>

definition bare_api :: "(mem, int) cluster_api" where
  "bare_api =
     \<lparr>ca_version = (\<lambda>_. Inr ''v1.31''), ca_nodes = (\<lambda>_. Inr []), ca_runtime_classes = (\<lambda>_. Inr []),
      ca_pods = (\<lambda>_ _ _ _. Inr []), ca_netpols = (\<lambda>_ _. Inr []), ca_storage_classes = (\<lambda>_. Inr []),
      ca_csi_drivers = (\<lambda>_. Inr []), ca_crds = None, ca_quotas = (\<lambda>_ _. Inr []), ca_limits = (\<lambda>_ _. Inr []),
      ca_service = (\<lambda>_ _ _. Inl NotFound), ca_services = (\<lambda>_ _. Inr []), ca_access_review = (\<lambda>_ _ _ _ _. Inr True),
      ca_error = (\<lambda>_. ''error'')\<rparr>"

definition lab_cluster :: mem where
  "lab_cluster = empty_mem\<lparr>mem_ns := [(''lab'', (new_namespace ''lab'')\<lparr>N_Annotations := sample_enclave\<rparr>)]\<rparr>"

definition lab_preflight :: "ops_error + ClusterPreflightResult" where
  "lab_preflight =
     enclave_preflight mem_kube bare_api (Some (NewEvaluator DefaultMode)) (Some sample_deployer) ''lab'' lab_cluster"

theorem enclave_preflight_verdict_witness: "\<exists>r. lab_preflight = Inr r \<and> PF_AllPass r"
proof -
  have "\<not> isl lab_preflight" by code_simp
  then obtain r where r: "lab_preflight = Inr r" using sum.collapse(2) [of lab_preflight] by metis
  have v: "\<exists>v. ca_version bare_api lab_cluster = Inr v" "\<exists>n. ns_get mem_kube ''lab'' lab_cluster = Inr n"
    by (simp_all add: bare_api_def mem_kube_def fetch_def lab_cluster_def)
  have a: "\<And>n v g k. ca_access_review bare_api n v g k lab_cluster = Inr True" by (simp add: bare_api_def)
  show ?thesis
    using enclave_preflight_verdict [OF r [unfolded lab_preflight_def]] v a r by blast
qed

end
