(* ===== verification/Profile.thy ===== *)
theory Profile
  imports Preflight Enrich
begin

text \<open>
  \<^verbatim>\<open>pkg/k8s/profile.go\<close>, \<^verbatim>\<open>ServiceInfo\<close> of \<^verbatim>\<open>pkg/exoskeleton/controller.go\<close> and the tool \<^verbatim>\<open>cluster_profile\<close> of
  \<^verbatim>\<open>pkg/tools/clusterops.go\<close>: a snapshot of what the cluster offers. The snapshot is built field by field in
  the order of the code; some reads abort it, the others only add a warning. The theorems: exactly
  which failures abort, what the classification and the guidance say, and that the lists of the
  snapshot are sorted, free of duplicates and bounded. Non-ASCII punctuation of messages is written as its
  UTF-8 bytes (\<open>em_dash\<close>).
\<close>

section \<open>The snapshot\<close>

record ExoskeletonServiceInfo =
  XS_Name :: string
  XS_Host :: string
  XS_Port :: string
  XS_Protocol :: string
  XS_Available :: bool
  XS_SPIFFEEnabled :: bool

record ExoskeletonAuthInfo =
  XA_Issuer :: string
  XA_Enabled :: bool

record ExoskeletonInfo =
  XI_Services :: "ExoskeletonServiceInfo list"
  XI_Auth :: ExoskeletonAuthInfo
  XI_Enabled :: bool

record ObservabilityInfo =
  OI_CollectorEndpoint :: string
  OI_Namespace :: string
  OI_CollectorReady :: bool
  OI_SigNozAvailable :: bool
  OI_Available :: bool

record NodeInfo =
  NI_Labels :: strmap
  NI_Allocatable :: strmap
  NI_Capacity :: strmap
  NI_Name :: string
  NI_OS :: string
  NI_Arch :: string
  NI_KubeletVersion :: string
  NI_KernelVersion :: string
  NI_ContainerRuntime :: string
  NI_Taints :: "string list"
  NI_Ready :: bool

record RuntimeClassInfo =
  RI_Name :: string
  RI_Handler :: string

record CNIInfo =
  CNI_Name :: string
  CNI_Version :: string
  CNI_NetworkPolicySupported :: bool
  CNI_EgressSupported :: bool

record NetPolInfo =
  NPI_Supported :: bool
  NPI_InUse :: bool

record StorageClassInfo =
  SI_Name :: string
  SI_Provisioner :: string
  SI_ReclaimPolicy :: string
  SI_IsDefault :: bool
  SI_AllowVolumeExpansion :: bool
  SI_RWXCapable :: bool

record ExtensionSet =
  XT_OtherCRDGroups :: "string list"
  XT_Istio :: bool
  XT_CertManager :: bool
  XT_PrometheusOp :: bool
  XT_ExternalSecrets :: bool
  XT_ArgoCD :: bool
  XT_GatewayAPI :: bool
  XT_MetricsServer :: bool

record QuotaSummary =
  QS_CPURequest :: string
  QS_CPULimit :: string
  QS_MemoryRequest :: string
  QS_MemoryLimit :: string
  QS_MaxPods :: int

record LimitRangeSummary =
  LS_DefaultCPURequest :: string
  LS_DefaultCPULimit :: string
  LS_DefaultMemoryRequest :: string
  LS_DefaultMemoryLimit :: string

record ClusterProfile =
  CF_GeneratedAt :: int
  CF_CNI :: CNIInfo
  CF_LimitRange :: "LimitRangeSummary option"
  CF_Quota :: "QuotaSummary option"
  CF_Exoskeleton :: "ExoskeletonInfo option"
  CF_Observability :: "ObservabilityInfo option"
  CF_K8sVersion :: string
  CF_Distribution :: string
  CF_PodSecurity :: string
  CF_Namespace :: string
  CF_RWXNote :: string
  CF_RuntimeClasses :: "RuntimeClassInfo list"
  CF_Ingress :: "string list"
  CF_CSIDrivers :: "string list"
  CF_StorageClasses :: "StorageClassInfo list"
  CF_Nodes :: "NodeInfo list"
  CF_Guidance :: "string list"
  CF_Warnings :: "string list"
  CF_Extensions :: ExtensionSet
  CF_NetworkPolicy :: NetPolInfo
  CF_GVisor :: bool

definition no_extensions :: ExtensionSet where
  "no_extensions =
     \<lparr>XT_OtherCRDGroups = [], XT_Istio = False, XT_CertManager = False, XT_PrometheusOp = False,
      XT_ExternalSecrets = False, XT_ArgoCD = False, XT_GatewayAPI = False, XT_MetricsServer = False\<rparr>"

definition new_profile :: "int \<Rightarrow> string \<Rightarrow> ClusterProfile" where
  "new_profile now namespace =
     \<lparr>CF_GeneratedAt = now, CF_CNI = \<lparr>CNI_Name = [], CNI_Version = [], CNI_NetworkPolicySupported = False, CNI_EgressSupported = False\<rparr>,
      CF_LimitRange = None, CF_Quota = None, CF_Exoskeleton = None, CF_Observability = None, CF_K8sVersion = [],
      CF_Distribution = [], CF_PodSecurity = [], CF_Namespace = namespace, CF_RWXNote = [], CF_RuntimeClasses = [],
      CF_Ingress = [], CF_CSIDrivers = [], CF_StorageClasses = [], CF_Nodes = [], CF_Guidance = [], CF_Warnings = [],
      CF_Extensions = no_extensions, CF_NetworkPolicy = \<lparr>NPI_Supported = False, NPI_InUse = False\<rparr>, CF_GVisor = False\<rparr>"

definition em_dash :: string where "em_dash = [CHR '' '', CHR 0xE2, CHR 0x80, CHR 0x94, CHR '' '']"

definition warn :: "string \<Rightarrow> ClusterProfile \<Rightarrow> ClusterProfile" where
  "warn w p = p\<lparr>CF_Warnings := CF_Warnings p @ [w]\<rparr>"

section \<open>Version, nodes and runtime classes\<close>

definition profileVersion :: "('s, 'q) cluster_api \<Rightarrow> 's \<Rightarrow> ClusterProfile \<Rightarrow> ops_error + ClusterProfile" where
  "profileVersion api s p =
     (case ca_version api s of
        Inl err \<Rightarrow> Inl (OE_Read ''get server version'' err)
      | Inr v \<Rightarrow> Inr (p\<lparr>CF_K8sVersion := v\<rparr>))"

fun node_distribution :: "strmap \<Rightarrow> string option" where
  "node_distribution labels =
     (if labels ''eks.amazonaws.com/nodegroup'' \<noteq> None then Some ''eks''
      else if labels ''cloud.google.com/gke-nodepool'' \<noteq> None then Some ''gke''
      else if labels ''kubernetes.azure.com/agentpool'' \<noteq> None then Some ''aks''
      else if labels ''node.k0sproject.io/role'' \<noteq> None then Some ''k0s''
      else case labels ''node.kubernetes.io/instance-type'' of
        Some it \<Rightarrow> if Contains (ToLower it) ''k3s'' then Some ''k3s'' else None
      | None \<Rightarrow> None)"

fun detectDistribution :: "'q ClusterNode list \<Rightarrow> string" where
  "detectDistribution [] = ''vanilla''"
| "detectDistribution (n # ns) =
     (case node_distribution (Nd_Labels n) of Some d \<Rightarrow> d | None \<Rightarrow> detectDistribution ns)"

definition node_ready :: "'q ClusterNode \<Rightarrow> bool" where
  "node_ready n = list_ex (\<lambda>(t, st). t = ''Ready'' \<and> st = ''True'') (Nd_Conditions n)"

definition node_info :: "'q quantity_ops \<Rightarrow> 'q ClusterNode \<Rightarrow> NodeInfo" where
  "node_info Q n =
     \<lparr>NI_Labels = Nd_Labels n,
      NI_Allocatable = (\<lambda>k. map_option (q_String Q) (Nd_Allocatable n k)),
      NI_Capacity = (\<lambda>k. map_option (q_String Q) (Nd_Capacity n k)),
      NI_Name = Nd_Name n, NI_OS = Nd_OS n, NI_Arch = Nd_Arch n, NI_KubeletVersion = Nd_Kubelet n,
      NI_KernelVersion = Nd_Kernel n, NI_ContainerRuntime = Nd_Runtime n,
      NI_Taints = map (\<lambda>(k, v, e). k @ ''='' @ v @ '':'' @ e) (Nd_Taints n),
      NI_Ready = node_ready n\<rparr>"

definition profileNodes ::
  "('s, 'q) cluster_api \<Rightarrow> 'q quantity_ops \<Rightarrow> 's \<Rightarrow> ClusterProfile \<Rightarrow> ops_error + ClusterProfile" where
  "profileNodes api Q s p =
     (case ca_nodes api s of
        Inl err \<Rightarrow> Inl (OE_Read ''list nodes'' err)
      | Inr nodes \<Rightarrow> Inr (p\<lparr>CF_Nodes := CF_Nodes p @ map (node_info Q) nodes, CF_Distribution := detectDistribution nodes\<rparr>))"

definition profileRuntimeClasses :: "('s, 'q) cluster_api \<Rightarrow> 's \<Rightarrow> ClusterProfile \<Rightarrow> ops_error + ClusterProfile" where
  "profileRuntimeClasses api s p =
     (case ca_runtime_classes api s of
        Inl err \<Rightarrow> Inl (OE_Read ''list runtime classes'' err)
      | Inr rcs \<Rightarrow>
          Inr (p\<lparr>CF_RuntimeClasses := CF_RuntimeClasses p @ map (\<lambda>rc. \<lparr>RI_Name = RTC_Name rc, RI_Handler = RTC_Handler rc\<rparr>) rcs,
            CF_GVisor := CF_GVisor p \<or> list_ex (\<lambda>rc. RTC_Name rc = ''gvisor'' \<or> Contains (RTC_Handler rc) ''runsc'') rcs\<rparr>))"

section \<open>Network\<close>

definition cni :: "string \<Rightarrow> bool \<Rightarrow> CNIInfo" where
  "cni name supported = \<lparr>CNI_Name = name, CNI_Version = [], CNI_NetworkPolicySupported = supported, CNI_EgressSupported = supported\<rparr>"

definition pod_cni :: "'q ClusterPod \<Rightarrow> CNIInfo option" where
  "pod_cni pod =
     (let app = mget (CP_Labels pod) ''k8s-app''; name = CP_Name pod in
      if app = ''calico-node'' then Some (cni ''calico'' True)
      else if app = ''cilium'' then Some (cni ''cilium'' True)
      else if app = ''kube-router'' then Some (cni ''kube-router'' True)
      else if Contains name ''weave'' then Some (cni ''weave'' True)
      else if Contains name ''flannel'' then Some (cni ''flannel'' False)
      else if Contains name ''kindnet'' then Some (cni ''kindnet'' False)
      else None)"

fun detect_cni :: "'q ClusterPod list \<Rightarrow> CNIInfo" where
  "detect_cni [] = cni ''unknown'' False"
| "detect_cni (pod # pods) = (case pod_cni pod of Some c \<Rightarrow> c | None \<Rightarrow> detect_cni pods)"

definition profileCNI :: "('s, 'q) cluster_api \<Rightarrow> 's \<Rightarrow> ClusterProfile \<Rightarrow> ops_error + ClusterProfile" where
  "profileCNI api s p =
     (case ca_pods api ''kube-system'' [] [] s of
        Inl err \<Rightarrow> Inl (OE_Read ''list kube-system pods'' err)
      | Inr pods \<Rightarrow> Inr (p\<lparr>CF_CNI := detect_cni pods\<rparr>))"

definition profileNetworkPolicy :: "('s, 'q) cluster_api \<Rightarrow> 's \<Rightarrow> ClusterProfile \<Rightarrow> ClusterProfile" where
  "profileNetworkPolicy api s p =
     (let supported = CNI_NetworkPolicySupported (CF_CNI p) in
      case ca_netpols api [] s of
        Inr netpols \<Rightarrow> p\<lparr>CF_NetworkPolicy := \<lparr>NPI_Supported = supported, NPI_InUse = length netpols > 0\<rparr>\<rparr>
      | Inl err \<Rightarrow>
          warn (''network policy inspection failed: '' @ ca_error api err @ em_dash @ ''inUse may be inaccurate'')
            (p\<lparr>CF_NetworkPolicy := \<lparr>NPI_Supported = supported, NPI_InUse = False\<rparr>\<rparr>))"

section \<open>Storage\<close>

definition rwxKeywords :: "string list" where
  "rwxKeywords = [''efs'', ''nfs'', ''azurefile'', ''azure-file'', ''cephfs'', ''glusterfs'', ''rbd'']"

definition isRWXCapable :: "string \<Rightarrow> bool" where
  "isRWXCapable provisioner = list_ex (\<lambda>kw. Contains (ToLower provisioner) kw) rwxKeywords"

definition storage_info :: "StorageClass \<Rightarrow> StorageClassInfo" where
  "storage_info sc =
     \<lparr>SI_Name = STC_Name sc, SI_Provisioner = STC_Provisioner sc,
      SI_ReclaimPolicy = (case STC_ReclaimPolicy sc of None \<Rightarrow> ''Delete'' | Some r \<Rightarrow> r),
      SI_IsDefault = (mget (STC_Annotations sc) ''storageclass.kubernetes.io/is-default-class'' = ''true''),
      SI_AllowVolumeExpansion = (case STC_AllowVolumeExpansion sc of None \<Rightarrow> False | Some b \<Rightarrow> b),
      SI_RWXCapable = isRWXCapable (STC_Provisioner sc)\<rparr>"

definition profileStorageClasses :: "('s, 'q) cluster_api \<Rightarrow> 's \<Rightarrow> ClusterProfile \<Rightarrow> ops_error + ClusterProfile" where
  "profileStorageClasses api s p =
     (case ca_storage_classes api s of
        Inl err \<Rightarrow> Inl (OE_Read ''list storage classes'' err)
      | Inr scs \<Rightarrow>
          (let p' = p\<lparr>CF_StorageClasses := CF_StorageClasses p @ map storage_info scs\<rparr> in
           Inr (if length (CF_StorageClasses p') > 0
                then p'\<lparr>CF_RWXNote := ''rwxCapable is inferred from provisioner name only'' @ em_dash @
                       ''not verified. Actual RWX support depends on CSI driver version and cluster configuration.''\<rparr>
                else p')))"

definition profileCSIDrivers :: "('s, 'q) cluster_api \<Rightarrow> 's \<Rightarrow> ClusterProfile \<Rightarrow> ops_error + ClusterProfile" where
  "profileCSIDrivers api s p =
     (case ca_csi_drivers api s of
        Inl err \<Rightarrow> Inl (OE_Read ''list CSI drivers'' err)
      | Inr drivers \<Rightarrow> Inr (p\<lparr>CF_CSIDrivers := CF_CSIDrivers p @ drivers\<rparr>))"

section \<open>Ingress controllers and extensions\<close>

definition pod_ingress :: "'q ClusterPod \<Rightarrow> string option" where
  "pod_ingress pod =
     (let name = CP_Name pod; appName = mget (CP_Labels pod) ''app.kubernetes.io/name''; app = mget (CP_Labels pod) ''app'' in
      if appName = ''ingress-nginx'' \<or> Contains name ''ingress-nginx'' then Some ''nginx''
      else if appName = ''traefik'' \<or> app = ''traefik'' then Some ''traefik''
      else if app = ''istio-ingressgateway'' \<or> Contains name ''istio-ingressgateway'' then Some ''istio''
      else if appName = ''contour'' \<or> app = ''contour'' then Some ''contour''
      else None)"

text \<open>The keys of the map \<^verbatim>\<open>seen\<close> in some order, sorted afterwards.\<close>

definition profileIngress :: "('s, 'q) cluster_api \<Rightarrow> 's \<Rightarrow> ClusterProfile \<Rightarrow> ClusterProfile" where
  "profileIngress api s p =
     (case ca_pods api [] [] [] s of
        Inl err \<Rightarrow>
          warn (''ingress detection skipped: '' @ ca_error api err @ em_dash @ ''ingress list may be incomplete'') p
      | Inr pods \<Rightarrow> p\<lparr>CF_Ingress := sort (CF_Ingress p @ remdups (List.map_filter pod_ingress pods))\<rparr>)"

definition crd_group :: "string \<Rightarrow> string option" where
  "crd_group name = (case dropWhile (\<lambda>c. c \<noteq> CHR ''.'') name of [] \<Rightarrow> None | _ # grp \<Rightarrow> Some grp)"

definition classify_group :: "string \<Rightarrow> ExtensionSet \<Rightarrow> ExtensionSet" where
  "classify_group grp ext =
     (if HasSuffix grp ''.istio.io'' \<or> grp = ''networking.istio.io'' \<or> grp = ''security.istio.io'' then ext\<lparr>XT_Istio := True\<rparr>
      else if grp = ''cert-manager.io'' \<or> HasSuffix grp ''.cert-manager.io'' then ext\<lparr>XT_CertManager := True\<rparr>
      else if grp = ''monitoring.coreos.com'' then ext\<lparr>XT_PrometheusOp := True\<rparr>
      else if grp = ''external-secrets.io'' \<or> HasSuffix grp ''.external-secrets.io'' then ext\<lparr>XT_ExternalSecrets := True\<rparr>
      else if grp = ''argoproj.io'' then ext\<lparr>XT_ArgoCD := True\<rparr>
      else if grp = ''gateway.networking.k8s.io'' then ext\<lparr>XT_GatewayAPI := True\<rparr>
      else if grp \<in> set (XT_OtherCRDGroups ext) then ext
      else ext\<lparr>XT_OtherCRDGroups := XT_OtherCRDGroups ext @ [grp]\<rparr>)"

fun classify_crds :: "string list \<Rightarrow> ExtensionSet \<Rightarrow> ExtensionSet" where
  "classify_crds [] ext = ext"
| "classify_crds (name # names) ext =
     classify_crds names (case crd_group name of None \<Rightarrow> ext | Some grp \<Rightarrow> classify_group grp ext)"

definition maxOtherCRDGroups :: nat where "maxOtherCRDGroups = 20"

definition cut_groups :: "string list \<Rightarrow> string list" where
  "cut_groups gs =
     (if length gs > maxOtherCRDGroups
      then take maxOtherCRDGroups gs @ [''... and '' @ show_nat (length gs - maxOtherCRDGroups) @ '' more (truncated)'']
      else gs)"

definition classifyExtensions :: "string list \<Rightarrow> ExtensionSet" where
  "classifyExtensions crds =
     (let ext = classify_crds crds no_extensions
      in ext\<lparr>XT_OtherCRDGroups := cut_groups (sort (XT_OtherCRDGroups ext))\<rparr>)"

definition profileExtensions :: "('s, 'q) cluster_api \<Rightarrow> 's \<Rightarrow> ClusterProfile \<Rightarrow> ClusterProfile" where
  "profileExtensions api s p =
     (case ca_crds api of
        None \<Rightarrow> p
      | Some crds \<Rightarrow>
          (case crds s of
             Inl err \<Rightarrow>
               warn (''extension detection skipped: '' @ ca_error api err @ em_dash @ ''extensions may be incomplete'') p
           | Inr names \<Rightarrow>
               (let ext = classifyExtensions names;
                    ms = (case ca_pods api ''kube-system'' ''k8s-app=metrics-server'' [] s of
                            Inl _ \<Rightarrow> False | Inr pods \<Rightarrow> length pods > 0)
                in p\<lparr>CF_Extensions := (if ms then ext\<lparr>XT_MetricsServer := True\<rparr> else ext)\<rparr>)))"

section \<open>Details of one enclave\<close>

definition set_if :: "'q quantity_ops \<Rightarrow> (string \<rightharpoonup> 'q) \<Rightarrow> string \<Rightarrow> string \<Rightarrow> string" where
  "set_if Q m k old = (case m k of None \<Rightarrow> old | Some v \<Rightarrow> q_String Q v)"

definition add_quota :: "'q quantity_ops \<Rightarrow> QuotaSummary \<Rightarrow> 'q QuotaView \<Rightarrow> QuotaSummary" where
  "add_quota Q qs q =
     (let hard = QV_SpecHard q in
      \<lparr>QS_CPURequest = set_if Q hard ''requests.cpu'' (QS_CPURequest qs),
       QS_CPULimit = set_if Q hard ''limits.cpu'' (QS_CPULimit qs),
       QS_MemoryRequest = set_if Q hard ''requests.memory'' (QS_MemoryRequest qs),
       QS_MemoryLimit = set_if Q hard ''limits.memory'' (QS_MemoryLimit qs),
       QS_MaxPods = (case hard ''pods'' of None \<Rightarrow> QS_MaxPods qs | Some v \<Rightarrow> fst (q_AsInt64 Q v))\<rparr>)"

definition empty_quota :: QuotaSummary where
  "empty_quota = \<lparr>QS_CPURequest = [], QS_CPULimit = [], QS_MemoryRequest = [], QS_MemoryLimit = [], QS_MaxPods = 0\<rparr>"

definition add_limit :: "'q quantity_ops \<Rightarrow> LimitRangeSummary \<Rightarrow> 'q LimitItem \<Rightarrow> LimitRangeSummary" where
  "add_limit Q lr item =
     (if LI_Type item \<noteq> ''Container'' then lr
      else
        \<lparr>LS_DefaultCPURequest = set_if Q (LI_DefaultRequest item) ''cpu'' (LS_DefaultCPURequest lr),
         LS_DefaultCPULimit = set_if Q (LI_Default item) ''cpu'' (LS_DefaultCPULimit lr),
         LS_DefaultMemoryRequest = set_if Q (LI_DefaultRequest item) ''memory'' (LS_DefaultMemoryRequest lr),
         LS_DefaultMemoryLimit = set_if Q (LI_Default item) ''memory'' (LS_DefaultMemoryLimit lr)\<rparr>)"

definition empty_limits :: LimitRangeSummary where
  "empty_limits =
     \<lparr>LS_DefaultCPURequest = [], LS_DefaultCPULimit = [], LS_DefaultMemoryRequest = [], LS_DefaultMemoryLimit = []\<rparr>"

definition profileNamespaceDetails ::
  "'s kube \<Rightarrow> ('s, 'q) cluster_api \<Rightarrow> 'q quantity_ops \<Rightarrow> string \<Rightarrow> 's \<Rightarrow> ClusterProfile \<Rightarrow> ops_error + ClusterProfile" where
  "profileNamespaceDetails client api Q namespace s p =
     (if namespace = [] then Inr p
      else case ns_get client namespace s of
        Inl err \<Rightarrow> Inl (OE_Read (''get namespace '' @ quote_str namespace) err)
      | Inr ns \<Rightarrow>
          (let p1 = p\<lparr>CF_PodSecurity := mget (N_Labels ns) ''pod-security.kubernetes.io/enforce''\<rparr>;
               p2 = (case ca_quotas api namespace s of
                       Inl _ \<Rightarrow> p1
                     | Inr quotas \<Rightarrow>
                         if length quotas > 0 then p1\<lparr>CF_Quota := Some (foldl (add_quota Q) empty_quota quotas)\<rparr> else p1);
               p3 = (case ca_limits api namespace s of
                       Inl _ \<Rightarrow> p2
                     | Inr lrs \<Rightarrow>
                         if length lrs > 0 then p2\<lparr>CF_LimitRange := Some (foldl (add_limit Q) empty_limits (concat lrs))\<rparr> else p2)
           in Inr p3))"

section \<open>Observability\<close>

definition observabilityNamespace :: string where "observabilityNamespace = ''tentacular-observability''"

definition observabilityCollectorEndpoint :: string where
  "observabilityCollectorEndpoint = ''otel-collector.tentacular-observability.svc.cluster.local:4318''"

definition profileObservability :: "'s kube \<Rightarrow> ('s, 'q) cluster_api \<Rightarrow> 's \<Rightarrow> ClusterProfile \<Rightarrow> ClusterProfile" where
  "profileObservability client api s p =
     (case ns_get client observabilityNamespace s of
        Inl _ \<Rightarrow> p
      | Inr _ \<Rightarrow>
          (let info = \<lparr>OI_CollectorEndpoint = observabilityCollectorEndpoint, OI_Namespace = observabilityNamespace,
                       OI_CollectorReady = False, OI_SigNozAvailable = False, OI_Available = False\<rparr>
           in case ca_service api observabilityNamespace ''otel-collector'' s of
                Inl err \<Rightarrow>
                  (warn (''observability: otel-collector Service not found in '' @ observabilityNamespace @ '': '' @
                     ca_error api err) p)\<lparr>CF_Observability := Some info\<rparr>
              | Inr clusterIP \<Rightarrow>
                  (let (info1, p1) =
                         (if clusterIP \<noteq> [] \<and> clusterIP \<noteq> ''None''
                          then (info\<lparr>OI_Available := True, OI_CollectorReady := True\<rparr>, p)
                          else (info, warn (''observability: otel-collector Service exists but has no ClusterIP'' @ em_dash @
                                 ''collector may not be ready'') p));
                       signoz = (case ca_services api observabilityNamespace s of
                                   Inl _ \<Rightarrow> False
                                 | Inr names \<Rightarrow> list_ex (\<lambda>n. Contains n ''signoz'' \<or> Contains n ''query-service'') names)
                   in p1\<lparr>CF_Observability := Some (if signoz then info1\<lparr>OI_SigNozAvailable := True\<rparr> else info1)\<rparr>)))"

section \<open>Guidance\<close>

definition hint_if :: "bool \<Rightarrow> string \<Rightarrow> string list" where
  "hint_if b g = (if b then [g] else [])"

definition kind_hint :: string where
  "kind_hint =
     ''kind cluster detected: set runtime_class: '' @ quote_str [] @ '' and imagePullPolicy: IfNotPresent''"

definition rwx_hint :: "StorageClassInfo \<Rightarrow> string" where
  "rwx_hint sc =
     ''RWX storage (inferred) via StorageClass '' @ quote_str (SI_Name sc) @ em_dash @
     ''verify actual RWX support with the CSI driver before use''"

definition quota_hint :: "ClusterProfile \<Rightarrow> string list" where
  "quota_hint p =
     (case CF_Quota p of
        None \<Rightarrow> []
      | Some q \<Rightarrow>
          [''ResourceQuota active in namespace '' @ quote_str (CF_Namespace p) @ '': CPU limit '' @ QS_CPULimit q @
           '', memory limit '' @ QS_MemoryLimit q])"

definition deriveGuidance :: "ClusterProfile \<Rightarrow> string list" where
  "deriveGuidance p =
     (let rwx = filter SI_RWXCapable (CF_StorageClasses p) in
      [if CF_GVisor p then ''Use runtime_class: gvisor for untrusted workflow steps''
       else ''gVisor not available'' @ em_dash @ ''omit runtime_class or set it to '' @ quote_str []] @
      hint_if (CF_Distribution p = ''kind'') kind_hint @
      hint_if (CNI_Name (CF_CNI p) = ''unknown'')
        (''WARNING: CNI plugin could not be detected'' @ em_dash @
         ''NetworkPolicy support is unknown; verify manually before relying on egress controls'') @
      hint_if (XT_Istio (CF_Extensions p))
        (''Istio detected: NetworkPolicy egress rules must include namespaceSelector for istio-system; mTLS available between pods'') @
      hint_if (NPI_Supported (CF_NetworkPolicy p) \<and> \<not> NPI_InUse (CF_NetworkPolicy p))
        (''NetworkPolicy is supported but none exist yet'' @ em_dash @
         ''generated policies will be the first; test egress rules carefully'') @
      map rwx_hint rwx @
      hint_if (rwx = [])
        (''No RWX-capable StorageClass inferred'' @ em_dash @
         ''avoid shared volume mounts across replicas (verify with cluster admin)'') @
      quota_hint p @
      hint_if (CF_PodSecurity p = ''restricted'')
        (''Namespace enforces restricted PodSecurity'' @ em_dash @
         ''containers must run as non-root with no privilege escalation'') @
      hint_if (XT_CertManager (CF_Extensions p))
        (''cert-manager available'' @ em_dash @ ''TLS certificates can be provisioned automatically''))"

section \<open>The whole snapshot\<close>

definition ProfileCluster ::
  "'s kube \<Rightarrow> ('s, 'q) cluster_api \<Rightarrow> 'q quantity_ops \<Rightarrow> int \<Rightarrow> string \<Rightarrow> 's \<Rightarrow> ops_error + ClusterProfile" where
  "ProfileCluster client api Q now namespace s =
     (case profileVersion api s (new_profile now namespace) of Inl e \<Rightarrow> Inl e | Inr p1 \<Rightarrow>
      (case profileNodes api Q s p1 of Inl e \<Rightarrow> Inl e | Inr p2 \<Rightarrow>
      (case profileRuntimeClasses api s p2 of Inl e \<Rightarrow> Inl e | Inr p3 \<Rightarrow>
      (case profileCNI api s p3 of Inl e \<Rightarrow> Inl e | Inr p4 \<Rightarrow>
      (case profileStorageClasses api s (profileNetworkPolicy api s p4) of Inl e \<Rightarrow> Inl e | Inr p5 \<Rightarrow>
      (case profileCSIDrivers api s p5 of Inl e \<Rightarrow> Inl e | Inr p6 \<Rightarrow>
      (case profileNamespaceDetails client api Q namespace s (profileExtensions api s (profileIngress api s p6)) of
         Inl e \<Rightarrow> Inl e
       | Inr p7 \<Rightarrow>
           (let p8 = profileObservability client api s p7
            in Inr (p8\<lparr>CF_Guidance := deriveGuidance p8\<rparr>)))))))))"

definition service_info :: "string \<Rightarrow> string \<times> string \<Rightarrow> string \<Rightarrow> bool \<Rightarrow> bool \<Rightarrow> ExoskeletonServiceInfo" where
  "service_info name hp protocol available spiffe =
     \<lparr>XS_Name = name, XS_Host = fst hp, XS_Port = snd hp, XS_Protocol = protocol, XS_Available = available,
      XS_SPIFFEEnabled = spiffe\<rparr>"

definition ServiceInfo :: "(string \<Rightarrow> url option) \<Rightarrow> ('w, 'e) Controller \<Rightarrow> ExoskeletonInfo option" where
  "ServiceInfo urlParse c =
     (let cfg = c_cfg c; auth = ConfigAuthEnabled cfg in
      if \<not> Cfg_Enabled cfg then None
      else Some
        \<lparr>XI_Services =
           [service_info ''postgres'' (PostgresConfig.PC_Host (Cfg_Postgres cfg), PostgresConfig.PC_Port (Cfg_Postgres cfg))
              ''postgresql'' (PostgresAvailable c) False,
            service_info ''nats'' (parseHostPort urlParse (NC_URL (Cfg_NATS cfg))) ''nats'' (NATSAvailable c)
              (NC_SPIFFEEnabled (Cfg_NATS cfg)),
            service_info ''rustfs'' (parseHostPort urlParse (RustFSConfig.RC_Endpoint (Cfg_RustFS cfg))) ''s3'' (RustFSAvailable c) False,
            service_info ''spire'' ([], []) ''spiffe'' (SPIREAvailable c) False],
         XI_Auth = \<lparr>XA_Issuer = (if auth then IssuerURL (Cfg_Auth cfg) else []), XA_Enabled = auth\<rparr>,
         XI_Enabled = True\<rparr>)"

definition handleClusterProfile ::
  "'s kube \<Rightarrow> ('s, 'q) cluster_api \<Rightarrow> 'q quantity_ops \<Rightarrow> (string \<Rightarrow> url option) \<Rightarrow> ('w, 'e) Controller option \<Rightarrow>
     int \<Rightarrow> string \<Rightarrow> 's \<Rightarrow> ops_error + ClusterProfile" where
  "handleClusterProfile client api Q urlParse exoCtrl now namespace s =
     (case ProfileCluster client api Q now namespace s of
        Inl e \<Rightarrow> Inl e
      | Inr p \<Rightarrow>
          Inr (case exoCtrl of None \<Rightarrow> p | Some c \<Rightarrow> p\<lparr>CF_Exoskeleton := ServiceInfo urlParse c\<rparr>))"

text \<open>The tool does not look at the caller; the parameter \<open>deployer\<close> is the identity in its context.\<close>

definition cluster_profile ::
  "'s kube \<Rightarrow> ('s, 'q) cluster_api \<Rightarrow> 'q quantity_ops \<Rightarrow> (string \<Rightarrow> url option) \<Rightarrow> ('w, 'e) Controller option \<Rightarrow>
     Evaluator option \<Rightarrow> DeployerInfo option \<Rightarrow> int \<Rightarrow> string \<Rightarrow> 's \<Rightarrow> ops_error + ClusterProfile" where
  "cluster_profile client api Q urlParse exoCtrl eval deployer now namespace s =
     (case (if namespace \<noteq> [] then mapErr OE_Guard (CheckNamespace namespace) else Inr ()) of
        Inl e \<Rightarrow> Inl e
      | Inr _ \<Rightarrow> handleClusterProfile client api Q urlParse exoCtrl now namespace s)"

section \<open>What each part leaves alone\<close>

named_theorems profile_simps

lemma warn_fields [profile_simps]:
  "CF_Distribution (warn w p) = CF_Distribution p" "CF_CNI (warn w p) = CF_CNI p" "CF_Ingress (warn w p) = CF_Ingress p"
  "CF_Extensions (warn w p) = CF_Extensions p" "CF_Warnings (warn w p) = CF_Warnings p @ [w]"
  "CF_Observability (warn w p) = CF_Observability p"
  by (simp_all add: warn_def)

lemma profileNetworkPolicy_fields [profile_simps]:
  "CF_Distribution (profileNetworkPolicy api s p) = CF_Distribution p"
  "CF_CNI (profileNetworkPolicy api s p) = CF_CNI p"
  "CF_Ingress (profileNetworkPolicy api s p) = CF_Ingress p"
  "CF_Extensions (profileNetworkPolicy api s p) = CF_Extensions p"
  "length (CF_Warnings (profileNetworkPolicy api s p)) = length (CF_Warnings p) + of_bool (isl (ca_netpols api [] s))"
  by (simp_all add: profileNetworkPolicy_def Let_def warn_def split: sum.splits)

lemma profileIngress_fields [profile_simps]:
  "CF_Distribution (profileIngress api s p) = CF_Distribution p"
  "CF_CNI (profileIngress api s p) = CF_CNI p"
  "CF_Ingress (profileIngress api s p) =
     (case ca_pods api [] [] [] s of
        Inl _ \<Rightarrow> CF_Ingress p | Inr pods \<Rightarrow> sort (CF_Ingress p @ remdups (List.map_filter pod_ingress pods)))"
  "CF_Extensions (profileIngress api s p) = CF_Extensions p"
  "length (CF_Warnings (profileIngress api s p)) = length (CF_Warnings p) + of_bool (isl (ca_pods api [] [] [] s))"
  by (simp_all add: profileIngress_def warn_def split: sum.splits)

definition crds_fail :: "('s, 'q) cluster_api \<Rightarrow> 's \<Rightarrow> bool" where
  "crds_fail api s = (case ca_crds api of None \<Rightarrow> False | Some crds \<Rightarrow> isl (crds s))"

lemma profileExtensions_fields [profile_simps]:
  "CF_Distribution (profileExtensions api s p) = CF_Distribution p"
  "CF_CNI (profileExtensions api s p) = CF_CNI p"
  "CF_Ingress (profileExtensions api s p) = CF_Ingress p"
  "XT_OtherCRDGroups (CF_Extensions (profileExtensions api s p)) =
     (case ca_crds api of
        None \<Rightarrow> XT_OtherCRDGroups (CF_Extensions p)
      | Some crds \<Rightarrow> (case crds s of Inl _ \<Rightarrow> XT_OtherCRDGroups (CF_Extensions p)
                        | Inr names \<Rightarrow> XT_OtherCRDGroups (classifyExtensions names)))"
  "length (CF_Warnings (profileExtensions api s p)) = length (CF_Warnings p) + of_bool (crds_fail api s)"
  by (simp_all add: profileExtensions_def warn_def Let_def crds_fail_def split: sum.splits option.splits)

definition collector_missing :: "'s kube \<Rightarrow> ('s, 'q) cluster_api \<Rightarrow> 's \<Rightarrow> bool" where
  "collector_missing client api s \<longleftrightarrow>
     \<not> isl (ns_get client observabilityNamespace s) \<and>
     (case ca_service api observabilityNamespace ''otel-collector'' s of
        Inl _ \<Rightarrow> True | Inr clusterIP \<Rightarrow> clusterIP = [] \<or> clusterIP = ''None'')"

lemma profileObservability_fields [profile_simps]:
  "CF_Distribution (profileObservability client api s p) = CF_Distribution p"
  "CF_CNI (profileObservability client api s p) = CF_CNI p"
  "CF_Ingress (profileObservability client api s p) = CF_Ingress p"
  "CF_Extensions (profileObservability client api s p) = CF_Extensions p"
  "length (CF_Warnings (profileObservability client api s p)) =
     length (CF_Warnings p) + of_bool (collector_missing client api s)"
  by (simp_all add: profileObservability_def warn_def Let_def collector_missing_def split: sum.splits)

lemma profileNamespaceDetails_ok:
  assumes "profileNamespaceDetails client api Q ns s p = Inr p'"
  shows "CF_Distribution p' = CF_Distribution p" "CF_CNI p' = CF_CNI p" "CF_Ingress p' = CF_Ingress p"
    "CF_Extensions p' = CF_Extensions p" "CF_Warnings p' = CF_Warnings p"
  using assms by (auto simp: profileNamespaceDetails_def Let_def split: if_splits sum.splits)

lemma profileNamespaceDetails_isl:
  "isl (profileNamespaceDetails client api Q ns s p) \<longleftrightarrow> ns \<noteq> [] \<and> isl (ns_get client ns s)"
  by (simp add: profileNamespaceDetails_def Let_def split: sum.splits)

lemma ProfileCluster_ok:
  assumes "ProfileCluster client api Q now ns s = Inr p"
  obtains nodes pods where "ca_nodes api s = Inr nodes" "ca_pods api ''kube-system'' [] [] s = Inr pods"
    "CF_Distribution p = detectDistribution nodes" "CF_CNI p = detect_cni pods"
    "CF_Ingress p = (case ca_pods api [] [] [] s of Inl _ \<Rightarrow> [] | Inr ps \<Rightarrow> sort (remdups (List.map_filter pod_ingress ps)))"
    "XT_OtherCRDGroups (CF_Extensions p) =
       (case ca_crds api of None \<Rightarrow> [] | Some crds \<Rightarrow>
          (case crds s of Inl _ \<Rightarrow> [] | Inr names \<Rightarrow> XT_OtherCRDGroups (classifyExtensions names)))"
    "length (CF_Warnings p) =
       of_bool (isl (ca_netpols api [] s)) + of_bool (isl (ca_pods api [] [] [] s)) + of_bool (crds_fail api s) +
       of_bool (collector_missing client api s)"
    "CF_Guidance p = deriveGuidance p"
proof -
  from assms obtain p1 p2 p3 p4 p5 p6 p7 where
    1: "profileVersion api s (new_profile now ns) = Inr p1" and 2: "profileNodes api Q s p1 = Inr p2"
    and 3: "profileRuntimeClasses api s p2 = Inr p3" and 4: "profileCNI api s p3 = Inr p4"
    and 5: "profileStorageClasses api s (profileNetworkPolicy api s p4) = Inr p5"
    and 6: "profileCSIDrivers api s p5 = Inr p6"
    and 7: "profileNamespaceDetails client api Q ns s (profileExtensions api s (profileIngress api s p6)) = Inr p7"
    and p: "p = (profileObservability client api s p7)
      \<lparr>CF_Guidance := deriveGuidance (profileObservability client api s p7)\<rparr>"
    unfolding ProfileCluster_def by (auto simp: ok_simps Let_def)
  note n = profileNamespaceDetails_ok [OF 7]
  have E0: "CF_Ingress p1 = []" "CF_Extensions p1 = no_extensions" "CF_Warnings p1 = []"
    using 1 by (auto simp: profileVersion_def new_profile_def split: sum.splits)
  obtain nodes where N: "ca_nodes api s = Inr nodes" "CF_Distribution p2 = detectDistribution nodes"
    "CF_Ingress p2 = CF_Ingress p1" "CF_Extensions p2 = CF_Extensions p1" "CF_Warnings p2 = CF_Warnings p1"
    using 2 by (auto simp: profileNodes_def split: sum.splits)
  have E3: "CF_Distribution p3 = CF_Distribution p2" "CF_Ingress p3 = CF_Ingress p2" "CF_Extensions p3 = CF_Extensions p2"
    "CF_Warnings p3 = CF_Warnings p2"
    using 3 by (auto simp: profileRuntimeClasses_def split: sum.splits)
  obtain pods where P: "ca_pods api ''kube-system'' [] [] s = Inr pods" "CF_CNI p4 = detect_cni pods"
    "CF_Distribution p4 = CF_Distribution p3" "CF_Ingress p4 = CF_Ingress p3" "CF_Extensions p4 = CF_Extensions p3"
    "CF_Warnings p4 = CF_Warnings p3"
    using 4 by (auto simp: profileCNI_def split: sum.splits)
  let ?q = "profileNetworkPolicy api s p4"
  have E5: "CF_Distribution p5 = CF_Distribution ?q" "CF_CNI p5 = CF_CNI ?q" "CF_Ingress p5 = CF_Ingress ?q"
    "CF_Extensions p5 = CF_Extensions ?q" "CF_Warnings p5 = CF_Warnings ?q"
    using 5 by (auto simp: profileStorageClasses_def Let_def split: sum.splits if_splits)
  have E6: "CF_Distribution p6 = CF_Distribution p5" "CF_CNI p6 = CF_CNI p5" "CF_Ingress p6 = CF_Ingress p5"
    "CF_Extensions p6 = CF_Extensions p5" "CF_Warnings p6 = CF_Warnings p5"
    using 6 by (auto simp: profileCSIDrivers_def split: sum.splits)
  note all = p n E0 N E3 P E5 E6 profile_simps
  have g: "deriveGuidance (r\<lparr>CF_Guidance := x\<rparr>) = deriveGuidance r" for r :: ClusterProfile and x
    by (cases r) (simp only: deriveGuidance_def quota_hint_def ClusterProfile.simps)
  show thesis
    by (rule that [OF N(1) P(1)]) (simp_all add: all g no_extensions_def split: sum.splits option.splits)
qed

section \<open>Failures\<close>

text \<open>The snapshot fails exactly when the server version, the nodes, the runtime classes, the
  system pods, the storage classes, the CSI drivers or the requested namespace cannot be read. Every
  other failure, of the listing of network policies, of all pods, of the extensions or of the
  telemetry collector, costs one warning each and nothing else.\<close>

theorem ProfileCluster_failures:
  "(isl (ProfileCluster client api Q now ns s) \<longleftrightarrow>
      isl (ca_version api s) \<or> isl (ca_nodes api s) \<or> isl (ca_runtime_classes api s) \<or>
      isl (ca_pods api ''kube-system'' [] [] s) \<or> isl (ca_storage_classes api s) \<or> isl (ca_csi_drivers api s) \<or>
      (ns \<noteq> [] \<and> isl (ns_get client ns s))) \<and>
   (case ProfileCluster client api Q now ns s of
      Inl e \<Rightarrow> True
    | Inr p \<Rightarrow>
        length (CF_Warnings p) =
          of_bool (isl (ca_netpols api [] s)) + of_bool (isl (ca_pods api [] [] [] s)) + of_bool (crds_fail api s) +
          of_bool (collector_missing client api s))"
proof
  have parts: "\<And>p. isl (profileVersion api s p) = isl (ca_version api s)" "\<And>p. isl (profileNodes api Q s p) = isl (ca_nodes api s)"
    "\<And>p. isl (profileRuntimeClasses api s p) = isl (ca_runtime_classes api s)"
    "\<And>p. isl (profileCNI api s p) = isl (ca_pods api ''kube-system'' [] [] s)"
    "\<And>p. isl (profileStorageClasses api s p) = isl (ca_storage_classes api s)"
    "\<And>p. isl (profileCSIDrivers api s p) = isl (ca_csi_drivers api s)"
    by (simp_all add: profileVersion_def profileNodes_def profileRuntimeClasses_def profileCNI_def profileStorageClasses_def
        profileCSIDrivers_def Let_def split: sum.splits)
  have chain: "isl (case x of Inl e \<Rightarrow> Inl e | Inr a \<Rightarrow> f a) \<longleftrightarrow> isl x \<or> isl (f (projr x))"
    for x :: "ops_error + ClusterProfile" and f :: "ClusterProfile \<Rightarrow> ops_error + ClusterProfile"
    by (cases x) simp_all
  show "isl (ProfileCluster client api Q now ns s) \<longleftrightarrow>
      isl (ca_version api s) \<or> isl (ca_nodes api s) \<or> isl (ca_runtime_classes api s) \<or>
      isl (ca_pods api ''kube-system'' [] [] s) \<or> isl (ca_storage_classes api s) \<or> isl (ca_csi_drivers api s) \<or>
      (ns \<noteq> [] \<and> isl (ns_get client ns s))"
    by (simp add: ProfileCluster_def chain parts profileNamespaceDetails_isl Let_def)
qed (auto elim: ProfileCluster_ok split: sum.splits)

section \<open>Values\<close>

lemma detectDistribution_values: "detectDistribution nodes \<in> set [''eks'', ''gke'', ''aks'', ''k0s'', ''k3s'', ''vanilla'']"
  by (induction nodes rule: detectDistribution.induct) (auto split: option.splits if_splits)

lemma detect_cni_values:
  "CNI_Name (detect_cni pods) \<in> set [''calico'', ''cilium'', ''kube-router'', ''weave'', ''flannel'', ''kindnet'', ''unknown''] \<and>
   CNI_EgressSupported (detect_cni pods) = CNI_NetworkPolicySupported (detect_cni pods)"
proof (induction pods rule: detect_cni.induct)
  case (2 pod pods)
  then show ?case by (auto simp: pod_cni_def cni_def Let_def split: option.splits if_splits)
qed (simp add: cni_def)

lemma pod_ingress_values: "pod_ingress pod = Some i \<Longrightarrow> i \<in> set [''nginx'', ''traefik'', ''istio'', ''contour'']"
  by (auto simp: pod_ingress_def Let_def split: if_splits)

text \<open>The groups that no extension of the list claims.\<close>

definition other_group :: "string \<Rightarrow> bool" where
  "other_group g \<longleftrightarrow>
     \<not> HasSuffix g ''.istio.io'' \<and> g \<noteq> ''cert-manager.io'' \<and> \<not> HasSuffix g ''.cert-manager.io'' \<and>
     g \<noteq> ''monitoring.coreos.com'' \<and> g \<noteq> ''external-secrets.io'' \<and> \<not> HasSuffix g ''.external-secrets.io'' \<and>
     g \<noteq> ''argoproj.io'' \<and> g \<noteq> ''gateway.networking.k8s.io''"

definition other_groups :: "string list \<Rightarrow> string list" where
  "other_groups crds = sorted_list_of_set {g. other_group g \<and> g \<in> set (List.map_filter crd_group crds)}"

lemma istio_groups: "HasSuffix ''networking.istio.io'' ''.istio.io''" "HasSuffix ''security.istio.io'' ''.istio.io''"
  by code_simp+

lemma classify_group_others:
  "XT_OtherCRDGroups (classify_group g ext) =
     (if other_group g \<and> g \<notin> set (XT_OtherCRDGroups ext) then XT_OtherCRDGroups ext @ [g] else XT_OtherCRDGroups ext)"
  using istio_groups by (auto simp: classify_group_def other_group_def)

lemma classify_crds_others:
  "distinct (XT_OtherCRDGroups ext) \<Longrightarrow>
     distinct (XT_OtherCRDGroups (classify_crds crds ext)) \<and>
     set (XT_OtherCRDGroups (classify_crds crds ext)) =
       set (XT_OtherCRDGroups ext) \<union> {g. other_group g \<and> g \<in> set (List.map_filter crd_group crds)}"
proof (induction crds arbitrary: ext)
  case (Cons name names)
  show ?case
  proof (cases "crd_group name")
    case None
    with Cons show ?thesis by (simp add: List.map_filter_simps)
  next
    case (Some g)
    have "distinct (XT_OtherCRDGroups (classify_group g ext))" using Cons.prems by (simp add: classify_group_others)
    note IH = Cons.IH [OF this]
    show ?thesis using IH Some by (auto simp: List.map_filter_simps classify_group_others split: if_splits)
  qed
qed (simp add: List.map_filter_simps)

lemma classify_group_istio: "XT_Istio (classify_group g ext) \<longleftrightarrow> XT_Istio ext \<or> HasSuffix g ''.istio.io''"
  using istio_groups by (auto simp: classify_group_def)

lemma classify_crds_istio:
  "XT_Istio (classify_crds crds ext) \<longleftrightarrow>
     XT_Istio ext \<or> (\<exists>g. g \<in> set (List.map_filter crd_group crds) \<and> HasSuffix g ''.istio.io'')"
  by (induction crds ext rule: classify_crds.induct)
    (auto simp: List.map_filter_simps classify_group_istio split: option.splits)

text \<open>The extension summary names every CRD group that no known extension claims, once each and in
  order, up to twenty; beyond that it ends with a line that says how many were left out. It reports
  Istio exactly when some CRD is in a group of Istio.\<close>

theorem classifyExtensions_groups:
  "XT_OtherCRDGroups (classifyExtensions crds) =
    (if length (other_groups crds) \<le> 20 then other_groups crds
     else take 20 (other_groups crds) @ [''... and '' @ show_nat (length (other_groups crds) - 20) @ '' more (truncated)'']) \<and>
   (XT_Istio (classifyExtensions crds) \<longleftrightarrow> (\<exists>g. g \<in> set (List.map_filter crd_group crds) \<and> HasSuffix g ''.istio.io''))"
proof -
  let ?gs = "XT_OtherCRDGroups (classify_crds crds no_extensions)"
  have gs: "distinct ?gs" "set ?gs = {g. other_group g \<and> g \<in> set (List.map_filter crd_group crds)}"
    using classify_crds_others [of no_extensions crds] by (simp_all add: no_extensions_def)
  then have "sort ?gs = other_groups crds"
    unfolding other_groups_def gs(2) [symmetric] by (simp add: sorted_list_of_set_sort_remdups distinct_remdups_id)
  then have "XT_OtherCRDGroups (classifyExtensions crds) = cut_groups (other_groups crds)"
    by (simp add: classifyExtensions_def Let_def)
  moreover have "XT_Istio (classifyExtensions crds) \<longleftrightarrow> (\<exists>g. g \<in> set (List.map_filter crd_group crds) \<and> HasSuffix g ''.istio.io'')"
    by (simp add: classifyExtensions_def Let_def classify_crds_istio) (simp add: no_extensions_def)
  ultimately show ?thesis
    by (cases "length (other_groups crds) \<le> 20") (simp_all add: cut_groups_def maxOtherCRDGroups_def)
qed

lemma map_filter_values: "x \<in> set (List.map_filter f xs) \<Longrightarrow> \<exists>a \<in> set xs. f a = Some x"
  by (induction xs) (auto simp: List.map_filter_simps split: option.splits)

lemma classified_length: "length (XT_OtherCRDGroups (classifyExtensions crds)) \<le> 21"
  by (auto simp: classifyExtensions_def Let_def cut_groups_def maxOtherCRDGroups_def)


section \<open>Instances\<close>

definition int_ops :: "int quantity_ops" where
  "int_ops =
     \<lparr>q_String = (\<lambda>v. show_nat (nat v)), q_MilliValue = (\<lambda>v. 1000 * v), q_Value = id, q_AsInt64 = (\<lambda>v. (v, True)),
      q_IsZero = (\<lambda>v. v = 0), q_Add = (+), q_NewDecimalSI = 0, q_NewBinarySI = 0, q_Zero = 0\<rparr>"

definition pod_named :: "string \<Rightarrow> int ClusterPod" where
  "pod_named n = \<lparr>CP_Name = n, CP_Labels = Map.empty, CP_Requests = []\<rparr>"

definition lab_api :: "(mem, int) cluster_api" where
  "lab_api = bare_api
     \<lparr>ca_pods := (\<lambda>ns sel field s. Inr [pod_named ''kindnet-x'', pod_named ''ingress-nginx-1'', pod_named ''ingress-nginx-2'']),
      ca_netpols := (\<lambda>ns s. Inl (OtherErr ''forbidden'')), ca_crds := Some (\<lambda>s. Inr [''virtualservices.networking.istio.io'']),
      ca_quotas := (\<lambda>ns s. Inr [\<lparr>QV_SpecHard = [''limits.cpu'' \<mapsto> 8], QV_StatusHard = Map.empty, QV_StatusUsed = Map.empty\<rparr>])\<rparr>"

definition lab_profile :: "ops_error + ClusterProfile" where
  "lab_profile = ProfileCluster mem_kube lab_api int_ops 0 ''lab'' lab_cluster"


section \<open>A hint that is never given\<close>

text \<open>The guidance has a hint for clusters of \<^verbatim>\<open>kind\<close>, but the detection never answers \<^verbatim>\<open>kind\<close>, so no snapshot
  contains the hint, not even on a node that \<^verbatim>\<open>kind\<close> runs (its pods include the plugin \<^verbatim>\<open>kindnet\<close>).\<close>

lemma kind_hint_only_for_kind:
  assumes "kind_hint \<in> set (deriveGuidance p)"
  shows "CF_Distribution p = ''kind''"
proof (rule ccontr)
  assume "CF_Distribution p \<noteq> ''kind''"
  with assms have "\<exists>g \<in> set (deriveGuidance p). hd g = CHR ''k'' \<and> CF_Distribution p \<noteq> ''kind''"
    by (intro bexI [of _ kind_hint]) (simp_all add: kind_hint_def)
  then show False
    by (auto simp: deriveGuidance_def Let_def hint_if_def rwx_hint_def quota_hint_def split: if_splits option.splits)
qed

lemma kind_hint_never_given:
  assumes "ProfileCluster client api Q now ns s = Inr p"
  shows "kind_hint \<notin> set (CF_Guidance p)"
  using assms
proof (rule ProfileCluster_ok)
  fix nodes pods
  assume "CF_Distribution p = detectDistribution nodes" "CF_Guidance p = deriveGuidance p"
  then show ?thesis
    using kind_hint_only_for_kind [of p] detectDistribution_values [of nodes] by auto
qed

section \<open>A tool without authorization\<close>

text \<open>The tool checks neither the caller nor its rights. A stranger, whom the preflight tool turns away from
  the enclave, reads its quota through the profile.\<close>

definition lab_outsider :: DeployerInfo where
  "lab_outsider = sample_deployer\<lparr>Email := ''eve@x.org'', Subject := ''eve''\<rparr>"

lemma cluster_profile_unchecked:
  "isl (enclave_preflight mem_kube lab_api (Some (NewEvaluator DefaultMode)) (Some lab_outsider) ''lab'' lab_cluster)"
  "case cluster_profile mem_kube lab_api int_ops (\<lambda>_. None) (None :: (mem, string) Controller option)
      (Some (NewEvaluator DefaultMode)) (Some lab_outsider) 0 ''lab'' lab_cluster of
    Inl e \<Rightarrow> False
  | Inr p \<Rightarrow> map_option QS_CPULimit (CF_Quota p) = Some ''8''"
  by code_simp+

end
