(* ===== verification/Go_Float.thy ===== *)
theory Go_Float
  imports Complex_Main "HOL-Library.Log_Nat"
begin

text \<open>
  Go's \<^verbatim>\<open>float64\<close> as far as the percentages of the resource report need it: a finite double is the
  rational number it denotes, and an operation is the exact operation followed by \<open>f64\<close>, rounding
  to 53 significant bits, ties to even. Exponents stay far from the limits of the format there, so
  overflow and subnormal numbers are left out. Rounding is monotone and exact on integers
  up to \<open>2 ^ 53\<close>.
\<close>

definition round_even :: "rat \<Rightarrow> int" where
  "round_even r =
     (let f = \<lfloor>r\<rfloor>; d = r - of_int f
      in if d < 1 / 2 then f else if 1 / 2 < d then f + 1 else if even f then f else f + 1)"

text \<open>The exponent of the leading bit of a positive number.\<close>

definition binade :: "rat \<Rightarrow> int" where
  "binade x =
     (let (a, b) = quotient_of x; k = int (floorlog 2 (nat a)) - int (floorlog 2 (nat b))
      in if 2 powi k \<le> x then k else k - 1)"

definition f64_pos :: "rat \<Rightarrow> rat" where
  "f64_pos x = (let u = 2 powi (binade x - 52) in of_int (round_even (x / u)) * u)"

definition f64 :: "rat \<Rightarrow> rat" where
  "f64 x = (if x = 0 then 0 else if 0 < x then f64_pos x else - f64_pos (- x))"

section \<open>Rounding to integers\<close>

lemma round_even_of_int [simp]: "round_even (of_int n) = n"
  by (simp add: round_even_def Let_def)

lemma round_even_near: "\<bar>of_int (round_even r) - r\<bar> \<le> 1 / 2"
  using floor_correct [of r] by (auto simp: round_even_def Let_def abs_le_iff)

lemma round_even_mono:
  assumes "a \<le> b"
  shows "round_even a \<le> round_even b"
proof (cases "\<lfloor>a\<rfloor> = \<lfloor>b\<rfloor>")
  case True
  with assms show ?thesis by (auto simp: round_even_def Let_def)
next
  case False
  with assms have "\<lfloor>a\<rfloor> + 1 \<le> \<lfloor>b\<rfloor>" using floor_mono [OF assms] by linarith
  moreover have "round_even a \<le> \<lfloor>a\<rfloor> + 1" "\<lfloor>b\<rfloor> \<le> round_even b" by (simp_all add: round_even_def Let_def)
  ultimately show ?thesis by linarith
qed

section \<open>Binades\<close>

lemma binade_bounds:
  assumes "0 < x"
  shows "2 powi binade x \<le> x" and "x < 2 powi (binade x + 1)"
proof -
  obtain a b where q: "quotient_of x = (a, b)" by force
  have b: "0 < b" and x: "x = of_int a / of_int b"
    using quotient_of_denom_pos [OF q] quotient_of_div [OF q] by simp_all
  have a: "0 < a" using assms b unfolding x by (simp add: zero_less_divide_iff)
  let ?m = "floorlog 2 (nat a)" and ?n = "floorlog 2 (nat b)"
  have A: "2 ^ (?m - 1) \<le> nat a" "nat a < 2 ^ ?m" and B: "2 ^ (?n - 1) \<le> nat b" "nat b < 2 ^ ?n"
    using a b floorlog_bounds [of "nat a" 2] floorlog_bounds [of "nat b" 2] by simp_all
  have pos: "0 < ?m" "0 < ?n" using a b by (simp_all add: floorlog_def)
  have ra: "(2 :: rat) powi (int ?m - 1) \<le> of_int a" "of_int a < (2 :: rat) powi int ?m"
   and rb: "(2 :: rat) powi (int ?n - 1) \<le> of_int b" "of_int b < (2 :: rat) powi int ?n"
  proof -
    have c: "(2 :: rat) powi (int k - 1) = of_nat (2 ^ (k - 1))" if "0 < k" for k :: nat
      using that by (simp add: power_int_def of_nat_diff nat_diff_distrib)
    have d: "(2 :: rat) powi int k = of_nat (2 ^ k)" for k :: nat by simp
    have e: "(of_int a :: rat) = of_nat (nat a)" "(of_int b :: rat) = of_nat (nat b)" using a b by simp_all
    show "(2 :: rat) powi (int ?m - 1) \<le> of_int a" "of_int a < (2 :: rat) powi int ?m"
      "(2 :: rat) powi (int ?n - 1) \<le> of_int b" "of_int b < (2 :: rat) powi int ?n"
      unfolding c [OF pos(1)] c [OF pos(2)] d e of_nat_le_iff of_nat_less_iff using A B by simp_all
  qed
  let ?k = "int ?m - int ?n"
  have "(2 :: rat) powi (?k - 1) = 2 powi (int ?m - 1) / 2 powi int ?n"
    by (simp add: power_int_diff power_int_add algebra_simps)
  also have "\<dots> \<le> x" unfolding x using ra(1) rb(2) a b by (intro frac_le) simp_all
  finally have lo: "2 powi (?k - 1) \<le> x" .
  have "x \<le> of_int a / 2 powi (int ?n - 1)" unfolding x using rb(1) a by (intro frac_le) simp_all
  also have "\<dots> < 2 powi int ?m / 2 powi (int ?n - 1)" using ra(2) by (intro divide_strict_right_mono) simp_all
  also have "\<dots> = 2 powi (?k + 1)" by (simp add: power_int_diff power_int_add)
  finally have hi: "x < 2 powi (?k + 1)" .
  show "2 powi binade x \<le> x" "x < 2 powi (binade x + 1)"
    using lo hi by (auto simp: binade_def q Let_def)
qed

lemma powi_two_mono: "a \<le> b \<Longrightarrow> (2 :: rat) powi a \<le> 2 powi b"
  by (simp add: power_int_increasing)

lemma binade_mono:
  assumes "0 < x" and "x \<le> y"
  shows "binade x \<le> binade y"
proof (rule ccontr)
  assume "\<not> binade x \<le> binade y"
  then have "(2 :: rat) powi (binade y + 1) \<le> 2 powi binade x" by (intro powi_two_mono) simp
  moreover have "y < 2 powi (binade y + 1)" "2 powi binade x \<le> x"
    using assms by (simp_all add: binade_bounds)
  ultimately show False using assms(2) by simp
qed

lemma f64_pos_bounds:
  assumes "0 < x"
  shows "2 powi binade x \<le> f64_pos x" and "f64_pos x \<le> 2 powi (binade x + 1)"
proof -
  let ?u = "(2 :: rat) powi (binade x - 52)"
  have u: "0 < ?u" by simp
  have lo: "of_int (2 ^ 52) * ?u = 2 powi binade x" and hi: "of_int (2 ^ 53) * ?u = 2 powi (binade x + 1)"
    by (simp_all add: power_int_diff power_int_add)
  have "of_int (2 ^ 52) \<le> x / ?u" "x / ?u \<le> of_int (2 ^ 53)"
    using binade_bounds [OF assms] u lo hi by (simp_all only: pos_le_divide_eq pos_divide_le_eq less_imp_le)
  then have "2 ^ 52 \<le> round_even (x / ?u)" "round_even (x / ?u) \<le> 2 ^ 53"
    using round_even_mono by (metis round_even_of_int)+
  then have "(of_int (2 ^ 52) :: rat) \<le> of_int (round_even (x / ?u))" "(of_int (round_even (x / ?u)) :: rat) \<le> of_int (2 ^ 53)"
    by (simp_all only: of_int_le_iff)
  then show "2 powi binade x \<le> f64_pos x" "f64_pos x \<le> 2 powi (binade x + 1)"
    unfolding f64_pos_def Let_def lo [symmetric] hi [symmetric] using u by (simp_all only: mult_right_mono less_imp_le)
qed

lemma f64_pos_mono:
  assumes "0 < x" and "x \<le> y"
  shows "f64_pos x \<le> f64_pos y"
proof (cases "binade x = binade y")
  case True
  have "round_even (x / u) \<le> round_even (y / u)" if "0 < u" for u
    using assms that by (intro round_even_mono divide_right_mono) simp_all
  with True show ?thesis by (simp add: f64_pos_def Let_def)
next
  case False
  with binade_mono [OF assms] have "(2 :: rat) powi (binade x + 1) \<le> 2 powi binade y" by (intro powi_two_mono) simp
  with f64_pos_bounds [of x] f64_pos_bounds [of y] assms show ?thesis by simp
qed

lemma f64_mono: "x \<le> y \<Longrightarrow> f64 x \<le> f64 y"
proof -
  assume xy: "x \<le> y"
  have pos: "0 < z \<Longrightarrow> 0 < f64_pos z" for z
    using f64_pos_bounds(1) [of z] by (meson less_le_trans zero_less_numeral zero_less_power_int)
  show ?thesis
    using xy f64_pos_mono [of x y] f64_pos_mono [of "- y" "- x"] pos [of x] pos [of y] pos [of "- x"] pos [of "- y"]
    by (auto simp: f64_def)
qed

lemma f64_of_int:
  assumes "0 \<le> n" and "n \<le> 2 ^ 53"
  shows "f64 (of_int n) = of_int n"
proof (cases "n = 0")
  case False
  with assms have n: "(0 :: rat) < of_int n" by simp
  let ?e = "binade (of_int n) - 52"
  have "\<exists>m. (of_int n :: rat) / 2 powi ?e = of_int m"
  proof (cases "?e \<le> 0")
    case True
    then have "(2 :: rat) powi ?e = inverse (2 ^ nat (- ?e))" by (auto simp: power_int_def power_one_over inverse_eq_divide)
    then have "(of_int n :: rat) / 2 powi ?e = of_int (n * 2 ^ nat (- ?e))" by (simp add: field_simps)
    then show ?thesis by blast
  next
    case False
    then have "(2 :: rat) powi 53 \<le> 2 powi binade (of_int n)" by (intro powi_two_mono) simp
    also have "\<dots> \<le> of_int n" by (rule binade_bounds(1) [OF n])
    finally have "(of_int (2 ^ 53) :: rat) \<le> of_int n" by simp
    then have "n = 2 ^ 53" using assms(2) by (simp only: of_int_le_iff)
    moreover have "(2 :: rat) powi binade (of_int n) < 2 powi 54"
      using binade_bounds(1) [OF n] \<open>n = 2 ^ 53\<close> by simp
    then have "binade (of_int n) < 54" using powi_two_mono [of 54 "binade (of_int n)"] by (meson not_le)
    then have "?e = 1" using False by linarith
    ultimately have "(of_int n :: rat) / 2 powi ?e = of_int (2 ^ 52)" by (simp only:) simp
    then show ?thesis by blast
  qed
  then obtain m where m: "(of_int n :: rat) / 2 powi ?e = of_int m" by blast
  then have "of_int m * 2 powi ?e = (of_int n :: rat)" by (simp add: field_simps)
  with n show ?thesis by (simp add: f64_def f64_pos_def Let_def m)
qed (simp add: f64_def)

lemma f64_zero [simp]: "f64 0 = 0"
  by (simp add: f64_def)

lemma f64_nonneg: "0 \<le> x \<Longrightarrow> 0 \<le> f64 x"
  using f64_mono [of 0 x] by simp

lemma f64_le_int: "x \<le> of_int n \<Longrightarrow> 0 \<le> n \<Longrightarrow> n \<le> 2 ^ 53 \<Longrightarrow> f64 x \<le> of_int n"
  using f64_mono [of x "of_int n"] f64_of_int by simp

end
