(* ===== verification/Cluster_Health.thy ===== *)
theory Cluster_Health
  imports Profile Go_Float
begin

text \<open>
  \<^verbatim>\<open>pkg/tools/health.go\<close>: the state of the nodes, the use an enclave makes of its quota, and the totals of the
  cluster. Percentages are doubles (theory \<open>Go_Float\<close>); what a sum of quantities means is the law
  \<open>q_sums\<close>. The theorems: percentages of a respected quota lie between 0 and 100 and reach 100 when the
  quota is used up, and the two cluster-wide reports agree and add up.
\<close>

section \<open>Nodes\<close>

record HealthNodeInfo =
  HN_Name :: string
  HN_CPUCapacity :: string
  HN_MemCapacity :: string
  HN_CPUAllocatable :: string
  HN_MemAllocatable :: string
  HN_KubeletVersion :: string
  HN_Conditions :: "(string \<times> string) list"
  HN_Ready :: bool

fun node_conditions :: "(string \<times> string) list \<Rightarrow> bool \<Rightarrow> (string \<times> string) list \<Rightarrow> bool \<times> (string \<times> string) list" where
  "node_conditions [] ready conditions = (ready, conditions)"
| "node_conditions ((t, st) # cs) ready conditions =
     node_conditions cs (if t = ''Ready'' \<and> st = ''True'' then True else ready)
       (if t \<noteq> ''Ready'' \<and> st \<noteq> ''False'' then conditions @ [(t, st)] else conditions)"

definition show_quantity :: "'q quantity_ops \<Rightarrow> (string \<rightharpoonup> 'q) \<Rightarrow> string \<Rightarrow> string" where
  "show_quantity Q m k = (case m k of None \<Rightarrow> [] | Some v \<Rightarrow> q_String Q v)"

definition health_node :: "'q quantity_ops \<Rightarrow> 'q ClusterNode \<Rightarrow> HealthNodeInfo" where
  "health_node Q n =
     (let (ready, conditions) = node_conditions (Nd_Conditions n) False [] in
      \<lparr>HN_Name = Nd_Name n,
       HN_CPUCapacity = show_quantity Q (Nd_Capacity n) ''cpu'',
       HN_MemCapacity = show_quantity Q (Nd_Capacity n) ''memory'',
       HN_CPUAllocatable = show_quantity Q (Nd_Allocatable n) ''cpu'',
       HN_MemAllocatable = show_quantity Q (Nd_Allocatable n) ''memory'',
       HN_KubeletVersion = Nd_Kubelet n, HN_Conditions = conditions, HN_Ready = ready\<rparr>)"

definition handleHealthNodes ::
  "('s, 'q) cluster_api \<Rightarrow> 'q quantity_ops \<Rightarrow> 's \<Rightarrow> ops_error + HealthNodeInfo list" where
  "handleHealthNodes api Q s =
     (case ca_nodes api s of
        Inl err \<Rightarrow> Inl (OE_Read ''list nodes'' err)
      | Inr nodes \<Rightarrow> Inr (map (health_node Q) nodes))"

section \<open>Use of the quota\<close>

record HealthNsUsageResult =
  HU_Namespace :: string
  HU_CPUUsed :: string
  HU_CPULimit :: string
  HU_MemUsed :: string
  HU_MemLimit :: string
  HU_PodCount :: int
  HU_PodLimit :: int
  HU_CPUPct :: rat
  HU_MemPct :: rat
  HU_PodPct :: rat

definition percent :: "int \<Rightarrow> int \<Rightarrow> rat" where
  "percent used limit = f64 (f64 (f64 (of_int used) / f64 (of_int limit)) * 100)"

definition pctOf :: "'q quantity_ops \<Rightarrow> 'q \<Rightarrow> 'q \<Rightarrow> rat" where
  "pctOf Q used limit =
     (let limitVal = q_MilliValue Q limit
      in if limitVal = 0 then 0 else percent (q_MilliValue Q used) limitVal)"

definition qget :: "'q quantity_ops \<Rightarrow> (string \<rightharpoonup> 'q) \<Rightarrow> string \<Rightarrow> 'q" where
  "qget Q m k = (case m k of None \<Rightarrow> q_Zero Q | Some v \<Rightarrow> v)"

text \<open>The two keys that are reported: those of the requests, or those of the limits when the quota does
  not bound the requests.\<close>

definition quota_keys :: "'q quantity_ops \<Rightarrow> 'q QuotaView \<Rightarrow> string \<times> string" where
  "quota_keys Q quota =
     (if q_IsZero Q (qget Q (QV_StatusHard quota) ''requests.cpu'') then (''limits.cpu'', ''limits.memory'')
      else (''requests.cpu'', ''requests.memory''))"

definition handleHealthNsUsage ::
  "('s, 'q) cluster_api \<Rightarrow> 'q quantity_ops \<Rightarrow> string \<Rightarrow> 's \<Rightarrow> ops_error + HealthNsUsageResult" where
  "handleHealthNsUsage api Q namespace s =
     (case ca_quotas api namespace s of
        Inl err \<Rightarrow> Inl (OE_Read (''list resource quotas in namespace '' @ quote_str namespace) err)
      | Inr [] \<Rightarrow>
          (case ca_pods api namespace [] [] s of
             Inl err \<Rightarrow> Inl (OE_Read (''list pods in namespace '' @ quote_str namespace) err)
           | Inr pods \<Rightarrow>
               Inr \<lparr>HU_Namespace = namespace, HU_CPUUsed = [], HU_CPULimit = ''unlimited'', HU_MemUsed = [],
                    HU_MemLimit = ''unlimited'', HU_PodCount = int (length pods), HU_PodLimit = -1,
                    HU_CPUPct = 0, HU_MemPct = 0, HU_PodPct = 0\<rparr>)
      | Inr (quota # _) \<Rightarrow>
          (let (cpu, mem) = quota_keys Q quota;
               cpuUsed = qget Q (QV_StatusUsed quota) cpu; cpuLimit = qget Q (QV_StatusHard quota) cpu;
               memUsed = qget Q (QV_StatusUsed quota) mem; memLimit = qget Q (QV_StatusHard quota) mem;
               podUsed = q_Value Q (qget Q (QV_StatusUsed quota) ''pods'');
               podLimit = q_Value Q (qget Q (QV_StatusHard quota) ''pods'')
           in Inr \<lparr>HU_Namespace = namespace, HU_CPUUsed = q_String Q cpuUsed, HU_CPULimit = q_String Q cpuLimit,
                   HU_MemUsed = q_String Q memUsed, HU_MemLimit = q_String Q memLimit, HU_PodCount = podUsed,
                   HU_PodLimit = podLimit, HU_CPUPct = pctOf Q cpuUsed cpuLimit, HU_MemPct = pctOf Q memUsed memLimit,
                   HU_PodPct = (if podLimit > 0 then percent podUsed podLimit else 0)\<rparr>))"

definition health_enclave_usage ::
  "'s kube \<Rightarrow> ('s, 'q) cluster_api \<Rightarrow> 'q quantity_ops \<Rightarrow> Evaluator option \<Rightarrow> DeployerInfo option \<Rightarrow> string \<Rightarrow> 's \<Rightarrow>
     ops_error + HealthNsUsageResult" where
  "health_enclave_usage client api Q eval deployer namespace s =
     (case ops_guard client eval deployer namespace s of
        Inl e \<Rightarrow> Inl e
      | Inr _ \<Rightarrow> handleHealthNsUsage api Q namespace s)"

section \<open>Totals\<close>

record HealthClusterSummaryResult =
  HS_CPUCapacity :: string
  HS_CPUAllocatable :: string
  HS_CPURequested :: string
  HS_MemCapacity :: string
  HS_MemAllocatable :: string
  HS_MemRequested :: string
  HS_TotalNodes :: nat
  HS_ReadyNodes :: nat
  HS_TotalPods :: nat

definition add_quantity :: "'q quantity_ops \<Rightarrow> string \<Rightarrow> 'q \<Rightarrow> (string \<rightharpoonup> 'q) \<Rightarrow> 'q" where
  "add_quantity Q k acc m = (case m k of None \<Rightarrow> acc | Some v \<Rightarrow> q_Add Q acc v)"

fun ready_nodes :: "'q ClusterNode list \<Rightarrow> nat" where
  "ready_nodes [] = 0"
| "ready_nodes (n # ns) = of_bool (node_ready n) + ready_nodes ns"

definition handleHealthClusterSummary ::
  "('s, 'q) cluster_api \<Rightarrow> 'q quantity_ops \<Rightarrow> 's \<Rightarrow> ops_error + HealthClusterSummaryResult" where
  "handleHealthClusterSummary api Q s =
     (case ca_nodes api s of
        Inl err \<Rightarrow> Inl (OE_Read ''list nodes'' err)
      | Inr nodes \<Rightarrow>
          (case ca_pods api [] [] ''status.phase=Running'' s of
             Inl err \<Rightarrow> Inl (OE_Read ''list pods'' err)
           | Inr pods \<Rightarrow>
               (let requests = concat (map CP_Requests pods) in
                Inr
                 \<lparr>HS_CPUCapacity = q_String Q (foldl (add_quantity Q ''cpu'') (q_NewDecimalSI Q) (map Nd_Capacity nodes)),
                  HS_CPUAllocatable = q_String Q (foldl (add_quantity Q ''cpu'') (q_NewDecimalSI Q) (map Nd_Allocatable nodes)),
                  HS_CPURequested = q_String Q (foldl (add_quantity Q ''cpu'') (q_NewDecimalSI Q) requests),
                  HS_MemCapacity = q_String Q (foldl (add_quantity Q ''memory'') (q_NewBinarySI Q) (map Nd_Capacity nodes)),
                  HS_MemAllocatable = q_String Q (foldl (add_quantity Q ''memory'') (q_NewBinarySI Q) (map Nd_Allocatable nodes)),
                  HS_MemRequested = q_String Q (foldl (add_quantity Q ''memory'') (q_NewBinarySI Q) requests),
                  HS_TotalNodes = length nodes, HS_ReadyNodes = ready_nodes nodes, HS_TotalPods = length pods\<rparr>)))"

section \<open>Percentages\<close>

lemma percent_bounds:
  assumes "0 \<le> used" and "used \<le> limit" and "0 < limit"
  shows "0 \<le> percent used limit" and "percent used limit \<le> 100"
proof -
  let ?u = "f64 (of_int used)" and ?l = "f64 (of_int limit)"
  have "0 \<le> ?u" "?u \<le> ?l" using assms by (simp_all add: f64_nonneg f64_mono)
  moreover have "1 \<le> ?l" using f64_mono [of 1 "of_int limit"] f64_of_int [of 1] assms(3) by simp
  ultimately have q: "0 \<le> ?u / ?l" "?u / ?l \<le> of_int 1" by (simp_all add: divide_le_eq_1)
  have "0 \<le> f64 (?u / ?l)" using q(1) by (rule f64_nonneg)
  moreover have "f64 (?u / ?l) \<le> of_int 1" using q(2) by (rule f64_le_int) simp_all
  ultimately have "0 \<le> f64 (?u / ?l) * 100" "f64 (?u / ?l) * 100 \<le> of_int 100" by simp_all
  then show "0 \<le> percent used limit" "percent used limit \<le> 100"
    unfolding percent_def using f64_nonneg f64_le_int [of _ 100] by simp_all
qed

lemma percent_full:
  assumes "0 < limit"
  shows "percent limit limit = 100"
proof -
  have "1 \<le> f64 (of_int limit)" using f64_mono [of 1 "of_int limit"] f64_of_int [of 1] assms by simp
  then show ?thesis using f64_of_int [of 1] f64_of_int [of 100] by (simp add: percent_def)
qed

lemma pctOf_bounds:
  assumes "0 \<le> q_MilliValue Q u" and "q_MilliValue Q u \<le> q_MilliValue Q l"
  shows "0 \<le> pctOf Q u l \<and> pctOf Q u l \<le> 100"
  using assms percent_bounds [of "q_MilliValue Q u" "q_MilliValue Q l"] by (auto simp: pctOf_def Let_def)

lemma pctOf_extremes:
  "q_MilliValue Q l = 0 \<Longrightarrow> pctOf Q u l = 0"
  "q_MilliValue Q l \<noteq> 0 \<Longrightarrow> q_MilliValue Q u = q_MilliValue Q l \<Longrightarrow> 0 \<le> q_MilliValue Q u \<Longrightarrow> pctOf Q u l = 100"
  using percent_full [of "q_MilliValue Q l"] by (simp_all add: pctOf_def)

text \<open>The use a quota records is between zero and its bound.\<close>

definition respected :: "'q quantity_ops \<Rightarrow> 'q QuotaView \<Rightarrow> bool" where
  "respected Q q \<longleftrightarrow>
     (\<forall>k. let used = qget Q (QV_StatusUsed q) k; hard = qget Q (QV_StatusHard q) k in
        0 \<le> q_MilliValue Q used \<and> q_MilliValue Q used \<le> q_MilliValue Q hard \<and>
        0 \<le> q_Value Q used \<and> q_Value Q used \<le> q_Value Q hard)"

lemma handleHealthNsUsage_quota:
  assumes "handleHealthNsUsage api Q ns s = Inr r" and "ca_quotas api ns s = Inr (q # qs)" and "respected Q q"
  shows "(\<forall>x \<in> {HU_CPUPct r, HU_MemPct r, HU_PodPct r}. 0 \<le> x \<and> x \<le> 100) \<and>
    HU_CPUPct r = pctOf Q (qget Q (QV_StatusUsed q) (fst (quota_keys Q q))) (qget Q (QV_StatusHard q) (fst (quota_keys Q q)))"
proof -
  note w = assms(3) [unfolded respected_def Let_def, rule_format]
  have pods: "0 \<le> percent (q_Value Q (qget Q (QV_StatusUsed q) ''pods'')) (q_Value Q (qget Q (QV_StatusHard q) ''pods'')) \<and>
      percent (q_Value Q (qget Q (QV_StatusUsed q) ''pods'')) (q_Value Q (qget Q (QV_StatusHard q) ''pods'')) \<le> 100"
    if "0 < q_Value Q (qget Q (QV_StatusHard q) ''pods'')"
    using w [of "''pods''"] that percent_bounds by blast
  have pct: "0 \<le> pctOf Q (qget Q (QV_StatusUsed q) k) (qget Q (QV_StatusHard q) k)"
    "pctOf Q (qget Q (QV_StatusUsed q) k) (qget Q (QV_StatusHard q) k) \<le> 100" for k
    using w [of k] pctOf_bounds [of Q "qget Q (QV_StatusUsed q) k" "qget Q (QV_StatusHard q) k"] by simp_all
  show ?thesis
    using assms(1,2) pods by (auto simp: handleHealthNsUsage_def Let_def pct split: prod.splits)
qed


section \<open>Totals add up\<close>

lemma node_conditions_ready: "fst (node_conditions cs ready acc) \<longleftrightarrow> ready \<or> list_ex (\<lambda>(t, st). t = ''Ready'' \<and> st = ''True'') cs"
  by (induction cs ready acc rule: node_conditions.induct) auto

lemma health_node_ready: "HN_Ready (health_node Q n) = node_ready n"
  using node_conditions_ready [of "Nd_Conditions n" False "[]"]
  by (simp add: health_node_def node_ready_def split_beta)

lemma ready_nodes_filter: "ready_nodes nodes = length (filter node_ready nodes)"
  by (induction nodes) simp_all

text \<open>\<open>amount\<close> is the number a quantity stands for.\<close>

definition q_sums :: "'q quantity_ops \<Rightarrow> ('q \<Rightarrow> rat) \<Rightarrow> bool" where
  "q_sums Q amount \<longleftrightarrow>
     (\<forall>a b. amount (q_Add Q a b) = amount a + amount b) \<and> amount (q_NewDecimalSI Q) = 0 \<and> amount (q_NewBinarySI Q) = 0"

definition amount_at :: "('q \<Rightarrow> rat) \<Rightarrow> string \<Rightarrow> (string \<rightharpoonup> 'q) \<Rightarrow> rat" where
  "amount_at amount k m = (case m k of None \<Rightarrow> 0 | Some v \<Rightarrow> amount v)"

lemma foldl_add_quantity:
  assumes "q_sums Q amount"
  shows "amount (foldl (add_quantity Q k) acc ms) = amount acc + sum_list (map (amount_at amount k) ms)"
  using assms by (induction ms arbitrary: acc) (auto simp: add_quantity_def amount_at_def q_sums_def split: option.splits)

text \<open>The summary of the cluster agrees with the list of its nodes: it counts the nodes listed and
  those listed as ready, and its capacity and its requests are the sums over the nodes and over the
  containers of the running pods.\<close>

theorem cluster_reports_agree:
  assumes "q_sums Q amount" and "handleHealthClusterSummary api Q s = Inr r" and "handleHealthNodes api Q s = Inr hs"
  shows "\<exists>nodes pods. ca_nodes api s = Inr nodes \<and> ca_pods api [] [] ''status.phase=Running'' s = Inr pods \<and>
    HS_TotalNodes r = length hs \<and> HS_ReadyNodes r = length (filter HN_Ready hs) \<and> HS_ReadyNodes r \<le> HS_TotalNodes r \<and>
    HS_TotalPods r = length pods \<and>
    (\<exists>q. HS_CPUCapacity r = q_String Q q \<and> amount q = (\<Sum>n \<leftarrow> nodes. amount_at amount ''cpu'' (Nd_Capacity n))) \<and>
    (\<exists>q. HS_MemCapacity r = q_String Q q \<and> amount q = (\<Sum>n \<leftarrow> nodes. amount_at amount ''memory'' (Nd_Capacity n))) \<and>
    (\<exists>q. HS_CPURequested r = q_String Q q \<and> amount q = (\<Sum>p \<leftarrow> pods. \<Sum>c \<leftarrow> CP_Requests p. amount_at amount ''cpu'' c)) \<and>
    (\<exists>q. HS_MemRequested r = q_String Q q \<and> amount q = (\<Sum>p \<leftarrow> pods. \<Sum>c \<leftarrow> CP_Requests p. amount_at amount ''memory'' c))"
proof -
  from assms(2) obtain nodes pods where n: "ca_nodes api s = Inr nodes" and p: "ca_pods api [] [] ''status.phase=Running'' s = Inr pods"
    by (auto simp: handleHealthClusterSummary_def split: sum.splits)
  have hs: "hs = map (health_node Q) nodes" using assms(3) n by (simp add: handleHealthNodes_def)
  have ready: "length (filter HN_Ready hs) = ready_nodes nodes"
    by (simp add: hs filter_map o_def health_node_ready ready_nodes_filter)
  have zero: "amount (q_NewDecimalSI Q) = 0" "amount (q_NewBinarySI Q) = 0" using assms(1) by (simp_all add: q_sums_def)
  note sums = foldl_add_quantity [OF assms(1), of k "q_NewDecimalSI Q" for k] foldl_add_quantity [OF assms(1), of k "q_NewBinarySI Q" for k]
  have nested: "sum_list (map f (concat (map CP_Requests ps))) = (\<Sum>p \<leftarrow> ps. \<Sum>c \<leftarrow> CP_Requests p. f c)"
    for f :: "_ \<Rightarrow> rat" and ps by (induction ps) simp_all
  show ?thesis
    using assms(2) ready sums
    by (intro exI [of _ nodes] exI [of _ pods])
      (auto simp: handleHealthClusterSummary_def n p hs zero nested ready_nodes_filter Let_def o_def)
qed

section \<open>Instances\<close>

definition full_quota :: "int QuotaView" where
  "full_quota =
     \<lparr>QV_SpecHard = [''requests.cpu'' \<mapsto> 8, ''pods'' \<mapsto> 20], QV_StatusHard = [''requests.cpu'' \<mapsto> 8, ''pods'' \<mapsto> 20],
      QV_StatusUsed = [''requests.cpu'' \<mapsto> 8, ''pods'' \<mapsto> 3]\<rparr>"

definition one_node :: "int ClusterNode" where
  "one_node =
     \<lparr>Nd_Name = ''n1'', Nd_Labels = Map.empty, Nd_Conditions = [(''DiskPressure'', ''Unknown''), (''Ready'', ''True'')],
      Nd_Capacity = [''cpu'' \<mapsto> 4], Nd_Allocatable = [''cpu'' \<mapsto> 3], Nd_Taints = [], Nd_OS = [], Nd_Arch = [],
      Nd_Kubelet = ''v1.31'', Nd_Kernel = [], Nd_Runtime = []\<rparr>"

definition busy_api :: "(mem, int) cluster_api" where
  "busy_api = bare_api\<lparr>ca_quotas := (\<lambda>ns s. Inr [full_quota]), ca_nodes := (\<lambda>s. Inr [one_node, one_node])\<rparr>"

definition lab_usage :: "ops_error + HealthNsUsageResult" where
  "lab_usage = health_enclave_usage mem_kube busy_api int_ops (Some (NewEvaluator DefaultMode)) (Some sample_deployer) ''lab'' lab_cluster"


theorem cluster_reports_agree_witness:
  "\<exists>r hs. handleHealthClusterSummary busy_api int_ops lab_cluster = Inr r \<and> handleHealthNodes busy_api int_ops lab_cluster = Inr hs \<and>
     HS_ReadyNodes r = length (filter HN_Ready hs) \<and> HS_CPUCapacity r = ''8''"
proof -
  have sums: "q_sums int_ops rat_of_int" by (simp add: q_sums_def int_ops_def)
  define r where "r = projr (handleHealthClusterSummary busy_api int_ops lab_cluster)"
  define hs where "hs = projr (handleHealthNodes busy_api int_ops lab_cluster)"
  have "\<not> isl (handleHealthClusterSummary busy_api int_ops lab_cluster)" "\<not> isl (handleHealthNodes busy_api int_ops lab_cluster)" by code_simp+
  then have r: "handleHealthClusterSummary busy_api int_ops lab_cluster = Inr r"
    and hs: "handleHealthNodes busy_api int_ops lab_cluster = Inr hs"
    by (simp_all add: r_def hs_def)
  have c: "HS_CPUCapacity r = ''8''" unfolding r_def by code_simp
  show ?thesis using cluster_reports_agree [OF sums r hs] r hs c by blast
qed

end
