(* ===== verification/Sync_Race.thy ===== *)
theory Sync_Race
  imports Enclave_Sync
begin

text \<open>
  Concurrent calls of \<^verbatim>\<open>enclave_sync\<close> (\<^verbatim>\<open>pkg/tools/enclave.go\<close>). The server handles requests in parallel, so between
  the read of a namespace and its update by one call, other calls and other clients of the cluster may
  write it. A call is a thread with three kinds of steps: it fetches the namespace and checks the caller,
  it computes the edit (with the API calls for orphaned tentacles and the quota), and it writes; a conflict
  starts the next attempt. The step relation interleaves any number of threads with arbitrary writes of
  the environment. What the API server documents is the predicate \<open>versioned\<close>: versions only grow, and an update succeeds
  only for the version that is stored.
\<close>

section \<open>Threads\<close>

datatype 'e sync_phase =
    Attempt nat
  | Fetched nat Namespace
  | Edited nat Namespace sync_state
  | Finished "'e tool_error + EnclaveSyncResult"

definition sync_fetch ::
  "'s kube \<Rightarrow> EnclaveSyncParams \<Rightarrow> DeployerInfo option \<Rightarrow> 's \<Rightarrow> 'e tool_error + Namespace" where
  "sync_fetch client p deployer s =
     (case ns_get client (SP_Name p) s of
        Inl e \<Rightarrow> Inl (TE_GetNamespace (SP_Name p) e)
      | Inr ns \<Rightarrow>
          if \<not> IsEnclave (N_Annotations ns) then Inl (TE_NotEnclave (SP_Name p))
          else (case (if isOwnerOp p then owner_check deployer (SP_Name p) (ReadEnclaveInfo (N_Annotations ns)) else Inr ()) of
                  Inl e \<Rightarrow> Inl e
                | Inr _ \<Rightarrow> Inr ns))"

definition fetched_state :: "Namespace \<Rightarrow> sync_state" where
  "fetched_state ns =
     \<lparr>sy_info = ReadEnclaveInfo (N_Annotations ns), sy_ann = N_Annotations ns, sy_updated = [], sy_transfers = []\<rparr>"

fun thread_step ::
  "nat \<Rightarrow> 's kube \<Rightarrow> ('s \<Rightarrow> string) \<Rightarrow> EnclaveSyncParams \<Rightarrow> DeployerInfo option \<Rightarrow> 'e sync_phase \<Rightarrow> 's \<Rightarrow> 'e sync_phase \<times> 's" where
  "thread_step maxMembers client clock p deployer (Attempt 0) s =
     (Finished (Inl (TE_ConflictPersisted maxSyncRetries (SP_Name p))), s)"
| "thread_step maxMembers client clock p deployer (Attempt (Suc n)) s =
     (case sync_fetch client p deployer s of
        Inl e \<Rightarrow> (Finished (Inl e), s)
      | Inr ns \<Rightarrow> (Fetched n ns, s))"
| "thread_step maxMembers client clock p deployer (Fetched n ns) s =
     (case sync_edits maxMembers client p (fetched_state ns) s of
        (Inl (conflict, e), s') \<Rightarrow> (if conflict then Attempt n else Finished (Inl e), s')
      | (Inr st, s') \<Rightarrow> (Edited n ns st, s'))"
| "thread_step maxMembers client clock p deployer (Edited n ns st) s =
     (case sync_write client (clock s) p ns st s of
        (Inl (conflict, e), s') \<Rightarrow> (if conflict then Attempt n else Finished (Inl e), s')
      | (Inr r, s') \<Rightarrow> (Finished (Inr r), s'))"
| "thread_step maxMembers client clock p deployer (Finished r) s = (Finished r, s)"

text \<open>A thread that runs alone is the handler: one attempt is the three steps in sequence, and the steps of a
  thread, repeated until it has finished, compute what \<^verbatim>\<open>handleEnclaveSync\<close> returns.\<close>

lemma attempt_phases:
  "attemptEnclaveSync maxMembers client clock p deployer s =
     (case sync_fetch client p deployer s of
        Inl e \<Rightarrow> (Inl (False, e), s)
      | Inr ns \<Rightarrow>
          bindC (sync_edits maxMembers client p (fetched_state ns)) (\<lambda>st s1. sync_write client (clock s1) p ns st s1) s)"
  by (simp add: attemptEnclaveSync_def sync_fetch_def fetched_state_def split: sum.splits)

definition alone ::
  "nat \<Rightarrow> 's kube \<Rightarrow> ('s \<Rightarrow> string) \<Rightarrow> EnclaveSyncParams \<Rightarrow> DeployerInfo option \<Rightarrow> nat \<Rightarrow> 'e sync_phase \<times> 's \<Rightarrow> 'e sync_phase \<times> 's" where
  "alone maxMembers client clock p deployer k =
     (\<lambda>(ph, s). thread_step maxMembers client clock p deployer ph s) ^^ k"

lemma alone_Suc:
  "alone maxMembers client clock p deployer (Suc k) (ph, s) =
     alone maxMembers client clock p deployer k (thread_step maxMembers client clock p deployer ph s)"
  by (simp add: alone_def funpow_swap1)

lemma alone_Finished: "alone maxMembers client clock p deployer k (Finished r, s) = (Finished r, s)"
  by (induction k) (simp_all add: alone_Suc, simp add: alone_def)

lemma alone_more:
  assumes "alone maxMembers client clock p deployer k (ph, s) = (Finished r, s')"
  shows "alone maxMembers client clock p deployer (Suc k) (ph, s) = (Finished r, s')"
  using assms by (simp add: alone_def)

lemma alone_retry:
  fixes client :: "'s kube"
  shows "alone maxMembers client clock p deployer (3 * n + 1) (Attempt n :: 'e sync_phase, s) =
     (case sync_retry n (attemptEnclaveSync maxMembers client clock p deployer)
        (TE_ConflictPersisted maxSyncRetries (SP_Name p)) s of (r, s') \<Rightarrow> (Finished r, s'))"
proof (induction n arbitrary: s)
  case 0
  then show ?case by (simp add: alone_Suc alone_Finished)
next
  case (Suc n)
  let ?step = "thread_step maxMembers client clock p deployer :: 'e sync_phase \<Rightarrow> _"
  let ?alone = "alone maxMembers client clock p deployer :: nat \<Rightarrow> 'e sync_phase \<times> 's \<Rightarrow> _"
  let ?att = "attemptEnclaveSync maxMembers client clock p deployer :: ('s, bool \<times> 'e tool_error, EnclaveSyncResult) comp"
  let ?retry = "\<lambda>s. case sync_retry n ?att (TE_ConflictPersisted maxSyncRetries (SP_Name p)) s of (r, s') \<Rightarrow> (Finished r, s')"
  define m where "m = 3 * n + 1"
  have IH: "?alone m (Attempt n, x) = ?retry x" for x unfolding m_def by (rule Suc.IH)
  have IH2: "?alone (Suc m) (Attempt n, x) = ?retry x" for x
    using IH [of x] by (cases "sync_retry n ?att (TE_ConflictPersisted maxSyncRetries (SP_Name p)) x") (simp add: alone_more)
  have k: "3 * Suc n + 1 = Suc (Suc (Suc m))" by (simp add: m_def)
  show ?case
  proof (cases "sync_fetch client p deployer s :: 'e tool_error + Namespace")
    case (Inl e)
    then have "?att s = (Inl (False, e), s)" by (simp add: attempt_phases)
    then show ?thesis unfolding k using Inl by (simp add: alone_Suc alone_Finished)
  next
    case (Inr ns)
    let ?edits = "sync_edits maxMembers client p (fetched_state ns) :: ('s, 'e) sync_comp"
    have fetch: "?alone (Suc (Suc (Suc m))) (Attempt (Suc n), s) = ?alone (Suc m) (?step (Fetched n ns) s)"
      using Inr by (simp add: alone_Suc)
    have att: "?att s = bindC ?edits (\<lambda>st s1. sync_write client (clock s1) p ns st s1) s"
      using Inr by (simp add: attempt_phases)
    obtain r1 s1 where ed: "?edits s = (r1, s1)" by (cases "?edits s")
    show ?thesis
    proof (cases r1)
      case (Inl ce)
      then show ?thesis unfolding k fetch sync_retry.simps att using ed IH2 [of s1]
        by (cases ce) (simp add: bindC_def alone_Finished)
    next
      case (Inr st)
      obtain r2 s2 where wr: "(sync_write client (clock s1) p ns st s1 :: ((bool \<times> 'e tool_error) + _) \<times> 's) = (r2, s2)"
        by (cases "sync_write client (clock s1) p ns st s1 :: ((bool \<times> 'e tool_error) + _) \<times> 's")
      have "?alone (Suc m) (?step (Fetched n ns) s) = ?alone m (?step (Edited n ns st) s1)"
        using Inr ed by (simp add: alone_Suc)
      then show ?thesis unfolding k fetch sync_retry.simps att using ed wr Inr IH [of s2]
        by (cases r2) (auto simp: bindC_def alone_Finished split: prod.splits)
    qed
  qed
qed

section \<open>Interleaving\<close>

definition bounded :: "'s kube \<Rightarrow> ('s \<Rightarrow> nat) \<Rightarrow> 's \<Rightarrow> bool" where
  "bounded k rv s \<longleftrightarrow> (\<forall>n ns. ns_get k n s = Inr ns \<longrightarrow> N_ResourceVersion ns \<le> rv s)"

definition evolves :: "'s kube \<Rightarrow> ('s \<Rightarrow> nat) \<Rightarrow> 's \<Rightarrow> 's \<Rightarrow> bool" where
  "evolves k rv s s' \<longleftrightarrow> rv s \<le> rv s' \<and>
     (\<forall>n ns. ns_get k n s' = Inr ns \<longrightarrow> N_ResourceVersion ns \<le> rv s' \<and> (ns_get k n s = Inr ns \<or> rv s < N_ResourceVersion ns))"

text \<open>The revision \<open>rv\<close> of the store grows with every write, a namespace that changes gets a version above all earlier
  ones, and an update succeeds only when it carries the stored version.\<close>

definition versioned :: "'s kube \<Rightarrow> ('s \<Rightarrow> nat) \<Rightarrow> bool" where
  "versioned k rv \<longleftrightarrow>
     (\<forall>s ns. bounded k rv s \<longrightarrow> evolves k rv s (snd (ns_update k ns s))) \<and>
     (\<forall>s ns d. bounded k rv s \<longrightarrow> evolves k rv s (snd (dep_update k ns d s))) \<and>
     (\<forall>s ns q. bounded k rv s \<longrightarrow> evolves k rv s (snd (quota_update k ns q s))) \<and>
     (\<forall>s ns x s'. ns_update k ns s = (Inr x, s') \<longrightarrow>
        (\<exists>cur. ns_get k (N_Name ns) s = Inr cur \<and> N_ResourceVersion cur = N_ResourceVersion ns))"

type_synonym 'e thread = "EnclaveSyncParams \<times> DeployerInfo option \<times> 'e sync_phase"

record ('s, 'e) race =
  RA_world :: 's
  RA_threads :: "'e thread list"

inductive races ::
  "nat \<Rightarrow> 's kube \<Rightarrow> ('s \<Rightarrow> string) \<Rightarrow> ('s \<Rightarrow> nat) \<Rightarrow> 's \<Rightarrow> (EnclaveSyncParams \<times> DeployerInfo option) list \<Rightarrow> ('s, 'e) race \<Rightarrow> bool"
  for maxMembers client clock rv s0 reqs where
  start: "races maxMembers client clock rv s0 reqs
    \<lparr>RA_world = s0, RA_threads = map (\<lambda>(p, deployer). (p, deployer, Attempt maxSyncRetries)) reqs\<rparr>"
| thread: "races maxMembers client clock rv s0 reqs S \<Longrightarrow> i < length (RA_threads S) \<Longrightarrow>
    RA_threads S ! i = (p, deployer, ph) \<Longrightarrow>
    thread_step maxMembers client clock p deployer ph (RA_world S) = (ph', s') \<Longrightarrow>
    races maxMembers client clock rv s0 reqs
      (S\<lparr>RA_world := s', RA_threads := (RA_threads S)[i := (p, deployer, ph')]\<rparr>)"
| others: "races maxMembers client clock rv s0 reqs S \<Longrightarrow> evolves client rv (RA_world S) s' \<Longrightarrow>
    races maxMembers client clock rv s0 reqs (S\<lparr>RA_world := s'\<rparr>)"

section \<open>Versions\<close>

lemma bounded_evolves: "evolves k rv s s' \<Longrightarrow> bounded k rv s'"
  by (auto simp: evolves_def bounded_def)

lemma evolves_refl: "bounded k rv s \<Longrightarrow> evolves k rv s s"
  by (auto simp: evolves_def bounded_def)

lemma evolves_trans: "evolves k rv s s1 \<Longrightarrow> evolves k rv s1 s2 \<Longrightarrow> evolves k rv s s2"
  unfolding evolves_def by (meson le_less_trans le_trans)

lemma versionedD:
  assumes "versioned k rv"
  shows "bounded k rv s \<Longrightarrow> ns_update k ns s = (r, s') \<Longrightarrow> evolves k rv s s'"
    and "bounded k rv s \<Longrightarrow> dep_update k n d s = (r2, s') \<Longrightarrow> evolves k rv s s'"
    and "bounded k rv s \<Longrightarrow> quota_update k n q s = (r3, s') \<Longrightarrow> evolves k rv s s'"
    and "ns_update k ns s = (Inr x, s') \<Longrightarrow> \<exists>cur. ns_get k (N_Name ns) s = Inr cur \<and> N_ResourceVersion cur = N_ResourceVersion ns"
  using assms unfolding versioned_def by (metis snd_conv)+

text \<open>Every operation of an edit respects the versions.\<close>

definition grows :: "'s kube \<Rightarrow> ('s \<Rightarrow> nat) \<Rightarrow> ('s, 'e, 'a) comp \<Rightarrow> bool" where
  "grows k rv m \<longleftrightarrow> (\<forall>s r s'. bounded k rv s \<longrightarrow> m s = (r, s') \<longrightarrow> evolves k rv s s')"

lemma growsD: "grows k rv m \<Longrightarrow> bounded k rv s \<Longrightarrow> m s = (r, s') \<Longrightarrow> evolves k rv s s'"
  by (auto simp: grows_def)

lemma grows_pure [intro]: "grows k rv (retC x)" "grows k rv (failC e)"
  by (auto simp: grows_def intro: evolves_refl)

lemma grows_bind [intro]:
  assumes "grows k rv m" and "\<And>x. grows k rv (f x)"
  shows "grows k rv (bindC m f)"
  unfolding grows_def
proof (intro allI impI)
  fix s r s' assume b: "bounded k rv s" and run: "bindC m f s = (r, s')"
  obtain r1 s1 where m: "m s = (r1, s1)" by (cases "m s")
  with growsD [OF assms(1) b] have e: "evolves k rv s s1" .
  show "evolves k rv s s'"
  proof (cases r1)
    case (Inl e)
    with run m have "s' = s1" by (simp add: bindC_def)
    with e show ?thesis by simp
  next
    case (Inr x)
    with run m have "f x s1 = (r, s')" by (simp add: bindC_def)
    from growsD [OF assms(2) bounded_evolves [OF e] this] show ?thesis by (rule evolves_trans [OF e])
  qed
qed

lemma grows_mapErr [intro]: "grows k rv m \<Longrightarrow> grows k rv (mapErrC f m)"
  by (auto simp: grows_def mapErrC_def split: prod.splits sum.splits)

lemma transfer_loop_evolves:
  assumes "versioned k rv"
  shows "bounded k rv s \<Longrightarrow> transfer_loop k ns removed owner deps s = (ts, s') \<Longrightarrow> evolves k rv s s'"
proof (induction deps arbitrary: s ts s')
  case Nil
  then show ?case by (simp add: evolves_refl)
next
  case (Cons d deps)
  show ?case
  proof (cases "orphaned removed d")
    case False
    then show ?thesis using Cons by simp
  next
    case True
    obtain r1 s1 where u: "dep_update k ns (transferred owner d) s = (r1, s1)" by (cases "dep_update k ns (transferred owner d) s")
    obtain ts2 s2 where l: "transfer_loop k ns removed owner deps s1 = (ts2, s2)" by (cases "transfer_loop k ns removed owner deps s1")
    have "s' = s2" using Cons.prems(2) True u l by (simp add: Let_def)
    moreover have e: "evolves k rv s s1" by (rule versionedD(2) [OF assms Cons.prems(1) u])
    ultimately show ?thesis using Cons.IH [OF bounded_evolves [OF e] l] evolves_trans [OF e] by simp
  qed
qed

lemma sync_remove_grows: "versioned k rv \<Longrightarrow> grows k rv (sync_remove k p st)"
  unfolding grows_def sync_remove_def transferOrphanedTentacles_def Let_def
  by (auto split: if_splits sum.splits prod.splits intro: evolves_refl transfer_loop_evolves)

lemma UpdateResourceQuota_grows: "versioned k rv \<Longrightarrow> grows k rv (UpdateResourceQuota k ns preset)"
  unfolding grows_def UpdateResourceQuota_def
  by (auto simp: discardC_def bindC_def mapErrC_def split: option.splits sum.splits prod.splits
      intro: evolves_refl dest: versionedD(3))

lemma sync_edits_grows:
  assumes "versioned k rv"
  shows "grows k rv (sync_edits maxMembers k p st)"
  unfolding sync_edits_def
  by (intro grows_bind sync_remove_grows [OF assms])
    (auto simp: sync_add_def sync_owner_def sync_channel_def sync_status_def sync_mode_def sync_quota_def Let_def
      intro!: UpdateResourceQuota_grows [OF assms] split: sum.splits)

lemma sync_write_grows: "versioned k rv \<Longrightarrow> grows k rv (sync_write k now p ns st)"
  unfolding grows_def sync_write_def Let_def
  by (auto intro: evolves_refl versionedD(1) split: if_splits prod.splits sum.splits)

lemma thread_step_evolves:
  assumes "versioned k rv" "bounded k rv s" "thread_step maxMembers k clock p deployer ph s = (ph', s')"
  shows "evolves k rv s s'"
proof (cases ph)
  case (Attempt n)
  then show ?thesis using assms(2,3) by (cases n) (auto simp: evolves_refl split: sum.splits)
next
  case (Fetched n ns)
  then show ?thesis
    using assms(3) growsD [OF sync_edits_grows [OF assms(1)] assms(2)] by (auto split: prod.splits sum.splits)
next
  case (Edited n ns st)
  then show ?thesis
    using assms(3) growsD [OF sync_write_grows [OF assms(1)] assms(2)] by (auto split: prod.splits sum.splits)
next
  case (Finished r)
  then show ?thesis using assms(2,3) by (simp add: evolves_refl)
qed

section \<open>What a thread holds is current or will conflict\<close>

definition held :: "'s kube \<Rightarrow> ('s \<Rightarrow> nat) \<Rightarrow> 's \<Rightarrow> EnclaveSyncParams \<Rightarrow> DeployerInfo option \<Rightarrow> Namespace \<Rightarrow> bool" where
  "held k rv s p deployer ns \<longleftrightarrow>
     IsEnclave (N_Annotations ns) \<and> (isOwnerOp p \<longrightarrow> owner_allowed deployer (ReadEnclaveInfo (N_Annotations ns))) \<and>
     N_Name ns = SP_Name p \<and> N_ResourceVersion ns \<le> rv s \<and>
     (\<forall>cur. ns_get k (SP_Name p) s = Inr cur \<and> N_ResourceVersion cur = N_ResourceVersion ns \<longrightarrow> cur = ns)"

fun thread_inv :: "nat \<Rightarrow> 's kube \<Rightarrow> ('s \<Rightarrow> nat) \<Rightarrow> 's \<Rightarrow> 'e thread \<Rightarrow> bool" where
  "thread_inv maxMembers k rv s (p, deployer, Fetched n ns) = held k rv s p deployer ns"
| "thread_inv maxMembers k rv s (p, deployer, Edited n ns st) =
     (held k rv s p deployer ns \<and> sy_info st = edited p (ReadEnclaveInfo (N_Annotations ns)) \<and>
      acceptable maxMembers p (ReadEnclaveInfo (N_Annotations ns)))"
| "thread_inv maxMembers k rv s _ = True"

lemma held_evolves: "held k rv s p deployer ns \<Longrightarrow> evolves k rv s s' \<Longrightarrow> held k rv s' p deployer ns"
  unfolding held_def evolves_def by (metis leD le_trans)

lemma thread_inv_evolves:
  "thread_inv maxMembers k rv s t \<Longrightarrow> evolves k rv s s' \<Longrightarrow> thread_inv maxMembers k rv s' t"
  by (cases "(maxMembers, k, rv, s, t)" rule: thread_inv.cases) (auto dest: held_evolves)

lemma sync_fetch_held:
  assumes "sync_fetch k p deployer s = Inr ns" "bounded k rv s" "ns_names k"
  shows "held k rv s p deployer ns"
proof -
  have ns: "ns_get k (SP_Name p) s = Inr ns" "IsEnclave (N_Annotations ns)"
    "isOwnerOp p \<longrightarrow> owner_allowed deployer (ReadEnclaveInfo (N_Annotations ns))"
    using assms(1) by (auto simp: sync_fetch_def owner_check_ok_iff split: sum.splits if_splits)
  then show ?thesis using assms(2,3) by (auto simp: held_def bounded_def ns_names_def)
qed

lemma thread_step_inv:
  assumes "versioned k rv" "ns_names k" "bounded k rv s" "thread_inv maxMembers k rv s (p, deployer, ph)"
    and step: "thread_step maxMembers k clock p deployer ph s = (ph', s')"
  shows "thread_inv maxMembers k rv s' (p, deployer, ph')"
proof (cases ph)
  case (Attempt n)
  then show ?thesis
    using step sync_fetch_held [OF _ assms(3,2)] by (cases n) (auto split: sum.splits)
next
  case (Fetched n ns)
  have "held k rv s' p deployer ns"
    using assms(4) Fetched held_evolves thread_step_evolves [OF assms(1,3) step] by auto
  with Fetched step show ?thesis
    by (auto simp: fetched_state_def dest!: sync_edits_ok split: prod.splits sum.splits if_splits)
qed (use step in \<open>auto split: prod.splits sum.splits if_splits\<close>)

lemma races_inv:
  assumes "races maxMembers k clock rv s0 reqs S" "versioned k rv" "ns_names k" "bounded k rv s0"
  shows "bounded k rv (RA_world S) \<and> (\<forall>t \<in> set (RA_threads S). thread_inv maxMembers k rv (RA_world S) t)"
  using assms(1)
proof induction
  case start
  then show ?case using assms(4) by auto
next
  case (thread S i p deployer ph ph' s')
  then have b: "bounded k rv (RA_world S)" by blast
  note e = thread_step_evolves [OF assms(2) b thread.hyps(4)]
  have "thread_inv maxMembers k rv (RA_world S) (p, deployer, ph)" using thread nth_mem by metis
  from thread_step_inv [OF assms(2,3) b this thread.hyps(4)] thread.IH e show ?case
    by (auto simp: bounded_evolves dest!: set_update_subset_insert [THEN subsetD] intro: thread_inv_evolves)
next
  case (others S s')
  then show ?case by (auto intro: bounded_evolves thread_inv_evolves)
qed

text \<open>C6: concurrent syncs lose no update and never act on stale permissions. However many calls run at the same time and
  whatever other clients write in between, the step in which a call reports success replaces the
  metadata that is stored at that moment by the edit of exactly this metadata, and the caller was allowed to make the edit,
  and the edit was acceptable, judged by this metadata.\<close>

theorem sync_commits_current:
  assumes "versioned client rv" "ns_names client" "ns_store client" "bounded client rv s0"
    and "races maxMembers client clock rv s0 reqs S" "i < length (RA_threads S)" "RA_threads S ! i = (p, deployer, ph)"
    and "thread_step maxMembers client clock p deployer ph (RA_world S) = (Finished (Inr r), s')" "ph \<noteq> Finished (Inr r)"
  shows "\<exists>cur new. ns_get client (SP_Name p) (RA_world S) = Inr cur \<and> IsEnclave (N_Annotations cur) \<and>
    (isOwnerOp p \<longrightarrow> owner_allowed deployer (ReadEnclaveInfo (N_Annotations cur))) \<and>
    acceptable maxMembers p (ReadEnclaveInfo (N_Annotations cur)) \<and>
    ns_get client (SP_Name p) s' = Inr new \<and>
    ReadEnclaveInfo (N_Annotations new) =
      stored_info ((edited p (ReadEnclaveInfo (N_Annotations cur)))\<lparr>EI_UpdatedAt := clock (RA_world S)\<rparr>)"
proof -
  have inv: "thread_inv maxMembers client rv (RA_world S) (p, deployer, ph)"
    using races_inv [OF assms(5,1,2,4)] assms(6,7) nth_mem by metis
  obtain n ns st where ph: "ph = Edited n ns st"
  proof (cases ph)
    case (Attempt n)
    then show ?thesis using assms(8) by (cases n) (auto split: sum.splits)
  qed (use assms(8,9) that in \<open>auto split: prod.splits sum.splits if_splits\<close>)
  let ?info = "ReadEnclaveInfo (N_Annotations ns)"
  let ?new = "(edited p ?info)\<lparr>EI_UpdatedAt := clock (RA_world S)\<rparr>"
  have h: "held client rv (RA_world S) p deployer ns" "sy_info st = edited p ?info" "acceptable maxMembers p ?info"
    using inv ph by simp_all
  obtain x where up: "ns_update client (ns\<lparr>N_Annotations := sy_ann st ++ WriteEnclaveAnnotations ?new\<rparr>) (RA_world S) = (Inr x, s')"
    using assms(8) h(2) unfolding ph
    by (auto simp: sync_write_def Let_def split: prod.splits sum.splits if_splits)
  have name: "N_Name ns = SP_Name p" using h(1) by (simp add: held_def)
  obtain cur where "ns_get client (SP_Name p) (RA_world S) = Inr cur" "N_ResourceVersion cur = N_ResourceVersion ns"
    using versionedD(4) [OF assms(1) up] name by auto
  with h(1) have cur: "ns_get client (SP_Name p) (RA_world S) = Inr ns" by (auto simp: held_def)
  obtain new where "ns_get client (SP_Name p) s' = Inr new" "N_Annotations new = sy_ann st ++ WriteEnclaveAnnotations ?new"
    using assms(3) up name unfolding ns_store_def by fastforce
  with cur h show ?thesis by (auto simp: held_def ReadEnclaveInfo_written stored_info_def)
qed

section \<open>Every call finishes\<close>

fun steps_left :: "'e sync_phase \<Rightarrow> nat" where
  "steps_left (Attempt n) = 3 * n + 1"
| "steps_left (Fetched n ns) = 3 * n + 3"
| "steps_left (Edited n ns st) = 3 * n + 2"
| "steps_left (Finished r) = 0"

lemma thread_step_decreases:
  "steps_left (fst (thread_step maxMembers client clock p deployer ph s)) \<le> steps_left ph - 1"
  by (cases "(maxMembers, client, clock, p, deployer, ph, s)" rule: thread_step.cases) (auto split: sum.splits prod.splits)

lemma steps_left_0: "steps_left ph = 0 \<longleftrightarrow> (\<exists>r. ph = Finished r)"
  by (cases ph) auto

lemma steps_left_fold:
  "steps_left (fold (\<lambda>s ph. fst (thread_step maxMembers client clock p deployer ph s)) ss ph) \<le> steps_left ph - length ss"
proof (induction ss arbitrary: ph)
  case (Cons s ss)
  show ?case using Cons.IH [of "fst (thread_step maxMembers client clock p deployer ph s)"]
    thread_step_decreases [of maxMembers client clock p deployer ph s] by simp
qed simp

text \<open>C7: no interference keeps a sync from answering: whatever worlds its steps find, a call has finished after ten steps of its
  own (three attempts of three steps and the final error); and a call that is not disturbed computes
  what the handler computes.\<close>

theorem sync_wait_free:
  fixes client :: "'s kube"
  assumes "10 \<le> length worlds"
  shows "(\<exists>r. fold (\<lambda>s ph. fst (thread_step maxMembers client clock p deployer ph s)) worlds
      (Attempt maxSyncRetries :: 'e sync_phase) = Finished r) \<and>
    alone maxMembers client clock p deployer 10 (Attempt maxSyncRetries, s) =
      (case handleEnclaveSync maxMembers client clock p deployer s of (r :: 'e tool_error + EnclaveSyncResult, s') \<Rightarrow> (Finished r, s'))"
proof
  show "\<exists>r. fold (\<lambda>s ph. fst (thread_step maxMembers client clock p deployer ph s)) worlds
      (Attempt maxSyncRetries :: 'e sync_phase) = Finished r"
    using steps_left_fold [of maxMembers client clock p deployer worlds "Attempt maxSyncRetries :: 'e sync_phase"] assms
    by (simp add: maxSyncRetries_def flip: steps_left_0)
  show "alone maxMembers client clock p deployer 10 (Attempt maxSyncRetries, s) =
      (case handleEnclaveSync maxMembers client clock p deployer s of (r :: 'e tool_error + EnclaveSyncResult, s') \<Rightarrow> (Finished r, s'))"
    using alone_retry [of maxMembers client clock p deployer maxSyncRetries s]
    by (simp add: handleEnclaveSync_def maxSyncRetries_def)
qed

section \<open>A cluster with versions\<close>

definition top_version :: "mem \<Rightarrow> nat" where
  "top_version s = foldr (\<lambda>x. max (N_ResourceVersion (snd x))) (mem_ns s) 0"

definition version_kube :: "mem kube" where
  "version_kube = mem_kube\<lparr>
     ns_update := (\<lambda>ns s.
       case map_of (mem_ns s) (N_Name ns) of
         None \<Rightarrow> (Inl NotFound, s)
       | Some cur \<Rightarrow>
           if N_ResourceVersion cur \<noteq> N_ResourceVersion ns then (Inl Conflict, s)
           else let new = ns\<lparr>N_ResourceVersion := Suc (top_version s)\<rparr>
             in (Inr new, s\<lparr>mem_ns := AList.update (N_Name ns) new (mem_ns s)\<rparr>))\<rparr>"

lemma top_version_le: "map_of xs n = Some ns \<Longrightarrow> N_ResourceVersion ns \<le> foldr (\<lambda>x. max (N_ResourceVersion (snd x))) xs 0"
  by (induction xs) (auto split: if_splits)

lemma version_get:
  "ns_get version_kube n s = Inr ns \<longleftrightarrow> (\<exists>v. map_of (mem_ns s) n = Some v \<and> ns = v\<lparr>N_Name := n\<rparr>)"
  by (auto simp: version_kube_def mem_kube_def fetch_def split: option.splits)

lemma version_update:
  "ns_update version_kube ns s =
     (case map_of (mem_ns s) (N_Name ns) of
        None \<Rightarrow> (Inl NotFound, s)
      | Some cur \<Rightarrow>
          if N_ResourceVersion cur \<noteq> N_ResourceVersion ns then (Inl Conflict, s)
          else (Inr (ns\<lparr>N_ResourceVersion := Suc (top_version s)\<rparr>),
                s\<lparr>mem_ns := AList.update (N_Name ns) (ns\<lparr>N_ResourceVersion := Suc (top_version s)\<rparr>) (mem_ns s)\<rparr>))"
  by (auto simp: version_kube_def Let_def split: option.split)

lemma version_bounded: "bounded version_kube top_version s"
  by (auto simp: bounded_def version_get top_version_def intro: top_version_le)

lemma same_namespaces_evolve: "mem_ns s' = mem_ns s \<Longrightarrow> evolves version_kube top_version s s'"
  using version_bounded [of s'] by (auto simp: evolves_def bounded_def version_get top_version_def)

lemma top_version_update:
  "foldr (\<lambda>x. max (N_ResourceVersion (snd x))) xs 0 \<le> N_ResourceVersion v \<Longrightarrow>
     foldr (\<lambda>x. max (N_ResourceVersion (snd x))) (AList.update n v xs) 0 = N_ResourceVersion v"
  by (induction xs) (auto simp: max_def split: if_splits)

lemma version_versioned: "versioned version_kube top_version"
proof -
  have ns: "evolves version_kube top_version s (snd (ns_update version_kube ns s))" for s ns
  proof (cases "map_of (mem_ns s) (N_Name ns)")
    case None
    then show ?thesis by (simp add: version_update same_namespaces_evolve)
  next
    case (Some cur)
    let ?new = "ns\<lparr>N_ResourceVersion := Suc (top_version s)\<rparr>"
    have top: "top_version (s\<lparr>mem_ns := AList.update (N_Name ns) ?new (mem_ns s)\<rparr>) = Suc (top_version s)"
      using top_version_update [of "mem_ns s" ?new "N_Name ns"] by (simp add: top_version_def)
    have "evolves version_kube top_version s (s\<lparr>mem_ns := AList.update (N_Name ns) ?new (mem_ns s)\<rparr>)"
      using version_bounded [of s] unfolding evolves_def top
      by (auto simp: version_get update_conv' bounded_def le_SucI split: if_splits)
    with Some show ?thesis by (simp add: version_update same_namespaces_evolve)
  qed
  have "evolves version_kube top_version s (snd (dep_update version_kube n d s))" for s n d
    by (rule same_namespaces_evolve) (simp add: version_kube_def mem_kube_def mem_put_def split: option.splits)
  moreover have "evolves version_kube top_version s (snd (quota_update version_kube n q s))" for s n q
    by (rule same_namespaces_evolve) (simp add: version_kube_def mem_kube_def mem_put_def split: option.splits)
  moreover have "\<exists>cur. ns_get version_kube (N_Name ns) s = Inr cur \<and> N_ResourceVersion cur = N_ResourceVersion ns"
    if "ns_update version_kube ns s = (Inr x, s')" for s ns x s'
    using that unfolding version_get by (auto simp: version_update split: option.splits if_splits)
  ultimately show ?thesis unfolding versioned_def using ns by blast
qed

lemma version_names: "ns_names version_kube"
  by (auto simp: ns_names_def version_get)

lemma version_store: "ns_store version_kube"
  unfolding ns_store_def version_get
  by (auto simp: version_update update_conv' split: option.splits if_splits)

section \<open>A handover races with an invitation\<close>

fun race_run :: "nat \<Rightarrow> 's kube \<Rightarrow> ('s \<Rightarrow> string) \<Rightarrow> nat list \<Rightarrow> ('s, 'e) race \<Rightarrow> ('s, 'e) race" where
  "race_run maxMembers client clock [] S = S"
| "race_run maxMembers client clock (i # is) S =
     (case RA_threads S ! i of (p, deployer, ph) \<Rightarrow>
        (case thread_step maxMembers client clock p deployer ph (RA_world S) of (ph', s') \<Rightarrow>
           race_run maxMembers client clock is (S\<lparr>RA_world := s', RA_threads := (RA_threads S)[i := (p, deployer, ph')]\<rparr>)))"

lemma race_run_append:
  "race_run maxMembers client clock (is @ js) S = race_run maxMembers client clock js (race_run maxMembers client clock is S)"
  by (induction "is" arbitrary: S) (simp_all split: prod.splits)

lemma race_run_races:
  "races maxMembers client clock rv s0 reqs S \<Longrightarrow> list_all (\<lambda>i. i < length (RA_threads S)) is \<Longrightarrow>
     races maxMembers client clock rv s0 reqs (race_run maxMembers client clock is S)"
proof (induction "is" arbitrary: S)
  case (Cons i "is")
  then show ?case by (auto split: prod.splits intro!: Cons.IH races.thread)
qed simp

definition lab_invite :: EnclaveSyncParams where
  "lab_invite =
     \<lparr>SP_Name = ''lab'', SP_NewOwner = [], SP_NewChannelName = [], SP_NewStatus = [], SP_NewMode = [],
      SP_NewQuotaPreset = [], SP_AddMembers = [''dan@x''], SP_RemoveMembers = []\<rparr>"

definition lab_requests :: "(EnclaveSyncParams \<times> DeployerInfo option) list" where
  "lab_requests = [(lab_sync, Some lab_owner), (lab_invite, Some lab_owner)]"

definition lab_race :: "nat list \<Rightarrow> (mem, string) race" where
  "lab_race is =
     race_run 100 version_kube (\<lambda>_. ''t1'') is
       \<lparr>RA_world = lab_world, RA_threads = map (\<lambda>(p, deployer). (p, deployer, Attempt maxSyncRetries)) lab_requests\<rparr>"

lemma lab_race_races:
  assumes "list_all (\<lambda>i. i < 2) is"
  shows "races 100 version_kube (\<lambda>_. ''t1'') top_version lab_world lab_requests (lab_race is)"
  unfolding lab_race_def
proof (rule race_run_races [OF races.start])
  show "list_all (\<lambda>i. i < length (RA_threads
     \<lparr>RA_world = lab_world, RA_threads = map (\<lambda>(p, deployer). (p, deployer, Attempt maxSyncRetries :: string sync_phase)) lab_requests\<rparr>)) is"
    using assms by (simp add: lab_requests_def numeral_2_eq_2)
qed

text \<open>Both calls have read the enclave when the first hands it over: the second gets a conflict, reads again, and is
  refused, because its caller no longer owns the enclave.\<close>

lemma lab_race_refused:
  "map (\<lambda>(p, deployer, ph). case ph of Finished r \<Rightarrow> Some (map_sum (\<lambda>e. e = TE_NotOwner ''lab'') (\<lambda>r. SR_Name r) r) | _ \<Rightarrow> None)
     (RA_threads (lab_race [0, 1, 0, 1, 0, 1, 1])) = [Some (Inr ''lab''), Some (Inl True)]"
  by code_simp

definition lab_before :: "(mem, string) race" where "lab_before = lab_race [0, 1, 0, 1]"
definition lab_after :: "(mem, string) race" where "lab_after = lab_race ([0, 1, 0, 1] @ [0])"

lemma lab_threads:
  "length (RA_threads lab_before) = 2" "fst (RA_threads lab_before ! 0) = lab_sync"
  "fst (snd (RA_threads lab_before ! 0)) = Some lab_owner"
  "case snd (snd (RA_threads lab_before ! 0)) of Finished r \<Rightarrow> False | _ \<Rightarrow> True"
  "case snd (snd (RA_threads lab_after ! 0)) of Finished r \<Rightarrow> \<not> isl r | _ \<Rightarrow> False"
  by code_simp+

theorem sync_commits_current_witness:
  "\<exists>cur new. ns_get version_kube ''lab'' (RA_world lab_before) = Inr cur \<and>
    owner_allowed (Some lab_owner) (ReadEnclaveInfo (N_Annotations cur)) \<and>
    ns_get version_kube ''lab'' (RA_world lab_after) = Inr new \<and>
    ReadEnclaveInfo (N_Annotations new) =
      stored_info ((edited lab_sync (ReadEnclaveInfo (N_Annotations cur)))\<lparr>EI_UpdatedAt := ''t1''\<rparr>)"
proof -
  obtain ph where t: "RA_threads lab_before ! 0 = (lab_sync, Some lab_owner, ph)"
    using lab_threads(2,3) by (metis prod.collapse)
  obtain ph' s' where step: "thread_step 100 version_kube (\<lambda>_. ''t1'') lab_sync (Some lab_owner) ph (RA_world lab_before) = (ph', s')"
    by (cases "thread_step 100 version_kube (\<lambda>_. ''t1'') lab_sync (Some lab_owner) ph (RA_world lab_before)")
  have run: "lab_after = lab_before\<lparr>RA_world := s', RA_threads := (RA_threads lab_before)[0 := (lab_sync, Some lab_owner, ph')]\<rparr>"
    using t step unfolding lab_after_def lab_race_def race_run_append
    by (simp add: lab_before_def lab_race_def split: prod.splits)
  obtain r where r: "ph' = Finished (Inr r)"
    using lab_threads(1,5) unfolding run by (auto split: sync_phase.splits) (metis sum.collapse(2))
  have open_ph: "ph \<noteq> Finished (Inr r)" using lab_threads(4) by (auto simp: t)
  have reach: "races 100 version_kube (\<lambda>_. ''t1'') top_version lab_world lab_requests lab_before"
    unfolding lab_before_def by (rule lab_race_races) simp
  have "0 < length (RA_threads lab_before)" using lab_threads(1) by simp
  from sync_commits_current [OF version_versioned version_names version_store version_bounded reach this t step [unfolded r] open_ph]
  have "\<exists>cur new. ns_get version_kube (SP_Name lab_sync) (RA_world lab_before) = Inr cur \<and> IsEnclave (N_Annotations cur) \<and>
    (isOwnerOp lab_sync \<longrightarrow> owner_allowed (Some lab_owner) (ReadEnclaveInfo (N_Annotations cur))) \<and>
    acceptable 100 lab_sync (ReadEnclaveInfo (N_Annotations cur)) \<and> ns_get version_kube (SP_Name lab_sync) s' = Inr new \<and>
    ReadEnclaveInfo (N_Annotations new) =
      stored_info ((edited lab_sync (ReadEnclaveInfo (N_Annotations cur)))\<lparr>EI_UpdatedAt := ''t1''\<rparr>)" .
  moreover have "isOwnerOp lab_sync" "SP_Name lab_sync = ''lab''" by code_simp+
  ultimately show ?thesis unfolding run by auto
qed

theorem sync_wait_free_witness:
  "\<exists>r. fold (\<lambda>s ph. fst (thread_step 100 version_kube (\<lambda>_. ''t1'') lab_invite (Some lab_owner) ph s)) (replicate 10 lab_world)
      (Attempt maxSyncRetries :: string sync_phase) = Finished r"
  by (rule sync_wait_free [THEN conjunct1]) simp

end
