(* ===== verification/Schedule_Life.thy ===== *)
theory Schedule_Life
  imports Scheduler
begin

text \<open>
  The scheduler over the lifetime of a process (\<^verbatim>\<open>pkg/scheduler/scheduler.go\<close>): the start-up scan, registrations and
  removals by tools and updates after deployments, in any order and on any state of the cluster. Every method
  holds the mutex, so a lifetime is a sequence of method calls; the calls of a scan interleave with the others, which is
  why a scan is here the registrations it makes. A rejected schedule leaves an entry without a job, so the
  consistency of \<open>Scheduler\<close> is no invariant; what holds in every state is that no job runs outside the table.
\<close>

section \<open>Lifetimes\<close>

inductive lives :: "'c cron_ops \<Rightarrow> 'c \<Rightarrow> 'c Scheduler \<Rightarrow> bool" for ops cron0 where
  boot: "lives ops cron0 (NewScheduler cron0)"
| register: "lives ops cron0 s \<Longrightarrow> lives ops cron0 (snd (Register ops ns n sch s))"
| deregister: "lives ops cron0 s \<Longrightarrow> lives ops cron0 (Deregister ops ns n s)"

lemma lives_sync: "lives ops cron0 s \<Longrightarrow> lives ops cron0 (syncCronSchedule client w ops ns n s)"
  by (auto simp: syncCronSchedule_def Let_def split: sum.splits intro: lives.intros)

lemma lives_scan_deployments: "lives ops cron0 s \<Longrightarrow> lives ops cron0 (scan_deployments ops ns deploys s)"
  by (induction ops ns deploys s rule: scan_deployments.induct) (auto simp: Let_def intro: lives.register)

lemma lives_scan_namespaces: "lives ops cron0 s \<Longrightarrow> lives ops cron0 (scan_namespaces client w ops namespaces s)"
  by (induction client w ops namespaces s rule: scan_namespaces.induct) (auto simp: lives_scan_deployments split: sum.splits)

lemma lives_scan: "lives ops cron0 s \<Longrightarrow> lives ops cron0 (snd (ScanWorkflows client w ops s))"
  by (auto simp: ScanWorkflows_def lives_scan_namespaces split: sum.splits)

section \<open>No job outside the table\<close>

text \<open>The library numbers its jobs: an id is never given out twice.\<close>

definition cron_counts :: "'c cron_ops \<Rightarrow> ('c \<Rightarrow> nat) \<Rightarrow> bool" where
  "cron_counts ops nxt \<longleftrightarrow>
     (\<forall>sch job c r c'. AddFunc ops sch job c = (r, c') \<longrightarrow>
        nxt c \<le> nxt c' \<and> (\<forall>i. r = Inr i \<longrightarrow> nxt c \<le> i \<and> i < nxt c')) \<and>
     (\<forall>i c. nxt c \<le> nxt (Remove ops i c))"

definition owned :: "(string \<rightharpoonup> entry) \<Rightarrow> (nat \<rightharpoonup> string \<times> string \<times> string) \<Rightarrow> nat \<Rightarrow> bool" where
  "owned en jb bound \<longleftrightarrow>
     (\<forall>k e. en k = Some e \<longrightarrow> e_cronID e < bound) \<and>
     (\<forall>k1 k2 e1 e2. en k1 = Some e1 \<and> en k2 = Some e2 \<and> e_cronID e1 = e_cronID e2 \<longrightarrow> k1 = k2) \<and>
     (\<forall>i sch ns n. jb i = Some (sch, ns, n) \<longrightarrow>
        (\<exists>e. en (sched_key ns n) = Some e \<and> e_cronID e = i \<and> e_schedule e = sch))"

lemma ownedD:
  assumes "owned en jb bound"
  shows "en k = Some e \<Longrightarrow> e_cronID e < bound"
    and "en k1 = Some e1 \<Longrightarrow> en k2 = Some e2 \<Longrightarrow> e_cronID e1 = e_cronID e2 \<Longrightarrow> k1 = k2"
    and "jb i = Some (sch, ns, n) \<Longrightarrow> \<exists>e. en (sched_key ns n) = Some e \<and> e_cronID e = i \<and> e_schedule e = sch"
  using assms unfolding owned_def by blast+

lemma owned_mono: "owned en jb bound \<Longrightarrow> bound \<le> bound' \<Longrightarrow> owned en jb bound'"
  unfolding owned_def by (meson less_le_trans)

text \<open>Stopping the job of an entry, with or without dropping the entry, and starting a job with a new id for a key
  none of whose jobs runs.\<close>

lemma owned_stop:
  assumes "owned en jb bound"
  shows "owned en (jb(i := None)) bound"
  using assms unfolding owned_def by auto

lemma owned_drop:
  assumes "owned en jb bound" "en k = Some e"
  shows "owned (en(k := None)) (jb(e_cronID e := None)) bound"
  using assms unfolding owned_def by (auto split: if_splits) fastforce+

lemma owned_start:
  assumes "owned en jb bound" "bound \<le> i" "i < bound'" "\<And>j sch' ns' n'. jb j = Some (sch', ns', n') \<Longrightarrow> sched_key ns' n' \<noteq> sched_key ns n"
  shows "owned (en(sched_key ns n \<mapsto> \<lparr>e_namespace = ns, e_name = n, e_schedule = sch, e_cronID = i\<rparr>)) (jb(i \<mapsto> (sch, ns, n))) bound'"
proof -
  have small: "e_cronID e < i" if "en k = Some e" for k e
    using ownedD(1) [OF assms(1) that] assms(2) by simp
  show ?thesis
    unfolding owned_def
  proof (intro conjI allI impI)
    fix k e assume "(en(sched_key ns n \<mapsto> \<lparr>e_namespace = ns, e_name = n, e_schedule = sch, e_cronID = i\<rparr>)) k = Some e"
    then show "e_cronID e < bound'" using small assms(3) by (auto split: if_splits intro: less_trans)
  next
    fix k1 k2 e1 e2
    assume "(en(sched_key ns n \<mapsto> \<lparr>e_namespace = ns, e_name = n, e_schedule = sch, e_cronID = i\<rparr>)) k1 = Some e1 \<and>
      (en(sched_key ns n \<mapsto> \<lparr>e_namespace = ns, e_name = n, e_schedule = sch, e_cronID = i\<rparr>)) k2 = Some e2 \<and>
      e_cronID e1 = e_cronID e2"
    then show "k1 = k2" using small [of k1 e1] small [of k2 e2] ownedD(2) [OF assms(1), of k1 e1 k2 e2] by (auto split: if_splits)
  next
    fix j sch' ns' n' assume "(jb(i \<mapsto> (sch, ns, n))) j = Some (sch', ns', n')"
    then show "\<exists>e. (en(sched_key ns n \<mapsto> \<lparr>e_namespace = ns, e_name = n, e_schedule = sch, e_cronID = i\<rparr>)) (sched_key ns' n') = Some e \<and>
        e_cronID e = j \<and> e_schedule e = sch'"
      using ownedD(3) [OF assms(1)] assms(4) by (auto split: if_splits)
  qed
qed

definition owned_sched :: "('c \<Rightarrow> nat \<rightharpoonup> string \<times> string \<times> string) \<Rightarrow> ('c \<Rightarrow> nat) \<Rightarrow> 'c Scheduler \<Rightarrow> bool" where
  "owned_sched jobs nxt s \<longleftrightarrow> owned (map_of (S_entries s)) (jobs (S_cron s)) (nxt (S_cron s))"

lemma owned_add_entry:
  assumes laws: "cron_laws ops jobs valid" "cron_counts ops nxt" and o: "owned_sched jobs nxt s"
    and free: "\<And>j sch' ns' n'. jobs (S_cron s) j = Some (sch', ns', n') \<Longrightarrow> sched_key ns' n' \<noteq> sched_key ns n"
  shows "owned_sched jobs nxt (snd (add_entry ops ns n sch s))"
proof -
  obtain r c' where add: "AddFunc ops sch (ns, n) (S_cron s) = (r, c')" by (cases "AddFunc ops sch (ns, n) (S_cron s)")
  show ?thesis
  proof (cases r)
    case (Inl err)
    have "jobs c' = jobs (S_cron s)" using cron_add_err [OF laws(1)] add Inl by blast
    moreover have "nxt (S_cron s) \<le> nxt c'" using laws(2) add unfolding cron_counts_def by blast
    ultimately show ?thesis
      using o owned_mono add Inl by (auto simp: owned_sched_def add_entry_def)
  next
    case (Inr i)
    have j: "jobs c' = (jobs (S_cron s))(i \<mapsto> (sch, ns, n))" using cron_add_ok [OF laws(1)] add Inr by blast
    have "nxt (S_cron s) \<le> i" "i < nxt c'" using laws(2) add Inr unfolding cron_counts_def by blast+
    from owned_start [OF o [unfolded owned_sched_def] this free]
    show ?thesis by (simp add: owned_sched_def add_entry_def add Inr map_of_AList_update j)
  qed
qed

lemma owned_Register:
  assumes laws: "cron_laws ops jobs valid" "cron_counts ops nxt" and o: "owned_sched jobs nxt s"
  shows "owned_sched jobs nxt (snd (Register ops ns n sch s))"
proof (cases "map_of (S_entries s) (sched_key ns n)")
  case None
  then have "sched_key ns' n' \<noteq> sched_key ns n" if "jobs (S_cron s) j = Some (sch', ns', n')" for j sch' ns' n'
    using ownedD(3) [OF o [unfolded owned_sched_def] that] by auto
  with owned_add_entry [OF laws o] None show ?thesis by (simp add: Register_def)
next
  case (Some e)
  let ?s = "s\<lparr>S_cron := Remove ops (e_cronID e) (S_cron s)\<rparr>"
  have jobs: "jobs (S_cron ?s) = (jobs (S_cron s))(e_cronID e := None)" using cron_remove [OF laws(1)] by simp
  have o': "owned_sched jobs nxt ?s"
    using owned_mono [OF owned_stop [OF o [unfolded owned_sched_def]]] laws(2) jobs
    by (simp add: owned_sched_def cron_counts_def)
  have "sched_key ns' n' \<noteq> sched_key ns n" if "jobs (S_cron ?s) j = Some (sch', ns', n')" for j sch' ns' n'
    using that ownedD(3) [OF o [unfolded owned_sched_def], of j sch' ns' n'] Some by (auto simp: cron_remove [OF laws(1)] split: if_splits)
  with owned_add_entry [OF laws o'] Some o show ?thesis by (simp add: Register_def)
qed

lemma owned_Deregister:
  assumes laws: "cron_laws ops jobs valid" "cron_counts ops nxt" and o: "owned_sched jobs nxt s"
  shows "owned_sched jobs nxt (Deregister ops ns n s)"
proof (cases "map_of (S_entries s) (sched_key ns n)")
  case None
  then show ?thesis using o by (simp add: Deregister_def)
next
  case (Some e)
  from owned_mono [OF owned_drop [OF o [unfolded owned_sched_def] Some]] laws(2) Some show ?thesis
    by (simp add: Deregister_def owned_sched_def map_of_AList_delete cron_remove [OF laws(1)] cron_counts_def)
qed

lemma lives_owned:
  assumes "cron_laws ops jobs valid" "cron_counts ops nxt" "jobs cron0 = Map.empty" "lives ops cron0 s"
  shows "owned_sched jobs nxt s"
  using assms(4)
  by induction
    (simp_all add: owned_Register [OF assms(1,2)] owned_Deregister [OF assms(1,2)],
     simp add: owned_sched_def owned_def NewScheduler_def assms(3))

text \<open>C32: in every state of a scheduler's lifetime, whatever was registered, rejected, replaced and removed before, each running job is that
  of an entry of the table and runs with the recorded schedule, no workflow has two jobs, and removing a workflow stops
  exactly its job.\<close>

theorem scheduler_owns_jobs:
  assumes "cron_laws ops jobs valid" "cron_counts ops nxt" "jobs cron0 = Map.empty" "lives ops cron0 s"
  shows "(\<forall>i sch ns n. jobs (S_cron s) i = Some (sch, ns, n) \<longrightarrow> schedules s (sched_key ns n) = Some sch) \<and>
    (\<forall>i j sch sch' ns n. jobs (S_cron s) i = Some (sch, ns, n) \<and> jobs (S_cron s) j = Some (sch', ns, n) \<longrightarrow> i = j) \<and>
    jobs (S_cron (Deregister ops ns n s)) =
      (\<lambda>i. case jobs (S_cron s) i of
             None \<Rightarrow> None
           | Some (sch, ns', n') \<Rightarrow> if sched_key ns' n' = sched_key ns n then None else Some (sch, ns', n'))"
proof -
  have o: "owned (map_of (S_entries s)) (jobs (S_cron s)) (nxt (S_cron s))"
    using lives_owned [OF assms] by (simp add: owned_sched_def)
  note job = ownedD(3) [OF o]
  have recorded: "schedules s (sched_key ns n) = Some sch" if "jobs (S_cron s) i = Some (sch, ns, n)" for i sch ns n
    using job [OF that] by (auto simp: schedules_def)
  have single: "i = j" if "jobs (S_cron s) i = Some (sch, ns, n)" "jobs (S_cron s) j = Some (sch', ns, n)" for i j sch sch' ns n
    using job [OF that(1)] job [OF that(2)] by auto
  have stops: "jobs (S_cron (Deregister ops ns n s)) i =
      (case jobs (S_cron s) i of None \<Rightarrow> None
       | Some (sch, ns', n') \<Rightarrow> if sched_key ns' n' = sched_key ns n then None else Some (sch, ns', n'))" for i
  proof (cases "jobs (S_cron s) i")
    case None
    then show ?thesis by (auto simp: Deregister_def cron_remove [OF assms(1)] split: option.splits)
  next
    case (Some job')
    obtain sch ns' n' where j: "job' = (sch, ns', n')" by (cases job')
    with Some job obtain e where e: "map_of (S_entries s) (sched_key ns' n') = Some e" "e_cronID e = i" by blast
    show ?thesis
    proof (cases "map_of (S_entries s) (sched_key ns n)")
      case None
      then show ?thesis using Some j e by (auto simp: Deregister_def)
    next
      case (Some e')
      have "e_cronID e' = i \<longleftrightarrow> sched_key ns' n' = sched_key ns n"
      proof
        assume "e_cronID e' = i"
        with e(2) have "e_cronID e' = e_cronID e" by simp
        then show "sched_key ns' n' = sched_key ns n" by (rule ownedD(2) [OF o Some e(1), symmetric])
      next
        assume "sched_key ns' n' = sched_key ns n"
        with e(1) Some have "e' = e" by simp
        with e(2) show "e_cronID e' = i" by simp
      qed
      then show ?thesis using Some \<open>jobs (S_cron s) i = Some job'\<close> j
        by (auto simp: Deregister_def cron_remove [OF assms(1)])
    qed
  qed
  show ?thesis
  proof (intro conjI allI impI ext)
    show "schedules s (sched_key ns n) = Some sch" if "jobs (S_cron s) i = Some (sch, ns, n)" for i sch ns n
      using that by (rule recorded)
    show "i = j" if "jobs (S_cron s) i = Some (sch, ns, n) \<and> jobs (S_cron s) j = Some (sch', ns, n)" for i j sch sch' ns n
      using that single by blast
  qed (rule stops)
qed

lemma list_cron_counts: "cron_counts list_cron fst"
  by (auto simp: cron_counts_def list_cron_def split: if_splits)

text \<open>A workflow is registered, given a schedule the library rejects, registered with a third one, and another is registered
  and removed: one job is left.\<close>

definition busy_life :: list_sched where
  "busy_life =
     Deregister list_cron ''lab'' ''gone''
       (snd (Register list_cron ''lab'' ''gone'' ''1 * * * *''
         (snd (Register list_cron ''lab'' ''wf'' ''5 * * * *''
           (snd (Register list_cron ''lab'' ''wf'' ''hourly'' sample_sched))))))"

lemma busy_life_lives: "lives list_cron (0, []) busy_life"
  unfolding busy_life_def sample_sched_def empty_sched_def by (intro lives.intros)

theorem scheduler_owns_jobs_witness:
  "list_jobs (S_cron busy_life) 1 = Some (''5 * * * *'', ''lab'', ''wf'') \<and>
   schedules busy_life (sched_key ''lab'' ''wf'') = Some ''5 * * * *'' \<and>
   list_jobs (S_cron (Deregister list_cron ''lab'' ''wf'' busy_life)) 1 = None"
proof -
  have job: "list_jobs (S_cron busy_life) 1 = Some (''5 * * * *'', ''lab'', ''wf'')" by code_simp
  have "list_jobs (0, []) = Map.empty" by (simp add: list_jobs_def fun_eq_iff)
  note own = scheduler_owns_jobs [OF list_cron_laws list_cron_counts this busy_life_lives, of "''lab''" "''wf''"]
  from own job have "schedules busy_life (sched_key ''lab'' ''wf'') = Some ''5 * * * *''" by blast
  moreover from own have "list_jobs (S_cron (Deregister list_cron ''lab'' ''wf'' busy_life)) 1 =
      (case list_jobs (S_cron busy_life) 1 of None \<Rightarrow> None
       | Some (sch, ns', n') \<Rightarrow> if sched_key ns' n' = sched_key ''lab'' ''wf'' then None else Some (sch, ns', n'))"
    by (metis (mono_tags, lifting))
  ultimately show ?thesis using job by simp
qed

end
