(* ===== verification/Tool_Table.thy ===== *)
theory Tool_Table
  imports Server
begin

text \<open>
  The table of tools that \<^verbatim>\<open>RegisterAll\<close> (\<^verbatim>\<open>pkg/tools/register.go\<close>) hands to the protocol library, with the hints a client
  sees: whether a tool only reads, may destroy, may be repeated and reaches outside the server. Descriptions are left
  out. The hints are compared with what the tools do.
\<close>

section \<open>The table\<close>

record Tool =
  TL_Name :: string
  TL_Title :: string
  TL_ReadOnlyHint :: bool
  TL_DestructiveHint :: bool
  TL_IdempotentHint :: bool
  TL_OpenWorldHint :: bool

definition tool_wf_pods :: Tool where
  "tool_wf_pods = \<lparr>TL_Name = ''wf_pods'', TL_Title = ''List Workflow Pods'', TL_ReadOnlyHint = True,
     TL_DestructiveHint = False, TL_IdempotentHint = True, TL_OpenWorldHint = True\<rparr>"

definition tool_wf_logs :: Tool where
  "tool_wf_logs = \<lparr>TL_Name = ''wf_logs'', TL_Title = ''Get Pod Logs'', TL_ReadOnlyHint = True,
     TL_DestructiveHint = False, TL_IdempotentHint = True, TL_OpenWorldHint = True\<rparr>"

definition tool_wf_events :: Tool where
  "tool_wf_events = \<lparr>TL_Name = ''wf_events'', TL_Title = ''List Namespace Events'', TL_ReadOnlyHint = True,
     TL_DestructiveHint = False, TL_IdempotentHint = True, TL_OpenWorldHint = True\<rparr>"

definition tool_wf_jobs :: Tool where
  "tool_wf_jobs = \<lparr>TL_Name = ''wf_jobs'', TL_Title = ''List Jobs and CronJobs'', TL_ReadOnlyHint = True,
     TL_DestructiveHint = False, TL_IdempotentHint = True, TL_OpenWorldHint = True\<rparr>"

definition tool_wf_restart :: Tool where
  "tool_wf_restart = \<lparr>TL_Name = ''wf_restart'', TL_Title = ''Restart Workflow Deployment'', TL_ReadOnlyHint = False,
     TL_DestructiveHint = False, TL_IdempotentHint = True, TL_OpenWorldHint = True\<rparr>"

definition tool_wf_run :: Tool where
  "tool_wf_run = \<lparr>TL_Name = ''wf_run'', TL_Title = ''Trigger Workflow Execution'', TL_ReadOnlyHint = False,
     TL_DestructiveHint = False, TL_IdempotentHint = False, TL_OpenWorldHint = True\<rparr>"

definition tool_wf_list :: Tool where
  "tool_wf_list = \<lparr>TL_Name = ''wf_list'', TL_Title = ''List Deployed Workflows'', TL_ReadOnlyHint = True,
     TL_DestructiveHint = False, TL_IdempotentHint = True, TL_OpenWorldHint = True\<rparr>"

definition tool_wf_describe :: Tool where
  "tool_wf_describe = \<lparr>TL_Name = ''wf_describe'', TL_Title = ''Describe Workflow Deployment'', TL_ReadOnlyHint = True,
     TL_DestructiveHint = False, TL_IdempotentHint = True, TL_OpenWorldHint = True\<rparr>"

definition tool_enclave_preflight :: Tool where
  "tool_enclave_preflight = \<lparr>TL_Name = ''enclave_preflight'', TL_Title = ''Run Cluster Preflight Checks'', TL_ReadOnlyHint = True,
     TL_DestructiveHint = False, TL_IdempotentHint = True, TL_OpenWorldHint = True\<rparr>"

definition tool_cluster_profile :: Tool where
  "tool_cluster_profile = \<lparr>TL_Name = ''cluster_profile'', TL_Title = ''Profile Cluster Capabilities'', TL_ReadOnlyHint = True,
     TL_DestructiveHint = False, TL_IdempotentHint = True, TL_OpenWorldHint = True\<rparr>"

definition tool_wf_apply :: Tool where
  "tool_wf_apply = \<lparr>TL_Name = ''wf_apply'', TL_Title = ''Apply Workflow Manifests'', TL_ReadOnlyHint = False,
     TL_DestructiveHint = False, TL_IdempotentHint = True, TL_OpenWorldHint = True\<rparr>"

definition tool_wf_remove :: Tool where
  "tool_wf_remove = \<lparr>TL_Name = ''wf_remove'', TL_Title = ''Remove Workflow Deployment'', TL_ReadOnlyHint = False,
     TL_DestructiveHint = True, TL_IdempotentHint = True, TL_OpenWorldHint = True\<rparr>"

definition tool_wf_status :: Tool where
  "tool_wf_status = \<lparr>TL_Name = ''wf_status'', TL_Title = ''Get Workflow Status'', TL_ReadOnlyHint = True,
     TL_DestructiveHint = False, TL_IdempotentHint = True, TL_OpenWorldHint = True\<rparr>"

definition tool_health_nodes :: Tool where
  "tool_health_nodes = \<lparr>TL_Name = ''health_nodes'', TL_Title = ''List Node Health'', TL_ReadOnlyHint = True,
     TL_DestructiveHint = False, TL_IdempotentHint = True, TL_OpenWorldHint = True\<rparr>"

definition tool_health_enclave_usage :: Tool where
  "tool_health_enclave_usage = \<lparr>TL_Name = ''health_enclave_usage'', TL_Title = ''Namespace Resource Usage'', TL_ReadOnlyHint = True,
     TL_DestructiveHint = False, TL_IdempotentHint = True, TL_OpenWorldHint = True\<rparr>"

definition tool_health_cluster_summary :: Tool where
  "tool_health_cluster_summary = \<lparr>TL_Name = ''health_cluster_summary'', TL_Title = ''Cluster Resource Summary'', TL_ReadOnlyHint = True,
     TL_DestructiveHint = False, TL_IdempotentHint = True, TL_OpenWorldHint = True\<rparr>"

definition tool_wf_health :: Tool where
  "tool_wf_health = \<lparr>TL_Name = ''wf_health'', TL_Title = ''Workflow Health Status'', TL_ReadOnlyHint = True,
     TL_DestructiveHint = False, TL_IdempotentHint = True, TL_OpenWorldHint = True\<rparr>"

definition tool_wf_health_enclave :: Tool where
  "tool_wf_health_enclave = \<lparr>TL_Name = ''wf_health_enclave'', TL_Title = ''Namespace Workflow Health'', TL_ReadOnlyHint = True,
     TL_DestructiveHint = False, TL_IdempotentHint = True, TL_OpenWorldHint = True\<rparr>"

definition tool_audit_rbac :: Tool where
  "tool_audit_rbac = \<lparr>TL_Name = ''audit_rbac'', TL_Title = ''Audit RBAC Configuration'', TL_ReadOnlyHint = True,
     TL_DestructiveHint = False, TL_IdempotentHint = True, TL_OpenWorldHint = True\<rparr>"

definition tool_audit_netpol :: Tool where
  "tool_audit_netpol = \<lparr>TL_Name = ''audit_netpol'', TL_Title = ''Audit Network Policies'', TL_ReadOnlyHint = True,
     TL_DestructiveHint = False, TL_IdempotentHint = True, TL_OpenWorldHint = True\<rparr>"

definition tool_audit_psa :: Tool where
  "tool_audit_psa = \<lparr>TL_Name = ''audit_psa'', TL_Title = ''Audit Pod Security Admission'', TL_ReadOnlyHint = True,
     TL_DestructiveHint = False, TL_IdempotentHint = True, TL_OpenWorldHint = True\<rparr>"

definition tool_proxy_status :: Tool where
  "tool_proxy_status = \<lparr>TL_Name = ''proxy_status'', TL_Title = ''Module Proxy Status'', TL_ReadOnlyHint = True,
     TL_DestructiveHint = False, TL_IdempotentHint = True, TL_OpenWorldHint = True\<rparr>"

definition tool_enclave_provision :: Tool where
  "tool_enclave_provision = \<lparr>TL_Name = ''enclave_provision'', TL_Title = ''Provision Enclave'', TL_ReadOnlyHint = False,
     TL_DestructiveHint = False, TL_IdempotentHint = False, TL_OpenWorldHint = True\<rparr>"

definition tool_enclave_info :: Tool where
  "tool_enclave_info = \<lparr>TL_Name = ''enclave_info'', TL_Title = ''Get Enclave Info'', TL_ReadOnlyHint = True,
     TL_DestructiveHint = False, TL_IdempotentHint = True, TL_OpenWorldHint = True\<rparr>"

definition tool_enclave_list :: Tool where
  "tool_enclave_list = \<lparr>TL_Name = ''enclave_list'', TL_Title = ''List Enclaves'', TL_ReadOnlyHint = True,
     TL_DestructiveHint = False, TL_IdempotentHint = True, TL_OpenWorldHint = True\<rparr>"

definition tool_enclave_sync :: Tool where
  "tool_enclave_sync = \<lparr>TL_Name = ''enclave_sync'', TL_Title = ''Sync Enclave'', TL_ReadOnlyHint = False,
     TL_DestructiveHint = False, TL_IdempotentHint = True, TL_OpenWorldHint = True\<rparr>"

definition tool_enclave_deprovision :: Tool where
  "tool_enclave_deprovision = \<lparr>TL_Name = ''enclave_deprovision'', TL_Title = ''Deprovision Enclave'', TL_ReadOnlyHint = False,
     TL_DestructiveHint = True, TL_IdempotentHint = False, TL_OpenWorldHint = True\<rparr>"

definition tool_platform_config :: Tool where
  "tool_platform_config = \<lparr>TL_Name = ''platform_config'', TL_Title = ''Get Platform Configuration'', TL_ReadOnlyHint = True,
     TL_DestructiveHint = False, TL_IdempotentHint = True, TL_OpenWorldHint = False\<rparr>"

definition registerWorkflowTools :: "Tool list" where
  "registerWorkflowTools = [tool_wf_pods, tool_wf_logs, tool_wf_events, tool_wf_jobs, tool_wf_restart]"

definition registerRunTools :: "Tool list" where
  "registerRunTools = [tool_wf_run]"

definition registerDiscoverTools :: "Tool list" where
  "registerDiscoverTools = [tool_wf_list, tool_wf_describe]"

definition registerClusterOpsTools :: "Tool list" where
  "registerClusterOpsTools = [tool_enclave_preflight, tool_cluster_profile]"

definition registerDeployTools :: "Tool list" where
  "registerDeployTools = [tool_wf_apply, tool_wf_remove, tool_wf_status]"

definition registerHealthTools :: "Tool list" where
  "registerHealthTools = [tool_health_nodes, tool_health_enclave_usage, tool_health_cluster_summary]"

definition registerWfHealthTools :: "Tool list" where
  "registerWfHealthTools = [tool_wf_health, tool_wf_health_enclave]"

definition registerAuditTools :: "Tool list" where
  "registerAuditTools = [tool_audit_rbac, tool_audit_netpol, tool_audit_psa]"

definition registerProxyTools :: "Tool list" where
  "registerProxyTools = [tool_proxy_status]"

definition registerEnclaveTools :: "Tool list" where
  "registerEnclaveTools = [tool_enclave_provision, tool_enclave_info, tool_enclave_list, tool_enclave_sync, tool_enclave_deprovision]"

definition registerPlatformTools :: "Tool list" where
  "registerPlatformTools = [tool_platform_config]"

definition RegisterAll :: "Tool list" where
  "RegisterAll =
     registerWorkflowTools @
     registerRunTools @
     registerDiscoverTools @
     registerClusterOpsTools @
     registerDeployTools @
     registerHealthTools @
     registerWfHealthTools @
     registerAuditTools @
     registerProxyTools @
     registerEnclaveTools @
     registerPlatformTools"

section \<open>The hints\<close>

fun tool_name :: "call \<Rightarrow> string" where
  "tool_name (EnclaveProvision p) = ''enclave_provision''"
| "tool_name (EnclaveSync p) = ''enclave_sync''"
| "tool_name (EnclaveDeprovision name) = ''enclave_deprovision''"
| "tool_name (WfApply p) = ''wf_apply''"
| "tool_name (WfRemove p) = ''wf_remove''"
| "tool_name (WfRestart p) = ''wf_restart''"
| "tool_name (Inspect tool) = tool"

definition tools_by_name :: "(string \<times> Tool) list" where
  "tools_by_name = map (\<lambda>t. (TL_Name t, t)) RegisterAll"

lemma tool_names_distinct: "distinct (map fst tools_by_name)"
  by code_simp

lemma hinted_writers:
  "map fst (filter (\<lambda>x. \<not> TL_ReadOnlyHint (snd x)) tools_by_name) =
     [''wf_restart'', ''wf_run'', ''wf_apply'', ''wf_remove'', ''enclave_provision'', ''enclave_sync'', ''enclave_deprovision'']"
  by code_simp

lemma tool_in_table: "map_of tools_by_name n = Some t \<Longrightarrow> \<not> TL_ReadOnlyHint t \<Longrightarrow>
    n \<in> set (map fst (filter (\<lambda>x. \<not> TL_ReadOnlyHint (snd x)) tools_by_name))"
  by (force dest: map_of_SomeD)

text \<open>A client may trust the first hint: a call of a tool that is announced as read-only leaves the cluster, the backing services and
  the schedules as they are, for every caller.\<close>

theorem read_only_hint_sound:
  assumes "map_of tools_by_name (tool_name c) = Some t" and "TL_ReadOnlyHint t"
  shows "serve rt srv deployer c st = st"
proof (cases c)
  case (Inspect tool)
  then show ?thesis by (simp add: serve_def)
next
  have writer: "False" if n: "n \<in> set (map fst (filter (\<lambda>x. \<not> TL_ReadOnlyHint (snd x)) tools_by_name))" "tool_name c = n" for n
  proof -
    obtain t' where t': "(n, t') \<in> set tools_by_name" "\<not> TL_ReadOnlyHint t'" using n(1) by auto
    then have "map_of tools_by_name n = Some t'" using tool_names_distinct by (simp add: map_of_eq_Some_iff)
    with assms n(2) t'(2) show False by simp
  qed
  {
    case (EnclaveProvision p) show ?thesis using writer [of "''enclave_provision''"] EnclaveProvision unfolding hinted_writers by simp
  next
    case (EnclaveSync p) show ?thesis using writer [of "''enclave_sync''"] EnclaveSync unfolding hinted_writers by simp
  next
    case (EnclaveDeprovision p) show ?thesis using writer [of "''enclave_deprovision''"] EnclaveDeprovision unfolding hinted_writers by simp
  next
    case (WfApply p) show ?thesis using writer [of "''wf_apply''"] WfApply unfolding hinted_writers by simp
  next
    case (WfRemove p) show ?thesis using writer [of "''wf_remove''"] WfRemove unfolding hinted_writers by simp
  next
    case (WfRestart p) show ?thesis using writer [of "''wf_restart''"] WfRestart unfolding hinted_writers by simp
  }
qed

text \<open>Two other hints are wrong. An apply is announced as not destructive, and deletes the objects of the release that its
  manifests no longer name; a restart is announced as idempotent, and every call writes another time and so rolls the
  pods again.\<close>

lemma apply_hint_wrong:
  "\<not> TL_DestructiveHint tool_wf_apply \<and> map_sum (\<lambda>e. ()) WR_Deleted (fst lab_applied) = Inr 1"
  using lab_applied_ok by (simp add: tool_wf_apply_def)

lemma restart_hint_wrong: "TL_IdempotentHint tool_wf_restart \<and> (restart_patch t1 = restart_patch t2 \<longleftrightarrow> t1 = t2)"
  by (simp add: tool_wf_restart_def restart_patch_def)

end
