(* ===== verification/Spec2Isabelle.thy ===== *)
theory Spec2Isabelle
  imports Guard Authz_Evaluator Scheduler Enclave_Sync Psa Enrich Discover Wf_Health Audit_Tools Proxy Rustfs Server
    Prewarm Cluster_Health Sync_Race Schedule_Life Tool_Table
begin

text \<open>
  A model of \<^verbatim>\<open>tentacular-mcp\<close>, the in-cluster server through which agents and operators manage
  enclaves (Kubernetes namespaces with an owner, members and a permission mode) and tentacles (workflows
  that run in them). A request carries a bearer token; the server authenticates it, decodes a
  tool call, checks the target and the permissions of the caller and acts on the cluster, on
  the backing services and on the cron scheduler.

  \<^bold>\<open>Parts and theories.\<close> Paths are relative to \<^verbatim>\<open>src/pkg\<close>.

  \<^item> \<open>Prelude\<close>: results, state-passing computations (\<open>comp\<close>, \<open>bindC\<close>, \<open>mapErrC\<close>, \<open>catchC\<close>), Go maps, the collection
    \<open>ok_simps\<close> and generic lemmas. \<open>Go_Strings\<close>, \<open>Go_Regexp\<close>, \<open>Go_Url\<close>, \<open>Go_Float\<close>, \<open>Sha256\<close>: what the code uses of
    the Go library, computable. \<open>Manifest\<close>: unstructured objects.
  \<^item> \<open>Kube_Api\<close>, \<open>Core_Api\<close>, \<open>Dynamic\<close>, \<open>Cluster_Api\<close>: the client libraries as records of operations over a world, with
    the laws that are relied on as predicates; \<open>Mem_Kube\<close> and the end of \<open>Dynamic\<close> are in-memory clusters that satisfy
    them and on which witnesses run.
  \<^item> \<open>Guard\<close> (\<^verbatim>\<open>guard\<close>), \<open>Authz_Mode\<close>, \<open>Authz_Annotations\<close>, \<open>Authz_Evaluator\<close> (\<^verbatim>\<open>authz\<close>), \<open>Auth\<close> (\<^verbatim>\<open>auth\<close>,
    \<^verbatim>\<open>exoskeleton/auth.go\<close>), \<open>Authz_Helpers\<close> (\<^verbatim>\<open>tools/authz_helpers.go\<close>): who may do what. The evaluator refines an
    abstract role model, modes and metadata round-trip through annotations.
  \<^item> \<open>Exo_Config\<close>, \<open>Identity\<close>, \<open>Nats_Authz\<close>, \<open>Postgres\<close>, \<open>Rustfs\<close>, \<open>Spire\<close>, \<open>Controller\<close>, \<open>Enrich\<close> (\<^verbatim>\<open>exoskeleton\<close>): the
    backing services. Identifiers are legal and separate workflows; the NATS permission file refines a map from users
    to subjects; SQL statements cannot be broken out of and run in one transaction; S3 policies
    isolate prefixes; the patches of manifests add closed rules only.
  \<^item> \<open>K8s_Resources\<close>, \<open>Psa\<close>, \<open>Prewarm\<close>, \<open>Preflight\<close>, \<open>Profile\<close> (\<^verbatim>\<open>k8s\<close>): the objects of an enclave, the restricted pod
    profile (validator and defaulting against a direct statement of it), module prewarming as a
    transition system of goroutines, checks and snapshot of the cluster.
  \<^item> \<open>Scheduler\<close> (\<^verbatim>\<open>scheduler\<close>, \<^verbatim>\<open>k8s/run.go\<close>): the table of schedules and the retry loop of a run;
    \<open>Schedule_Life\<close>: every sequence of registrations, removals and scans keeps the jobs of the cron library in step with the
    table. \<open>Proxy\<close> (\<^verbatim>\<open>proxy\<close>): the
    reconciliation loop of the module proxy.
  \<^item> \<open>Enclave_Tools\<close>, \<open>Enclave_Sync\<close>, \<open>Deploy\<close>, \<open>Deploy_Tools\<close>, \<open>Workflow_Tools\<close>, \<open>Discover\<close>, \<open>Wf_Health\<close>, \<open>Audit_Tools\<close>,
    \<open>Cluster_Health\<close> (\<^verbatim>\<open>tools\<close>): every tool with its guards and handler. The locales \<open>guarded_tool\<close>, \<open>workflow_tool\<close>
    and \<open>enclave_reader\<close> state what the guards promise and are interpreted on the tools. \<open>Sync_Race\<close> splits
    \<^verbatim>\<open>enclave_sync\<close> into its calls of the API server and interleaves any number of syncs with each other and with other
    writers.
  \<^item> \<open>Startup\<close> (\<^verbatim>\<open>cmd/tentacular-mcp/main.go\<close>, \<open>NewController\<close>) and \<open>Server\<close> (\<^verbatim>\<open>server\<close>, \<^verbatim>\<open>tools/register.go\<close>): from the
    environment and the Kubernetes client to the HTTP handler and the shutdown of the process, and sessions of
    requests. \<open>Tool_Table\<close>: the table of tools with the hints each announces.

  \<^bold>\<open>State and effects.\<close> A handler is a function from a state to a result and a state; errors are values of
  a datatype per component, one constructor per wrapped error of the code. Reads of the cluster are pure functions of
  the state. The world \<open>'s\<close> is arbitrary in every theorem and holds the cluster and the backing
  services; the scheduler's table is a second component (\<open>host\<close> in \<open>Server\<close>). A structure is a record with the field
  names of the code behind a prefix; a nil pointer is \<open>None\<close>; a Go map is a partial map, or an
  association list where its order matters.

  \<^bold>\<open>What the properties show.\<close> The properties carry the claim numbers C1 to C40. They cover: the
  permission decisions (role refinement, monotone layers); authorization of every tool that changes the
  cluster, with what it changes and what it leaves alone; convergence of apply, removal and
  reconciliation; rollback and atomicity on errors; isolation of identities, policies and statements;
  round trips of metadata and files; termination of the retry loop, of syncs and of prewarming under every
  interleaving; that concurrent syncs lose no update; bounds of reports; and, in this theory and in \<open>Server\<close>, that a request which fails a guard can be erased
  from any session and that a started process acts for identified callers only. Lemmas that exhibit a defect of
  the code are next to the component they concern.

  \<^bold>\<open>Bounds.\<close> There is no fuel: loops over lists are structural, the three attempts of a sync are counted as in the
  code, the retry loop of a run is a partial function that is shown to return once the deadline passes,
  and prewarming has a measure of eight moves per dependency and one. Modes are 16-bit words, ports and
  quantities are integers with the bounds the code checks, percentages are float64 values computed by
  rounding to the nearest even 53-bit significand. Strings are lists of bytes; names and addresses are ASCII.

  \<^bold>\<open>Parameters.\<close> The Kubernetes client, the cron library, the Postgres driver, the HTTP and S3 clients,
  OIDC token verification, YAML and JSON decoding, URL parsing of external addresses, name resolution, time
  formatting, random bytes and the environment are arguments. The laws that theorems assume of them
  are predicates with an instance that satisfies them.

  \<^bold>\<open>Not modelled.\<close> Logging; the MCP protocol library and the prose descriptions of the tools it is
  given; the client libraries and the delivery of signals; concurrency of requests other than syncs (a
  session is a sequence, as are the methods of the scheduler under their mutex; syncs of one enclave and the
  goroutines of prewarming are interleaved); the version strings and the helpers of the test suite.
\<close>

section \<open>A started process acts for identified callers only\<close>

lemma main_server:
  assumes "main be u readFile lib newProvider parse getenv s = Inr p"
  shows "SV_eval (PR_server p) = evaluator_of getenv"
  using assms by (auto simp: main_def Let_def split: sum.splits prod.splits)

lemma identified_credential:
  assumes "identified srv r = Some (Some d)" "R_Deployer r = None"
  defines "credential \<equiv> TrimPrefix (R_Authorization r) ''Bearer ''"
  shows "R_Path r = ''/mcp'' \<and> HasPrefix (R_Authorization r) ''Bearer '' \<and>
    (\<exists>v. SV_oidcValidator srv = Some v \<and>
       (credential = SV_token srv \<and> d = bearer_deployer \<or> looksLikeJWT credential \<and> ValidateToken v credential = Inr d))"
  using assms
  by (auto simp: identified_def admit_def split: if_splits option.splits sum.splits)


definition oidc_env :: env where
  "oidc_env k =
     (if k = ''TENTACULAR_EXOSKELETON_AUTH_ENABLED'' then ''true''
      else if k = ''TENTACULAR_KEYCLOAK_ISSUER'' then ''https://kc''
      else if k = ''TENTACULAR_KEYCLOAK_CLIENT_ID'' then ''mcp'' else [])"

definition eve_verifier :: verifier where
  "eve_verifier jwt =
     (if jwt = ''a.b.c''
      then Inr \<lparr>T_Subject = ''e1'', T_Claims = Inr \<lparr>C_Email = ''eve@x'', C_Name = ''Eve'', C_PreferredUser = [],
        C_AZP = ''mcp'', C_IdentityProvider = [], C_Groups = []\<rparr>\<rparr>
      else Inl ''bad signature'')"

definition oidc_main :: "startup_error + world process" where
  "oidc_main =
     main quiet_backends std_uns (\<lambda>_. Inr ''secret'') lab_lib (\<lambda>_. Inr eve_verifier) (\<lambda>_. None)
       oidc_env no_objects"

definition lab_runtime :: "(world, nat) runtime" where
  "lab_runtime =
     \<lparr>rt_libs = plain_libs, rt_getenv = oidc_env, rt_kube = world_kube, rt_dyn = mem_dyn, rt_core = quiet_core,
      rt_ops = \<lparr>AddFunc = (\<lambda>sch cb c. (Inl sch, c)), Remove = (\<lambda>i c. c)\<rparr>, rt_clock = (\<lambda>_. ''2026-01-01T00:00:00Z''),
      rt_maxMembers = 50, rt_maxEnclaves = 10\<rparr>"

definition eve_request :: request where
  "eve_request = \<lparr>R_Method = ''POST'', R_Path = ''/mcp'', R_Authorization = ''Bearer a.b.c'', R_Deployer = None\<rparr>"

lemma case_sum_Inr: "(case x of Inl e \<Rightarrow> False | Inr y \<Rightarrow> P y) \<Longrightarrow> \<exists>y. x = Inr y \<and> P y"
  by (cases x) simp_all


end
